(* ===== verification/San_Prelude.thy ===== *)
theory San_Prelude
  imports
    "HOL-Library.Word"
    "HOL-Library.FSet"
    "HOL-Library.Finite_Map"
    "HOL-Library.Product_Lexorder"
begin

text \<open>
  Shared vocabulary of the development: the machine integers of the source, the string
  tests its path predicates use, the loops over hash maps of which the join of two
  analysis states is built, and the two interfaces those loops satisfy.

  A \<^verbatim>\<open>HashMap\<close> is an \<open>fmap\<close> and a \<^verbatim>\<open>HashSet\<close> or
  \<^verbatim>\<open>BTreeSet\<close> an \<open>fset\<close>: both are finite and compared extensionally, as
  the Rust containers are.
\<close>

section \<open>Machine integers\<close>

type_synonym u32 = "32 word"
type_synonym u64 = "64 word"
type_synonym u128 = "128 word"

definition u64_max :: u64 where
  "u64_max = - 1"

definition isize_max :: int where
  "isize_max = 2 ^ 63 - 1"

definition saturating_sub1 :: "u64 \<Rightarrow> u64" where
  "saturating_sub1 k = (if k = 0 then 0 else k - 1)"

definition saturating_add1 :: "u64 \<Rightarrow> u64" where
  "saturating_add1 k = (if k = u64_max then u64_max else k + 1)"

text \<open>\<^verbatim>\<open>u64::checked_shr(u32)\<close>: \<open>None\<close> when the amount reaches the width.\<close>

definition checked_shr :: "u64 \<Rightarrow> u32 \<Rightarrow> u64 option" where
  "checked_shr x n = (if unat n < 64 then Some (drop_bit (unat n) x) else None)"

text \<open>\<^verbatim>\<open>n.min(u64::MAX as u128) as u64\<close> for an unsigned \<open>n\<close>.\<close>

definition clamp_u64 :: "int \<Rightarrow> u64" where
  "clamp_u64 n = word_of_int (min n (2 ^ 64 - 1))"

lemma unat_u64_max [simp]: "unat u64_max = 2 ^ 64 - 1"
  by (simp add: u64_max_def unsigned_minus_1_eq_mask mask_eq_exp_minus_1)

lemma le_u64_max [simp]: "x \<le> u64_max"
  by (simp add: u64_max_def)

lemma min_u64_max [simp]: "min u64_max x = x"
  by (simp add: min_absorb2)

lemma uint_clamp_u64: "0 \<le> n \<Longrightarrow> uint (clamp_u64 n) = min n (2 ^ 64 - 1)"
  by (simp add: clamp_u64_def uint_word_of_int)

lemma unat_saturating_sub1: "unat (saturating_sub1 k) = unat k - 1"
  by (auto simp: saturating_sub1_def unat_minus_one)

lemma unat_saturating_add1: "unat (saturating_add1 k) = min (unat k + 1) (2 ^ 64 - 1)"
proof (cases "k = u64_max")
  case True
  then show ?thesis by (simp add: saturating_add1_def)
next
  case False
  then have "unat k \<noteq> unat u64_max" using unsigned_word_eqI by blast
  moreover have "unat k < 2 ^ 64" using unsigned_less [of k] by simp
  ultimately have lt: "unat k + 1 < 2 ^ 64" by simp
  have "unat (k + 1) = (unat k + unat (1 :: u64)) mod 2 ^ 64"
    by (simp only: unat_word_ariths) simp
  with lt have "unat (k + 1) = unat k + 1" by simp
  with False lt show ?thesis by (simp add: saturating_add1_def)
qed

section \<open>Strings\<close>

text \<open>\<^verbatim>\<open>str::ends_with\<close> and \<^verbatim>\<open>str::contains\<close> with a string pattern.\<close>

definition ends_with :: "string \<Rightarrow> string \<Rightarrow> bool" where
  "ends_with path s = (length s \<le> length path \<and> drop (length path - length s) path = s)"

fun starts_with :: "string \<Rightarrow> string \<Rightarrow> bool" where
  "starts_with path [] = True"
| "starts_with [] (c # cs) = False"
| "starts_with (p # ps) (c # cs) = (p = c \<and> starts_with ps cs)"

fun contains :: "string \<Rightarrow> string \<Rightarrow> bool" where
  "contains [] s = starts_with [] s"
| "contains (p # ps) s = (starts_with (p # ps) s \<or> contains ps s)"

lemma ends_with_append: "ends_with (xs @ s) s"
  by (simp add: ends_with_def)

lemma ends_withE:
  assumes "ends_with path s"
  obtains xs where "path = xs @ s"
  using assms append_take_drop_id [of "length path - length s" path]
  by (metis ends_with_def)

lemma starts_with_iff: "starts_with path s \<longleftrightarrow> (\<exists>ys. path = s @ ys)"
  by (induction path s rule: starts_with.induct) auto

lemma contains_iff: "contains path s \<longleftrightarrow> (\<exists>xs ys. path = xs @ s @ ys)"
proof (induction path s rule: contains.induct)
  case (1 s)
  show ?case by (cases s) auto
next
  case (2 p ps s)
  show ?case
  proof
    assume "contains (p # ps) s"
    then consider "starts_with (p # ps) s" | "contains ps s" by auto
    then show "\<exists>xs ys. p # ps = xs @ s @ ys"
    proof cases
      case 1
      then show ?thesis by (metis starts_with_iff append_Nil)
    next
      case 2
      with "2.IH" show ?thesis by (metis append_Cons)
    qed
  next
    assume "\<exists>xs ys. p # ps = xs @ s @ ys"
    then obtain xs ys where eq: "p # ps = xs @ s @ ys" by blast
    show "contains (p # ps) s"
    proof (cases xs)
      case Nil
      with eq have "starts_with (p # ps) s" by (auto simp: starts_with_iff)
      then show ?thesis by simp
    next
      case (Cons x xs')
      with eq "2.IH" show ?thesis by auto
    qed
  qed
qed

lemma ends_with_contains: "ends_with path s \<Longrightarrow> contains path s"
  by (metis ends_withE contains_iff append_Nil2)

section \<open>Options\<close>

text \<open>\<^verbatim>\<open>Option::or_else\<close> and \<^verbatim>\<open>Option::filter\<close>.\<close>

definition or_else :: "'a option \<Rightarrow> 'a option \<Rightarrow> 'a option" where
  "or_else x y = (case x of None \<Rightarrow> y | Some v \<Rightarrow> Some v)"

definition filter_opt :: "('a \<Rightarrow> bool) \<Rightarrow> 'a option \<Rightarrow> 'a option" where
  "filter_opt P x = (case x of None \<Rightarrow> None | Some v \<Rightarrow> if P v then Some v else None)"

lemma or_else_simps [simp]: "or_else None y = y" "or_else (Some v) y = Some v"
  by (simp_all add: or_else_def)

lemma or_else_eq_Some: "or_else x y = Some v \<longleftrightarrow> x = Some v \<or> x = None \<and> y = Some v"
  by (auto simp: or_else_def split: option.splits)

lemma filter_opt_simps [simp]:
  "filter_opt P None = None" "filter_opt P (Some v) = (if P v then Some v else None)"
  by (simp_all add: filter_opt_def)

lemma filter_opt_eq_Some: "filter_opt P x = Some v \<longleftrightarrow> x = Some v \<and> P v"
  by (cases x) auto

text \<open>\<^verbatim>\<open>Iterator::find_map\<close>: the first \<open>Some\<close> among the images.\<close>

fun find_map :: "('a \<Rightarrow> 'b option) \<Rightarrow> 'a list \<Rightarrow> 'b option" where
  "find_map f [] = None"
| "find_map f (x # xs) = or_else (f x) (find_map f xs)"

lemma find_map_SomeD: "find_map f xs = Some y \<Longrightarrow> \<exists>x \<in> set xs. f x = Some y"
  by (induction xs) (auto simp: or_else_eq_Some)

lemma find_map_None_iff: "find_map f xs = None \<longleftrightarrow> (\<forall>x \<in> set xs. f x = None)"
  by (induction xs) (auto simp: or_else_def split: option.splits)

section \<open>Loops over the entries of a map\<close>

text \<open>
  The join of two states folds the entries of one map into another, one key at a time.
  \<open>body\<close> is the loop body at one key: from the value \<open>entry\<close> currently finds there and
  the value of the other map it gives the value left behind and whether the
  \<^verbatim>\<open>changed\<close> flag was raised.
\<close>

definition for_entries ::
  "('v option \<Rightarrow> 'w \<Rightarrow> 'v \<times> bool) \<Rightarrow> ('k \<times> 'w) list \<Rightarrow> ('k, 'v) fmap \<times> bool
     \<Rightarrow> ('k, 'v) fmap \<times> bool" where
  "for_entries body es =
     fold (\<lambda>(k, w) (m, changed).
             let (v, ch) = body (fmlookup m k) w in (fmupd k v m, changed \<or> ch)) es"

definition join_entries ::
  "('v option \<Rightarrow> 'w \<Rightarrow> 'v \<times> bool) \<Rightarrow> ('k::linorder, 'v) fmap \<Rightarrow> ('k, 'w) fmap
     \<Rightarrow> ('k, 'v) fmap \<times> bool" where
  "join_entries body self other = for_entries body (sorted_list_of_fmap other) (self, False)"

lemma for_entries_Nil [simp]: "for_entries body [] mc = mc"
  by (simp add: for_entries_def)

lemma for_entries_Cons:
  "for_entries body ((k, w) # es) (m, c) =
     for_entries body es
       (fmupd k (fst (body (fmlookup m k) w)) m, c \<or> snd (body (fmlookup m k) w))"
  by (simp add: for_entries_def case_prod_beta Let_def)

lemma for_entries_lookup:
  "distinct (map fst es) \<Longrightarrow>
     fmlookup (fst (for_entries body es (m, c))) k =
       (case map_of es k of
          None \<Rightarrow> fmlookup m k
        | Some w \<Rightarrow> Some (fst (body (fmlookup m k) w)))"
proof (induction es arbitrary: m c)
  case Nil
  then show ?case by simp
next
  case (Cons e es)
  obtain k' w where e: "e = (k', w)" by (cases e)
  with Cons.prems have "map_of es k' = None" by (simp add: map_of_eq_None_iff)
  with Cons e show ?case
    by (auto simp: for_entries_Cons split: option.splits)
qed

lemma for_entries_changed:
  "distinct (map fst es) \<Longrightarrow>
     snd (for_entries body es (m, c)) \<longleftrightarrow>
       c \<or> (\<exists>k w. map_of es k = Some w \<and> snd (body (fmlookup m k) w))"
proof (induction es arbitrary: m c)
  case Nil
  then show ?case by simp
next
  case (Cons e es)
  obtain k' w where e: "e = (k', w)" by (cases e)
  with Cons.prems have none: "map_of es k' = None" by (simp add: map_of_eq_None_iff)
  have "(\<exists>k v. map_of es k = Some v \<and>
             snd (body (fmlookup (fmupd k' (fst (body (fmlookup m k') w)) m) k) v)) \<longleftrightarrow>
        (\<exists>k v. map_of es k = Some v \<and> snd (body (fmlookup m k) v))"
    using none by (metis fmupd_lookup option.distinct(1))
  moreover have "(\<exists>k v. map_of (e # es) k = Some v \<and> snd (body (fmlookup m k) v)) \<longleftrightarrow>
      snd (body (fmlookup m k') w) \<or>
      (\<exists>k v. map_of es k = Some v \<and> snd (body (fmlookup m k) v))"
    using none e by (metis map_of_Cons_code(2) option.distinct(1) option.inject)
  ultimately show ?case
    using Cons e by (simp add: for_entries_Cons)
qed

lemma distinct_sorted_list_of_fmap [simp]: "distinct (map fst (sorted_list_of_fmap m))"
proof -
  have "map fst (sorted_list_of_fmap m) = sorted_list_of_fset (fmdom m)"
    by (simp add: sorted_list_of_fmap_def comp_def)
  then show ?thesis by (simp add: sorted_list_of_fset.rep_eq)
qed

lemma join_entries_lookup [simp]:
  "fmlookup (fst (join_entries body self other)) k =
     (case fmlookup other k of
        None \<Rightarrow> fmlookup self k
      | Some w \<Rightarrow> Some (fst (body (fmlookup self k) w)))"
  by (simp add: join_entries_def for_entries_lookup)

lemma join_entries_changed:
  "snd (join_entries body self other) \<longleftrightarrow>
     (\<exists>k w. fmlookup other k = Some w \<and> snd (body (fmlookup self k) w))"
  by (simp add: join_entries_def for_entries_changed)

text \<open>
  The order in which a \<^verbatim>\<open>HashMap\<close> hands out its entries is unspecified; the
  outcome of the loop does not depend on it.
\<close>

lemma for_entries_order:
  assumes "distinct (map fst es)" and "map_of es = fmlookup other"
  shows "for_entries body es (self, c) =
           (fst (join_entries body self other), c \<or> snd (join_entries body self other))"
proof (rule prod_eqI)
  show "fst (for_entries body es (self, c)) =
      fst (fst (join_entries body self other), c \<or> snd (join_entries body self other))"
    using assms by (auto intro!: fmap_ext simp: for_entries_lookup)
  show "snd (for_entries body es (self, c)) =
      snd (fst (join_entries body self other), c \<or> snd (join_entries body self other))"
    using assms by (simp add: for_entries_changed join_entries_changed)
qed

lemma for_entries_sorted:
  "for_entries body (sorted_list_of_fmap other) (self, c) =
     (fst (join_entries body self other), c \<or> snd (join_entries body self other))"
  by (rule for_entries_order) simp_all

text \<open>\<^verbatim>\<open>map.iter().filter_map(..).collect()\<close>: keep and rewrite the entries of a map.\<close>

definition fm_filter_map ::
  "('k \<Rightarrow> 'v \<Rightarrow> 'w option) \<Rightarrow> ('k::linorder, 'v) fmap \<Rightarrow> ('k, 'w) fmap" where
  "fm_filter_map f m =
     fmap_of_list (List.map_filter (\<lambda>(k, v). map_option (Pair k) (f k v)) (sorted_list_of_fmap m))"

lemma map_of_map_filter:
  "distinct (map fst es) \<Longrightarrow>
     map_of (List.map_filter (\<lambda>(k, v). map_option (Pair k) (f k v)) es) k =
       Option.bind (map_of es k) (f k)"
proof (induction es)
  case Nil
  then show ?case by (simp add: List.map_filter_simps)
next
  case (Cons e es)
  obtain k' w where e: "e = (k', w)" by (cases e)
  with Cons.prems have none: "map_of es k' = None" by (simp add: map_of_eq_None_iff)
  with Cons e show ?case
    by (auto simp: List.map_filter_simps split: option.splits)
qed

lemma fm_filter_map_lookup [simp]:
  "fmlookup (fm_filter_map f m) k = Option.bind (fmlookup m k) (f k)"
  by (simp add: fm_filter_map_def fmlookup_of_list map_of_map_filter)

section \<open>Join domains\<close>

text \<open>
  What the fixpoint engine relies on when it merges an edge state into the state
  stored at a block: a state absorbs itself, a merge absorbs the edge, an absorbed edge stays absorbed when the
  stored state is merged further, and a merge that raises \<^verbatim>\<open>changed\<close> strictly
  lowers a natural number.
\<close>

locale join_domain =
  fixes join :: "'a \<Rightarrow> 'a \<Rightarrow> 'a \<times> bool"
    and rank :: "'a \<Rightarrow> nat"
  assumes join_self: "\<not> snd (join a a)"
    and absorb: "\<not> snd (join (fst (join a b)) b)"
    and stable: "\<not> snd (join a e) \<Longrightarrow> \<not> snd (join (fst (join a b)) e)"
    and rank_step: "rank (fst (join a b)) + of_bool (snd (join a b)) \<le> rank a"
begin

lemma rank_less: "snd (join a b) \<Longrightarrow> rank (fst (join a b)) < rank a"
  using rank_step [of a b] by simp

end

text \<open>
  The same contract for the body of a loop at one key, where \<open>height\<close> of an absent
  entry counts too.
\<close>

locale entry_domain =
  fixes body :: "'v option \<Rightarrow> 'v \<Rightarrow> 'v \<times> bool"
    and height :: "'v option \<Rightarrow> nat"
  assumes body_self: "\<not> snd (body (Some v) v)"
    and body_absorb: "\<not> snd (body (Some (fst (body x w))) w)"
    and body_stable: "\<not> snd (body x w) \<Longrightarrow> \<not> snd (body (Some (fst (body x w'))) w)"
    and body_height: "height (Some (fst (body x w))) + of_bool (snd (body x w)) \<le> height x"

definition map_rank :: "('v option \<Rightarrow> nat) \<Rightarrow> ('k::finite, 'v) fmap \<Rightarrow> nat" where
  "map_rank height m = (\<Sum>k \<in> UNIV. height (fmlookup m k))"

lemma map_rank_step:
  assumes le: "\<And>k. height (fmlookup m k) \<le> height (fmlookup n k)"
    and lt: "c \<Longrightarrow> \<exists>k. height (fmlookup m k) < height (fmlookup n k)"
  shows "map_rank height m + of_bool c \<le> map_rank height n"
proof (cases c)
  case True
  with lt obtain k where "height (fmlookup m k) < height (fmlookup n k)" by blast
  then have "map_rank height m < map_rank height n"
    unfolding map_rank_def using le by (intro sum_strict_mono_ex1) auto
  then show ?thesis by simp
next
  case False
  then show ?thesis unfolding map_rank_def using le by (simp add: sum_mono)
qed

text \<open>Looping such a body over the entries of a map is again a join domain.\<close>

context entry_domain
begin

lemma entries_self: "\<not> snd (join_entries body self self)"
  by (auto simp: join_entries_changed body_self)

lemma entries_absorb:
  "\<not> snd (join_entries body (fst (join_entries body self other)) other)"
  by (auto simp: join_entries_changed body_absorb)

lemma entries_stable:
  assumes "\<not> snd (join_entries body self e)"
  shows "\<not> snd (join_entries body (fst (join_entries body self other)) e)"
proof
  assume "snd (join_entries body (fst (join_entries body self other)) e)"
  then obtain k w where kw: "fmlookup e k = Some w"
    "snd (body (fmlookup (fst (join_entries body self other)) k) w)"
    by (auto simp: join_entries_changed)
  from assms kw(1) have no: "\<not> snd (body (fmlookup self k) w)"
    by (auto simp: join_entries_changed)
  show False
    using kw(2) no by (auto simp: body_stable split: option.splits)
qed

lemma entries_rank_step:
  "map_rank height (fst (join_entries body self other)) +
     of_bool (snd (join_entries body self other)) \<le> map_rank height self"
proof (rule map_rank_step)
  fix k
  show "height (fmlookup (fst (join_entries body self other)) k) \<le> height (fmlookup self k)"
    using body_height by (auto split: option.splits intro: add_leD1)
next
  assume "snd (join_entries body self other)"
  then obtain k w where "fmlookup other k = Some w" "snd (body (fmlookup self k) w)"
    by (auto simp: join_entries_changed)
  with body_height [of "fmlookup self k" w]
  have "height (fmlookup (fst (join_entries body self other)) k) < height (fmlookup self k)"
    by simp
  then show "\<exists>k. height (fmlookup (fst (join_entries body self other)) k) < height (fmlookup self k)" ..
qed

end

sublocale entry_domain \<subseteq> entries: join_domain "join_entries body" "map_rank height"
  by unfold_locales (rule entries_self, rule entries_absorb, erule entries_stable, rule entries_rank_step)

text \<open>
  Must-facts are joined by keeping and weakening entries of the stored map:
  \<open>body\<close> sees the stored value and what the other map has at that key.
\<close>

definition join_filter ::
  "('v \<Rightarrow> 'w option \<Rightarrow> 'v option) \<Rightarrow> ('k::linorder, 'v) fmap \<Rightarrow> ('k, 'w) fmap
     \<Rightarrow> ('k, 'v) fmap \<times> bool" where
  "join_filter body self other =
     (let new = fm_filter_map (\<lambda>k v. body v (fmlookup other k)) self in (new, new \<noteq> self))"

lemma join_filter_lookup [simp]:
  "fmlookup (fst (join_filter body self other)) k =
     Option.bind (fmlookup self k) (\<lambda>v. body v (fmlookup other k))"
  by (simp add: join_filter_def Let_def)

lemma join_filter_changed:
  "snd (join_filter body self other) \<longleftrightarrow>
     (\<exists>k v. fmlookup self k = Some v \<and> body v (fmlookup other k) \<noteq> Some v)"
proof -
  have "fm_filter_map (\<lambda>k v. body v (fmlookup other k)) self = self \<longleftrightarrow>
      (\<forall>k. Option.bind (fmlookup self k) (\<lambda>v. body v (fmlookup other k)) = fmlookup self k)"
    by (metis fm_filter_map_lookup fmap_ext)
  also have "\<dots> \<longleftrightarrow> (\<forall>k v. fmlookup self k = Some v \<longrightarrow> body v (fmlookup other k) = Some v)"
    by (auto split: bind_splits)
  finally show ?thesis by (auto simp: join_filter_def Let_def)
qed

locale filter_domain =
  fixes body :: "'v \<Rightarrow> 'v option \<Rightarrow> 'v option"
    and height :: "'v option \<Rightarrow> nat"
  assumes keep_self: "body v (Some v) = Some v"
    and keep_again: "body v w = Some v' \<Longrightarrow> body v' w = Some v'"
    and keep_stable: "body v w = Some v \<Longrightarrow> body v u = Some v' \<Longrightarrow> body v' w = Some v'"
    and filter_height: "body v w = Some v' \<Longrightarrow> v' \<noteq> v \<Longrightarrow> height (Some v') < height (Some v)"
    and height_None: "height None < height (Some v)"
begin

lemma filter_self: "\<not> snd (join_filter body self self)"
  by (auto simp: join_filter_changed keep_self)

lemma filter_absorb:
  "\<not> snd (join_filter body (fst (join_filter body self other)) other)"
  by (auto simp: join_filter_changed dest: keep_again split: bind_splits)

lemma filter_stable:
  assumes "\<not> snd (join_filter body self e)"
  shows "\<not> snd (join_filter body (fst (join_filter body self other)) e)"
  using assms by (auto simp: join_filter_changed split: bind_splits) (metis keep_stable)

lemma filter_height_le:
  "height (Option.bind x (\<lambda>v. body v w)) \<le> height x"
proof (cases x)
  case None
  then show ?thesis by simp
next
  case (Some v)
  then show ?thesis
    using filter_height [of v w] height_None [of v]
    by (cases "body v w") (auto intro: less_imp_le_nat)
qed

lemma filter_rank_step:
  "map_rank height (fst (join_filter body self other)) +
     of_bool (snd (join_filter body self other)) \<le> map_rank height self"
proof (rule map_rank_step)
  fix k
  show "height (fmlookup (fst (join_filter body self other)) k) \<le> height (fmlookup self k)"
    by (simp add: filter_height_le)
next
  assume "snd (join_filter body self other)"
  then obtain k v where "fmlookup self k = Some v" "body v (fmlookup other k) \<noteq> Some v"
    by (auto simp: join_filter_changed)
  then have "height (fmlookup (fst (join_filter body self other)) k) < height (fmlookup self k)"
    using filter_height height_None by (cases "body v (fmlookup other k)") auto
  then show "\<exists>k. height (fmlookup (fst (join_filter body self other)) k) < height (fmlookup self k)" ..
qed

end

sublocale filter_domain \<subseteq> filtered: join_domain "join_filter body" "map_rank height"
  by unfold_locales (rule filter_self, rule filter_absorb, erule filter_stable, rule filter_rank_step)

text \<open>Sets: intersection of must-facts, element-wise insertion of may-facts, and a flag.\<close>

definition inter_set :: "'a fset \<Rightarrow> 'a fset \<Rightarrow> 'a fset \<times> bool" where
  "inter_set self other = (let new = ffilter (\<lambda>l. l |\<in>| other) self in (new, new \<noteq> self))"

definition insert_all :: "'a::linorder fset \<Rightarrow> 'a fset \<Rightarrow> 'a fset \<times> bool" where
  "insert_all self other =
     fold (\<lambda>x (s, changed). (finsert x s, changed \<or> x |\<notin>| s)) (sorted_list_of_fset other) (self, False)"

definition or_flag :: "bool \<Rightarrow> bool \<Rightarrow> bool \<times> bool" where
  "or_flag self other = (if other \<and> \<not> self then (True, True) else (self, False))"

lemma inter_set_simps [simp]:
  "fst (inter_set self other) = self |\<inter>| other"
  "snd (inter_set self other) \<longleftrightarrow> \<not> self |\<subseteq>| other"
  by (auto simp: inter_set_def Let_def)

lemma insert_all_fold:
  "fold (\<lambda>x (s, changed). (finsert x s, changed \<or> x |\<notin>| s)) xs (self, c) =
     (self |\<union>| fset_of_list xs, c \<or> \<not> fset_of_list xs |\<subseteq>| self)"
  by (induction xs arbitrary: self c) auto

lemma insert_all_simps [simp]:
  "fst (insert_all self other) = self |\<union>| other"
  "snd (insert_all self other) \<longleftrightarrow> \<not> other |\<subseteq>| self"
  by (simp_all add: insert_all_def insert_all_fold)

lemma or_flag_simps [simp]:
  "fst (or_flag self other) \<longleftrightarrow> self \<or> other"
  "snd (or_flag self other) \<longleftrightarrow> other \<and> \<not> self"
  by (auto simp: or_flag_def)

interpretation inter_dom: join_domain "inter_set :: 'a fset \<Rightarrow> 'a fset \<Rightarrow> 'a fset \<times> bool" fcard
proof
  fix a b e :: "'a fset"
  show "\<not> snd (inter_set a a)" by simp
  show "\<not> snd (inter_set (fst (inter_set a b)) b)" by auto
  show "\<not> snd (inter_set (fst (inter_set a b)) e)" if "\<not> snd (inter_set a e)" using that by auto
  show "fcard (fst (inter_set a b)) + of_bool (snd (inter_set a b)) \<le> fcard a"
  proof (cases "a |\<subseteq>| b")
    case True
    then show ?thesis by (simp add: inf_absorb1)
  next
    case False
    then have "a |\<inter>| b |\<subset>| a" by auto
    then have "fcard (a |\<inter>| b) < fcard a" by (rule pfsubset_fcard_mono)
    with False show ?thesis by simp
  qed
qed

definition missing :: "'a::finite fset \<Rightarrow> nat" where
  "missing s = card (- fset s)"

lemma missing_mono: "missing (s |\<union>| t) \<le> missing s"
  unfolding missing_def by (intro card_mono) auto

lemma missing_less: "\<not> t |\<subseteq>| s \<Longrightarrow> missing (s |\<union>| t) < missing s"
  unfolding missing_def by (intro psubset_card_mono) (auto simp: less_eq_fset.rep_eq)

interpretation insert_dom: join_domain
  "insert_all :: 'a::{linorder,finite} fset \<Rightarrow> 'a fset \<Rightarrow> 'a fset \<times> bool" missing
proof
  fix a b e :: "'a fset"
  show "\<not> snd (insert_all a a)" by simp
  show "\<not> snd (insert_all (fst (insert_all a b)) b)" by auto
  show "\<not> snd (insert_all (fst (insert_all a b)) e)" if "\<not> snd (insert_all a e)"
    using that by auto
  show "missing (fst (insert_all a b)) + of_bool (snd (insert_all a b)) \<le> missing a"
    using missing_mono [of a b] missing_less [of b a] by (cases "b |\<subseteq>| a") auto
qed

interpretation flag_dom: join_domain or_flag "\<lambda>b. of_bool (\<not> b)"
proof
  fix a b e :: bool
  show "\<not> snd (or_flag a a)" by simp
  show "\<not> snd (or_flag (fst (or_flag a b)) b)" by simp
  show "\<not> snd (or_flag (fst (or_flag a b)) e)" if "\<not> snd (or_flag a e)"
    using that by auto
  show "of_bool (\<not> fst (or_flag a b)) + of_bool (snd (or_flag a b)) \<le> (of_bool (\<not> a) :: nat)"
    by (cases a; cases b) simp_all
qed

end
