(* ===== verification/Worklist.thy ===== *)
theory Worklist
  imports San_Prelude "HOL-Library.While_Combinator"
begin

text \<open>
  The worklist loop of \<^verbatim>\<open>analysis/dataflow.rs\<close>, over an arbitrary join and an
  arbitrary function \<open>flow\<close> that gives, for a block and the state at its entry, the
  states of its outgoing edges. \<open>Dataflow\<close> instantiates it with the transfer functions
  and the join of block states.

  The loop may not end for an arbitrary join, so its result is an option; the locale
  \<open>worklist_engine\<close> shows that over a join domain it always returns, and what it returns.
\<close>

section \<open>The loop\<close>

text \<open>
  The local variables of \<^verbatim>\<open>run_fixpoint\<close>. Indexing a vector out of range panics;
  \<open>panicked\<close> records it and stops the loop.
\<close>

record 's engine =
  entry_states :: "'s option list"
  worklist :: "nat list"
  in_worklist :: "nat fset"
  panicked :: bool

definition propagate_edge :: "('s \<Rightarrow> 's \<Rightarrow> 's \<times> bool) \<Rightarrow> nat \<times> 's \<Rightarrow> 's engine \<Rightarrow> 's engine" where
  "propagate_edge join = (\<lambda>(succ, edge_state) st.
     if panicked st then st
     else if length (entry_states st) \<le> succ then st\<lparr>panicked := True\<rparr>
     else
       let (states, changed) =
             (case entry_states st ! succ of
                None \<Rightarrow> ((entry_states st)[succ := Some edge_state], True)
              | Some existing \<Rightarrow>
                  let (merged, changed) = join existing edge_state
                  in (if changed then (entry_states st)[succ := Some merged] else entry_states st, changed));
           st = st\<lparr>entry_states := states\<rparr>
       in if changed \<and> succ |\<notin>| in_worklist st
          then st\<lparr>worklist := worklist st @ [succ], in_worklist := finsert succ (in_worklist st)\<rparr>
          else st)"

definition process_next ::
  "('s \<Rightarrow> 's \<Rightarrow> 's \<times> bool) \<Rightarrow> (nat \<Rightarrow> 's \<Rightarrow> (nat \<times> 's) list) \<Rightarrow> 's engine \<Rightarrow> 's engine" where
  "process_next join flow st =
     (case worklist st of
        [] \<Rightarrow> st
      | bb # rest \<Rightarrow>
          let st = st\<lparr>worklist := rest, in_worklist := in_worklist st |-| {|bb|}\<rparr>
          in if length (entry_states st) \<le> bb then st\<lparr>panicked := True\<rparr>
             else case entry_states st ! bb of
                    None \<Rightarrow> st
                  | Some entry \<Rightarrow> fold (propagate_edge join) (flow bb entry) st)"

definition engine_running :: "'s engine \<Rightarrow> bool" where
  "engine_running st \<longleftrightarrow> worklist st \<noteq> [] \<and> \<not> panicked st"

definition engine_start :: "nat \<Rightarrow> 's \<Rightarrow> 's engine" where
  "engine_start num_blocks initial_state =
     \<lparr>entry_states = (replicate num_blocks None)[0 := Some initial_state],
      worklist = [0], in_worklist = {|0|}, panicked = (num_blocks = 0)\<rparr>"

text \<open>\<open>None\<close> stands for a panic or a loop that never ends.\<close>

definition run_worklist ::
  "('s \<Rightarrow> 's \<Rightarrow> 's \<times> bool) \<Rightarrow> (nat \<Rightarrow> 's \<Rightarrow> (nat \<times> 's) list) \<Rightarrow> nat \<Rightarrow> 's \<Rightarrow> 's option list option" where
  "run_worklist join flow num_blocks initial_state =
     (case while_option engine_running (process_next join flow) (engine_start num_blocks initial_state) of
        None \<Rightarrow> None
      | Some st \<Rightarrow> if panicked st then None else Some (entry_states st))"

section \<open>The entry states\<close>

text \<open>The state stored at a block absorbs an edge state.\<close>

definition covers :: "('s \<Rightarrow> 's \<Rightarrow> 's \<times> bool) \<Rightarrow> 's option list \<Rightarrow> nat \<Rightarrow> 's \<Rightarrow> bool" where
  "covers join es q e \<longleftrightarrow> (\<exists>t. es ! q = Some t \<and> \<not> snd (join t e))"

definition none_count :: "'s option list \<Rightarrow> nat" where
  "none_count es = sum_list (map (\<lambda>x. of_bool (x = None)) es)"

definition rank_sum :: "('s \<Rightarrow> nat) \<Rightarrow> 's option list \<Rightarrow> nat" where
  "rank_sum rank es = sum_list (map (\<lambda>x. case x of None \<Rightarrow> 0 | Some s \<Rightarrow> rank s) es)"

definition engine_order :: "('s \<Rightarrow> nat) \<Rightarrow> ('s option list \<times> 's option list) set" where
  "engine_order rank = inv_image (less_than <*lex*> less_than) (\<lambda>es. (none_count es, rank_sum rank es))"

lemma wf_engine_order: "wf (engine_order rank)"
  by (auto simp: engine_order_def)

lemma trans_engine_order: "trans (engine_order rank)"
  unfolding engine_order_def by (intro trans_inv_image trans_lex_prod trans_less_than)

lemma sum_list_map_update:
  "q < length es \<Longrightarrow>
     sum_list (map f (es[q := x])) + f (es ! q) = sum_list (map f es) + (f x :: nat)"
  by (induction es arbitrary: q) (auto simp: nth_Cons' split: nat.splits)

lemma engine_order_fill:
  assumes "q < length es" and "es ! q = None"
  shows "(es[q := Some s], es) \<in> engine_order rank"
  using sum_list_map_update [OF assms(1), of "\<lambda>x. of_bool (x = None)" "Some s"] assms
  by (simp add: engine_order_def none_count_def)

lemma engine_order_lower:
  assumes "q < length es" and "es ! q = Some s" and "rank t < rank s"
  shows "(es[q := Some t], es) \<in> engine_order rank"
  using sum_list_map_update [OF assms(1), of "\<lambda>x. of_bool (x = None)" "Some t"]
    sum_list_map_update [OF assms(1), of "\<lambda>x. case x of None \<Rightarrow> 0 | Some s \<Rightarrow> rank s" "Some t"] assms
  by (simp add: engine_order_def none_count_def rank_sum_def)

section \<open>The loop over a join domain\<close>

locale worklist_engine = join_domain join rank
  for join :: "'s \<Rightarrow> 's \<Rightarrow> 's \<times> bool" and rank :: "'s \<Rightarrow> nat" +
  fixes flow :: "nat \<Rightarrow> 's \<Rightarrow> (nat \<times> 's) list"
    and succs :: "nat \<Rightarrow> nat list"
    and n :: nat
  assumes flow_succs: "map fst (flow b s) = succs b"
begin

text \<open>There is an entry block, and every successor of a block exists.\<close>

definition closed_graph :: bool where
  "closed_graph \<longleftrightarrow> 0 < n \<and> (\<forall>b < n. \<forall>q \<in> set (succs b). q < n)"

text \<open>The edges of the control-flow graph between existing blocks.\<close>

definition edges :: "(nat \<times> nat) set" where
  "edges = {(b, q). b < n \<and> q \<in> set (succs b)}"

text \<open>The bookkeeping of the loop is consistent.\<close>

definition consistent :: "'s engine \<Rightarrow> bool" where
  "consistent st \<longleftrightarrow>
     length (entry_states st) = n \<and> \<not> panicked st \<and> distinct (worklist st) \<and>
     set (worklist st) = fset (in_worklist st) \<and>
     (\<forall>b \<in> set (worklist st). b < n \<and> entry_states st ! b \<noteq> None)"

text \<open>\<open>extends st st'\<close>: what propagating edges from \<open>st\<close> guarantees of the outcome \<open>st'\<close>.\<close>

definition extends :: "'s engine \<Rightarrow> 's engine \<Rightarrow> bool" where
  "extends st st' \<longleftrightarrow>
     consistent st' \<and> set (worklist st) \<subseteq> set (worklist st') \<and>
     (\<forall>q e. q < n \<longrightarrow> covers join (entry_states st) q e \<longrightarrow> covers join (entry_states st') q e) \<and>
     (\<forall>b < n. entry_states st' ! b = entry_states st ! b \<or> b \<in> set (worklist st')) \<and>
     (entry_states st' = entry_states st \<and> worklist st' = worklist st \<or>
      (entry_states st', entry_states st) \<in> engine_order rank)"

lemma extends_refl: "consistent st \<Longrightarrow> extends st st"
  by (simp add: extends_def)

lemma extends_trans: "extends st1 st2 \<Longrightarrow> extends st2 st3 \<Longrightarrow> extends st1 st3"
proof -
  assume 12: "extends st1 st2" and 23: "extends st2 st3"
  from 12 23 have "entry_states st3 ! b = entry_states st1 ! b \<or> b \<in> set (worklist st3)" if "b < n" for b
    using that unfolding extends_def by (metis subsetD)
  moreover from 12 23 have "entry_states st3 = entry_states st1 \<and> worklist st3 = worklist st1 \<or>
      (entry_states st3, entry_states st1) \<in> engine_order rank"
    unfolding extends_def using transD [OF trans_engine_order] by metis
  ultimately show ?thesis using 12 23 unfolding extends_def by blast
qed

lemma extends_update:
  assumes "consistent st" and "q < n"
    and "entry_states st ! q = None \<or> (\<exists>s. entry_states st ! q = Some s \<and> t = fst (join s e) \<and> snd (join s e))"
    and "entry_states st' = (entry_states st)[q := Some t]"
    and "worklist st' = (if q \<in> set (worklist st) then worklist st else worklist st @ [q])"
    and "set (worklist st') = fset (in_worklist st')" and "\<not> panicked st'"
  shows "extends st st'"
proof -
  from assms(5) have wl: "set (worklist st') = insert q (set (worklist st))" by auto
  have "consistent st'" unfolding consistent_def
  proof (intro conjI ballI)
    show "distinct (worklist st')" using assms(1,5) by (simp add: consistent_def)
    show "length (entry_states st') = n" using assms(1,4) by (simp add: consistent_def)
    show "b < n" "entry_states st' ! b \<noteq> None" if "b \<in> set (worklist st')" for b
      using that wl assms(1,2,4) by (auto simp: consistent_def nth_list_update)
  qed (use assms in auto)
  moreover have "covers join (entry_states st') p d" if "p < n" "covers join (entry_states st) p d" for p d
  proof (cases "p = q")
    case True
    with that assms(3) obtain s where "entry_states st ! q = Some s" "t = fst (join s e)"
      "\<not> snd (join s d)" by (auto simp: covers_def)
    with True assms(1,2,4) show ?thesis by (simp add: covers_def consistent_def stable)
  next
    case False
    with that assms(4) show ?thesis by (simp add: covers_def)
  qed
  moreover have "(entry_states st', entry_states st) \<in> engine_order rank"
    using assms(1-4) rank_less by (auto simp: consistent_def intro: engine_order_fill engine_order_lower)
  moreover have "entry_states st' ! b = entry_states st ! b \<or> b \<in> set (worklist st')" for b
    using wl assms(4) by (cases "b = q") simp_all
  ultimately show ?thesis using wl by (simp add: extends_def subset_insertI)
qed

lemma propagate_edge_extends:
  assumes "consistent st" and "q < n"
  shows "extends st (propagate_edge join (q, e) st) \<and>
    covers join (entry_states (propagate_edge join (q, e) st)) q e \<and>
    (\<forall>b < n. b \<noteq> q \<longrightarrow> entry_states (propagate_edge join (q, e) st) ! b = entry_states st ! b)"
proof (cases "entry_states st ! q")
  case None
  let ?st' = "propagate_edge join (q, e) st"
  from None assms have eq: "entry_states ?st' = (entry_states st)[q := Some e]"
    by (simp add: propagate_edge_def consistent_def Let_def)
  have "extends st ?st'"
    by (rule extends_update [OF assms, of e]) (use None assms in \<open>auto simp: propagate_edge_def consistent_def Let_def\<close>)
  with eq assms show ?thesis by (simp add: covers_def consistent_def join_self)
next
  case (Some s)
  let ?st' = "propagate_edge join (q, e) st"
  show ?thesis
  proof (cases "snd (join s e)")
    case True
    with Some assms have eq: "entry_states ?st' = (entry_states st)[q := Some (fst (join s e))]"
      by (simp add: propagate_edge_def consistent_def case_prod_beta Let_def)
    have "extends st ?st'"
      by (rule extends_update [OF assms, of "fst (join s e)"])
        (use Some True assms in \<open>auto simp: propagate_edge_def consistent_def case_prod_beta Let_def\<close>)
    with eq assms show ?thesis by (simp add: covers_def consistent_def absorb)
  next
    case False
    with Some assms have "?st' = st"
      by (simp add: propagate_edge_def consistent_def case_prod_beta Let_def)
    with Some False assms show ?thesis by (simp add: covers_def extends_refl)
  qed
qed

lemma propagate_edges:
  assumes "consistent st" and "\<And>q e. (q, e) \<in> set es \<Longrightarrow> q < n"
  shows "extends st (fold (propagate_edge join) es st) \<and>
    (\<forall>(q, e) \<in> set es. covers join (entry_states (fold (propagate_edge join) es st)) q e) \<and>
    (\<forall>b < n. b \<notin> fst ` set es \<longrightarrow> entry_states (fold (propagate_edge join) es st) ! b = entry_states st ! b)"
  using assms
proof (induction es arbitrary: st)
  case Nil
  then show ?case by (simp add: extends_refl)
next
  case (Cons x es)
  obtain q e where x: "x = (q, e)" by (cases x)
  let ?st1 = "propagate_edge join (q, e) st"
  from Cons.prems x have q: "q < n" by auto
  note step = propagate_edge_extends [OF Cons.prems(1) q, of e]
  then have "consistent ?st1" by (simp add: extends_def)
  with Cons.prems have IH: "extends ?st1 (fold (propagate_edge join) es ?st1)"
    "\<forall>(q, e) \<in> set es. covers join (entry_states (fold (propagate_edge join) es ?st1)) q e"
    "\<forall>b < n. b \<notin> fst ` set es \<longrightarrow>
       entry_states (fold (propagate_edge join) es ?st1) ! b = entry_states ?st1 ! b"
    using Cons.IH [of ?st1] by auto
  with step q have "covers join (entry_states (fold (propagate_edge join) es ?st1)) q e"
    by (simp add: extends_def)
  with IH step x show ?case by (auto intro: extends_trans)
qed

text \<open>
  The invariant of the loop: blocks that are not waiting have propagated their current
  entry state along every edge, and only reachable blocks have a state.
\<close>

definition engine_inv :: "'s \<Rightarrow> 's engine \<Rightarrow> bool" where
  "engine_inv initial st \<longleftrightarrow>
     consistent st \<and> covers join (entry_states st) 0 initial \<and>
     (\<forall>b < n. \<forall>s. b \<notin> set (worklist st) \<longrightarrow> entry_states st ! b = Some s \<longrightarrow>
        (\<forall>q e. (q, e) \<in> set (flow b s) \<longrightarrow> covers join (entry_states st) q e)) \<and>
     (\<forall>b < n. entry_states st ! b \<noteq> None \<longrightarrow> (0, b) \<in> edges\<^sup>*)"

lemma engine_inv_start: "closed_graph \<Longrightarrow> engine_inv initial (engine_start n initial)"
  by (auto simp: closed_graph_def engine_inv_def consistent_def engine_start_def covers_def join_self
      nth_list_update split: if_splits)

lemma flow_target: "(q, e) \<in> set (flow b s) \<Longrightarrow> q \<in> set (succs b)"
  using flow_succs [of b s] by (metis fst_conv image_eqI list.set_map)

lemma flow_bounded: "closed_graph \<Longrightarrow> b < n \<Longrightarrow> (q, e) \<in> set (flow b s) \<Longrightarrow> q < n"
  using flow_target by (auto simp: closed_graph_def)

lemma flow_edge: "q \<in> set (succs b) \<Longrightarrow> \<exists>e. (q, e) \<in> set (flow b s)"
proof -
  assume "q \<in> set (succs b)"
  then have "q \<in> set (map fst (flow b s))" by (simp only: flow_succs)
  then show ?thesis by auto
qed

lemma process_next_step:
  assumes inv: "engine_inv initial st" and run: "engine_running st"
  obtains bb rest s where "worklist st = bb # rest" "bb < n" "entry_states st ! bb = Some s"
    "consistent (st\<lparr>worklist := rest, in_worklist := in_worklist st |-| {|bb|}\<rparr>)"
    "process_next join flow st =
       fold (propagate_edge join) (flow bb s) (st\<lparr>worklist := rest, in_worklist := in_worklist st |-| {|bb|}\<rparr>)"
proof -
  from run obtain bb rest where wl: "worklist st = bb # rest"
    by (cases "worklist st") (auto simp: engine_running_def)
  with inv obtain s where s: "bb < n" "entry_states st ! bb = Some s"
    by (auto simp: engine_inv_def consistent_def)
  have "consistent (st\<lparr>worklist := rest, in_worklist := in_worklist st |-| {|bb|}\<rparr>)"
    using inv wl by (auto simp: engine_inv_def consistent_def)
  with wl s inv show ?thesis
    by (intro that [of bb rest s]) (auto simp: process_next_def engine_inv_def consistent_def)
qed

lemma engine_inv_step:
  assumes closed: closed_graph and inv: "engine_inv initial st" and run: "engine_running st"
  shows "engine_inv initial (process_next join flow st)"
proof -
  obtain bb rest s where st: "worklist st = bb # rest" "bb < n" "entry_states st ! bb = Some s"
    "consistent (st\<lparr>worklist := rest, in_worklist := in_worklist st |-| {|bb|}\<rparr>)"
    "process_next join flow st =
       fold (propagate_edge join) (flow bb s) (st\<lparr>worklist := rest, in_worklist := in_worklist st |-| {|bb|}\<rparr>)"
    using process_next_step [OF inv run] .
  define st0 where "st0 = st\<lparr>worklist := rest, in_worklist := in_worklist st |-| {|bb|}\<rparr>"
  define st1 where "st1 = process_next join flow st"
  have es0: "entry_states st0 = entry_states st" by (simp add: st0_def)
  have targets: "q < n" if "(q, e) \<in> set (flow bb s)" for q e
    using that st(2) flow_bounded [OF closed] by blast
  from propagate_edges [of _ "flow bb s", OF st(4) targets] st(5)
  have ext: "extends st0 st1" and cov: "\<forall>(q, e) \<in> set (flow bb s). covers join (entry_states st1) q e"
    and frame: "\<forall>b < n. b \<notin> fst ` set (flow bb s) \<longrightarrow> entry_states st1 ! b = entry_states st ! b"
    by (simp_all add: st0_def st1_def)
  have mono: "covers join (entry_states st1) q e" if "q < n" "covers join (entry_states st) q e" for q e
    using ext that by (simp add: extends_def es0)
  have kept: "entry_states st ! b = Some t" if "b < n" "b \<notin> set (worklist st1)" "entry_states st1 ! b = Some t" for b t
    using ext that by (auto simp: extends_def es0)
  have "covers join (entry_states st1) q e"
    if b: "b < n" "b \<notin> set (worklist st1)" "entry_states st1 ! b = Some t" and qe: "(q, e) \<in> set (flow b t)" for b t q e
  proof (cases "b = bb")
    case True
    with kept [OF b] st(3) cov qe show ?thesis by auto
  next
    case False
    have "b \<notin> set (worklist st)"
      using False b(2) ext st(1) by (auto simp: extends_def st0_def)
    moreover have "q < n" using b(1) qe flow_bounded [OF closed] by blast
    ultimately show ?thesis using inv mono kept [OF b] b(1) qe by (auto simp: engine_inv_def)
  qed
  moreover have "(0, b) \<in> edges\<^sup>*" if "b < n" "entry_states st1 ! b \<noteq> None" for b
  proof (cases "b \<in> fst ` set (flow bb s)")
    case True
    then have "(bb, b) \<in> edges" using st(2) flow_target by (auto simp: edges_def)
    moreover have "(0, bb) \<in> edges\<^sup>*" using inv st(2,3) by (simp add: engine_inv_def)
    ultimately show ?thesis by (rule rtrancl_into_rtrancl [rotated])
  next
    case False
    with frame that inv show ?thesis by (simp add: engine_inv_def)
  qed
  ultimately show ?thesis
    using ext mono [of 0] closed inv unfolding engine_inv_def st1_def [symmetric]
    by (auto simp: extends_def closed_graph_def)
qed

text \<open>Every round either lowers the stored states or shortens the worklist.\<close>

lemma engine_step_smaller:
  assumes closed: closed_graph and inv: "engine_inv initial st" and run: "engine_running st"
  shows "(process_next join flow st, st) \<in>
    inv_image (engine_order rank <*lex*> less_than) (\<lambda>st. (entry_states st, length (worklist st)))"
proof -
  obtain bb rest s where st: "worklist st = bb # rest" "bb < n" "entry_states st ! bb = Some s"
    "consistent (st\<lparr>worklist := rest, in_worklist := in_worklist st |-| {|bb|}\<rparr>)"
    "process_next join flow st =
       fold (propagate_edge join) (flow bb s) (st\<lparr>worklist := rest, in_worklist := in_worklist st |-| {|bb|}\<rparr>)"
    using process_next_step [OF inv run] .
  have targets: "q < n" if "(q, e) \<in> set (flow bb s)" for q e
    using that st(2) flow_bounded [OF closed] by blast
  from propagate_edges [of _ "flow bb s", OF st(4) targets] st(1,5) show ?thesis
    by (auto simp: extends_def)
qed

lemma engine_result:
  assumes closed_graph
  shows "\<exists>st. while_option engine_running (process_next join flow) (engine_start n initial) = Some st \<and>
        engine_inv initial st \<and> worklist st = []"
proof -
  have "wf (inv_image (engine_order rank <*lex*> less_than)
      (\<lambda>st :: 's engine. (entry_states st, length (worklist st))))"
    by (intro wf_inv_image wf_lex_prod wf_engine_order wf_less_than)
  then obtain st where st: "while_option engine_running (process_next join flow) (engine_start n initial) = Some st"
    using wf_rel_while_option_Some [where P = "engine_inv initial" and b = engine_running
        and c = "process_next join flow" and s = "engine_start n initial"]
      engine_step_smaller engine_inv_step engine_inv_start assms by blast
  have "engine_inv initial st"
    using while_option_rule [where P = "engine_inv initial", OF _ st engine_inv_start] engine_inv_step assms by blast
  moreover from this while_option_stop [OF st] have "worklist st = []"
    by (simp add: engine_running_def engine_inv_def consistent_def)
  ultimately show ?thesis using st by blast
qed

text \<open>
  What the engine promises: it returns; the state of the entry block absorbs the initial
  state; the state of every block absorbs every edge into it; and a block has a state
  exactly if it can be reached.
\<close>

lemma run_worklist_returns: "closed_graph \<Longrightarrow> \<exists>es. run_worklist join flow n initial = Some es"
proof -
  assume closed_graph
  then obtain st where "while_option engine_running (process_next join flow) (engine_start n initial) = Some st"
    "engine_inv initial st" using engine_result by blast
  then show ?thesis by (simp add: run_worklist_def engine_inv_def consistent_def)
qed

lemma run_worklist_inv:
  assumes closed_graph and "run_worklist join flow n initial = Some es"
  obtains st where "engine_inv initial st" "worklist st = []" "es = entry_states st"
proof -
  obtain st where "while_option engine_running (process_next join flow) (engine_start n initial) = Some st"
    "engine_inv initial st" "worklist st = []" using engine_result assms by blast
  with assms that show ?thesis by (simp add: run_worklist_def split: if_splits)
qed

text \<open>What holds of the initial state and is kept by edges and joins holds of every entry state.\<close>

lemma propagate_edge_all:
  assumes "\<forall>s. Some s \<in> set (entry_states st) \<longrightarrow> P s" and "P e" and "\<And>s. P s \<Longrightarrow> P (fst (join s e))"
  shows "\<forall>s. Some s \<in> set (entry_states (propagate_edge join (q, e) st)) \<longrightarrow> P s"
proof (cases "panicked st \<or> length (entry_states st) \<le> q")
  case True
  with assms(1) show ?thesis by (auto simp: propagate_edge_def)
next
  case False
  then have "entry_states st ! q \<in> set (entry_states st)" by simp
  with assms have "P t" if "entry_states st ! q = Some s" "t = fst (join s e)" for s t using that by metis
  with False assms(1,2) show ?thesis
    by (auto simp: propagate_edge_def Let_def case_prod_beta split: option.splits if_splits
        dest!: set_update_subset_insert [THEN subsetD])
qed

lemma propagate_edges_all:
  assumes "\<forall>s. Some s \<in> set (entry_states st) \<longrightarrow> P s" and "\<And>q e. (q, e) \<in> set es \<Longrightarrow> P e"
    and "\<And>s e. P s \<Longrightarrow> P e \<Longrightarrow> P (fst (join s e))"
  shows "\<forall>s. Some s \<in> set (entry_states (fold (propagate_edge join) es st)) \<longrightarrow> P s"
  using assms(1,2)
proof (induction es arbitrary: st)
  case (Cons x es)
  obtain q e where x: "x = (q, e)" by (cases x)
  with Cons.prems(2) have "P e" by auto
  from propagate_edge_all [OF Cons.prems(1) this assms(3)] this Cons.IH [of "propagate_edge join (q, e) st"] Cons.prems(2)
  show ?case by (auto simp: x)
qed simp

lemma run_worklist_all:
  assumes closed_graph and "run_worklist join flow n initial = Some es" and "Some s \<in> set es"
    and "P initial" and "\<And>b s q e. b < n \<Longrightarrow> P s \<Longrightarrow> (q, e) \<in> set (flow b s) \<Longrightarrow> P e"
    and "\<And>s e. P s \<Longrightarrow> P e \<Longrightarrow> P (fst (join s e))"
  shows "P s"
proof -
  let ?I = "\<lambda>st. engine_inv initial st \<and> (\<forall>s. Some s \<in> set (entry_states st) \<longrightarrow> P s)"
  obtain st where st: "while_option engine_running (process_next join flow) (engine_start n initial) = Some st"
    "es = entry_states st" using assms(2) by (auto simp: run_worklist_def split: option.splits if_splits)
  have step: "?I (process_next join flow st)" if I: "?I st" and run: "engine_running st" for st
  proof (rule conjI, rule engine_inv_step [OF assms(1) conjunct1 [OF I] run])
    obtain bb rest s where b: "bb < n" "entry_states st ! bb = Some s"
      "process_next join flow st =
         fold (propagate_edge join) (flow bb s) (st\<lparr>worklist := rest, in_worklist := in_worklist st |-| {|bb|}\<rparr>)"
      using process_next_step [OF conjunct1 [OF I] run] by metis
    then have "Some s \<in> set (entry_states st)" using I by (metis consistent_def engine_inv_def nth_mem)
    with I have "P s" by blast
    with propagate_edges_all [of "st\<lparr>worklist := rest, in_worklist := in_worklist st |-| {|bb|}\<rparr>" P "flow bb s"]
      assms(5,6) b I
    show "\<forall>s. Some s \<in> set (entry_states (process_next join flow st)) \<longrightarrow> P s" by auto
  qed
  have "?I (engine_start n initial)"
    using engine_inv_start [OF assms(1)] assms(1,4)
    by (auto simp: engine_start_def closed_graph_def dest!: set_update_subset_insert [THEN subsetD])
  from while_option_rule [where P = ?I, OF _ st(1) this] step assms(3) st(2) show ?thesis by blast
qed

lemma run_worklist_length: "closed_graph \<Longrightarrow> run_worklist join flow n initial = Some es \<Longrightarrow> length es = n"
  by (erule (1) run_worklist_inv) (simp add: engine_inv_def consistent_def)

lemma run_worklist_entry: "closed_graph \<Longrightarrow> run_worklist join flow n initial = Some es \<Longrightarrow> covers join es 0 initial"
  by (erule (1) run_worklist_inv) (simp add: engine_inv_def)

lemma run_worklist_edge:
  assumes closed_graph and "run_worklist join flow n initial = Some es" and "b < n" and "es ! b = Some s"
    and "(q, e) \<in> set (flow b s)"
  shows "covers join es q e"
  using assms(1,2) by (rule run_worklist_inv) (use assms in \<open>auto simp: engine_inv_def\<close>)

lemma run_worklist_reachable:
  assumes closed_graph and "run_worklist join flow n initial = Some es" and "b < n"
  shows "es ! b \<noteq> None \<longleftrightarrow> (0, b) \<in> edges\<^sup>*"
proof
  show "(0, b) \<in> edges\<^sup>*" if "es ! b \<noteq> None"
    using assms(1,2) by (rule run_worklist_inv) (use that assms(3) in \<open>simp add: engine_inv_def\<close>)
  assume "(0, b) \<in> edges\<^sup>*"
  then show "es ! b \<noteq> None"
  proof induction
    case base
    from run_worklist_entry [OF assms(1,2)] show ?case by (auto simp: covers_def)
  next
    case (step b q)
    then obtain s where s: "b < n" "q \<in> set (succs b)" "es ! b = Some s" by (auto simp: edges_def)
    then obtain e where "(q, e) \<in> set (flow b s)" using flow_edge by blast
    from run_worklist_edge [OF assms(1,2) s(1,3) this] show ?case by (auto simp: covers_def)
  qed
qed

end

end
