(* ===== verification/Mir.thy ===== *)
theory Mir
  imports San_Prelude
begin

text \<open>
  The part of the compiler's interface the analyzer pattern-matches on: types, places,
  operands, rvalues, statements, terminators and bodies of \<^verbatim>\<open>rustc_middle::mir\<close>
  and \<^verbatim>\<open>rustc_middle::ty\<close>. Only the shapes the source inspects are kept; what it
  never opens (generic arguments, regions, source scopes) is left out.

  The compiler itself is not part of the repository. Its queries are the fields of the
  record \<open>tyctxt\<close>, an argument of every definition that asks them, so nothing is
  assumed about the answers.
\<close>

section \<open>Identifiers\<close>

text \<open>
  \<^verbatim>\<open>Local\<close> and field indices are 32-bit indices in the compiler; a
  \<^verbatim>\<open>BasicBlock\<close> is used as an index into the vector of blocks.
\<close>

type_synonym local = u32
type_synonym basic_block = nat
type_synonym field_idx = u32
type_synonym generic_args = nat

datatype def_id = DefId (krate: nat) (def_index: nat)

definition is_local :: "def_id \<Rightarrow> bool" where
  "is_local d = (krate d = 0)"

text \<open>
  A source range with its syntax context; context 0 is the root context, every other one
  belongs to a macro expansion or a desugaring.
\<close>

datatype span = Span (span_lo: u32) (span_hi: u32) (span_ctxt: nat)

definition from_expansion :: "span \<Rightarrow> bool" where
  "from_expansion sp = (span_ctxt sp \<noteq> 0)"

section \<open>Types\<close>

datatype mutability = Mut | Immut

datatype uint_ty = Usize | U8 | U16 | U32 | U64 | U128

datatype int_ty = Isize | I8 | I16 | I32 | I64 | I128

datatype safety = Safe | Unsafe

datatype adt_kind = StructKind | EnumKind | UnionKind

text \<open>
  \<open>interned\<close> names what the analyzer only prints: the parts of a type it never opens.
\<close>

type_synonym interned = nat

text \<open>\<open>adt_fields\<close> is the number of fields of the only variant of a struct or union.\<close>

datatype adt_def = AdtDef (adt_did: def_id) (adt_kind: adt_kind) (adt_fields: nat)

datatype ty =
    TyBool
  | TyChar
  | TyInt int_ty
  | TyUint uint_ty
  | TyFloat interned
  | TyAdt adt_def generic_args
  | TyStr
  | TyArray ty interned
  | TySlice ty
  | TyRawPtr ty mutability
  | TyRef ty mutability
  | TyFnDef def_id generic_args
  | TyFnPtr safety interned
  | TyDynamic interned
  | TyClosure def_id generic_args
  | TyNever
  | TyTuple "ty list"
  | TyParam interned
  | TyOther interned

fun is_raw_ptr_ty :: "ty \<Rightarrow> bool" where
  "is_raw_ptr_ty (TyRawPtr _ _) = True"
| "is_raw_ptr_ty _ = False"

fun is_ref_ty :: "ty \<Rightarrow> bool" where
  "is_ref_ty (TyRef _ _) = True"
| "is_ref_ty _ = False"

fun is_int_ty :: "ty \<Rightarrow> bool" where
  "is_int_ty (TyInt _) = True"
| "is_int_ty (TyUint _) = True"
| "is_int_ty _ = False"

section \<open>Places, operands and rvalues\<close>

datatype projection_elem =
    Deref
  | Field field_idx
  | Index local
  | ConstantIndex
  | Subslice
  | Downcast
  | OpaqueCast
  | UnwrapUnsafeBinder

datatype place = Place (place_local: local) (projection: "projection_elem list")

text \<open>
  A constant operand: an integer, bool or char scalar with its bits, a function item, or
  anything else.
\<close>

datatype mir_const =
    ScalarInt u128
  | FnItem def_id generic_args
  | OtherConst

datatype operand =
    Copy place
  | Move place
  | Constant mir_const

text \<open>\<^verbatim>\<open>Operand::const_fn_def\<close> and \<^verbatim>\<open>Operand::place\<close> of the compiler.\<close>

fun const_fn_def :: "operand \<Rightarrow> (def_id \<times> generic_args) option" where
  "const_fn_def (Constant (FnItem d a)) = Some (d, a)"
| "const_fn_def _ = None"

fun operand_place :: "operand \<Rightarrow> place option" where
  "operand_place (Copy p) = Some p"
| "operand_place (Move p) = Some p"
| "operand_place (Constant _) = None"

datatype bin_op =
    Add | AddUnchecked | AddWithOverflow | Sub | SubUnchecked | SubWithOverflow
  | Mul | MulUnchecked | MulWithOverflow | Div | Rem | BitXor | BitAnd | BitOr
  | Shl | ShlUnchecked | Shr | ShrUnchecked | Eq | Lt | Le | Ne | Ge | Gt | Cmp | Offset

datatype un_op = UnNot | UnNeg | PtrMetadata

datatype pointer_coercion =
    ReifyFnPointer | UnsafeFnPointer | ClosureFnPointer | MutToConstPointer | ArrayToPointer | Unsize

datatype cast_kind =
    PointerExposeProvenance | PointerWithExposedProvenance | PointerCoercion pointer_coercion
  | IntToInt | FloatToInt | FloatToFloat | IntToFloat | PtrToPtr | FnPtrToPtr | Transmute | Subtype

datatype aggregate_kind =
    AggArray ty
  | AggTuple
  | AggAdt def_id "field_idx option"
  | AggClosure def_id
  | AggCoroutine
  | AggRawPtr

datatype rvalue =
    Use operand
  | Repeat operand
  | Ref mutability place
  | RawPtr mutability place
  | Cast cast_kind operand ty
  | BinaryOp bin_op operand operand
  | UnaryOp un_op operand
  | Discriminant place
  | Aggregate aggregate_kind "operand list"
  | OtherRvalue

section \<open>Statements, terminators and bodies\<close>

datatype statement_kind =
    Assign place rvalue
  | CopyNonOverlapping operand operand
  | OtherStatement

datatype statement = Statement (stmt_kind: statement_kind) (stmt_span: span)

datatype unwind_action =
    UnwindContinue | UnwindUnreachable | UnwindTerminateAction | Cleanup basic_block

datatype switch_targets =
  SwitchTargets (switch_iter: "(u128 \<times> basic_block) list") (switch_otherwise: basic_block)

definition all_targets :: "switch_targets \<Rightarrow> basic_block list" where
  "all_targets t = map snd (switch_iter t) @ [switch_otherwise t]"

text \<open>The operands of inline assembly: inputs, inputs that are outputs too, and the rest.\<close>

datatype inline_asm_operand = AsmIn operand | AsmInOut operand | AsmOther

datatype terminator_kind =
    Goto basic_block
  | SwitchInt operand switch_targets
  | Return
  | Unreachable
  | CoroutineDrop
  | TailCall operand "operand list"
  | Call operand "operand list" place "basic_block option" unwind_action
  | Drop place basic_block unwind_action
  | Assert operand bool basic_block unwind_action
  | FalseEdge basic_block basic_block
  | FalseUnwind basic_block unwind_action
  | Yield basic_block "basic_block option"
  | InlineAsm "inline_asm_operand list" "basic_block list" unwind_action
  | UnwindResume
  | UnwindTerminate

datatype terminator = Terminator (term_kind: terminator_kind) (term_span: span)

datatype basic_block_data =
  BasicBlockData (statements: "statement list") (terminator: "terminator option")

text \<open>
  A body: \<open>arg_count\<close> parameters in the locals \<open>1..arg_count\<close>, \<open>_0\<close> the return
  place, the declared type of every local, and the basic blocks. \<open>scope_at bb i\<close> is the
  source scope of statement \<open>i\<close> of block \<open>bb\<close> (of the terminator if \<open>i\<close> is the number
  of statements), an index into \<open>source_scopes\<close>; a scope knows whether it is the outermost
  one of an inlined call and which inlined scope encloses it.
\<close>

datatype source_scope_data =
  SourceScopeData (inlined: bool) (inlined_parent_scope: "nat option")

record body =
  arg_count :: nat
  local_decls :: "local \<Rightarrow> ty"
  basic_blocks :: "basic_block_data list"
  source_def_id :: def_id
  source_is_drop_glue :: bool
  source_scopes :: "source_scope_data list"
  scope_at :: "basic_block \<Rightarrow> nat \<Rightarrow> nat"

section \<open>Items\<close>

text \<open>
  The items of the crate, as far as the item checkers look into them: implementations of
  traits with their generic parameters and bounds, and statics.
\<close>

datatype generic_param = TypeParam string | OtherParam

datatype generic_bound = TraitBound "def_id option" | OtherBound

text \<open>A bounded type: a resolved path by its segments, or anything else.\<close>

datatype hir_ty = ResolvedPath "string list" | OtherHirTy

datatype where_predicate = BoundPredicate hir_ty "generic_bound list" | OtherPredicate

datatype trait_impl = TraitImpl (impl_safety: safety) (trait_def_id: "def_id option")

datatype impl_block =
  ImplBlock (of_trait: "trait_impl option") (impl_params: "generic_param list")
    (impl_predicates: "where_predicate list")

datatype item_kind = ItemImpl impl_block | ItemStatic mutability string | OtherItem

datatype hir_item = HirItem (hir_kind: item_kind) (hir_span: span)

section \<open>Compiler queries\<close>

datatype instance_kind = InstanceItem def_id | OtherInstance

datatype def_kind =
  DkFn | DkAssocFn | DkClosure | DkSyntheticCoroutineBody | DkOther

text \<open>
  \<open>try_resolve caller id args\<close> is \<^verbatim>\<open>Instance::try_resolve\<close> in the typing
  environment of \<open>caller\<close>: the outer \<open>None\<close> an error, the inner one an unresolved
  instance. \<open>place_visits body bb\<close> lists what the compiler's MIR visitor visits in block
  \<open>bb\<close>: each place with whether the use mutates and the statement index of the location.
\<close>

record tyctxt =
  def_path_str :: "def_id \<Rightarrow> string"
  item_name :: "def_id \<Rightarrow> string"
  crate_name :: "nat \<Rightarrow> string"
  trait_of_assoc :: "def_id \<Rightarrow> def_id option"
  try_resolve :: "def_id \<Rightarrow> def_id \<Rightarrow> generic_args \<Rightarrow> instance_kind option option"
  mir_keys :: "def_id list"
  def_kind_of :: "def_id \<Rightarrow> def_kind"
  is_mir_available :: "def_id \<Rightarrow> bool"
  optimized_mir :: "def_id \<Rightarrow> body"
  is_closure_like :: "def_id \<Rightarrow> bool"
  drop_trait :: "def_id option"
  impl_of_assoc :: "def_id \<Rightarrow> def_id option"
  impl_is_of_trait :: "def_id \<Rightarrow> bool"
  impl_trait_ref :: "def_id \<Rightarrow> def_id"
  hir_free_items :: "hir_item list"
  fn_sig_safety :: "def_id \<Rightarrow> generic_args \<Rightarrow> safety"
  fn_abi :: "def_id \<Rightarrow> string"
  target_features :: "def_id \<Rightarrow> string list"
  is_naked :: "def_id \<Rightarrow> bool"
  def_span :: "def_id \<Rightarrow> span"
  is_foreign_item :: "def_id \<Rightarrow> bool"
  generic_types :: "generic_args \<Rightarrow> ty list"
  show_ty :: "ty \<Rightarrow> string"
  place_ty :: "body \<Rightarrow> place \<Rightarrow> ty"
  operand_ty :: "body \<Rightarrow> operand \<Rightarrow> ty"
  ty_is_box :: "ty \<Rightarrow> bool"
  place_visits :: "body \<Rightarrow> basic_block \<Rightarrow> (place \<times> bool \<times> nat) list"

end
