(* ===== verification/Heap_Objects.thy ===== *)
theory Heap_Objects
  imports San_Prelude
begin

text \<open>
  The three small lattices of the analysis: the ownership state of a heap object and the
  initialization state of a \<^verbatim>\<open>MaybeUninit\<close> (\<^verbatim>\<open>analysis/object.rs\<close>), and the
  state of a guard protocol (\<^verbatim>\<open>analysis/typestate.rs\<close>), with the laws of their
  joins and the heights that bound every ascending chain.
\<close>

section \<open>Definitions\<close>

type_synonym object_id = u32
type_synonym protocol_id = u32

datatype init_state = Initialized | Unknown

definition init_state_join :: "init_state \<Rightarrow> init_state \<Rightarrow> init_state" where
  "init_state_join self other = (if self = other then self else Unknown)"

datatype heap_state = RawOwned | Reconstituted | MaybeFreed | Escaped

definition heap_state_join :: "heap_state \<Rightarrow> heap_state \<Rightarrow> heap_state" where
  "heap_state_join self other =
     (if self = other then self
      else case (self, other) of
             (Escaped, _) \<Rightarrow> Escaped
           | (_, Escaped) \<Rightarrow> Escaped
           | (MaybeFreed, _) \<Rightarrow> MaybeFreed
           | (_, MaybeFreed) \<Rightarrow> MaybeFreed
           | _ \<Rightarrow> MaybeFreed)"

fun heap_state_is_hazard :: "heap_state \<Rightarrow> bool" where
  "heap_state_is_hazard MaybeFreed = True"
| "heap_state_is_hazard _ = False"

datatype protocol_state = Active | Consumed | Forgotten | MaybeActive

definition protocol_state_join :: "protocol_state \<Rightarrow> protocol_state \<Rightarrow> protocol_state" where
  "protocol_state_join self other = (if self = other then self else MaybeActive)"

fun protocol_state_is_hazard :: "protocol_state \<Rightarrow> bool" where
  "protocol_state_is_hazard Consumed = True"
| "protocol_state_is_hazard MaybeActive = True"
| "protocol_state_is_hazard _ = False"

section \<open>The joins are semilattices\<close>

text \<open>The laws of a join, and the order it induces.\<close>

locale state_join =
  fixes join :: "'a \<Rightarrow> 'a \<Rightarrow> 'a"
  assumes idem: "join a a = a"
    and comm: "join a b = join b a"
    and assoc: "join (join a b) c = join a (join b c)"
begin

lemma join_upper: "join (join a b) b = join a b"
  by (simp add: assoc idem)

lemma join_absorbed: "join a e = a \<Longrightarrow> join (join a b) e = join a b"
  by (metis assoc comm)

end

interpretation heap_join: state_join heap_state_join
proof
  show "heap_state_join a a = a" for a by (simp add: heap_state_join_def)
  show "heap_state_join a b = heap_state_join b a" for a b
    by (cases a; cases b) (simp_all add: heap_state_join_def)
  show "heap_state_join (heap_state_join a b) c = heap_state_join a (heap_state_join b c)" for a b c
    by (cases a; cases b; cases c) (simp_all add: heap_state_join_def)
qed

interpretation protocol_join: state_join protocol_state_join
proof
  show "protocol_state_join a a = a" for a by (simp add: protocol_state_join_def)
  show "protocol_state_join a b = protocol_state_join b a" for a b
    by (simp add: protocol_state_join_def)
  show "protocol_state_join (protocol_state_join a b) c =
      protocol_state_join a (protocol_state_join b c)" for a b c
    by (cases a; cases b; cases c) (simp_all add: protocol_state_join_def)
qed

interpretation init_join: state_join init_state_join
proof
  show "init_state_join a a = a" for a by (simp add: init_state_join_def)
  show "init_state_join a b = init_state_join b a" for a b
    by (simp add: init_state_join_def)
  show "init_state_join (init_state_join a b) c = init_state_join a (init_state_join b c)" for a b c
    by (cases a; cases b; cases c) (simp_all add: init_state_join_def)
qed

section \<open>Heights\<close>

fun heap_height :: "heap_state option \<Rightarrow> nat" where
  "heap_height None = 3"
| "heap_height (Some RawOwned) = 2"
| "heap_height (Some Reconstituted) = 2"
| "heap_height (Some MaybeFreed) = 1"
| "heap_height (Some Escaped) = 0"

fun protocol_height :: "protocol_state option \<Rightarrow> nat" where
  "protocol_height None = 2"
| "protocol_height (Some MaybeActive) = 0"
| "protocol_height (Some _) = 1"

fun init_height :: "init_state option \<Rightarrow> nat" where
  "init_height None = 2"
| "init_height (Some Initialized) = 1"
| "init_height (Some Unknown) = 0"

lemma heap_height_join:
  "heap_height (Some (heap_state_join a b)) \<le> heap_height (Some a)"
  "heap_state_join a b \<noteq> a \<Longrightarrow> heap_height (Some (heap_state_join a b)) < heap_height (Some a)"
  by (cases a; cases b; simp add: heap_state_join_def)+

lemma protocol_height_join:
  "protocol_height (Some (protocol_state_join a b)) \<le> protocol_height (Some a)"
  "protocol_state_join a b \<noteq> a \<Longrightarrow>
     protocol_height (Some (protocol_state_join a b)) < protocol_height (Some a)"
  by (cases a; cases b; simp add: protocol_state_join_def)+

lemma init_height_join:
  "init_height (Some (init_state_join a b)) \<le> init_height (Some a)"
  "init_state_join a b \<noteq> a \<Longrightarrow> init_height (Some (init_state_join a b)) < init_height (Some a)"
  by (cases a; cases b; simp add: init_state_join_def)+

end
