(* ===== verification/Block_State.thy ===== *)
theory Block_State
  imports Mir Heap_Objects
begin

text \<open>
  The abstract state at a program point, \<^verbatim>\<open>analysis::state::BlockState\<close>: one field
  per domain, in the order of the source, with the queries and small updates of
  \<^verbatim>\<open>impl BlockState\<close>. The join of two states is in \<open>State_Join\<close>.
\<close>

section \<open>The state\<close>

text \<open>
  The field \<^verbatim>\<open>finite\<close> of the source is called \<open>finite_locals\<close>, since
  \<open>finite\<close> names a predicate on sets here.
\<close>

record block_state =
  heap :: "(object_id, heap_state) fmap"
  points_to :: "(local, object_id fset) fmap"
  local_proto :: "(local, protocol_id fset) fmap"
  typestate :: "(protocol_id, protocol_state) fmap"
  untracked_forget_seen :: bool
  init :: "(local, init_state) fmap"
  buf_written :: "local fset"
  lt_facts :: "(local, local) fmap"
  ge_facts :: "(local, local) fmap"
  le_facts :: "(local, local) fmap"
  gt_facts :: "(local, local) fmap"
  bounded :: "local fset"
  bounded_or_eq :: "local fset"
  owner_alias :: "(local, local fset) fmap"
  fn_ptr_targets :: "(local, def_id) fmap"
  realloced_params :: "local fset"
  ref_base :: "(local, local) fmap"
  len_of :: "(local, local) fmap"
  cap_of :: "(local, local) fmap"
  spare_if_true :: "(local, local) fmap"
  spare_if_false :: "(local, local) fmap"
  has_spare :: "local fset"
  full_if_true :: "(local, local) fmap"
  full_if_false :: "(local, local) fmap"
  is_full :: "local fset"
  nonzero :: "local fset"
  nonzero_if_true :: "(local, local) fmap"
  nonzero_if_false :: "(local, local) fmap"
  finite_locals :: "local fset"
  finite_if_true :: "(local, local) fmap"
  nan_if_true :: "(local, local) fmap"
  const_upper :: "(local, u64) fmap"
  const_lower :: "(local, u64) fmap"
  const_lt :: "(local, local \<times> u64) fmap"
  const_le :: "(local, local \<times> u64) fmap"
  const_gt :: "(local, local \<times> u64) fmap"
  const_ge :: "(local, local \<times> u64) fmap"
  eq_locals :: "(local \<times> local) fset"
  cast_origin :: "(local, local) fmap"
  ne_pair_if_true :: "(local, local \<times> local) fmap"
  eq_pair_if_true :: "(local, local \<times> local) fmap"
  keys_are_ne :: "(local \<times> local) fset"
  array_components :: "(local, local list) fmap"
  lt_for :: "(local, local \<times> local) fmap"
  le_for :: "(local, local \<times> local) fmap"
  index_bounded_for :: "(local \<times> local) fset"
  index_bounded_or_eq_for :: "(local \<times> local) fset"
  fd_origin :: "local fset"
  fd_consumed :: "local fset"
  thread_spawned :: bool
  const_ptr_cast :: "local fset"
  mul_overflow :: "local fset"
  layout_overflow :: "local fset"
  field_owned :: "(local \<times> field_idx, object_id fset) fmap"
  mu_raw_ptr :: "(local, local) fmap"
  mu_field_inits :: "(local, field_idx fset) fmap"
  active_variant :: "(local, field_idx) fmap"

text \<open>\<^verbatim>\<open>BlockState::default()\<close>.\<close>

definition block_state_default :: block_state where
  "block_state_default =
     \<lparr>heap = fmempty, points_to = fmempty, local_proto = fmempty, typestate = fmempty,
      untracked_forget_seen = False, init = fmempty, buf_written = {||},
      lt_facts = fmempty, ge_facts = fmempty, le_facts = fmempty, gt_facts = fmempty,
      bounded = {||}, bounded_or_eq = {||}, owner_alias = fmempty, fn_ptr_targets = fmempty,
      realloced_params = {||}, ref_base = fmempty, len_of = fmempty, cap_of = fmempty,
      spare_if_true = fmempty, spare_if_false = fmempty, has_spare = {||},
      full_if_true = fmempty, full_if_false = fmempty, is_full = {||},
      nonzero = {||}, nonzero_if_true = fmempty, nonzero_if_false = fmempty,
      finite_locals = {||}, finite_if_true = fmempty, nan_if_true = fmempty,
      const_upper = fmempty, const_lower = fmempty,
      const_lt = fmempty, const_le = fmempty, const_gt = fmempty, const_ge = fmempty,
      eq_locals = {||}, cast_origin = fmempty,
      ne_pair_if_true = fmempty, eq_pair_if_true = fmempty, keys_are_ne = {||},
      array_components = fmempty, lt_for = fmempty, le_for = fmempty,
      index_bounded_for = {||}, index_bounded_or_eq_for = {||},
      fd_origin = {||}, fd_consumed = {||}, thread_spawned = False,
      const_ptr_cast = {||}, mul_overflow = {||}, layout_overflow = {||},
      field_owned = fmempty, mu_raw_ptr = fmempty, mu_field_inits = fmempty,
      active_variant = fmempty\<rparr>"

section \<open>Owner aliases and object tracking\<close>

text \<open>\<^verbatim>\<open>map.entry(k).or_default()\<close> on a map of sets.\<close>

definition entry_or_default :: "('k, 'a fset) fmap \<Rightarrow> 'k \<Rightarrow> 'a fset" where
  "entry_or_default m k = (case fmlookup m k of None \<Rightarrow> {||} | Some s \<Rightarrow> s)"

definition set_owner_alias :: "local \<Rightarrow> local \<Rightarrow> block_state \<Rightarrow> block_state" where
  "set_owner_alias ptr owner s =
     s\<lparr>owner_alias := fmupd ptr (finsert owner (entry_or_default (owner_alias s) ptr)) (owner_alias s)\<rparr>"

definition copy_owner_alias :: "local \<Rightarrow> local \<Rightarrow> block_state \<Rightarrow> block_state" where
  "copy_owner_alias dst src s =
     (case fmlookup (owner_alias s) src of
        Some owners \<Rightarrow> s\<lparr>owner_alias := fmupd dst owners (owner_alias s)\<rparr>
      | None \<Rightarrow> s\<lparr>owner_alias := fmdrop dst (owner_alias s)\<rparr>)"

definition invalidate_owner :: "local \<Rightarrow> block_state \<Rightarrow> block_state" where
  "invalidate_owner owner s =
     s\<lparr>owner_alias :=
         fm_filter_map (\<lambda>_ owners. if owners = {||} then None else Some owners)
           (fmmap (\<lambda>owners. owners |-| {|owner|}) (owner_alias s))\<rparr>"

definition owners_of :: "block_state \<Rightarrow> local \<Rightarrow> local list" where
  "owners_of s ptr =
     (case fmlookup (owner_alias s) ptr of None \<Rightarrow> [] | Some os \<Rightarrow> sorted_list_of_fset os)"

definition clear_field_owned_for :: "local \<Rightarrow> block_state \<Rightarrow> block_state" where
  "clear_field_owned_for base s =
     s\<lparr>field_owned := fmfilter (\<lambda>(l, _). l \<noteq> base) (field_owned s)\<rparr>"

definition escape_object ::
  "object_id \<Rightarrow> (object_id, heap_state) fmap \<Rightarrow> (object_id, heap_state) fmap" where
  "escape_object oid h =
     (if fmlookup h oid = Some Reconstituted \<or> fmlookup h oid = Some MaybeFreed then h
      else fmupd oid Escaped h)"

definition escape_local :: "local \<Rightarrow> block_state \<Rightarrow> block_state" where
  "escape_local l s =
     (let s1 = (case fmlookup (points_to s) l of
                  None \<Rightarrow> s
                | Some objs \<Rightarrow>
                    s\<lparr>points_to := fmdrop l (points_to s),
                      heap := fold escape_object (sorted_list_of_fset objs) (heap s)\<rparr>)
      in s1\<lparr>local_proto := fmdrop l (local_proto s1), owner_alias := fmdrop l (owner_alias s1)\<rparr>)"

definition objects_for :: "block_state \<Rightarrow> local \<Rightarrow> object_id list" where
  "objects_for s l =
     (case fmlookup (points_to s) l of None \<Rightarrow> [] | Some os \<Rightarrow> sorted_list_of_fset os)"

section \<open>Queries\<close>

definition has_forgotten_protocol :: "block_state \<Rightarrow> bool" where
  "has_forgotten_protocol s =
     (untracked_forget_seen s \<or> fBex (fmran (typestate s)) (\<lambda>p. p = Forgotten))"

definition has_hazard_protocol :: "block_state \<Rightarrow> bool" where
  "has_hazard_protocol s = fBex (fmran (typestate s)) protocol_state_is_hazard"

definition ptr_is_raw_owned :: "block_state \<Rightarrow> local \<Rightarrow> bool" where
  "ptr_is_raw_owned s l =
     (objects_for s l \<noteq> [] \<and>
      list_all (\<lambda>oid. fmlookup (heap s) oid = Some RawOwned) (objects_for s l))"

definition local_is_bounded :: "block_state \<Rightarrow> local \<Rightarrow> bool" where
  "local_is_bounded s l = (l |\<in>| bounded s)"

definition local_is_bounded_or_eq :: "block_state \<Rightarrow> local \<Rightarrow> bool" where
  "local_is_bounded_or_eq s l = (l |\<in>| bounded s \<or> l |\<in>| bounded_or_eq s)"

definition collection_has_spare :: "block_state \<Rightarrow> local \<Rightarrow> bool" where
  "collection_has_spare s l = (l |\<in>| has_spare s)"

definition local_is_nonzero :: "block_state \<Rightarrow> local \<Rightarrow> bool" where
  "local_is_nonzero s l =
     (l |\<in>| nonzero s \<or>
      (case fmlookup (const_lower s) l of None \<Rightarrow> False | Some lb \<Rightarrow> 1 \<le> lb))"

definition local_is_finite :: "block_state \<Rightarrow> local \<Rightarrow> bool" where
  "local_is_finite s l = (l |\<in>| finite_locals s)"

definition local_is_valid_scalar :: "block_state \<Rightarrow> local \<Rightarrow> bool" where
  "local_is_valid_scalar s l =
     (let upper = fmlookup (const_upper s) l;
          lower = fmlookup (const_lower s) l;
          in_range = (case upper of None \<Rightarrow> False | Some u \<Rightarrow> u \<le> 0x10FFFF)
      in if \<not> in_range then False
         else let below_surrogates = (case upper of None \<Rightarrow> False | Some u \<Rightarrow> u < 0xD800);
                  above_surrogates = (case lower of None \<Rightarrow> False | Some lb \<Rightarrow> 0xDFFF < lb)
              in below_surrogates \<or> above_surrogates)"

definition local_is_ascii :: "block_state \<Rightarrow> local \<Rightarrow> bool" where
  "local_is_ascii s l =
     (case fmlookup (const_upper s) l of None \<Rightarrow> False | Some ub \<Rightarrow> ub \<le> 127)"

definition index_is_bounded_for :: "block_state \<Rightarrow> local \<Rightarrow> local \<Rightarrow> bool" where
  "index_is_bounded_for s idx coll = ((idx, coll) |\<in>| index_bounded_for s)"

definition index_is_bounded_or_eq_for :: "block_state \<Rightarrow> local \<Rightarrow> local \<Rightarrow> bool" where
  "index_is_bounded_or_eq_for s idx coll = ((idx, coll) |\<in>| index_bounded_or_eq_for s)"

definition local_upper_bound :: "block_state \<Rightarrow> local \<Rightarrow> u64 option" where
  "local_upper_bound s l = fmlookup (const_upper s) l"

definition local_lower_bound :: "block_state \<Rightarrow> local \<Rightarrow> u64 option" where
  "local_lower_bound s l = fmlookup (const_lower s) l"

definition collection_is_full :: "block_state \<Rightarrow> local \<Rightarrow> bool" where
  "collection_is_full s l = (l |\<in>| is_full s)"

definition deref_base :: "block_state \<Rightarrow> local \<Rightarrow> local" where
  "deref_base s l = (case fmlookup (ref_base s) l of None \<Rightarrow> l | Some b \<Rightarrow> b)"

text \<open>The closure \<^verbatim>\<open>canon\<close>: a pair of locals ordered by index.\<close>

definition canon :: "local \<Rightarrow> local \<Rightarrow> local \<times> local" where
  "canon x y = (if x \<le> y then (x, y) else (y, x))"

text \<open>The arms of the \<^verbatim>\<open>match\<close> are tried in order, guards included.\<close>

definition locals_are_eq :: "block_state \<Rightarrow> local \<Rightarrow> local \<Rightarrow> bool" where
  "locals_are_eq s a b =
     (if a = b then True
      else if canon a b |\<in>| eq_locals s then True
      else let a0 = fmlookup (cast_origin s) a; b0 = fmlookup (cast_origin s) b
           in if a0 = Some b then True
              else if b0 = Some a then True
              else case (a0, b0) of
                     (Some sa, Some sb) \<Rightarrow> sa = sb \<or> canon sa b |\<in>| eq_locals s
                   | (Some sa, None) \<Rightarrow> canon sa b |\<in>| eq_locals s
                   | (None, Some sb) \<Rightarrow> canon a sb |\<in>| eq_locals s
                   | (None, None) \<Rightarrow> False)"

definition locals_are_ne :: "block_state \<Rightarrow> local \<Rightarrow> local \<Rightarrow> bool" where
  "locals_are_ne s a b =
     (if canon a b |\<in>| keys_are_ne s then True
      else let a0 = fmlookup (ref_base s) a; b0 = fmlookup (ref_base s) b
           in if (case a0 of None \<Rightarrow> False | Some sa \<Rightarrow> canon sa b |\<in>| keys_are_ne s) then True
              else if (case b0 of None \<Rightarrow> False | Some sb \<Rightarrow> canon a sb |\<in>| keys_are_ne s) then True
              else case (a0, b0) of
                     (Some sa, Some sb) \<Rightarrow> canon sa sb |\<in>| keys_are_ne s
                   | _ \<Rightarrow> False)"

definition array_components_of :: "block_state \<Rightarrow> local \<Rightarrow> local list option" where
  "array_components_of s l = fmlookup (array_components s) l"

definition index_is_fully_bounded :: "block_state \<Rightarrow> local \<Rightarrow> bool" where
  "index_is_fully_bounded s l =
     (case fmlookup (array_components s) l of
        Some components \<Rightarrow> components \<noteq> [] \<and> list_all (local_is_bounded s) components
      | None \<Rightarrow> local_is_bounded s l)"

definition fd_was_transferred :: "block_state \<Rightarrow> local \<Rightarrow> bool" where
  "fd_was_transferred s l = (l |\<in>| fd_origin s)"

definition local_is_maybeuninit_initialized :: "block_state \<Rightarrow> local \<Rightarrow> bool" where
  "local_is_maybeuninit_initialized s l = (fmlookup (init s) l = Some Initialized)"

definition fd_is_consumed :: "block_state \<Rightarrow> local \<Rightarrow> bool" where
  "fd_is_consumed s l = (l |\<in>| fd_consumed s)"

datatype freed_kind_result = NotFreed | Definite | Potential

text \<open>One iteration of the loop of \<^verbatim>\<open>freed_kind\<close> over \<^verbatim>\<open>(any_freed, all_reconstituted)\<close>.\<close>

definition freed_kind_step :: "block_state \<Rightarrow> object_id \<Rightarrow> bool \<times> bool \<Rightarrow> bool \<times> bool" where
  "freed_kind_step s oid flags =
     (case flags of (any_freed, all_reconstituted) \<Rightarrow>
        (case fmlookup (heap s) oid of
           Some Reconstituted \<Rightarrow> (True, all_reconstituted)
         | Some MaybeFreed \<Rightarrow> (True, False)
         | _ \<Rightarrow> (any_freed, False)))"

definition freed_kind :: "block_state \<Rightarrow> local \<Rightarrow> freed_kind_result" where
  "freed_kind s l =
     (let objs = objects_for s l
      in if objs = [] then NotFreed
         else case fold (freed_kind_step s) objs (False, True) of
                (True, True) \<Rightarrow> Definite
              | (True, False) \<Rightarrow> Potential
              | _ \<Rightarrow> NotFreed)"

section \<open>Lemmas\<close>

named_theorems state_defs \<open>queries of the state, to be unfolded together\<close>

lemmas [state_defs] =
  local_is_bounded_def local_is_bounded_or_eq_def collection_has_spare_def local_is_nonzero_def
  local_is_finite_def local_is_ascii_def index_is_bounded_for_def index_is_bounded_or_eq_for_def
  local_upper_bound_def local_lower_bound_def collection_is_full_def fd_was_transferred_def
  local_is_maybeuninit_initialized_def fd_is_consumed_def deref_base_def

lemma default_simps [simp]:
  "heap block_state_default = fmempty" "points_to block_state_default = fmempty"
  "bounded block_state_default = {||}" "nonzero block_state_default = {||}"
  "const_upper block_state_default = fmempty" "const_lower block_state_default = fmempty"
  by (simp_all add: block_state_default_def)

lemma objects_for_entry: "objects_for s l = sorted_list_of_fset (entry_or_default (points_to s) l)"
  by (simp add: objects_for_def entry_or_default_def sorted_list_of_fset.rep_eq split: option.splits)

lemma owners_of_entry: "owners_of s l = sorted_list_of_fset (entry_or_default (owner_alias s) l)"
  by (simp add: owners_of_def entry_or_default_def sorted_list_of_fset.rep_eq split: option.splits)

lemma set_objects_for: "set (objects_for s l) = fset (entry_or_default (points_to s) l)"
  by (simp add: objects_for_def entry_or_default_def split: option.splits)

lemma set_owners_of: "set (owners_of s l) = fset (entry_or_default (owner_alias s) l)"
  by (simp add: owners_of_def entry_or_default_def split: option.splits)

lemma objects_for_eq_Nil: "objects_for s l = [] \<longleftrightarrow> entry_or_default (points_to s) l = {||}"
  by (metis set_objects_for set_empty bot_fset.rep_eq fset_inject)

lemma invalidate_owner_lookup:
  "fmlookup (owner_alias (invalidate_owner o' s)) p =
     (case fmlookup (owner_alias s) p of
        None \<Rightarrow> None
      | Some os \<Rightarrow> if os |-| {|o'|} = {||} then None else Some (os |-| {|o'|}))"
  by (simp add: invalidate_owner_def split: option.splits)

lemma owners_of_invalidate: "set (owners_of (invalidate_owner o' s) p) = set (owners_of s p) - {o'}"
  by (auto simp: set_owners_of entry_or_default_def invalidate_owner_lookup split: option.splits)

lemma canon_commute: "canon a b = canon b a"
  by (auto simp: canon_def)

lemma freed_kind_fold:
  "fold (freed_kind_step s) objs (any, all) =
     (any \<or> (\<exists>oid \<in> set objs. fmlookup (heap s) oid \<in> {Some Reconstituted, Some MaybeFreed}),
      all \<and> (\<forall>oid \<in> set objs. fmlookup (heap s) oid = Some Reconstituted))"
proof (induction objs arbitrary: any all)
  case Nil
  then show ?case by simp
next
  case (Cons oid objs)
  then show ?case
    by (auto simp: freed_kind_step_def split: option.splits heap_state.splits)
qed

lemma freed_kind_NotFreed:
  "freed_kind s l = NotFreed \<longleftrightarrow>
     (\<forall>oid \<in> set (objects_for s l). fmlookup (heap s) oid \<notin> {Some Reconstituted, Some MaybeFreed})"
  unfolding freed_kind_def freed_kind_fold Let_def by (simp split: bool.split)

lemma freed_kind_Definite:
  "freed_kind s l = Definite \<longleftrightarrow>
     objects_for s l \<noteq> [] \<and> (\<forall>oid \<in> set (objects_for s l). fmlookup (heap s) oid = Some Reconstituted)"
  unfolding freed_kind_def freed_kind_fold Let_def
  by (cases "objects_for s l") (simp_all split: bool.split)

end
