(* ===== verification/State_Join.thy ===== *)
theory State_Join
  imports Block_State
begin

text \<open>
  \<^verbatim>\<open>BlockState::join_with\<close>. Each definition \<open>join_...\<close> is one paragraph of the
  function: it takes the other state and the pair \<^verbatim>\<open>(result, changed)\<close> built so
  far. \<open>join_with\<close> runs them in the order of the source.

  The lemmas show that the result field by field is a join domain, and so is the whole
  state: the interface on which the fixpoint engine of \<open>Dataflow\<close> rests.
\<close>

section \<open>Loop bodies\<close>

text \<open>
  \<^verbatim>\<open>entry(id).or_insert_with(|| { changed = true; state.clone() })\<close> followed by
  joining the entry.
\<close>

definition or_insert_join :: "('v \<Rightarrow> 'v \<Rightarrow> 'v) \<Rightarrow> 'v option \<Rightarrow> 'v \<Rightarrow> 'v \<times> bool" where
  "or_insert_join join cur state =
     (let (entry, inserted) = (case cur of None \<Rightarrow> (state, True) | Some e \<Rightarrow> (e, False));
          joined = join entry state
      in if joined \<noteq> entry then (joined, True) else (entry, inserted))"

definition init_body :: "init_state option \<Rightarrow> init_state \<Rightarrow> init_state \<times> bool" where
  "init_body cur other_init =
     (case cur of
        None \<Rightarrow> (other_init, True)
      | Some self_init \<Rightarrow>
          let joined = init_state_join self_init other_init
          in if joined \<noteq> self_init then (joined, True) else (self_init, False))"

text \<open>Growing the set at a key: \<^verbatim>\<open>changed\<close> when its length differs afterwards.\<close>

definition extend_body :: "'a fset option \<Rightarrow> 'a fset \<Rightarrow> 'a fset \<times> bool" where
  "extend_body cur objs =
     (let entry = (case cur of None \<Rightarrow> {||} | Some e \<Rightarrow> e);
          new = entry |\<union>| objs
      in (new, fcard new \<noteq> fcard entry))"

text \<open>\<^verbatim>\<open>entry(k).or_insert_with(|| { changed = true; v })\<close>: the stored value wins.\<close>

definition or_insert_body :: "'v option \<Rightarrow> 'v \<Rightarrow> 'v \<times> bool" where
  "or_insert_body cur v = (case cur of None \<Rightarrow> (v, True) | Some e \<Rightarrow> (e, False))"

text \<open>Keeping an entry only where both maps agree on it.\<close>

definition agree_body :: "'v \<Rightarrow> 'v option \<Rightarrow> 'v option" where
  "agree_body v w = (if w = Some v then Some v else None)"

definition upper_body :: "u64 \<Rightarrow> u64 option \<Rightarrow> u64 option" where
  "upper_body a w = (case w of None \<Rightarrow> None | Some b \<Rightarrow> Some (max a b))"

definition lower_body :: "u64 \<Rightarrow> u64 option \<Rightarrow> u64 option" where
  "lower_body a w = (case w of None \<Rightarrow> None | Some b \<Rightarrow> Some (min a b))"

definition fields_body :: "'a fset \<Rightarrow> 'a fset option \<Rightarrow> 'a fset option" where
  "fields_body fs w =
     (case w of None \<Rightarrow> None | Some other_fields \<Rightarrow> Some (ffilter (\<lambda>f. f |\<in>| other_fields) fs))"

text \<open>The join of each container, with its own \<^verbatim>\<open>changed\<close> flag.\<close>

abbreviation join_heap_map :: "(object_id, heap_state) fmap \<Rightarrow> (object_id, heap_state) fmap \<Rightarrow> _" where
  "join_heap_map \<equiv> join_entries (or_insert_join heap_state_join)"

abbreviation join_typestate_map ::
  "(protocol_id, protocol_state) fmap \<Rightarrow> (protocol_id, protocol_state) fmap \<Rightarrow> _" where
  "join_typestate_map \<equiv> join_entries (or_insert_join protocol_state_join)"

abbreviation join_init_map :: "(local, init_state) fmap \<Rightarrow> (local, init_state) fmap \<Rightarrow> _" where
  "join_init_map \<equiv> join_entries init_body"

abbreviation extend_map :: "('k::linorder, 'a fset) fmap \<Rightarrow> ('k, 'a fset) fmap \<Rightarrow> _" where
  "extend_map \<equiv> join_entries extend_body"

abbreviation or_insert_map :: "('k::linorder, 'v) fmap \<Rightarrow> ('k, 'v) fmap \<Rightarrow> _" where
  "or_insert_map \<equiv> join_entries or_insert_body"

abbreviation agree_map :: "('k::linorder, 'v) fmap \<Rightarrow> ('k, 'v) fmap \<Rightarrow> _" where
  "agree_map \<equiv> join_filter agree_body"

section \<open>The paragraphs of join\_with\<close>

type_synonym merging = "block_state \<times> bool"

definition join_heap :: "block_state \<Rightarrow> merging \<Rightarrow> merging" where
  "join_heap other = (\<lambda>(result, changed).
     let (m, ch) = join_heap_map (heap result) (heap other)
     in (result\<lparr>heap := m\<rparr>, changed \<or> ch))"

definition join_points_to :: "block_state \<Rightarrow> merging \<Rightarrow> merging" where
  "join_points_to other = (\<lambda>(result, changed).
     let (m, ch) = extend_map (points_to result) (points_to other)
     in (result\<lparr>points_to := m\<rparr>, changed \<or> ch))"

definition join_local_proto :: "block_state \<Rightarrow> merging \<Rightarrow> merging" where
  "join_local_proto other = (\<lambda>(result, changed).
     let (m, ch) = extend_map (local_proto result) (local_proto other)
     in (result\<lparr>local_proto := m\<rparr>, changed \<or> ch))"

definition join_typestate :: "block_state \<Rightarrow> merging \<Rightarrow> merging" where
  "join_typestate other = (\<lambda>(result, changed).
     let (m, ch) = join_typestate_map (typestate result) (typestate other)
     in (result\<lparr>typestate := m\<rparr>, changed \<or> ch))"

definition join_untracked_forget_seen :: "block_state \<Rightarrow> merging \<Rightarrow> merging" where
  "join_untracked_forget_seen other = (\<lambda>(result, changed).
     let (m, ch) = or_flag (untracked_forget_seen result) (untracked_forget_seen other)
     in (result\<lparr>untracked_forget_seen := m\<rparr>, changed \<or> ch))"

definition join_init :: "block_state \<Rightarrow> merging \<Rightarrow> merging" where
  "join_init other = (\<lambda>(result, changed).
     let (m, ch) = join_init_map (init result) (init other)
     in (result\<lparr>init := m\<rparr>, changed \<or> ch))"

definition join_buf_written :: "block_state \<Rightarrow> merging \<Rightarrow> merging" where
  "join_buf_written other = (\<lambda>(result, changed).
     let (m, ch) = inter_set (buf_written result) (buf_written other)
     in (result\<lparr>buf_written := m\<rparr>, changed \<or> ch))"

definition join_cmp_facts :: "block_state \<Rightarrow> merging \<Rightarrow> merging" where
  "join_cmp_facts other = (\<lambda>(result, changed).
     let (m1, c1) = or_insert_map (lt_facts result) (lt_facts other);
         (m2, c2) = or_insert_map (ge_facts result) (ge_facts other);
         (m3, c3) = or_insert_map (le_facts result) (le_facts other);
         (m4, c4) = or_insert_map (gt_facts result) (gt_facts other)
     in (result\<lparr>lt_facts := m1, ge_facts := m2, le_facts := m3, gt_facts := m4\<rparr>,
         changed \<or> c1 \<or> c2 \<or> c3 \<or> c4))"

definition join_bounded :: "block_state \<Rightarrow> merging \<Rightarrow> merging" where
  "join_bounded other = (\<lambda>(result, changed).
     let (m1, c1) = inter_set (bounded result) (bounded other);
         (m2, c2) = inter_set (bounded_or_eq result) (bounded_or_eq other)
     in (result\<lparr>bounded := m1, bounded_or_eq := m2\<rparr>,
         changed \<or> c1 \<or> c2))"

definition join_owner_alias :: "block_state \<Rightarrow> merging \<Rightarrow> merging" where
  "join_owner_alias other = (\<lambda>(result, changed).
     let (m, ch) = extend_map (owner_alias result) (owner_alias other)
     in (result\<lparr>owner_alias := m\<rparr>, changed \<or> ch))"

definition join_fn_ptr_targets :: "block_state \<Rightarrow> merging \<Rightarrow> merging" where
  "join_fn_ptr_targets other = (\<lambda>(result, changed).
     let (m, ch) = agree_map (fn_ptr_targets result) (fn_ptr_targets other)
     in (result\<lparr>fn_ptr_targets := m\<rparr>, changed \<or> ch))"

definition join_realloced_params :: "block_state \<Rightarrow> merging \<Rightarrow> merging" where
  "join_realloced_params other = (\<lambda>(result, changed).
     let (m, ch) = insert_all (realloced_params result) (realloced_params other)
     in (result\<lparr>realloced_params := m\<rparr>, changed \<or> ch))"

definition join_capacity_maps :: "block_state \<Rightarrow> merging \<Rightarrow> merging" where
  "join_capacity_maps other = (\<lambda>(result, changed).
     let (m1, c1) = or_insert_map (ref_base result) (ref_base other);
         (m2, c2) = or_insert_map (len_of result) (len_of other);
         (m3, c3) = or_insert_map (cap_of result) (cap_of other);
         (m4, c4) = or_insert_map (spare_if_true result) (spare_if_true other);
         (m5, c5) = or_insert_map (spare_if_false result) (spare_if_false other);
         (m6, c6) = or_insert_map (full_if_true result) (full_if_true other);
         (m7, c7) = or_insert_map (full_if_false result) (full_if_false other)
     in (result\<lparr>ref_base := m1, len_of := m2, cap_of := m3, spare_if_true := m4, spare_if_false := m5, full_if_true := m6, full_if_false := m7\<rparr>,
         changed \<or> c1 \<or> c2 \<or> c3 \<or> c4 \<or> c5 \<or> c6 \<or> c7))"

definition join_must_sets :: "block_state \<Rightarrow> merging \<Rightarrow> merging" where
  "join_must_sets other = (\<lambda>(result, changed).
     let (m1, c1) = inter_set (has_spare result) (has_spare other);
         (m2, c2) = inter_set (is_full result) (is_full other);
         (m3, c3) = inter_set (nonzero result) (nonzero other);
         (m4, c4) = inter_set (finite_locals result) (finite_locals other)
     in (result\<lparr>has_spare := m1, is_full := m2, nonzero := m3, finite_locals := m4\<rparr>,
         changed \<or> c1 \<or> c2 \<or> c3 \<or> c4))"

definition join_range_maps :: "block_state \<Rightarrow> merging \<Rightarrow> merging" where
  "join_range_maps other = (\<lambda>(result, changed).
     let (m1, c1) = or_insert_map (nonzero_if_true result) (nonzero_if_true other);
         (m2, c2) = or_insert_map (nonzero_if_false result) (nonzero_if_false other);
         (m3, c3) = or_insert_map (finite_if_true result) (finite_if_true other);
         (m4, c4) = or_insert_map (nan_if_true result) (nan_if_true other)
     in (result\<lparr>nonzero_if_true := m1, nonzero_if_false := m2, finite_if_true := m3, nan_if_true := m4\<rparr>,
         changed \<or> c1 \<or> c2 \<or> c3 \<or> c4))"

definition join_const_cmp_maps :: "block_state \<Rightarrow> merging \<Rightarrow> merging" where
  "join_const_cmp_maps other = (\<lambda>(result, changed).
     let (m1, c1) = or_insert_map (const_lt result) (const_lt other);
         (m2, c2) = or_insert_map (const_le result) (const_le other);
         (m3, c3) = or_insert_map (const_gt result) (const_gt other);
         (m4, c4) = or_insert_map (const_ge result) (const_ge other)
     in (result\<lparr>const_lt := m1, const_le := m2, const_gt := m3, const_ge := m4\<rparr>,
         changed \<or> c1 \<or> c2 \<or> c3 \<or> c4))"

definition join_const_upper :: "block_state \<Rightarrow> merging \<Rightarrow> merging" where
  "join_const_upper other = (\<lambda>(result, changed).
     let (m, ch) = join_filter upper_body (const_upper result) (const_upper other)
     in (result\<lparr>const_upper := m\<rparr>, changed \<or> ch))"

definition join_const_lower :: "block_state \<Rightarrow> merging \<Rightarrow> merging" where
  "join_const_lower other = (\<lambda>(result, changed).
     let (m, ch) = join_filter lower_body (const_lower result) (const_lower other)
     in (result\<lparr>const_lower := m\<rparr>, changed \<or> ch))"

definition join_eq_locals :: "block_state \<Rightarrow> merging \<Rightarrow> merging" where
  "join_eq_locals other = (\<lambda>(result, changed).
     let (m, ch) = inter_set (eq_locals result) (eq_locals other)
     in (result\<lparr>eq_locals := m\<rparr>, changed \<or> ch))"

definition join_cast_origin :: "block_state \<Rightarrow> merging \<Rightarrow> merging" where
  "join_cast_origin other = (\<lambda>(result, changed).
     let (m, ch) = or_insert_map (cast_origin result) (cast_origin other)
     in (result\<lparr>cast_origin := m\<rparr>, changed \<or> ch))"

definition join_pair_maps :: "block_state \<Rightarrow> merging \<Rightarrow> merging" where
  "join_pair_maps other = (\<lambda>(result, changed).
     let (m1, c1) = or_insert_map (ne_pair_if_true result) (ne_pair_if_true other);
         (m2, c2) = or_insert_map (eq_pair_if_true result) (eq_pair_if_true other)
     in (result\<lparr>ne_pair_if_true := m1, eq_pair_if_true := m2\<rparr>,
         changed \<or> c1 \<or> c2))"

definition join_keys_are_ne :: "block_state \<Rightarrow> merging \<Rightarrow> merging" where
  "join_keys_are_ne other = (\<lambda>(result, changed).
     let (m, ch) = inter_set (keys_are_ne result) (keys_are_ne other)
     in (result\<lparr>keys_are_ne := m\<rparr>, changed \<or> ch))"

definition join_array_components :: "block_state \<Rightarrow> merging \<Rightarrow> merging" where
  "join_array_components other = (\<lambda>(result, changed).
     let (m, ch) = or_insert_map (array_components result) (array_components other)
     in (result\<lparr>array_components := m\<rparr>, changed \<or> ch))"

definition join_fd_origin :: "block_state \<Rightarrow> merging \<Rightarrow> merging" where
  "join_fd_origin other = (\<lambda>(result, changed).
     let (m, ch) = inter_set (fd_origin result) (fd_origin other)
     in (result\<lparr>fd_origin := m\<rparr>, changed \<or> ch))"

definition join_fd_consumed :: "block_state \<Rightarrow> merging \<Rightarrow> merging" where
  "join_fd_consumed other = (\<lambda>(result, changed).
     let (m, ch) = insert_all (fd_consumed result) (fd_consumed other)
     in (result\<lparr>fd_consumed := m\<rparr>, changed \<or> ch))"

definition join_thread_spawned :: "block_state \<Rightarrow> merging \<Rightarrow> merging" where
  "join_thread_spawned other = (\<lambda>(result, changed).
     let (m, ch) = or_flag (thread_spawned result) (thread_spawned other)
     in (result\<lparr>thread_spawned := m\<rparr>, changed \<or> ch))"

definition join_const_ptr_cast :: "block_state \<Rightarrow> merging \<Rightarrow> merging" where
  "join_const_ptr_cast other = (\<lambda>(result, changed).
     let (m, ch) = insert_all (const_ptr_cast result) (const_ptr_cast other)
     in (result\<lparr>const_ptr_cast := m\<rparr>, changed \<or> ch))"

definition join_mul_overflow :: "block_state \<Rightarrow> merging \<Rightarrow> merging" where
  "join_mul_overflow other = (\<lambda>(result, changed).
     let (m, ch) = insert_all (mul_overflow result) (mul_overflow other)
     in (result\<lparr>mul_overflow := m\<rparr>, changed \<or> ch))"

definition join_layout_overflow :: "block_state \<Rightarrow> merging \<Rightarrow> merging" where
  "join_layout_overflow other = (\<lambda>(result, changed).
     let (m, ch) = insert_all (layout_overflow result) (layout_overflow other)
     in (result\<lparr>layout_overflow := m\<rparr>, changed \<or> ch))"

definition join_field_owned :: "block_state \<Rightarrow> merging \<Rightarrow> merging" where
  "join_field_owned other = (\<lambda>(result, changed).
     let (m, ch) = extend_map (field_owned result) (field_owned other)
     in (result\<lparr>field_owned := m\<rparr>, changed \<or> ch))"

definition join_mu_raw_ptr :: "block_state \<Rightarrow> merging \<Rightarrow> merging" where
  "join_mu_raw_ptr other = (\<lambda>(result, changed).
     let (m, ch) = agree_map (mu_raw_ptr result) (mu_raw_ptr other)
     in (result\<lparr>mu_raw_ptr := m\<rparr>, changed \<or> ch))"

definition join_mu_field_inits :: "block_state \<Rightarrow> merging \<Rightarrow> merging" where
  "join_mu_field_inits other = (\<lambda>(result, changed).
     let (m, ch) = join_filter fields_body (mu_field_inits result) (mu_field_inits other)
     in (result\<lparr>mu_field_inits := m\<rparr>, changed \<or> ch))"

definition join_active_variant :: "block_state \<Rightarrow> merging \<Rightarrow> merging" where
  "join_active_variant other = (\<lambda>(result, changed).
     let (m, ch) = agree_map (active_variant result) (active_variant other)
     in (result\<lparr>active_variant := m\<rparr>, changed \<or> ch))"

definition join_for_maps :: "block_state \<Rightarrow> merging \<Rightarrow> merging" where
  "join_for_maps other = (\<lambda>(result, changed).
     let (m1, c1) = or_insert_map (lt_for result) (lt_for other);
         (m2, c2) = or_insert_map (le_for result) (le_for other)
     in (result\<lparr>lt_for := m1, le_for := m2\<rparr>,
         changed \<or> c1 \<or> c2))"

definition join_index_sets :: "block_state \<Rightarrow> merging \<Rightarrow> merging" where
  "join_index_sets other = (\<lambda>(result, changed).
     let (m1, c1) = inter_set (index_bounded_for result) (index_bounded_for other);
         (m2, c2) = inter_set (index_bounded_or_eq_for result) (index_bounded_or_eq_for other)
     in (result\<lparr>index_bounded_for := m1, index_bounded_or_eq_for := m2\<rparr>,
         changed \<or> c1 \<or> c2))"

definition join_with :: "block_state \<Rightarrow> block_state \<Rightarrow> block_state \<times> bool" where
  "join_with self other =
     fold (\<lambda>paragraph. paragraph other)
       [join_heap, join_points_to, join_local_proto,
        join_typestate, join_untracked_forget_seen, join_init,
        join_buf_written, join_cmp_facts, join_bounded,
        join_owner_alias, join_fn_ptr_targets, join_realloced_params,
        join_capacity_maps, join_must_sets, join_range_maps,
        join_const_cmp_maps, join_const_upper, join_const_lower,
        join_eq_locals, join_cast_origin, join_pair_maps,
        join_keys_are_ne, join_array_components, join_fd_origin,
        join_fd_consumed, join_thread_spawned, join_const_ptr_cast,
        join_mul_overflow, join_layout_overflow, join_field_owned,
        join_mu_raw_ptr, join_mu_field_inits, join_active_variant,
        join_for_maps, join_index_sets]
       (self, False)"

section \<open>Every container is a join domain\<close>

text \<open>How far a container is from the point where nothing can change it any more.\<close>

definition set_height :: "'a::finite fset option \<Rightarrow> nat" where
  "set_height x = missing (case x of None \<Rightarrow> {||} | Some s \<Rightarrow> s)"

lemma set_height_simps [simp]:
  "set_height (None :: 'a::finite fset option) = missing ({||} :: 'a fset)"
  "set_height (Some s) = missing s"
  by (simp_all add: set_height_def)

fun absent :: "'v option \<Rightarrow> nat" where
  "absent None = 1"
| "absent (Some v) = 0"

fun present :: "'v option \<Rightarrow> nat" where
  "present None = 0"
| "present (Some v) = 1"

fun upper_height :: "u64 option \<Rightarrow> nat" where
  "upper_height None = 0"
| "upper_height (Some u) = Suc (unat (u64_max - u))"

fun lower_height :: "u64 option \<Rightarrow> nat" where
  "lower_height None = 0"
| "lower_height (Some u) = Suc (unat u)"

fun fields_height :: "'a fset option \<Rightarrow> nat" where
  "fields_height None = 0"
| "fields_height (Some s) = Suc (fcard s)"

definition flag_rank :: "bool \<Rightarrow> nat" where
  "flag_rank b = of_bool (\<not> b)"

text \<open>The two lattice-valued maps share one argument, given the laws of their join.\<close>

locale joined_entries = state_join join for join :: "'v \<Rightarrow> 'v \<Rightarrow> 'v" +
  fixes height :: "'v option \<Rightarrow> nat"
  assumes height_le: "height (Some (join a b)) \<le> height (Some a)"
    and height_less: "join a b \<noteq> a \<Longrightarrow> height (Some (join a b)) < height (Some a)"
    and height_new: "height (Some a) < height None"
begin

lemma or_insert_join_simps:
  "or_insert_join join None v = (v, True)"
  "or_insert_join join (Some e) v = (join e v, join e v \<noteq> e)"
  by (auto simp: or_insert_join_def idem Let_def)

end

sublocale joined_entries \<subseteq> entry_domain "or_insert_join join" height
proof
  fix v x w w'
  show "\<not> snd (or_insert_join join (Some v) v)" by (simp add: or_insert_join_simps idem)
  show "\<not> snd (or_insert_join join (Some (fst (or_insert_join join x w))) w)"
    by (cases x) (simp_all add: or_insert_join_simps idem join_upper)
  show "\<not> snd (or_insert_join join (Some (fst (or_insert_join join x w'))) w)"
    if "\<not> snd (or_insert_join join x w)"
    using that by (cases x) (simp_all add: or_insert_join_simps join_absorbed)
  show "height (Some (fst (or_insert_join join x w))) + of_bool (snd (or_insert_join join x w)) \<le> height x"
    by (cases x) (auto simp: or_insert_join_simps height_new height_less Suc_leI)
qed

interpretation heap_entries: joined_entries heap_state_join heap_height
proof
  show "heap_height (Some (heap_state_join a b)) \<le> heap_height (Some a)" for a b
    by (rule heap_height_join)
  show "heap_height (Some (heap_state_join a b)) < heap_height (Some a)"
    if "heap_state_join a b \<noteq> a" for a b
    using that by (rule heap_height_join)
  show "heap_height (Some a) < heap_height None" for a by (cases a) simp_all
qed

interpretation typestate_entries: joined_entries protocol_state_join protocol_height
proof
  show "protocol_height (Some (protocol_state_join a b)) \<le> protocol_height (Some a)" for a b
    by (rule protocol_height_join)
  show "protocol_height (Some (protocol_state_join a b)) < protocol_height (Some a)"
    if "protocol_state_join a b \<noteq> a" for a b
    using that by (rule protocol_height_join)
  show "protocol_height (Some a) < protocol_height None" for a by (cases a) simp_all
qed

lemma init_body_simps:
  "init_body None v = (v, True)"
  "init_body (Some e) v = (init_state_join e v, init_state_join e v \<noteq> e)"
  by (auto simp: init_body_def Let_def)

interpretation init_entries: entry_domain init_body init_height
proof
  fix v x w w'
  show "\<not> snd (init_body (Some v) v)" by (simp add: init_body_simps init_join.idem)
  show "\<not> snd (init_body (Some (fst (init_body x w))) w)"
    by (cases x) (simp_all add: init_body_simps init_join.idem init_join.join_upper)
  show "\<not> snd (init_body (Some (fst (init_body x w'))) w)" if "\<not> snd (init_body x w)"
    using that by (cases x) (simp_all add: init_body_simps init_join.join_absorbed)
  show "init_height (Some (fst (init_body x w))) + of_bool (snd (init_body x w)) \<le> init_height x"
  proof (cases x)
    case None
    then show ?thesis by (cases w) (simp_all add: init_body_simps)
  next
    case (Some e)
    then show ?thesis by (auto simp: init_body_simps init_height_join Suc_leI)
  qed
qed

lemma fcard_funion_neq: "fcard (s |\<union>| t) \<noteq> fcard s \<longleftrightarrow> \<not> t |\<subseteq>| s"
proof (cases "t |\<subseteq>| s")
  case True
  then show ?thesis by (simp add: sup_absorb1)
next
  case False
  then have "s |\<subset>| s |\<union>| t" by (metis le_sup_iff less_le_not_le order_refl sup_ge1)
  then have "fcard s < fcard (s |\<union>| t)" by (rule pfsubset_fcard_mono)
  with False show ?thesis by simp
qed

lemma extend_body_simps:
  "extend_body None objs = (objs, \<not> objs |\<subseteq>| {||})"
  "extend_body (Some e) objs = (e |\<union>| objs, \<not> objs |\<subseteq>| e)"
  using fcard_funion_neq [of "{||}" objs] by (simp_all add: extend_body_def Let_def fcard_funion_neq)

lemma extend_height:
  "missing (e |\<union>| w) + of_bool (\<not> w |\<subseteq>| e) \<le> missing e"
  using missing_mono [of e w] missing_less [of w e] by (cases "w |\<subseteq>| e") simp_all

interpretation extend_entries: entry_domain
  "extend_body :: 'a::finite fset option \<Rightarrow> 'a fset \<Rightarrow> 'a fset \<times> bool" set_height
proof
  fix x :: "'a fset option" and v w w' :: "'a fset"
  show "\<not> snd (extend_body (Some v) v)" by (simp add: extend_body_simps)
  show "\<not> snd (extend_body (Some (fst (extend_body x w))) w)"
    by (cases x) (simp_all add: extend_body_simps)
  show "\<not> snd (extend_body (Some (fst (extend_body x w'))) w)" if "\<not> snd (extend_body x w)"
    using that by (cases x) (simp_all add: extend_body_simps le_supI1)
  show "set_height (Some (fst (extend_body x w))) + of_bool (snd (extend_body x w)) \<le> set_height x"
    using extend_height [of "{||}" w] extend_height [of "the x" w]
    by (cases x) (simp_all add: extend_body_simps)
qed

lemma or_insert_body_simps:
  "or_insert_body None v = (v, True)" "or_insert_body (Some e) v = (e, False)"
  by (simp_all add: or_insert_body_def)

interpretation or_insert_entries: entry_domain "or_insert_body :: 'v option \<Rightarrow> 'v \<Rightarrow> 'v \<times> bool" absent
proof
  fix x :: "'v option" and v w w' :: 'v
  show "\<not> snd (or_insert_body (Some v) v)" by (simp add: or_insert_body_simps)
  show "\<not> snd (or_insert_body (Some (fst (or_insert_body x w))) w)"
    by (simp add: or_insert_body_simps)
  show "\<not> snd (or_insert_body (Some (fst (or_insert_body x w'))) w)"
    by (simp add: or_insert_body_simps)
  show "absent (Some (fst (or_insert_body x w))) + of_bool (snd (or_insert_body x w)) \<le> absent x"
    by (cases x) (simp_all add: or_insert_body_simps)
qed

interpretation agree_filter: filter_domain "agree_body :: 'v \<Rightarrow> 'v option \<Rightarrow> 'v option" present
  by unfold_locales (auto simp: agree_body_def split: if_splits)

lemma u64_max_minus_less: "v < v' \<Longrightarrow> u64_max - v' < u64_max - v"
proof -
  assume "v < v'"
  then have "unat v < unat v'" by (simp add: word_less_nat_alt)
  moreover have "unat v' \<le> unat u64_max" by (simp only: word_le_nat_alt [symmetric] le_u64_max)
  ultimately have "unat u64_max - unat v' < unat u64_max - unat v" 
    by (meson diff_less_mono2 less_le_trans)
  then show ?thesis by (simp only: word_less_nat_alt unat_sub [OF le_u64_max])
qed

interpretation upper_filter: filter_domain upper_body upper_height
proof
  fix v v' :: u64 and w u :: "u64 option"
  show "upper_body v (Some v) = Some v" by (simp add: upper_body_def)
  show "upper_body v' w = Some v'" if "upper_body v w = Some v'"
    using that by (auto simp: upper_body_def split: option.splits)
  show "upper_body v' w = Some v'" if "upper_body v w = Some v" "upper_body v u = Some v'"
    using that by (auto simp: upper_body_def max_def split: option.splits if_splits)
  show "upper_height (Some v') < upper_height (Some v)" if "upper_body v w = Some v'" "v' \<noteq> v"
  proof -
    from that have "v < v'" by (auto simp: upper_body_def max_def split: option.splits if_splits)
    then have "u64_max - v' < u64_max - v"
      by (rule u64_max_minus_less)
    then show ?thesis by (simp add: word_less_nat_alt)
  qed
  show "upper_height None < upper_height (Some v)" by simp
qed

interpretation lower_filter: filter_domain lower_body lower_height
proof
  fix v v' :: u64 and w u :: "u64 option"
  show "lower_body v (Some v) = Some v" by (simp add: lower_body_def)
  show "lower_body v' w = Some v'" if "lower_body v w = Some v'"
    using that by (auto simp: lower_body_def split: option.splits)
  show "lower_body v' w = Some v'" if "lower_body v w = Some v" "lower_body v u = Some v'"
    using that by (auto simp: lower_body_def min_def split: option.splits if_splits)
  show "lower_height (Some v') < lower_height (Some v)" if "lower_body v w = Some v'" "v' \<noteq> v"
  proof -
    from that have "v' < v" by (auto simp: lower_body_def min_def split: option.splits if_splits)
    then show ?thesis by (simp add: word_less_nat_alt)
  qed
  show "lower_height None < lower_height (Some v)" by simp
qed

interpretation fields_filter: filter_domain
  "fields_body :: 'a fset \<Rightarrow> 'a fset option \<Rightarrow> 'a fset option" fields_height
proof
  fix v v' :: "'a fset" and w u :: "'a fset option"
  show "fields_body v (Some v) = Some v" by (auto simp: fields_body_def)
  show "fields_body v' w = Some v'" if "fields_body v w = Some v'"
    using that by (auto simp: fields_body_def split: option.splits)
  show "fields_body v' w = Some v'" if "fields_body v w = Some v" "fields_body v u = Some v'"
    using that by (auto simp: fields_body_def split: option.splits) 
  show "fields_height (Some v') < fields_height (Some v)" if "fields_body v w = Some v'" "v' \<noteq> v"
  proof -
    from that have "v' |\<subset>| v" by (auto simp: fields_body_def split: option.splits)
    then show ?thesis by (simp add: pfsubset_fcard_mono)
  qed
  show "fields_height None < fields_height (Some v)" by simp
qed

lemma flag_rank_step: "flag_rank (fst (or_flag a b)) + of_bool (snd (or_flag a b)) \<le> flag_rank a"
  unfolding flag_rank_def by (rule flag_dom.rank_step)

lemmas domain_self =
  heap_entries.entries.join_self typestate_entries.entries.join_self init_entries.entries.join_self
  extend_entries.entries.join_self or_insert_entries.entries.join_self
  agree_filter.filtered.join_self upper_filter.filtered.join_self
  lower_filter.filtered.join_self fields_filter.filtered.join_self
  inter_dom.join_self insert_dom.join_self flag_dom.join_self

lemmas domain_absorb =
  heap_entries.entries.absorb typestate_entries.entries.absorb init_entries.entries.absorb
  extend_entries.entries.absorb or_insert_entries.entries.absorb agree_filter.filtered.absorb
  upper_filter.filtered.absorb lower_filter.filtered.absorb fields_filter.filtered.absorb
  inter_dom.absorb insert_dom.absorb flag_dom.absorb

lemmas domain_stable =
  heap_entries.entries.stable typestate_entries.entries.stable init_entries.entries.stable
  extend_entries.entries.stable or_insert_entries.entries.stable agree_filter.filtered.stable
  upper_filter.filtered.stable lower_filter.filtered.stable fields_filter.filtered.stable
  inter_dom.stable insert_dom.stable flag_dom.stable

lemmas domain_rank_step =
  heap_entries.entries.rank_step typestate_entries.entries.rank_step init_entries.entries.rank_step
  extend_entries.entries.rank_step or_insert_entries.entries.rank_step
  agree_filter.filtered.rank_step upper_filter.filtered.rank_step
  lower_filter.filtered.rank_step fields_filter.filtered.rank_step
  inter_dom.rank_step insert_dom.rank_step flag_rank_step

section \<open>The whole state\<close>

lemmas join_paragraphs =
  join_heap_def join_points_to_def join_local_proto_def
  join_typestate_def join_untracked_forget_seen_def join_init_def
  join_buf_written_def join_cmp_facts_def join_bounded_def
  join_owner_alias_def join_fn_ptr_targets_def join_realloced_params_def
  join_capacity_maps_def join_must_sets_def join_range_maps_def
  join_const_cmp_maps_def join_const_upper_def join_const_lower_def
  join_eq_locals_def join_cast_origin_def join_pair_maps_def
  join_keys_are_ne_def join_array_components_def join_fd_origin_def
  join_fd_consumed_def join_thread_spawned_def join_const_ptr_cast_def
  join_mul_overflow_def join_layout_overflow_def join_field_owned_def
  join_mu_raw_ptr_def join_mu_field_inits_def join_active_variant_def
  join_for_maps_def join_index_sets_def

lemma join_with_conv:
  "join_with self other =
     (self\<lparr>heap := fst (join_heap_map (heap self) (heap other)),
          points_to := fst (extend_map (points_to self) (points_to other)),
          local_proto := fst (extend_map (local_proto self) (local_proto other)),
          typestate := fst (join_typestate_map (typestate self) (typestate other)),
          untracked_forget_seen := fst (or_flag (untracked_forget_seen self) (untracked_forget_seen other)),
          init := fst (join_init_map (init self) (init other)),
          buf_written := fst (inter_set (buf_written self) (buf_written other)),
          lt_facts := fst (or_insert_map (lt_facts self) (lt_facts other)),
          ge_facts := fst (or_insert_map (ge_facts self) (ge_facts other)),
          le_facts := fst (or_insert_map (le_facts self) (le_facts other)),
          gt_facts := fst (or_insert_map (gt_facts self) (gt_facts other)),
          bounded := fst (inter_set (bounded self) (bounded other)),
          bounded_or_eq := fst (inter_set (bounded_or_eq self) (bounded_or_eq other)),
          owner_alias := fst (extend_map (owner_alias self) (owner_alias other)),
          fn_ptr_targets := fst (agree_map (fn_ptr_targets self) (fn_ptr_targets other)),
          realloced_params := fst (insert_all (realloced_params self) (realloced_params other)),
          ref_base := fst (or_insert_map (ref_base self) (ref_base other)),
          len_of := fst (or_insert_map (len_of self) (len_of other)),
          cap_of := fst (or_insert_map (cap_of self) (cap_of other)),
          spare_if_true := fst (or_insert_map (spare_if_true self) (spare_if_true other)),
          spare_if_false := fst (or_insert_map (spare_if_false self) (spare_if_false other)),
          full_if_true := fst (or_insert_map (full_if_true self) (full_if_true other)),
          full_if_false := fst (or_insert_map (full_if_false self) (full_if_false other)),
          has_spare := fst (inter_set (has_spare self) (has_spare other)),
          is_full := fst (inter_set (is_full self) (is_full other)),
          nonzero := fst (inter_set (nonzero self) (nonzero other)),
          finite_locals := fst (inter_set (finite_locals self) (finite_locals other)),
          nonzero_if_true := fst (or_insert_map (nonzero_if_true self) (nonzero_if_true other)),
          nonzero_if_false := fst (or_insert_map (nonzero_if_false self) (nonzero_if_false other)),
          finite_if_true := fst (or_insert_map (finite_if_true self) (finite_if_true other)),
          nan_if_true := fst (or_insert_map (nan_if_true self) (nan_if_true other)),
          const_lt := fst (or_insert_map (const_lt self) (const_lt other)),
          const_le := fst (or_insert_map (const_le self) (const_le other)),
          const_gt := fst (or_insert_map (const_gt self) (const_gt other)),
          const_ge := fst (or_insert_map (const_ge self) (const_ge other)),
          const_upper := fst (join_filter upper_body (const_upper self) (const_upper other)),
          const_lower := fst (join_filter lower_body (const_lower self) (const_lower other)),
          eq_locals := fst (inter_set (eq_locals self) (eq_locals other)),
          cast_origin := fst (or_insert_map (cast_origin self) (cast_origin other)),
          ne_pair_if_true := fst (or_insert_map (ne_pair_if_true self) (ne_pair_if_true other)),
          eq_pair_if_true := fst (or_insert_map (eq_pair_if_true self) (eq_pair_if_true other)),
          keys_are_ne := fst (inter_set (keys_are_ne self) (keys_are_ne other)),
          array_components := fst (or_insert_map (array_components self) (array_components other)),
          fd_origin := fst (inter_set (fd_origin self) (fd_origin other)),
          fd_consumed := fst (insert_all (fd_consumed self) (fd_consumed other)),
          thread_spawned := fst (or_flag (thread_spawned self) (thread_spawned other)),
          const_ptr_cast := fst (insert_all (const_ptr_cast self) (const_ptr_cast other)),
          mul_overflow := fst (insert_all (mul_overflow self) (mul_overflow other)),
          layout_overflow := fst (insert_all (layout_overflow self) (layout_overflow other)),
          field_owned := fst (extend_map (field_owned self) (field_owned other)),
          mu_raw_ptr := fst (agree_map (mu_raw_ptr self) (mu_raw_ptr other)),
          mu_field_inits := fst (join_filter fields_body (mu_field_inits self) (mu_field_inits other)),
          active_variant := fst (agree_map (active_variant self) (active_variant other)),
          lt_for := fst (or_insert_map (lt_for self) (lt_for other)),
          le_for := fst (or_insert_map (le_for self) (le_for other)),
          index_bounded_for := fst (inter_set (index_bounded_for self) (index_bounded_for other)),
          index_bounded_or_eq_for := fst (inter_set (index_bounded_or_eq_for self) (index_bounded_or_eq_for other))\<rparr>,
        snd (join_heap_map (heap self) (heap other)) \<or>
        snd (extend_map (points_to self) (points_to other)) \<or>
        snd (extend_map (local_proto self) (local_proto other)) \<or>
        snd (join_typestate_map (typestate self) (typestate other)) \<or>
        snd (or_flag (untracked_forget_seen self) (untracked_forget_seen other)) \<or>
        snd (join_init_map (init self) (init other)) \<or>
        snd (inter_set (buf_written self) (buf_written other)) \<or>
        snd (or_insert_map (lt_facts self) (lt_facts other)) \<or>
        snd (or_insert_map (ge_facts self) (ge_facts other)) \<or>
        snd (or_insert_map (le_facts self) (le_facts other)) \<or>
        snd (or_insert_map (gt_facts self) (gt_facts other)) \<or>
        snd (inter_set (bounded self) (bounded other)) \<or>
        snd (inter_set (bounded_or_eq self) (bounded_or_eq other)) \<or>
        snd (extend_map (owner_alias self) (owner_alias other)) \<or>
        snd (agree_map (fn_ptr_targets self) (fn_ptr_targets other)) \<or>
        snd (insert_all (realloced_params self) (realloced_params other)) \<or>
        snd (or_insert_map (ref_base self) (ref_base other)) \<or>
        snd (or_insert_map (len_of self) (len_of other)) \<or>
        snd (or_insert_map (cap_of self) (cap_of other)) \<or>
        snd (or_insert_map (spare_if_true self) (spare_if_true other)) \<or>
        snd (or_insert_map (spare_if_false self) (spare_if_false other)) \<or>
        snd (or_insert_map (full_if_true self) (full_if_true other)) \<or>
        snd (or_insert_map (full_if_false self) (full_if_false other)) \<or>
        snd (inter_set (has_spare self) (has_spare other)) \<or>
        snd (inter_set (is_full self) (is_full other)) \<or>
        snd (inter_set (nonzero self) (nonzero other)) \<or>
        snd (inter_set (finite_locals self) (finite_locals other)) \<or>
        snd (or_insert_map (nonzero_if_true self) (nonzero_if_true other)) \<or>
        snd (or_insert_map (nonzero_if_false self) (nonzero_if_false other)) \<or>
        snd (or_insert_map (finite_if_true self) (finite_if_true other)) \<or>
        snd (or_insert_map (nan_if_true self) (nan_if_true other)) \<or>
        snd (or_insert_map (const_lt self) (const_lt other)) \<or>
        snd (or_insert_map (const_le self) (const_le other)) \<or>
        snd (or_insert_map (const_gt self) (const_gt other)) \<or>
        snd (or_insert_map (const_ge self) (const_ge other)) \<or>
        snd (join_filter upper_body (const_upper self) (const_upper other)) \<or>
        snd (join_filter lower_body (const_lower self) (const_lower other)) \<or>
        snd (inter_set (eq_locals self) (eq_locals other)) \<or>
        snd (or_insert_map (cast_origin self) (cast_origin other)) \<or>
        snd (or_insert_map (ne_pair_if_true self) (ne_pair_if_true other)) \<or>
        snd (or_insert_map (eq_pair_if_true self) (eq_pair_if_true other)) \<or>
        snd (inter_set (keys_are_ne self) (keys_are_ne other)) \<or>
        snd (or_insert_map (array_components self) (array_components other)) \<or>
        snd (inter_set (fd_origin self) (fd_origin other)) \<or>
        snd (insert_all (fd_consumed self) (fd_consumed other)) \<or>
        snd (or_flag (thread_spawned self) (thread_spawned other)) \<or>
        snd (insert_all (const_ptr_cast self) (const_ptr_cast other)) \<or>
        snd (insert_all (mul_overflow self) (mul_overflow other)) \<or>
        snd (insert_all (layout_overflow self) (layout_overflow other)) \<or>
        snd (extend_map (field_owned self) (field_owned other)) \<or>
        snd (agree_map (mu_raw_ptr self) (mu_raw_ptr other)) \<or>
        snd (join_filter fields_body (mu_field_inits self) (mu_field_inits other)) \<or>
        snd (agree_map (active_variant self) (active_variant other)) \<or>
        snd (or_insert_map (lt_for self) (lt_for other)) \<or>
        snd (or_insert_map (le_for self) (le_for other)) \<or>
        snd (inter_set (index_bounded_for self) (index_bounded_for other)) \<or>
        snd (inter_set (index_bounded_or_eq_for self) (index_bounded_or_eq_for other)))"
  by (simp add: join_with_def join_paragraphs case_prod_beta Let_def
      del: inter_set_simps insert_all_simps or_flag_simps)

lemma join_with_fields:
  "heap (fst (join_with self other)) = fst (join_heap_map (heap self) (heap other))"
  "points_to (fst (join_with self other)) = fst (extend_map (points_to self) (points_to other))"
  "local_proto (fst (join_with self other)) = fst (extend_map (local_proto self) (local_proto other))"
  "typestate (fst (join_with self other)) = fst (join_typestate_map (typestate self) (typestate other))"
  "untracked_forget_seen (fst (join_with self other)) = fst (or_flag (untracked_forget_seen self) (untracked_forget_seen other))"
  "init (fst (join_with self other)) = fst (join_init_map (init self) (init other))"
  "buf_written (fst (join_with self other)) = fst (inter_set (buf_written self) (buf_written other))"
  "lt_facts (fst (join_with self other)) = fst (or_insert_map (lt_facts self) (lt_facts other))"
  "ge_facts (fst (join_with self other)) = fst (or_insert_map (ge_facts self) (ge_facts other))"
  "le_facts (fst (join_with self other)) = fst (or_insert_map (le_facts self) (le_facts other))"
  "gt_facts (fst (join_with self other)) = fst (or_insert_map (gt_facts self) (gt_facts other))"
  "bounded (fst (join_with self other)) = fst (inter_set (bounded self) (bounded other))"
  "bounded_or_eq (fst (join_with self other)) = fst (inter_set (bounded_or_eq self) (bounded_or_eq other))"
  "owner_alias (fst (join_with self other)) = fst (extend_map (owner_alias self) (owner_alias other))"
  "fn_ptr_targets (fst (join_with self other)) = fst (agree_map (fn_ptr_targets self) (fn_ptr_targets other))"
  "realloced_params (fst (join_with self other)) = fst (insert_all (realloced_params self) (realloced_params other))"
  "ref_base (fst (join_with self other)) = fst (or_insert_map (ref_base self) (ref_base other))"
  "len_of (fst (join_with self other)) = fst (or_insert_map (len_of self) (len_of other))"
  "cap_of (fst (join_with self other)) = fst (or_insert_map (cap_of self) (cap_of other))"
  "spare_if_true (fst (join_with self other)) = fst (or_insert_map (spare_if_true self) (spare_if_true other))"
  "spare_if_false (fst (join_with self other)) = fst (or_insert_map (spare_if_false self) (spare_if_false other))"
  "full_if_true (fst (join_with self other)) = fst (or_insert_map (full_if_true self) (full_if_true other))"
  "full_if_false (fst (join_with self other)) = fst (or_insert_map (full_if_false self) (full_if_false other))"
  "has_spare (fst (join_with self other)) = fst (inter_set (has_spare self) (has_spare other))"
  "is_full (fst (join_with self other)) = fst (inter_set (is_full self) (is_full other))"
  "nonzero (fst (join_with self other)) = fst (inter_set (nonzero self) (nonzero other))"
  "finite_locals (fst (join_with self other)) = fst (inter_set (finite_locals self) (finite_locals other))"
  "nonzero_if_true (fst (join_with self other)) = fst (or_insert_map (nonzero_if_true self) (nonzero_if_true other))"
  "nonzero_if_false (fst (join_with self other)) = fst (or_insert_map (nonzero_if_false self) (nonzero_if_false other))"
  "finite_if_true (fst (join_with self other)) = fst (or_insert_map (finite_if_true self) (finite_if_true other))"
  "nan_if_true (fst (join_with self other)) = fst (or_insert_map (nan_if_true self) (nan_if_true other))"
  "const_lt (fst (join_with self other)) = fst (or_insert_map (const_lt self) (const_lt other))"
  "const_le (fst (join_with self other)) = fst (or_insert_map (const_le self) (const_le other))"
  "const_gt (fst (join_with self other)) = fst (or_insert_map (const_gt self) (const_gt other))"
  "const_ge (fst (join_with self other)) = fst (or_insert_map (const_ge self) (const_ge other))"
  "const_upper (fst (join_with self other)) = fst (join_filter upper_body (const_upper self) (const_upper other))"
  "const_lower (fst (join_with self other)) = fst (join_filter lower_body (const_lower self) (const_lower other))"
  "eq_locals (fst (join_with self other)) = fst (inter_set (eq_locals self) (eq_locals other))"
  "cast_origin (fst (join_with self other)) = fst (or_insert_map (cast_origin self) (cast_origin other))"
  "ne_pair_if_true (fst (join_with self other)) = fst (or_insert_map (ne_pair_if_true self) (ne_pair_if_true other))"
  "eq_pair_if_true (fst (join_with self other)) = fst (or_insert_map (eq_pair_if_true self) (eq_pair_if_true other))"
  "keys_are_ne (fst (join_with self other)) = fst (inter_set (keys_are_ne self) (keys_are_ne other))"
  "array_components (fst (join_with self other)) = fst (or_insert_map (array_components self) (array_components other))"
  "fd_origin (fst (join_with self other)) = fst (inter_set (fd_origin self) (fd_origin other))"
  "fd_consumed (fst (join_with self other)) = fst (insert_all (fd_consumed self) (fd_consumed other))"
  "thread_spawned (fst (join_with self other)) = fst (or_flag (thread_spawned self) (thread_spawned other))"
  "const_ptr_cast (fst (join_with self other)) = fst (insert_all (const_ptr_cast self) (const_ptr_cast other))"
  "mul_overflow (fst (join_with self other)) = fst (insert_all (mul_overflow self) (mul_overflow other))"
  "layout_overflow (fst (join_with self other)) = fst (insert_all (layout_overflow self) (layout_overflow other))"
  "field_owned (fst (join_with self other)) = fst (extend_map (field_owned self) (field_owned other))"
  "mu_raw_ptr (fst (join_with self other)) = fst (agree_map (mu_raw_ptr self) (mu_raw_ptr other))"
  "mu_field_inits (fst (join_with self other)) = fst (join_filter fields_body (mu_field_inits self) (mu_field_inits other))"
  "active_variant (fst (join_with self other)) = fst (agree_map (active_variant self) (active_variant other))"
  "lt_for (fst (join_with self other)) = fst (or_insert_map (lt_for self) (lt_for other))"
  "le_for (fst (join_with self other)) = fst (or_insert_map (le_for self) (le_for other))"
  "index_bounded_for (fst (join_with self other)) = fst (inter_set (index_bounded_for self) (index_bounded_for other))"
  "index_bounded_or_eq_for (fst (join_with self other)) = fst (inter_set (index_bounded_or_eq_for self) (index_bounded_or_eq_for other))"
  by (simp_all add: join_with_conv del: inter_set_simps insert_all_simps or_flag_simps)

lemma join_with_changed:
  "snd (join_with self other) \<longleftrightarrow>
        snd (join_heap_map (heap self) (heap other)) \<or>
        snd (extend_map (points_to self) (points_to other)) \<or>
        snd (extend_map (local_proto self) (local_proto other)) \<or>
        snd (join_typestate_map (typestate self) (typestate other)) \<or>
        snd (or_flag (untracked_forget_seen self) (untracked_forget_seen other)) \<or>
        snd (join_init_map (init self) (init other)) \<or>
        snd (inter_set (buf_written self) (buf_written other)) \<or>
        snd (or_insert_map (lt_facts self) (lt_facts other)) \<or>
        snd (or_insert_map (ge_facts self) (ge_facts other)) \<or>
        snd (or_insert_map (le_facts self) (le_facts other)) \<or>
        snd (or_insert_map (gt_facts self) (gt_facts other)) \<or>
        snd (inter_set (bounded self) (bounded other)) \<or>
        snd (inter_set (bounded_or_eq self) (bounded_or_eq other)) \<or>
        snd (extend_map (owner_alias self) (owner_alias other)) \<or>
        snd (agree_map (fn_ptr_targets self) (fn_ptr_targets other)) \<or>
        snd (insert_all (realloced_params self) (realloced_params other)) \<or>
        snd (or_insert_map (ref_base self) (ref_base other)) \<or>
        snd (or_insert_map (len_of self) (len_of other)) \<or>
        snd (or_insert_map (cap_of self) (cap_of other)) \<or>
        snd (or_insert_map (spare_if_true self) (spare_if_true other)) \<or>
        snd (or_insert_map (spare_if_false self) (spare_if_false other)) \<or>
        snd (or_insert_map (full_if_true self) (full_if_true other)) \<or>
        snd (or_insert_map (full_if_false self) (full_if_false other)) \<or>
        snd (inter_set (has_spare self) (has_spare other)) \<or>
        snd (inter_set (is_full self) (is_full other)) \<or>
        snd (inter_set (nonzero self) (nonzero other)) \<or>
        snd (inter_set (finite_locals self) (finite_locals other)) \<or>
        snd (or_insert_map (nonzero_if_true self) (nonzero_if_true other)) \<or>
        snd (or_insert_map (nonzero_if_false self) (nonzero_if_false other)) \<or>
        snd (or_insert_map (finite_if_true self) (finite_if_true other)) \<or>
        snd (or_insert_map (nan_if_true self) (nan_if_true other)) \<or>
        snd (or_insert_map (const_lt self) (const_lt other)) \<or>
        snd (or_insert_map (const_le self) (const_le other)) \<or>
        snd (or_insert_map (const_gt self) (const_gt other)) \<or>
        snd (or_insert_map (const_ge self) (const_ge other)) \<or>
        snd (join_filter upper_body (const_upper self) (const_upper other)) \<or>
        snd (join_filter lower_body (const_lower self) (const_lower other)) \<or>
        snd (inter_set (eq_locals self) (eq_locals other)) \<or>
        snd (or_insert_map (cast_origin self) (cast_origin other)) \<or>
        snd (or_insert_map (ne_pair_if_true self) (ne_pair_if_true other)) \<or>
        snd (or_insert_map (eq_pair_if_true self) (eq_pair_if_true other)) \<or>
        snd (inter_set (keys_are_ne self) (keys_are_ne other)) \<or>
        snd (or_insert_map (array_components self) (array_components other)) \<or>
        snd (inter_set (fd_origin self) (fd_origin other)) \<or>
        snd (insert_all (fd_consumed self) (fd_consumed other)) \<or>
        snd (or_flag (thread_spawned self) (thread_spawned other)) \<or>
        snd (insert_all (const_ptr_cast self) (const_ptr_cast other)) \<or>
        snd (insert_all (mul_overflow self) (mul_overflow other)) \<or>
        snd (insert_all (layout_overflow self) (layout_overflow other)) \<or>
        snd (extend_map (field_owned self) (field_owned other)) \<or>
        snd (agree_map (mu_raw_ptr self) (mu_raw_ptr other)) \<or>
        snd (join_filter fields_body (mu_field_inits self) (mu_field_inits other)) \<or>
        snd (agree_map (active_variant self) (active_variant other)) \<or>
        snd (or_insert_map (lt_for self) (lt_for other)) \<or>
        snd (or_insert_map (le_for self) (le_for other)) \<or>
        snd (inter_set (index_bounded_for self) (index_bounded_for other)) \<or>
        snd (inter_set (index_bounded_or_eq_for self) (index_bounded_or_eq_for other))"
  by (simp only: join_with_conv snd_conv)

text \<open>The rank of a state: the sum of the ranks of its containers.\<close>

definition block_rank :: "block_state \<Rightarrow> nat" where
  "block_rank s =
     map_rank heap_height (heap s) +
     map_rank set_height (points_to s) +
     map_rank set_height (local_proto s) +
     map_rank protocol_height (typestate s) +
     flag_rank (untracked_forget_seen s) +
     map_rank init_height (init s) +
     fcard (buf_written s) +
     map_rank absent (lt_facts s) +
     map_rank absent (ge_facts s) +
     map_rank absent (le_facts s) +
     map_rank absent (gt_facts s) +
     fcard (bounded s) +
     fcard (bounded_or_eq s) +
     map_rank set_height (owner_alias s) +
     map_rank present (fn_ptr_targets s) +
     missing (realloced_params s) +
     map_rank absent (ref_base s) +
     map_rank absent (len_of s) +
     map_rank absent (cap_of s) +
     map_rank absent (spare_if_true s) +
     map_rank absent (spare_if_false s) +
     map_rank absent (full_if_true s) +
     map_rank absent (full_if_false s) +
     fcard (has_spare s) +
     fcard (is_full s) +
     fcard (nonzero s) +
     fcard (finite_locals s) +
     map_rank absent (nonzero_if_true s) +
     map_rank absent (nonzero_if_false s) +
     map_rank absent (finite_if_true s) +
     map_rank absent (nan_if_true s) +
     map_rank absent (const_lt s) +
     map_rank absent (const_le s) +
     map_rank absent (const_gt s) +
     map_rank absent (const_ge s) +
     map_rank upper_height (const_upper s) +
     map_rank lower_height (const_lower s) +
     fcard (eq_locals s) +
     map_rank absent (cast_origin s) +
     map_rank absent (ne_pair_if_true s) +
     map_rank absent (eq_pair_if_true s) +
     fcard (keys_are_ne s) +
     map_rank absent (array_components s) +
     fcard (fd_origin s) +
     missing (fd_consumed s) +
     flag_rank (thread_spawned s) +
     missing (const_ptr_cast s) +
     missing (mul_overflow s) +
     missing (layout_overflow s) +
     map_rank set_height (field_owned s) +
     map_rank present (mu_raw_ptr s) +
     map_rank fields_height (mu_field_inits s) +
     map_rank present (active_variant s) +
     map_rank absent (lt_for s) +
     map_rank absent (le_for s) +
     fcard (index_bounded_for s) +
     fcard (index_bounded_or_eq_for s)"

lemma add_of_bool_mono:
  "(a::nat) + of_bool p \<le> b \<Longrightarrow> c + of_bool q \<le> d \<Longrightarrow> (a + c) + of_bool (p \<or> q) \<le> b + d"
  by (cases p; cases q) simp_all

lemma join_with_rank_step:
  "block_rank (fst (join_with self other)) + of_bool (snd (join_with self other)) \<le> block_rank self"
  unfolding block_rank_def join_with_fields join_with_changed disj_assoc [symmetric]
  by (intro add_of_bool_mono domain_rank_step)

lemma join_with_self: "\<not> snd (join_with self self)"
  unfolding join_with_changed by (simp only: domain_self simp_thms)

lemma join_with_absorb: "\<not> snd (join_with (fst (join_with self other)) other)"
  unfolding join_with_changed [of "fst (join_with self other)"] join_with_fields
  by (simp only: domain_absorb simp_thms)

lemma join_with_stable:
  assumes "\<not> snd (join_with self e)"
  shows "\<not> snd (join_with (fst (join_with self other)) e)"
  using assms
  unfolding join_with_changed [of self e] join_with_changed [of "fst (join_with self other)"]
    join_with_fields de_Morgan_disj
  by (elim conjE) (intro conjI domain_stable; assumption)

interpretation block_join: join_domain join_with block_rank
  by unfold_locales
    (rule join_with_self, rule join_with_absorb, erule join_with_stable, rule join_with_rank_step)

end
