(* ===== verification/Path_Predicates.thy ===== *)
theory Path_Predicates
  imports San_Prelude
begin

text \<open>
  The predicates by which the transfer functions recognize library functions from their
  definition paths (\<^verbatim>\<open>analysis/transfer.rs\<close>). A disjunction of
  \<^verbatim>\<open>ends_with\<close> or \<^verbatim>\<open>contains\<close> tests is written as one test against the
  list of its patterns, in the order of the source.
\<close>

section \<open>Definitions\<close>

definition ends_with_any :: "string \<Rightarrow> string list \<Rightarrow> bool" where
  "ends_with_any path ss = list_ex (ends_with path) ss"

definition contains_any :: "string \<Rightarrow> string list \<Rightarrow> bool" where
  "contains_any path ss = list_ex (contains path) ss"

definition is_reallocating_method :: "string \<Rightarrow> bool" where
  "is_reallocating_method path =
     (let on_buffer = contains path ''vec::Vec'' \<or> contains path ''string::String''
      in if \<not> on_buffer then False
         else ends_with_any path
           [''::reserve'', ''::reserve_exact'', ''::try_reserve'', ''::try_reserve_exact'',
            ''::shrink_to_fit'', ''::shrink_to'', ''::into_boxed_slice'', ''::push'', ''::push_str'',
            ''::insert'', ''::append'', ''::extend_from_slice'', ''::resize'', ''::resize_with'',
            ''::extend_from_within'', ''::insert_str''])"

definition is_into_raw :: "string \<Rightarrow> bool" where
  "is_into_raw path =
     (let tail_matches = ends_with_any path
            [''::into_raw'', ''::into_raw_with_allocator'', ''::into_non_null'', ''::into_raw_parts'',
             ''::into_raw_parts_with_alloc''];
          type_matches = contains_any path
            [''::Box::'', ''::Box<'', ''::Arc::'', ''::Arc<'', ''::Rc::'', ''::Rc<'', ''::Vec::'',
             ''::Vec<'', ''::String::'', ''::Thread::'', ''::Weak::'', ''::Weak<'', ''::CString::'',
             ''::CStr::'', ''triomphe''];
          raw_alloc =
            path \<in> {''std::alloc::alloc'', ''core::alloc::alloc'', ''alloc::alloc::alloc'',
                    ''__rust_alloc'', ''std::alloc::alloc_zeroed'', ''core::alloc::alloc_zeroed'',
                    ''alloc::alloc::alloc_zeroed'', ''__rust_alloc_zeroed''} \<or>
            ends_with path ''Allocator::allocate'' \<or> ends_with path ''Allocator::allocate_zeroed''
      in tail_matches \<and> type_matches \<or> raw_alloc)"

definition is_global_ptr_copy_to_second_arg :: "string \<Rightarrow> bool" where
  "is_global_ptr_copy_to_second_arg path =
     ((ends_with path ''ptr::copy'' \<or> ends_with path ''ptr::copy_nonoverlapping'') \<and>
      \<not> contains path ''const_ptr'' \<and> \<not> contains path ''mut_ptr'' \<and> \<not> contains path ''NonNull'')"

definition is_ptr_write_to_first_arg :: "string \<Rightarrow> bool" where
  "is_ptr_write_to_first_arg path =
     (let is_raw_ptr = contains path ''const_ptr'' \<or> contains path ''mut_ptr'';
          is_nonnull = contains path ''NonNull'';
          is_write = ends_with_any path
            [''::write'', ''::write_unaligned'', ''::write_bytes'', ''::copy_from'',
             ''::copy_from_nonoverlapping'']
      in (is_raw_ptr \<or> is_nonnull) \<and> is_write)"

definition is_ptr_pure_read :: "string \<Rightarrow> bool" where
  "is_ptr_pure_read path =
     (let is_raw_ptr = contains path ''const_ptr'' \<or> contains path ''mut_ptr'';
          is_nonnull = contains path ''NonNull'';
          is_predicate = ends_with_any path
            [''::is_null'', ''::is_aligned'', ''::is_aligned_to'', ''::addr'', ''::expose_provenance'',
             ''::as_ptr'', ''::guaranteed_ne'', ''::guaranteed_eq'', ''::align_offset'',
             ''::offset_from'', ''::byte_offset_from'', ''::sub_ptr'']
      in (is_raw_ptr \<or> is_nonnull) \<and> is_predicate)"

definition is_from_raw :: "string \<Rightarrow> bool" where
  "is_from_raw path =
     (let direct = ends_with path ''::from_raw'' \<and> contains_any path
            [''::Box::'', ''::Box<'', ''::Arc::'', ''::Arc<'', ''::Rc::'', ''::Rc<'', ''::Weak::'',
             ''::Weak<'', ''::Thread::'', ''::CString::'', ''::CStr::'', ''triomphe''];
          from_raw_in = ends_with path ''::from_raw_in'' \<and> contains_any path
            [''::Box::'', ''::Box<'', ''::Arc::'', ''::Arc<'', ''::Rc::'', ''::Rc<''];
          from_non_null =
            (ends_with path ''::from_non_null'' \<or> ends_with path ''::from_non_null_in'') \<and>
            (contains path ''::Box::'' \<or> contains path ''::Box<'');
          vec_parts =
            (ends_with path ''::from_raw_parts'' \<or> ends_with path ''::from_raw_parts_in'') \<and>
            (contains path ''::Vec::'' \<or> contains path ''::Vec<'' \<or> contains path ''::String::'');
          triomphe_thin = ends_with path ''::from_raw_slice'' \<and> contains path ''triomphe'';
          raw_dealloc =
            path \<in> {''std::alloc::dealloc'', ''core::alloc::dealloc'', ''alloc::alloc::dealloc'',
                    ''__rust_dealloc''} \<or>
            ends_with path ''Allocator::deallocate''
      in direct \<or> from_raw_in \<or> from_non_null \<or> vec_parts \<or> raw_dealloc \<or> triomphe_thin)"

definition is_mem_forget :: "string \<Rightarrow> bool" where
  "is_mem_forget path = (path \<in> {''std::mem::forget'', ''core::mem::forget''})"

definition is_raw_realloc :: "string \<Rightarrow> bool" where
  "is_raw_realloc path =
     (path \<in> {''std::alloc::realloc'', ''core::alloc::realloc'', ''alloc::alloc::realloc'',
              ''__rust_realloc''} \<or>
      ends_with path ''Allocator::grow'' \<or> ends_with path ''Allocator::grow_zeroed'' \<or>
      ends_with path ''Allocator::shrink'')"

definition is_ptr_read :: "string \<Rightarrow> bool" where
  "is_ptr_read path =
     (ends_with path ''ptr::read'' \<or> ends_with path ''ptr::read_unaligned'' \<or>
      (contains path ''const_ptr'' \<or> contains path ''mut_ptr'' \<or> contains path ''NonNull'') \<and>
        (ends_with path ''::read'' \<or> ends_with path ''::read_unaligned'') \<or>
      contains path ''ManuallyDrop'' \<and>
        (ends_with path ''::new'' \<or> ends_with path ''::take'' \<or> ends_with path ''::into_inner''))"

definition is_epoch_pin :: "string \<Rightarrow> bool" where
  "is_epoch_pin path =
     ((ends_with path ''::pin'' \<or> ends_with path ''::pin_reuse'') \<and> contains path ''epoch'')"

definition is_lock_acquire :: "string \<Rightarrow> bool" where
  "is_lock_acquire path =
     (let is_acquire = ends_with_any path [''::lock'', ''::try_lock'', ''::lock_arc''];
          is_sync = contains_any path
            [''::Mutex::'', ''::Mutex<'', ''::RwLock::'', ''::RwLock<'', ''::ReentrantMutex::'',
             ''::ReentrantMutex<'']
      in is_acquire \<and> is_sync)"

definition is_force_unlock :: "string \<Rightarrow> bool" where
  "is_force_unlock path = ends_with_any path
     [''::force_unlock'', ''::force_unlock_fair'', ''::force_unlock_read'', ''::force_unlock_write'',
      ''::force_unlock_read_fair'', ''::force_unlock_write_fair'']"

definition is_shared_deref :: "string \<Rightarrow> bool" where
  "is_shared_deref path =
     (ends_with_any path [''::deref'', ''::deref_mut'', ''::as_ref''] \<and> contains path ''Shared'')"

definition is_maybe_uninit_init :: "string \<Rightarrow> bool" where
  "is_maybe_uninit_init path =
     (contains path ''MaybeUninit'' \<and> (ends_with path ''::new'' \<or> ends_with path ''::zeroed''))"

definition is_maybe_uninit_write :: "string \<Rightarrow> bool" where
  "is_maybe_uninit_write path = (contains path ''MaybeUninit'' \<and> ends_with path ''::write'')"

definition is_maybe_uninit_as_mut_ptr :: "string \<Rightarrow> bool" where
  "is_maybe_uninit_as_mut_ptr path = (contains path ''MaybeUninit'' \<and> ends_with path ''::as_mut_ptr'')"

definition is_buf_write :: "string \<Rightarrow> bool" where
  "is_buf_write path = ends_with_any path
     [''::put_slice'', ''::put_bytes'', ''::put'', ''::put_u8'', ''::put_i8'',
      ''::put_u16'', ''::put_u16_le'', ''::put_u16_ne'', ''::put_i16'', ''::put_i16_le'', ''::put_i16_ne'',
      ''::put_u32'', ''::put_u32_le'', ''::put_u32_ne'', ''::put_i32'', ''::put_i32_le'', ''::put_i32_ne'',
      ''::put_u64'', ''::put_u64_le'', ''::put_u64_ne'', ''::put_i64'', ''::put_i64_le'', ''::put_i64_ne'',
      ''::put_f32'', ''::put_f32_le'', ''::put_f32_ne'', ''::put_f64'', ''::put_f64_le'', ''::put_f64_ne'']"

definition is_maybe_uninit_assume_init :: "string \<Rightarrow> bool" where
  "is_maybe_uninit_assume_init path = (contains path ''MaybeUninit'' \<and> contains path ''assume_init'')"

definition is_into_raw_fd :: "string \<Rightarrow> bool" where
  "is_into_raw_fd path =
     ends_with_any path [''::into_raw_fd'', ''::into_raw_socket'', ''::into_raw_handle'']"

definition is_from_raw_fd_call :: "string \<Rightarrow> bool" where
  "is_from_raw_fd_call path =
     (ends_with_any path
        [''::from_raw_fd'', ''::from_raw_socket'', ''::from_raw_handle'', ''::from_raw_handle_or_invalid''] \<or>
      ends_with path ''::borrow_raw'' \<and> (contains path ''BorrowedFd'' \<or> contains path ''BorrowedSocket''))"

text \<open>\<^verbatim>\<open>is_owned_buffer_accessor\<close> of \<^verbatim>\<open>lib.rs\<close>.\<close>

definition is_owned_buffer_accessor :: "string \<Rightarrow> bool" where
  "is_owned_buffer_accessor path =
     (let buffer_accessor =
            (ends_with path ''::as_mut_ptr'' \<or> ends_with path ''::as_ptr'') \<and>
            (contains path ''vec::Vec'' \<or> contains path ''[T]'' \<or> contains path ''string::String'');
          nonnull_transform = contains path ''NonNull'' \<and>
            (ends_with path ''::as_ptr'' \<or> ends_with path ''::new_unchecked'' \<or> ends_with path ''::new'' \<or>
             contains path ''::cast'' \<or> ends_with path ''::as_mut'' \<or> ends_with path ''::as_ref'');
          raw_ptr_transform = (contains path ''const_ptr'' \<or> contains path ''mut_ptr'') \<and>
            (ends_with_any path
               [''::offset'', ''::add'', ''::sub'', ''::byte_offset'', ''::byte_add'', ''::byte_sub'',
                ''::wrapping_offset'', ''::wrapping_add'', ''::wrapping_sub'', ''::wrapping_byte_offset'',
                ''::wrapping_byte_add'', ''::wrapping_byte_sub''] \<or>
             contains path ''::cast'');
          slice_build = ends_with path ''slice::from_raw_parts'' \<or> ends_with path ''slice::from_raw_parts_mut'';
          fat_ptr_build = ends_with_any path
            [''ptr::from_raw_parts'', ''ptr::from_raw_parts_mut'', ''ptr::with_metadata_of''];
          raw_waker = ends_with path ''RawWaker::new''
      in buffer_accessor \<or> nonnull_transform \<or> raw_ptr_transform \<or> slice_build \<or> fat_ptr_build \<or> raw_waker)"

end
