(* ===== verification/Transfer_Helpers.thy ===== *)
theory Transfer_Helpers
  imports State_Join Path_Predicates
begin

text \<open>
  The helper functions at the end of \<^verbatim>\<open>analysis/transfer.rs\<close>: reading operands
  and places, owner aliases, capacity facts, type-level facts, and the refinement of the
  state along an edge of a \<^verbatim>\<open>SwitchInt\<close>.

  A function that mutates \<^verbatim>\<open>&mut BlockState\<close> takes the state last and returns the
  new one. A run of independent \<^verbatim>\<open>if let\<close> statements is a list of such functions
  run in order.
\<close>

section \<open>Updating containers\<close>

definition fs_remove :: "'a \<Rightarrow> 'a fset \<Rightarrow> 'a fset" where
  "fs_remove x A = A |-| {|x|}"

text \<open>\<^verbatim>\<open>if b { set.insert(x) } else { set.remove(&x) }\<close>.\<close>

definition fs_set :: "bool \<Rightarrow> 'a \<Rightarrow> 'a fset \<Rightarrow> 'a fset" where
  "fs_set b x A = (if b then finsert x A else fs_remove x A)"

text \<open>\<^verbatim>\<open>if let Some(v) = o { map.insert(k, v) } else { map.remove(&k) }\<close>.\<close>

definition fm_put :: "'k \<Rightarrow> 'v option \<Rightarrow> ('k, 'v) fmap \<Rightarrow> ('k, 'v) fmap" where
  "fm_put k x m = (case x of None \<Rightarrow> fmdrop k m | Some v \<Rightarrow> fmupd k v m)"

text \<open>Removing the entry of \<open>src\<close> and giving it to \<open>dst\<close>.\<close>

definition fm_move :: "'k \<Rightarrow> 'k \<Rightarrow> ('k, 'v) fmap \<Rightarrow> ('k, 'v) fmap" where
  "fm_move src dst m = fm_put dst (fmlookup m src) (fmdrop src m)"

definition fs_move :: "'a \<Rightarrow> 'a \<Rightarrow> 'a fset \<Rightarrow> 'a fset" where
  "fs_move src dst A = fs_set (src |\<in>| A) dst (fs_remove src A)"

text \<open>A set that is not empty.\<close>

definition some_objs :: "'a fset option \<Rightarrow> 'a fset option" where
  "some_objs = filter_opt (\<lambda>objs. objs \<noteq> {||})"

definition run_steps :: "('s \<Rightarrow> 's) list \<Rightarrow> 's \<Rightarrow> 's" where
  "run_steps fs s = fold (\<lambda>f. f) fs s"

text \<open>\<^verbatim>\<open>if let Some(&v) = state.field.get(&l) { .. }\<close>.\<close>

definition on_fact ::
  "(block_state \<Rightarrow> (local, 'v) fmap) \<Rightarrow> local \<Rightarrow> ('v \<Rightarrow> block_state \<Rightarrow> block_state) \<Rightarrow> block_state \<Rightarrow> block_state" where
  "on_fact field l f s = (case fmlookup (field s) l of None \<Rightarrow> s | Some v \<Rightarrow> f v s)"

definition lower_upper_bound :: "local \<Rightarrow> u64 \<Rightarrow> block_state \<Rightarrow> block_state" where
  "lower_upper_bound l ub s =
     (let e = (case fmlookup (const_upper s) l of None \<Rightarrow> u64_max | Some e \<Rightarrow> e)
      in s\<lparr>const_upper := fmupd l (min e ub) (const_upper s)\<rparr>)"

definition raise_lower_bound :: "local \<Rightarrow> u64 \<Rightarrow> block_state \<Rightarrow> block_state" where
  "raise_lower_bound l lb s =
     (let e = (case fmlookup (const_lower s) l of None \<Rightarrow> 0 | Some e \<Rightarrow> e)
      in s\<lparr>const_lower := fmupd l (max e lb) (const_lower s)\<rparr>)"

section \<open>Operands and places\<close>

fun operand_local :: "operand \<Rightarrow> local option" where
  "operand_local (Move p) = (if projection p = [] then Some (place_local p) else None)"
| "operand_local (Copy p) = (if projection p = [] then Some (place_local p) else None)"
| "operand_local (Constant _) = None"

fun const_u64 :: "operand \<Rightarrow> u64 option" where
  "const_u64 (Constant (ScalarInt bits)) =
     (if bits \<le> 0xFFFFFFFFFFFFFFFF then Some (ucast bits) else None)"
| "const_u64 _ = None"

fun rvalue_local :: "rvalue \<Rightarrow> local option" where
  "rvalue_local (Use op) = operand_local op"
| "rvalue_local _ = None"

definition first_arg_local :: "operand list \<Rightarrow> local option" where
  "first_arg_local args = (case args of [] \<Rightarrow> None | a # _ \<Rightarrow> operand_local a)"

definition first_arg_base_local :: "operand list \<Rightarrow> local option" where
  "first_arg_base_local args =
     (case args of [] \<Rightarrow> None | a # _ \<Rightarrow> map_option place_local (operand_place a))"

fun field_of :: "projection_elem \<Rightarrow> field_idx option" where
  "field_of (Field f) = Some f"
| "field_of _ = None"

definition last_simple_field_idx :: "projection_elem list \<Rightarrow> field_idx option" where
  "last_simple_field_idx proj =
     (if list_ex (\<lambda>(i, e). 0 < i \<and> e = Deref) (enumerate 0 proj) then None
      else find_map field_of (rev proj))"

fun union_of :: "ty \<Rightarrow> adt_def option" where
  "union_of (TyAdt adt _) = (if adt_kind adt = UnionKind then Some adt else None)"
| "union_of _ = None"

definition direct_union_field_access ::
  "place \<Rightarrow> body \<Rightarrow> tyctxt \<Rightarrow> (local \<times> field_idx) option" where
  "direct_union_field_access place body tcx =
     (case (case local_decls body (place_local place) of
              TyAdt adt args \<Rightarrow> union_of (TyAdt adt args)
            | TyRawPtr inner _ \<Rightarrow> union_of inner
            | TyRef inner _ \<Rightarrow> union_of inner
            | _ \<Rightarrow> None) of
        None \<Rightarrow> None
      | Some union_adt \<Rightarrow>
          if crate_name tcx (krate (adt_did union_adt)) \<in> {''core'', ''alloc'', ''std''} then None
          else case last_simple_field_idx (projection place) of
                 None \<Rightarrow> None
               | Some field_idx \<Rightarrow> Some (place_local place, field_idx))"

definition is_guard_type :: "tyctxt \<Rightarrow> ty \<Rightarrow> bool" where
  "is_guard_type tcx ty =
     (let check_adt = (\<lambda>adt. contains (item_name tcx (adt_did adt)) ''Guard'')
      in case ty of
           TyAdt adt _ \<Rightarrow> check_adt adt
         | TyRef inner _ \<Rightarrow> (case inner of TyAdt adt _ \<Rightarrow> check_adt adt | _ \<Rightarrow> False)
         | _ \<Rightarrow> False)"

definition is_param :: "body \<Rightarrow> local \<Rightarrow> bool" where
  "is_param body l = (1 \<le> unat l \<and> unat l \<le> arg_count body)"

definition is_reference_param :: "body \<Rightarrow> local \<Rightarrow> bool" where
  "is_reference_param body l =
     (1 \<le> unat l \<and> unat l \<le> arg_count body \<and> is_ref_ty (local_decls body l))"

fun is_mutable_ref_ty :: "ty \<Rightarrow> bool" where
  "is_mutable_ref_ty (TyRef _ Mut) = True"
| "is_mutable_ref_ty _ = False"

section \<open>Owner aliases and function pointers\<close>

definition owners_to_invalidate ::
  "block_state \<Rightarrow> body \<Rightarrow> nat option \<Rightarrow> nat \<times> operand \<Rightarrow> local fset \<Rightarrow> local fset" where
  "owners_to_invalidate s body skip_arg = (\<lambda>(i, arg) acc.
     if Some i = skip_arg then acc
     else case operand_place arg of
            None \<Rightarrow> acc
          | Some p \<Rightarrow>
              if \<not> is_mutable_ref_ty (local_decls body (place_local p)) then acc
              else let l = place_local p;
                       acc = acc |\<union>| fset_of_list (owners_of s l)
                   in if fBex (fmran (owner_alias s)) (\<lambda>os. l |\<in>| os) then finsert l acc else acc)"

definition invalidate_owner_args ::
  "body \<Rightarrow> operand list \<Rightarrow> nat option \<Rightarrow> block_state \<Rightarrow> block_state" where
  "invalidate_owner_args body args skip_arg s =
     fold invalidate_owner
       (sorted_list_of_fset (fold (owners_to_invalidate s body skip_arg) (enumerate 0 args) {||})) s"

fun alias_source :: "rvalue \<Rightarrow> place option" where
  "alias_source (Use op) = operand_place op"
| "alias_source (Ref _ p) = Some p"
| "alias_source (RawPtr _ p) = Some p"
| "alias_source (Cast _ op _) = operand_place op"
| "alias_source _ = None"

fun is_plain_scalar_ty :: "ty \<Rightarrow> bool" where
  "is_plain_scalar_ty (TyInt _) = True"
| "is_plain_scalar_ty (TyUint _) = True"
| "is_plain_scalar_ty (TyFloat _) = True"
| "is_plain_scalar_ty TyBool = True"
| "is_plain_scalar_ty TyChar = True"
| "is_plain_scalar_ty _ = False"

definition place_owners :: "body \<Rightarrow> place \<Rightarrow> block_state \<Rightarrow> local fset" where
  "place_owners body place s =
     (let root = place_local place;
          has_deref = list_ex (\<lambda>e. e = Deref) (projection place);
          has_field = list_ex (\<lambda>e. field_of e \<noteq> None) (projection place)
      in case fmlookup (owner_alias s) root of
           Some existing \<Rightarrow> existing
         | None \<Rightarrow>
             if has_deref \<and> is_reference_param body root then {|root|}
             else if has_field \<and> is_param body root then {|root|}
             else {||})"

definition update_owner_alias :: "body \<Rightarrow> local \<Rightarrow> rvalue \<Rightarrow> block_state \<Rightarrow> block_state" where
  "update_owner_alias body dst rvalue s =
     (case rvalue of
        Aggregate _ operands \<Rightarrow>
          let owners = fold (\<lambda>op owners. case operand_local op of
                               None \<Rightarrow> owners
                             | Some l \<Rightarrow> owners |\<union>| fset_of_list (owners_of s l)) operands {||}
          in s\<lparr>owner_alias := fm_put dst (some_objs (Some owners)) (owner_alias s)\<rparr>
      | _ \<Rightarrow>
          case alias_source rvalue of
            None \<Rightarrow> s\<lparr>owner_alias := fmdrop dst (owner_alias s)\<rparr>
          | Some place \<Rightarrow>
              if is_plain_scalar_ty (local_decls body dst)
              then s\<lparr>owner_alias := fmdrop dst (owner_alias s)\<rparr>
              else s\<lparr>owner_alias := fm_put dst (some_objs (Some (place_owners body place s))) (owner_alias s)\<rparr>)"

definition update_fn_ptr_target :: "local \<Rightarrow> rvalue \<Rightarrow> block_state \<Rightarrow> block_state" where
  "update_fn_ptr_target dst rvalue s =
     (case rvalue of
        Cast (PointerCoercion ReifyFnPointer) op _ \<Rightarrow>
          s\<lparr>fn_ptr_targets := fm_put dst (map_option fst (const_fn_def op)) (fn_ptr_targets s)\<rparr>
      | Use op \<Rightarrow>
          (case operand_local op of
             Some src \<Rightarrow> s\<lparr>fn_ptr_targets := fm_put dst (fmlookup (fn_ptr_targets s) src) (fn_ptr_targets s)\<rparr>
           | None \<Rightarrow> s\<lparr>fn_ptr_targets := fmdrop dst (fn_ptr_targets s)\<rparr>)
      | _ \<Rightarrow> s\<lparr>fn_ptr_targets := fmdrop dst (fn_ptr_targets s)\<rparr>)"

definition escape_raw_ptr_args :: "body \<Rightarrow> operand list \<Rightarrow> block_state \<Rightarrow> block_state" where
  "escape_raw_ptr_args body args =
     fold (\<lambda>arg s. case operand_local arg of
             None \<Rightarrow> s
           | Some l \<Rightarrow>
               if is_raw_ptr_ty (local_decls body l) \<or> fmlookup (points_to s) l \<noteq> None
               then escape_local l s else s) args"

section \<open>Capacity facts\<close>

definition record_spare ::
  "local \<Rightarrow> operand \<Rightarrow> operand \<Rightarrow> bool \<Rightarrow> bool \<Rightarrow> block_state \<Rightarrow> block_state" where
  "record_spare dst op1 op2 on_true cap_first s =
     (case (operand_local op1, operand_local op2) of
        (Some a, Some b) \<Rightarrow>
          let (len_l, cap_l) = (if cap_first then (b, a) else (a, b))
          in (case (fmlookup (len_of s) len_l, fmlookup (cap_of s) cap_l) of
                (Some cl, Some cc) \<Rightarrow>
                  if cl \<noteq> cc then s
                  else if on_true then s\<lparr>spare_if_true := fmupd dst cl (spare_if_true s)\<rparr>
                  else s\<lparr>spare_if_false := fmupd dst cl (spare_if_false s)\<rparr>
              | _ \<Rightarrow> s)
      | _ \<Rightarrow> s)"

definition full_collection :: "block_state \<Rightarrow> local \<Rightarrow> local \<Rightarrow> local option" where
  "full_collection s a b =
     (let swapped = (case (fmlookup (cap_of s) a, fmlookup (len_of s) b) of
                       (Some cc, Some cl) \<Rightarrow> if cl = cc then Some cl else None
                     | _ \<Rightarrow> None)
      in case (fmlookup (len_of s) a, fmlookup (cap_of s) b) of
           (Some cl, Some cc) \<Rightarrow> if cl = cc then Some cl else swapped
         | _ \<Rightarrow> swapped)"

definition record_full :: "local \<Rightarrow> operand \<Rightarrow> operand \<Rightarrow> bool \<Rightarrow> block_state \<Rightarrow> block_state" where
  "record_full dst op1 op2 on_true s =
     (case (operand_local op1, operand_local op2) of
        (Some a, Some b) \<Rightarrow>
          (case full_collection s a b of
             None \<Rightarrow> s
           | Some coll \<Rightarrow>
               if on_true then s\<lparr>full_if_true := fmupd dst coll (full_if_true s)\<rparr>
               else s\<lparr>full_if_false := fmupd dst coll (full_if_false s)\<rparr>)
      | _ \<Rightarrow> s)"

section \<open>Type-level facts\<close>

fun uint_type_max :: "ty \<Rightarrow> u64 option" where
  "uint_type_max TyBool = Some 1"
| "uint_type_max TyChar = Some 0x10FFFF"
| "uint_type_max (TyUint U8) = Some 0xFF"
| "uint_type_max (TyUint U16) = Some 0xFFFF"
| "uint_type_max (TyUint U32) = Some 0xFFFFFFFF"
| "uint_type_max (TyUint U64) = Some u64_max"
| "uint_type_max (TyUint Usize) = Some u64_max"
| "uint_type_max _ = None"

definition ty_is_nonzero :: "tyctxt \<Rightarrow> ty \<Rightarrow> bool" where
  "ty_is_nonzero tcx ty =
     (case ty of
        TyAdt adt _ \<Rightarrow>
          let path = def_path_str tcx (adt_did adt)
          in contains path ''NonZero'' \<or> contains path ''NonNull''
      | _ \<Rightarrow> False)"

definition enforce_type_facts :: "tyctxt \<Rightarrow> local \<Rightarrow> ty \<Rightarrow> block_state \<Rightarrow> block_state" where
  "enforce_type_facts tcx l ty s =
     (let s = (if ty_is_nonzero tcx ty then s\<lparr>nonzero := finsert l (nonzero s)\<rparr> else s)
      in case uint_type_max ty of None \<Rightarrow> s | Some max_val \<Rightarrow> lower_upper_bound l max_val s)"

definition args_iter :: "body \<Rightarrow> local list" where
  "args_iter body = map word_of_nat [1 ..< arg_count body + 1]"

definition seed_param_type_facts :: "tyctxt \<Rightarrow> body \<Rightarrow> block_state \<Rightarrow> block_state" where
  "seed_param_type_facts tcx body =
     fold (\<lambda>l. enforce_type_facts tcx l (local_decls body l)) (args_iter body)"

section \<open>Refinement along a switch edge\<close>

definition refine_true_edge :: "local \<Rightarrow> block_state \<Rightarrow> block_state" where
  "refine_true_edge d = run_steps
     [on_fact lt_facts d (\<lambda>lhs s. s\<lparr>bounded := finsert lhs (bounded s)\<rparr>),
      on_fact le_facts d (\<lambda>lhs s. s\<lparr>bounded_or_eq := finsert lhs (bounded_or_eq s)\<rparr>),
      on_fact lt_for d (\<lambda>p s. s\<lparr>index_bounded_for := finsert p (index_bounded_for s)\<rparr>),
      on_fact le_for d (\<lambda>p s. s\<lparr>index_bounded_or_eq_for := finsert p (index_bounded_or_eq_for s)\<rparr>),
      on_fact spare_if_true d (\<lambda>coll s. s\<lparr>has_spare := finsert coll (has_spare s)\<rparr>),
      on_fact full_if_true d (\<lambda>coll s. s\<lparr>is_full := finsert coll (is_full s)\<rparr>),
      on_fact nonzero_if_true d (\<lambda>l s. s\<lparr>nonzero := finsert l (nonzero s)\<rparr>),
      on_fact finite_if_true d (\<lambda>l s. s\<lparr>finite_locals := finsert l (finite_locals s)\<rparr>),
      on_fact const_lt d (\<lambda>(l, k). lower_upper_bound l (saturating_sub1 k)),
      on_fact const_le d (\<lambda>(l, k). lower_upper_bound l k),
      on_fact const_gt d (\<lambda>(l, k). raise_lower_bound l (saturating_add1 k)),
      on_fact const_ge d (\<lambda>(l, k). raise_lower_bound l k),
      on_fact ne_pair_if_true d (\<lambda>(a, b) s. s\<lparr>keys_are_ne := finsert (canon a b) (keys_are_ne s)\<rparr>),
      on_fact eq_pair_if_true d (\<lambda>(a, b) s. s\<lparr>eq_locals := finsert (canon a b) (eq_locals s)\<rparr>)]"

definition refine_false_edge :: "local \<Rightarrow> block_state \<Rightarrow> block_state" where
  "refine_false_edge d = run_steps
     [on_fact ge_facts d (\<lambda>lhs s. s\<lparr>bounded := finsert lhs (bounded s)\<rparr>),
      on_fact gt_facts d (\<lambda>lhs s. s\<lparr>bounded_or_eq := finsert lhs (bounded_or_eq s)\<rparr>),
      on_fact spare_if_false d (\<lambda>coll s. s\<lparr>has_spare := finsert coll (has_spare s)\<rparr>),
      on_fact full_if_false d (\<lambda>coll s. s\<lparr>is_full := finsert coll (is_full s)\<rparr>),
      on_fact nonzero_if_false d (\<lambda>l s. s\<lparr>nonzero := finsert l (nonzero s)\<rparr>),
      on_fact nan_if_true d (\<lambda>l s. s\<lparr>finite_locals := finsert l (finite_locals s)\<rparr>),
      on_fact const_lt d (\<lambda>(l, k). raise_lower_bound l k),
      on_fact const_le d (\<lambda>(l, k). raise_lower_bound l (saturating_add1 k)),
      on_fact const_gt d (\<lambda>(l, k). lower_upper_bound l k),
      on_fact const_ge d (\<lambda>(l, k). lower_upper_bound l (saturating_sub1 k)),
      on_fact eq_pair_if_true d (\<lambda>(a, b) s. s\<lparr>keys_are_ne := finsert (canon a b) (keys_are_ne s)\<rparr>),
      on_fact ne_pair_if_true d (\<lambda>(a, b) s. s\<lparr>eq_locals := finsert (canon a b) (eq_locals s)\<rparr>)]"

definition zero_target :: "switch_targets \<Rightarrow> basic_block option" where
  "zero_target targets = map_option snd (find (\<lambda>(v, _). v = 0) (switch_iter targets))"

definition refine_switch_targets ::
  "local \<Rightarrow> switch_targets \<Rightarrow> basic_block \<Rightarrow> block_state \<Rightarrow> block_state" where
  "refine_switch_targets discr_local targets succ s =
     (if succ = switch_otherwise targets \<and> Some succ \<noteq> zero_target targets
      then refine_true_edge discr_local s
      else if Some succ = zero_target targets \<and> succ \<noteq> switch_otherwise targets
      then refine_false_edge discr_local s
      else s)"

fun refine_switchint_edge :: "terminator \<Rightarrow> basic_block \<Rightarrow> block_state \<Rightarrow> block_state" where
  "refine_switchint_edge (Terminator (SwitchInt discr targets) _) succ s =
     (case operand_local discr of
        None \<Rightarrow> s
      | Some discr_local \<Rightarrow> refine_switch_targets discr_local targets succ s)"
| "refine_switchint_edge _ succ s = s"

end
