(* ===== verification/Transfer_Statement.thy ===== *)
theory Transfer_Statement
  imports Transfer_Helpers
begin

text \<open>
  \<^verbatim>\<open>apply_statement\<close> of \<^verbatim>\<open>analysis/transfer.rs\<close>: the effect of an
  assignment on the state. Each arm of the \<^verbatim>\<open>match\<close> on the rvalue is a
  definition of its own; \<open>assign_rvalue\<close> tries them in the order of the source.
\<close>

section \<open>Clearing and copying facts\<close>

definition set_points_to :: "local \<Rightarrow> object_id fset option \<Rightarrow> block_state \<Rightarrow> block_state" where
  "set_points_to d objs s = s\<lparr>points_to := fm_put d objs (points_to s)\<rparr>"

definition clear_cmp_facts :: "local \<Rightarrow> block_state \<Rightarrow> block_state" where
  "clear_cmp_facts d s =
     s\<lparr>lt_facts := fmdrop d (lt_facts s), ge_facts := fmdrop d (ge_facts s),
       le_facts := fmdrop d (le_facts s), gt_facts := fmdrop d (gt_facts s)\<rparr>"

definition clear_local_facts :: "local \<Rightarrow> block_state \<Rightarrow> block_state" where
  "clear_local_facts d s =
     s\<lparr>local_proto := fmdrop d (local_proto s), init := fmdrop d (init s),
       buf_written := fs_remove d (buf_written s),
       lt_facts := fmdrop d (lt_facts s), ge_facts := fmdrop d (ge_facts s),
       le_facts := fmdrop d (le_facts s), gt_facts := fmdrop d (gt_facts s),
       bounded := fs_remove d (bounded s), bounded_or_eq := fs_remove d (bounded_or_eq s)\<rparr>"

definition without :: "local \<Rightarrow> (local \<times> local) fset \<Rightarrow> (local \<times> local) fset" where
  "without d A = ffilter (\<lambda>(a, b). a \<noteq> d \<and> b \<noteq> d) A"

definition clear_dst_facts :: "local \<Rightarrow> block_state \<Rightarrow> block_state" where
  "clear_dst_facts d s =
     clear_field_owned_for d
       (s\<lparr>ref_base := fmdrop d (ref_base s), len_of := fmdrop d (len_of s), cap_of := fmdrop d (cap_of s),
          spare_if_true := fmdrop d (spare_if_true s), spare_if_false := fmdrop d (spare_if_false s),
          has_spare := fs_remove d (has_spare s),
          full_if_true := fmdrop d (full_if_true s), full_if_false := fmdrop d (full_if_false s),
          is_full := fs_remove d (is_full s),
          nonzero := fs_remove d (nonzero s),
          nonzero_if_true := fmdrop d (nonzero_if_true s), nonzero_if_false := fmdrop d (nonzero_if_false s),
          finite_locals := fs_remove d (finite_locals s),
          finite_if_true := fmdrop d (finite_if_true s), nan_if_true := fmdrop d (nan_if_true s),
          const_upper := fmdrop d (const_upper s), const_lower := fmdrop d (const_lower s),
          const_lt := fmdrop d (const_lt s), const_le := fmdrop d (const_le s),
          const_gt := fmdrop d (const_gt s), const_ge := fmdrop d (const_ge s),
          fd_origin := fs_remove d (fd_origin s), fd_consumed := fs_remove d (fd_consumed s),
          array_components := fmdrop d (array_components s),
          ne_pair_if_true := fmdrop d (ne_pair_if_true s), eq_pair_if_true := fmdrop d (eq_pair_if_true s),
          keys_are_ne := without d (keys_are_ne s), eq_locals := without d (eq_locals s),
          cast_origin := fmdrop d (cast_origin s),
          lt_for := fmdrop d (lt_for s), le_for := fmdrop d (le_for s),
          index_bounded_for := without d (index_bounded_for s),
          index_bounded_or_eq_for := without d (index_bounded_or_eq_for s),
          const_ptr_cast := fs_remove d (const_ptr_cast s),
          mul_overflow := fs_remove d (mul_overflow s), layout_overflow := fs_remove d (layout_overflow s),
          active_variant := fmdrop d (active_variant s),
          mu_raw_ptr := fmdrop d (mu_raw_ptr s), mu_field_inits := fmdrop d (mu_field_inits s)\<rparr>)"

text \<open>The macros \<^verbatim>\<open>propagate_set!\<close> and \<^verbatim>\<open>propagate_map_u64!\<close>.\<close>

definition propagate_set :: "bool \<Rightarrow> local \<Rightarrow> local \<Rightarrow> local fset \<Rightarrow> local fset" where
  "propagate_set is_move src dst A =
     (if src |\<in>| A then (let A = finsert dst A in if is_move then fs_remove src A else A) else A)"

definition propagate_map :: "bool \<Rightarrow> local \<Rightarrow> local \<Rightarrow> (local, 'v) fmap \<Rightarrow> (local, 'v) fmap" where
  "propagate_map is_move src dst m =
     (case fmlookup m src of
        None \<Rightarrow> m
      | Some v \<Rightarrow> let m = fmupd dst v m in if is_move then fmdrop src m else m)"

definition propagate_or_remove :: "bool \<Rightarrow> local \<Rightarrow> local \<Rightarrow> (local, 'v) fmap \<Rightarrow> (local, 'v) fmap" where
  "propagate_or_remove is_move src dst m =
     (case fmlookup m src of
        None \<Rightarrow> fmdrop dst m
      | Some v \<Rightarrow> let m = fmupd dst v m in if is_move then fmdrop src m else m)"

definition propagate_use :: "bool \<Rightarrow> local \<Rightarrow> local \<Rightarrow> block_state \<Rightarrow> block_state" where
  "propagate_use is_move src dst s =
     s\<lparr>has_spare := propagate_set is_move src dst (has_spare s),
       is_full := propagate_set is_move src dst (is_full s),
       nonzero := propagate_set is_move src dst (nonzero s),
       finite_locals := propagate_set is_move src dst (finite_locals s),
       fd_origin := propagate_set is_move src dst (fd_origin s),
       fd_consumed := propagate_set is_move src dst (fd_consumed s),
       mul_overflow := propagate_set is_move src dst (mul_overflow s),
       layout_overflow := propagate_set is_move src dst (layout_overflow s),
       active_variant := propagate_or_remove is_move src dst (active_variant s),
       mu_raw_ptr := propagate_or_remove is_move src dst (mu_raw_ptr s),
       mu_field_inits := propagate_or_remove is_move src dst (mu_field_inits s),
       cast_origin := propagate_map is_move src dst (cast_origin s),
       array_components := propagate_map is_move src dst (array_components s),
       const_upper := propagate_map is_move src dst (const_upper s),
       const_lower := propagate_map is_move src dst (const_lower s)\<rparr>"

section \<open>Stores through a projection\<close>

definition store_field :: "local \<Rightarrow> field_idx \<Rightarrow> local \<Rightarrow> block_state \<Rightarrow> block_state" where
  "store_field base field_idx src s =
     s\<lparr>field_owned := fm_put (base, field_idx) (some_objs (fmlookup (points_to s) src)) (field_owned s),
       points_to := fmdrop src (points_to s),
       local_proto := fmdrop src (local_proto s), owner_alias := fmdrop src (owner_alias s)\<rparr>"

definition store_source :: "place \<Rightarrow> rvalue \<Rightarrow> block_state \<Rightarrow> block_state" where
  "store_source dst rvalue s =
     (let is_return_place = (place_local dst = 0);
          has_deref = list_ex (\<lambda>e. e = Deref) (projection dst)
      in if is_return_place \<and> \<not> has_deref then
           (case rvalue_local rvalue of
              None \<Rightarrow> s
            | Some src_local \<Rightarrow>
                (case fmlookup (points_to s) src_local of
                   None \<Rightarrow> s
                 | Some objs \<Rightarrow>
                     if objs = {||} then s
                     else s\<lparr>points_to := fmupd 0 (entry_or_default (points_to s) 0 |\<union>| objs) (points_to s)\<rparr>))
         else
           (case rvalue_local rvalue of
              None \<Rightarrow> s
            | Some src \<Rightarrow>
                (case last_simple_field_idx (projection dst) of
                   Some field_idx \<Rightarrow> store_field (place_local dst) field_idx src s
                 | None \<Rightarrow> escape_local src s)))"

definition store_union_field :: "tyctxt \<Rightarrow> body \<Rightarrow> place \<Rightarrow> block_state \<Rightarrow> block_state" where
  "store_union_field tcx body dst s =
     (case direct_union_field_access dst body tcx of
        None \<Rightarrow> s
      | Some (union_local, field_idx) \<Rightarrow>
          s\<lparr>active_variant := fmupd union_local field_idx (active_variant s)\<rparr>)"

fun struct_fields_behind_ptr :: "ty \<Rightarrow> nat option" where
  "struct_fields_behind_ptr (TyRawPtr (TyAdt adt _) _) =
     (if adt_kind adt = StructKind \<and> 0 < adt_fields adt then Some (adt_fields adt) else None)"
| "struct_fields_behind_ptr _ = None"

definition store_maybe_uninit_field :: "body \<Rightarrow> place \<Rightarrow> block_state \<Rightarrow> block_state" where
  "store_maybe_uninit_field body dst s =
     (case (last_simple_field_idx (projection dst), fmlookup (mu_raw_ptr s) (place_local dst),
            struct_fields_behind_ptr (local_decls body (place_local dst))) of
        (Some field_i, Some mu_local, Some n_fields) \<Rightarrow>
          let written = finsert field_i (entry_or_default (mu_field_inits s) mu_local);
              s = s\<lparr>mu_field_inits := fmupd mu_local written (mu_field_inits s)\<rparr>
          in if n_fields \<le> fcard written then s\<lparr>init := fmupd mu_local Initialized (init s)\<rparr> else s
      | _ \<Rightarrow> s)"

definition store_projection :: "tyctxt \<Rightarrow> body \<Rightarrow> place \<Rightarrow> rvalue \<Rightarrow> block_state \<Rightarrow> block_state" where
  "store_projection tcx body dst rvalue s =
     store_maybe_uninit_field body dst
       (store_union_field tcx body dst
         (store_source dst rvalue s))"

section \<open>Moves, copies and field reads\<close>

text \<open>
  The arms for moves and copies also test whether the destination has a dereference; it
  has no projection at this point, so that branch is never taken.
\<close>

definition assign_move :: "place \<Rightarrow> local \<Rightarrow> block_state \<Rightarrow> block_state" where
  "assign_move dst src s =
     (let d = place_local dst;
          objs = entry_or_default (points_to s) src;
          protos = entry_or_default (local_proto s) src;
          has_deref = list_ex (\<lambda>e. e = Deref) (projection dst);
          s = s\<lparr>points_to := fmdrop src (points_to s), local_proto := fmdrop src (local_proto s)\<rparr>;
          s = (if projection dst \<noteq> [] \<and> has_deref
               then s\<lparr>heap := fold escape_object (sorted_list_of_fset objs) (heap s),
                      points_to := fmdrop d (points_to s)\<rparr>
               else set_points_to d (some_objs (Some objs)) s)
      in s\<lparr>local_proto := fm_put d (some_objs (Some protos)) (local_proto s),
           init := fm_move src d (init s),
           buf_written := fs_move src d (buf_written s),
           lt_facts := fm_move src d (lt_facts s), ge_facts := fm_move src d (ge_facts s),
           le_facts := fm_move src d (le_facts s), gt_facts := fm_move src d (gt_facts s),
           bounded := fs_move src d (bounded s), bounded_or_eq := fs_move src d (bounded_or_eq s),
           const_ptr_cast := fs_move src d (const_ptr_cast s)\<rparr>)"

definition assign_copy :: "place \<Rightarrow> local \<Rightarrow> block_state \<Rightarrow> block_state" where
  "assign_copy dst src s =
     (let d = place_local dst;
          has_deref = list_ex (\<lambda>e. e = Deref) (projection dst);
          s = (if projection dst \<noteq> [] \<and> has_deref
               then s\<lparr>heap := fold escape_object (objects_for s src) (heap s),
                      points_to := fmdrop d (points_to s)\<rparr>
               else set_points_to d (fmlookup (points_to s) src) s)
      in s\<lparr>local_proto := fm_put d (fmlookup (local_proto s) src) (local_proto s),
           init := fm_put d (fmlookup (init s) src) (init s),
           buf_written := fs_set (src |\<in>| buf_written s) d (buf_written s),
           lt_facts := fm_put d (fmlookup (lt_facts s) src) (lt_facts s),
           ge_facts := fm_put d (fmlookup (ge_facts s) src) (ge_facts s),
           le_facts := fm_put d (fmlookup (le_facts s) src) (le_facts s),
           gt_facts := fm_put d (fmlookup (gt_facts s) src) (gt_facts s),
           bounded := fs_set (src |\<in>| bounded s) d (bounded s),
           bounded_or_eq := fs_set (src |\<in>| bounded_or_eq s) d (bounded_or_eq s),
           const_ptr_cast := fs_set (src |\<in>| const_ptr_cast s) d (const_ptr_cast s)\<rparr>)"

text \<open>At most one dereference, in front.\<close>

fun is_field_path :: "projection_elem list \<Rightarrow> bool" where
  "is_field_path [] = False"
| "is_field_path (Deref # es) = list_all (\<lambda>e. e \<noteq> Deref) es"
| "is_field_path es = list_all (\<lambda>e. e \<noteq> Deref) es"

definition field_objects :: "place \<Rightarrow> block_state \<Rightarrow> object_id fset option" where
  "field_objects src s =
     (case fmlookup (points_to s) (place_local src) of
        Some objs \<Rightarrow> Some objs
      | None \<Rightarrow>
          (case last_simple_field_idx (projection src) of
             Some field_idx \<Rightarrow> fmlookup (field_owned s) (place_local src, field_idx)
           | None \<Rightarrow> None))"

definition assign_field_read :: "local \<Rightarrow> place \<Rightarrow> block_state \<Rightarrow> block_state" where
  "assign_field_read d src s =
     (let s = clear_local_facts d (set_points_to d (field_objects src s) s)
      in s\<lparr>mul_overflow := fs_set (place_local src |\<in>| mul_overflow s) d (mul_overflow s)\<rparr>)"

text \<open>The three arms for references and raw addresses have the same body.\<close>

definition assign_address_of :: "local \<Rightarrow> place \<Rightarrow> block_state \<Rightarrow> block_state" where
  "assign_address_of d src s =
     clear_local_facts d (set_points_to d (some_objs (fmlookup (points_to s) (place_local src))) s)"

section \<open>Aggregates and casts\<close>

definition aggregate_objects :: "operand list \<Rightarrow> block_state \<Rightarrow> object_id fset" where
  "aggregate_objects operands s =
     fold (\<lambda>op objs. case Option.bind (operand_local op) (fmlookup (points_to s)) of
             None \<Rightarrow> objs
           | Some op_objs \<Rightarrow> objs |\<union>| op_objs) operands {||}"

fun all_locals :: "operand list \<Rightarrow> local list option" where
  "all_locals [] = Some []"
| "all_locals (op # ops) =
     (case operand_local op of
        None \<Rightarrow> None
      | Some l \<Rightarrow> map_option (Cons l) (all_locals ops))"

fun is_array_or_tuple :: "aggregate_kind \<Rightarrow> bool" where
  "is_array_or_tuple (AggArray _) = True"
| "is_array_or_tuple AggTuple = True"
| "is_array_or_tuple _ = False"

definition assign_aggregate ::
  "tyctxt \<Rightarrow> local \<Rightarrow> aggregate_kind \<Rightarrow> operand list \<Rightarrow> block_state \<Rightarrow> block_state" where
  "assign_aggregate tcx d kind operands s =
     (let s = clear_local_facts d (set_points_to d (some_objs (Some (aggregate_objects operands s))) s);
          s = (case kind of
                 AggAdt def (Some active_field) \<Rightarrow>
                   if crate_name tcx (krate def) \<in> {''core'', ''alloc'', ''std''} then s
                   else s\<lparr>active_variant := fmupd d active_field (active_variant s)\<rparr>
               | _ \<Rightarrow> s)
      in if is_array_or_tuple kind
         then (case all_locals operands of
                 Some comps \<Rightarrow> if comps = [] then s else s\<lparr>array_components := fmupd d comps (array_components s)\<rparr>
               | None \<Rightarrow> s)
         else s)"

fun is_mut_ptr_ty :: "ty \<Rightarrow> bool" where
  "is_mut_ptr_ty (TyRawPtr _ Mut) = True"
| "is_mut_ptr_ty _ = False"

fun is_const_ptr_ty :: "ty \<Rightarrow> bool" where
  "is_const_ptr_ty (TyRawPtr _ Immut) = True"
| "is_const_ptr_ty _ = False"

definition assign_ptr_cast :: "body \<Rightarrow> local \<Rightarrow> local \<Rightarrow> ty \<Rightarrow> block_state \<Rightarrow> block_state" where
  "assign_ptr_cast body d src dst_ptr_ty s =
     (let s = set_points_to d (fmlookup (points_to s) src) s;
          s = (if is_mut_ptr_ty dst_ptr_ty \<and>
                  (is_const_ptr_ty (local_decls body src) \<or> src |\<in>| const_ptr_cast s)
               then s\<lparr>const_ptr_cast := finsert d (const_ptr_cast s)\<rparr> else s)
      in clear_local_facts d s)"

definition assign_numeric_cast :: "cast_kind \<Rightarrow> local \<Rightarrow> local \<Rightarrow> ty \<Rightarrow> block_state \<Rightarrow> block_state" where
  "assign_numeric_cast kind d src cast_dst_ty s =
     (let s = s\<lparr>cast_origin := fmupd d src (cast_origin s)\<rparr>
      in if kind = IntToInt
         then let s = (case uint_type_max cast_dst_ty of None \<Rightarrow> s | Some max_val \<Rightarrow> lower_upper_bound d max_val s);
                  s = (if src |\<in>| nonzero s then s\<lparr>nonzero := finsert d (nonzero s)\<rparr> else s)
              in (case fmlookup (const_upper s) src of None \<Rightarrow> s | Some src_ub \<Rightarrow> lower_upper_bound d src_ub s)
         else s)"

section \<open>Binary operations\<close>

definition both :: "'a option \<Rightarrow> 'b option \<Rightarrow> ('a \<times> 'b) option" where
  "both x y = (case (x, y) of (Some a, Some b) \<Rightarrow> Some (a, b) | _ \<Rightarrow> None)"

text \<open>\<^verbatim>\<open>if let Some(v) = o { .. }\<close>.\<close>

definition if_some :: "'a option \<Rightarrow> ('a \<Rightarrow> 's \<Rightarrow> 's) \<Rightarrow> 's \<Rightarrow> 's" where
  "if_some x f s = (case x of None \<Rightarrow> s | Some v \<Rightarrow> f v s)"

text \<open>The collection of which the right operand is the length.\<close>

definition len_collection :: "operand \<Rightarrow> block_state \<Rightarrow> local option" where
  "len_collection op s =
     Option.bind (operand_local op) (\<lambda>rhs.
       or_else (fmlookup (len_of s) rhs)
               (Option.bind (fmlookup (ref_base s) rhs) (fmlookup (len_of s))))"

definition binop_lt :: "local \<Rightarrow> operand \<Rightarrow> operand \<Rightarrow> block_state \<Rightarrow> block_state" where
  "binop_lt d op1 op2 = run_steps
     [\<lambda>s. s\<lparr>lt_for := fm_put d (both (operand_local op1) (len_collection op2 s)) (lt_for s),
            lt_facts := fm_put d (operand_local op1) (lt_facts s),
            ge_facts := fmdrop d (ge_facts s), le_facts := fmdrop d (le_facts s), gt_facts := fmdrop d (gt_facts s)\<rparr>,
      record_spare d op1 op2 True False,
      if_some (both (operand_local op1) (const_u64 op2)) (\<lambda>(l, k) s. s\<lparr>const_lt := fmupd d (l, k) (const_lt s)\<rparr>),
      if_some (both (const_u64 op1) (operand_local op2)) (\<lambda>(k, l) s.
        let s = s\<lparr>const_gt := fmupd d (l, k) (const_gt s)\<rparr>
        in if k = 0 then s\<lparr>nonzero_if_true := fmupd d l (nonzero_if_true s)\<rparr> else s)]"

definition binop_ge :: "local \<Rightarrow> operand \<Rightarrow> operand \<Rightarrow> block_state \<Rightarrow> block_state" where
  "binop_ge d op1 op2 = run_steps
     [\<lambda>s. s\<lparr>ge_facts := fm_put d (operand_local op1) (ge_facts s),
            lt_facts := fmdrop d (lt_facts s), le_facts := fmdrop d (le_facts s), gt_facts := fmdrop d (gt_facts s)\<rparr>,
      record_spare d op1 op2 False False,
      if_some (both (operand_local op1) (const_u64 op2)) (\<lambda>(l, k) s.
        let s = s\<lparr>const_ge := fmupd d (l, k) (const_ge s)\<rparr>
        in if 1 \<le> k then s\<lparr>nonzero_if_true := fmupd d l (nonzero_if_true s)\<rparr> else s),
      if_some (both (const_u64 op1) (operand_local op2)) (\<lambda>(k, l) s. s\<lparr>const_le := fmupd d (l, k) (const_le s)\<rparr>)]"

definition binop_le :: "local \<Rightarrow> operand \<Rightarrow> operand \<Rightarrow> block_state \<Rightarrow> block_state" where
  "binop_le d op1 op2 = run_steps
     [\<lambda>s. s\<lparr>le_for := fm_put d (both (operand_local op1) (len_collection op2 s)) (le_for s),
            le_facts := fm_put d (operand_local op1) (le_facts s),
            lt_facts := fmdrop d (lt_facts s), ge_facts := fmdrop d (ge_facts s), gt_facts := fmdrop d (gt_facts s)\<rparr>,
      record_spare d op1 op2 False True,
      if_some (both (operand_local op1) (const_u64 op2)) (\<lambda>(l, k) s. s\<lparr>const_le := fmupd d (l, k) (const_le s)\<rparr>),
      if_some (both (const_u64 op1) (operand_local op2)) (\<lambda>(k, l) s.
        let s = s\<lparr>const_ge := fmupd d (l, k) (const_ge s)\<rparr>
        in if 1 \<le> k then s\<lparr>nonzero_if_true := fmupd d l (nonzero_if_true s)\<rparr> else s)]"

definition binop_gt :: "local \<Rightarrow> operand \<Rightarrow> operand \<Rightarrow> block_state \<Rightarrow> block_state" where
  "binop_gt d op1 op2 = run_steps
     [\<lambda>s. s\<lparr>gt_facts := fm_put d (operand_local op1) (gt_facts s),
            lt_facts := fmdrop d (lt_facts s), ge_facts := fmdrop d (ge_facts s), le_facts := fmdrop d (le_facts s)\<rparr>,
      record_spare d op1 op2 True True,
      if_some (both (operand_local op1) (const_u64 op2)) (\<lambda>(l, k) s.
        let s = s\<lparr>const_gt := fmupd d (l, k) (const_gt s)\<rparr>
        in if k = 0 then s\<lparr>nonzero_if_true := fmupd d l (nonzero_if_true s)\<rparr> else s),
      if_some (both (const_u64 op1) (operand_local op2)) (\<lambda>(k, l) s. s\<lparr>const_lt := fmupd d (l, k) (const_lt s)\<rparr>)]"

text \<open>The local compared with the constant zero, on either side.\<close>

definition compared_with_zero :: "operand \<Rightarrow> operand \<Rightarrow> local option" where
  "compared_with_zero op1 op2 =
     or_else (map_option fst (both (operand_local op1) (filter_opt (\<lambda>k. k = 0) (const_u64 op2))))
             (Option.bind (filter_opt (\<lambda>k. k = 0) (const_u64 op1)) (\<lambda>_. operand_local op2))"

definition binop_eq :: "local \<Rightarrow> operand \<Rightarrow> operand \<Rightarrow> block_state \<Rightarrow> block_state" where
  "binop_eq d op1 op2 = run_steps
     [clear_cmp_facts d,
      record_full d op1 op2 True,
      if_some (compared_with_zero op1 op2) (\<lambda>l s. s\<lparr>nonzero_if_false := fmupd d l (nonzero_if_false s)\<rparr>),
      if_some (both (operand_local op1) (operand_local op2))
        (\<lambda>p s. s\<lparr>eq_pair_if_true := fmupd d p (eq_pair_if_true s)\<rparr>)]"

definition binop_ne :: "local \<Rightarrow> operand \<Rightarrow> operand \<Rightarrow> block_state \<Rightarrow> block_state" where
  "binop_ne d op1 op2 = run_steps
     [clear_cmp_facts d,
      record_full d op1 op2 False,
      if_some (compared_with_zero op1 op2) (\<lambda>l s. s\<lparr>nonzero_if_true := fmupd d l (nonzero_if_true s)\<rparr>),
      if_some (both (operand_local op1) (operand_local op2))
        (\<lambda>p s. s\<lparr>ne_pair_if_true := fmupd d p (ne_pair_if_true s)\<rparr>)]"

definition operand_nonzero :: "operand \<Rightarrow> block_state \<Rightarrow> bool" where
  "operand_nonzero op s =
     ((case operand_local op of None \<Rightarrow> False | Some l \<Rightarrow> l |\<in>| nonzero s) \<or>
      (case const_u64 op of None \<Rightarrow> False | Some v \<Rightarrow> v \<noteq> 0))"

definition binop_bitor :: "local \<Rightarrow> operand \<Rightarrow> operand \<Rightarrow> block_state \<Rightarrow> block_state" where
  "binop_bitor d op1 op2 s =
     clear_cmp_facts d
       (if operand_nonzero op1 s \<or> operand_nonzero op2 s
        then s\<lparr>nonzero := finsert d (nonzero s)\<rparr> else s)"

definition local_upper :: "operand \<Rightarrow> block_state \<Rightarrow> u64 option" where
  "local_upper op s = Option.bind (operand_local op) (fmlookup (const_upper s))"

fun min_of :: "u64 option list \<Rightarrow> u64 option" where
  "min_of [] = None"
| "min_of (None # xs) = min_of xs"
| "min_of (Some x # xs) = (case min_of xs of None \<Rightarrow> Some x | Some y \<Rightarrow> Some (min x y))"

definition binop_bitand :: "local \<Rightarrow> operand \<Rightarrow> operand \<Rightarrow> block_state \<Rightarrow> block_state" where
  "binop_bitand d op1 op2 s =
     (let const_ub = or_else (const_u64 op2) (const_u64 op1);
          best_ub = min_of [const_ub, local_upper op1 s, local_upper op2 s]
      in clear_cmp_facts d (if_some best_ub (lower_upper_bound d) s))"

definition binop_rem :: "local \<Rightarrow> operand \<Rightarrow> operand \<Rightarrow> block_state \<Rightarrow> block_state" where
  "binop_rem d op1 op2 s =
     clear_cmp_facts d
       (if_some (filter_opt (\<lambda>k. 0 < k) (const_u64 op2))
          (\<lambda>divisor. lower_upper_bound d (saturating_sub1 divisor)) s)"

definition binop_shr :: "local \<Rightarrow> operand \<Rightarrow> operand \<Rightarrow> block_state \<Rightarrow> block_state" where
  "binop_shr d op1 op2 s =
     clear_cmp_facts d
       (if_some (const_u64 op2) (\<lambda>shift s.
          let src_ub = (case local_upper op1 s of None \<Rightarrow> u64_max | Some u \<Rightarrow> u);
              shifted_ub = (case checked_shr src_ub (ucast shift) of None \<Rightarrow> 0 | Some u \<Rightarrow> u)
          in lower_upper_bound d shifted_ub s) s)"

definition operand_upper :: "operand \<Rightarrow> block_state \<Rightarrow> u64 option" where
  "operand_upper op s = or_else (const_u64 op) (local_upper op s)"

text \<open>
  The bound and the overflow flag of a sum or product. The intermediate
  \<^verbatim>\<open>u128\<close> holds both exactly, so the integers are used for it.
\<close>

definition arith_facts ::
  "(int \<Rightarrow> int \<Rightarrow> int) \<Rightarrow> local \<Rightarrow> operand \<Rightarrow> operand \<Rightarrow> block_state \<Rightarrow> block_state" where
  "arith_facts f d op1 op2 s =
     (case (operand_upper op1 s, operand_upper op2 s) of
        (Some a, Some b) \<Rightarrow>
          let r = f (uint a) (uint b);
              s = lower_upper_bound d (clamp_u64 r) s
          in s\<lparr>mul_overflow := fs_set (isize_max < r) d (mul_overflow s)\<rparr>
      | _ \<Rightarrow> s\<lparr>mul_overflow := finsert d (mul_overflow s)\<rparr>)"

definition binop_add :: "body \<Rightarrow> local \<Rightarrow> operand \<Rightarrow> operand \<Rightarrow> block_state \<Rightarrow> block_state" where
  "binop_add body d op1 op2 s =
     clear_cmp_facts d
       (if is_int_ty (local_decls body d) then arith_facts (+) d op1 op2 s else s)"

definition overflow_elem_ty :: "ty \<Rightarrow> ty" where
  "overflow_elem_ty dst_ty = (case dst_ty of TyTuple (f # _) \<Rightarrow> f | _ \<Rightarrow> dst_ty)"

definition binop_add_with_overflow ::
  "body \<Rightarrow> local \<Rightarrow> operand \<Rightarrow> operand \<Rightarrow> block_state \<Rightarrow> block_state" where
  "binop_add_with_overflow body d op1 op2 s =
     (if is_int_ty (overflow_elem_ty (local_decls body d)) then arith_facts (+) d op1 op2 s else s)"

definition binop_points_to :: "bin_op \<Rightarrow> operand \<Rightarrow> operand \<Rightarrow> block_state \<Rightarrow> object_id fset option" where
  "binop_points_to op op1 op2 s =
     (if op \<in> {Offset, Add, Sub}
      then or_else (Option.bind (operand_local op1) (fmlookup (points_to s)))
                   (Option.bind (operand_local op2) (fmlookup (points_to s)))
      else None)"

definition clear_binop_dst :: "local \<Rightarrow> block_state \<Rightarrow> block_state" where
  "clear_binop_dst d s =
     s\<lparr>local_proto := fmdrop d (local_proto s), init := fmdrop d (init s),
       buf_written := fs_remove d (buf_written s),
       bounded := fs_remove d (bounded s), bounded_or_eq := fs_remove d (bounded_or_eq s)\<rparr>"

fun binop_facts :: "body \<Rightarrow> local \<Rightarrow> bin_op \<Rightarrow> operand \<Rightarrow> operand \<Rightarrow> block_state \<Rightarrow> block_state" where
  "binop_facts body d Lt op1 op2 s = binop_lt d op1 op2 s"
| "binop_facts body d Ge op1 op2 s = binop_ge d op1 op2 s"
| "binop_facts body d Le op1 op2 s = binop_le d op1 op2 s"
| "binop_facts body d Gt op1 op2 s = binop_gt d op1 op2 s"
| "binop_facts body d Eq op1 op2 s = binop_eq d op1 op2 s"
| "binop_facts body d Ne op1 op2 s = binop_ne d op1 op2 s"
| "binop_facts body d BitOr op1 op2 s = binop_bitor d op1 op2 s"
| "binop_facts body d BitAnd op1 op2 s = binop_bitand d op1 op2 s"
| "binop_facts body d Rem op1 op2 s = binop_rem d op1 op2 s"
| "binop_facts body d Shr op1 op2 s = binop_shr d op1 op2 s"
| "binop_facts body d Mul op1 op2 s = clear_cmp_facts d (arith_facts (*) d op1 op2 s)"
| "binop_facts body d Add op1 op2 s = binop_add body d op1 op2 s"
| "binop_facts body d MulWithOverflow op1 op2 s = arith_facts (*) d op1 op2 s"
| "binop_facts body d AddWithOverflow op1 op2 s = binop_add_with_overflow body d op1 op2 s"
| "binop_facts body d _ op1 op2 s = clear_cmp_facts d s"

definition assign_binary_op ::
  "body \<Rightarrow> local \<Rightarrow> bin_op \<Rightarrow> operand \<Rightarrow> operand \<Rightarrow> block_state \<Rightarrow> block_state" where
  "assign_binary_op body d op op1 op2 s =
     binop_facts body d op op1 op2
       (clear_binop_dst d (set_points_to d (binop_points_to op op1 op2 s) s))"

section \<open>Constants and everything else\<close>

definition assign_constant :: "local \<Rightarrow> mir_const \<Rightarrow> block_state \<Rightarrow> block_state" where
  "assign_constant d c s =
     (let s = (case const_u64 (Constant c) of
                 None \<Rightarrow> s
               | Some val \<Rightarrow>
                   s\<lparr>nonzero := fs_set (val \<noteq> 0) d (nonzero s),
                     const_upper := fmupd d val (const_upper s),
                     const_lower := fmupd d val (const_lower s)\<rparr>)
      in clear_local_facts d (set_points_to d None s))"

definition clear_moved_field :: "place \<Rightarrow> block_state \<Rightarrow> block_state" where
  "clear_moved_field src s =
     clear_local_facts (place_local src) (set_points_to (place_local src) None
       (case last_simple_field_idx (projection src) of
          Some field_idx \<Rightarrow> s\<lparr>field_owned := fmdrop (place_local src, field_idx) (field_owned s)\<rparr>
        | None \<Rightarrow> s))"

fun assign_unknown :: "local \<Rightarrow> rvalue \<Rightarrow> block_state \<Rightarrow> block_state" where
  "assign_unknown d (Use (Move src)) s =
     (if projection src \<noteq> [] then clear_moved_field src (clear_local_facts d (set_points_to d None s))
      else clear_local_facts d (set_points_to d None s))"
| "assign_unknown d _ s = clear_local_facts d (set_points_to d None s)"

section \<open>Assignments\<close>

fun assign_rvalue :: "tyctxt \<Rightarrow> body \<Rightarrow> place \<Rightarrow> rvalue \<Rightarrow> block_state \<Rightarrow> block_state" where
  "assign_rvalue tcx body dst (Use (Move src)) s =
     (if projection src = [] then assign_move dst (place_local src) s
      else if is_field_path (projection src) then assign_field_read (place_local dst) src s
      else assign_unknown (place_local dst) (Use (Move src)) s)"
| "assign_rvalue tcx body dst (Use (Copy src)) s =
     (if projection src = [] then assign_copy dst (place_local src) s
      else if is_field_path (projection src) then assign_field_read (place_local dst) src s
      else assign_unknown (place_local dst) (Use (Copy src)) s)"
| "assign_rvalue tcx body dst (Use (Constant c)) s = assign_constant (place_local dst) c s"
| "assign_rvalue tcx body dst (Ref m place) s =
     (if projection place = [] then assign_address_of (place_local dst) place s
      else assign_unknown (place_local dst) (Ref m place) s)"
| "assign_rvalue tcx body dst (RawPtr m place) s =
     (if projection place = [Deref] \<or> projection place = [] then assign_address_of (place_local dst) place s
      else assign_unknown (place_local dst) (RawPtr m place) s)"
| "assign_rvalue tcx body dst (Aggregate kind operands) s = assign_aggregate tcx (place_local dst) kind operands s"
| "assign_rvalue tcx body dst (Cast kind op ty) s =
     (case operand_local op of
        None \<Rightarrow> assign_unknown (place_local dst) (Cast kind op ty) s
      | Some src \<Rightarrow>
          if kind \<in> {PtrToPtr, Transmute} then assign_ptr_cast body (place_local dst) src ty s
          else if kind \<in> {IntToInt, IntToFloat, FloatToInt, FloatToFloat}
          then assign_numeric_cast kind (place_local dst) src ty s
          else assign_unknown (place_local dst) (Cast kind op ty) s)"
| "assign_rvalue tcx body dst (BinaryOp op op1 op2) s = assign_binary_op body (place_local dst) op op1 op2 s"
| "assign_rvalue tcx body dst rvalue s = assign_unknown (place_local dst) rvalue s"

fun record_ref_base :: "local \<Rightarrow> rvalue \<Rightarrow> block_state \<Rightarrow> block_state" where
  "record_ref_base d (Ref _ place) s =
     (if projection place = [] \<or> projection place = [Deref]
      then s\<lparr>ref_base := fmupd d (place_local place) (ref_base s)\<rparr> else s)"
| "record_ref_base d _ s = s"

fun record_use :: "local \<Rightarrow> rvalue \<Rightarrow> block_state \<Rightarrow> block_state" where
  "record_use d (Use (Move src)) s =
     (if projection src = [] then propagate_use True (place_local src) d s else s)"
| "record_use d (Use (Copy src)) s =
     (if projection src = [] then propagate_use False (place_local src) d s else s)"
| "record_use d _ s = s"

fun record_slice_len :: "local \<Rightarrow> rvalue \<Rightarrow> block_state \<Rightarrow> block_state" where
  "record_slice_len d (UnaryOp PtrMetadata op) s =
     (case operand_local op of
        Some l \<Rightarrow> s\<lparr>len_of := fmupd d (deref_base s l) (len_of s)\<rparr>
      | None \<Rightarrow> s)"
| "record_slice_len d _ s = s"

definition assign_local :: "tyctxt \<Rightarrow> body \<Rightarrow> place \<Rightarrow> rvalue \<Rightarrow> block_state \<Rightarrow> block_state" where
  "assign_local tcx body dst rvalue = run_steps
     [update_owner_alias body (place_local dst) rvalue,
      update_fn_ptr_target (place_local dst) rvalue,
      clear_dst_facts (place_local dst),
      record_ref_base (place_local dst) rvalue,
      record_use (place_local dst) rvalue,
      record_slice_len (place_local dst) rvalue,
      assign_rvalue tcx body dst rvalue,
      enforce_type_facts tcx (place_local dst) (local_decls body (place_local dst))]"

fun apply_statement :: "tyctxt \<Rightarrow> body \<Rightarrow> statement \<Rightarrow> block_state \<Rightarrow> block_state" where
  "apply_statement tcx body (Statement (Assign dst rvalue) _) s =
     (if projection dst \<noteq> []
      then store_projection tcx body dst rvalue (invalidate_owner (place_local dst) s)
      else assign_local tcx body dst rvalue (invalidate_owner (place_local dst) s))"
| "apply_statement tcx body (Statement (CopyNonOverlapping _ _) _) s = s"
| "apply_statement tcx body (Statement OtherStatement _) s = s"

end
