(* ===== verification/Summary.thy ===== *)
theory Summary
  imports Transfer_Helpers
begin

text \<open>
  Function summaries (\<^verbatim>\<open>analysis/summary.rs\<close>): what they record, the state a
  body is seeded with to compute one, and how one is applied at a call site. Extracting a
  summary needs the fixpoint and is in \<open>Summary_Extract\<close>.
\<close>

section \<open>Definitions\<close>

definition SUMMARY_BASE :: u32 where
  "SUMMARY_BASE = 0x80000000"

datatype param_heap_effect = EffectNone | EffectReconstituted | EffectEscaped

record fn_summary =
  param_effects :: "(nat \<times> param_heap_effect) list"
  returns_raw_owned :: bool
  returns_alias_of_param :: "nat option"
  returns_ptr_of_param :: "nat option"
  reallocs_param :: "nat option"

type_synonym summary_map = "(def_id, fn_summary) fmap"

definition seed_param :: "body \<Rightarrow> nat \<Rightarrow> block_state \<Rightarrow> block_state" where
  "seed_param body param_idx s =
     (let l = word_of_nat (param_idx + 1)
      in if is_raw_ptr_ty (local_decls body l)
         then let obj_id = SUMMARY_BASE + word_of_nat param_idx
              in s\<lparr>points_to := fmupd l {|obj_id|} (points_to s), heap := fmupd obj_id RawOwned (heap s)\<rparr>
         else s)"

definition summary_initial_state :: "body \<Rightarrow> block_state" where
  "summary_initial_state body = fold (seed_param body) [0 ..< arg_count body] block_state_default"

definition nth_arg_local :: "operand list \<Rightarrow> nat \<Rightarrow> local option" where
  "nth_arg_local args idx = (if idx < length args then first_arg_local [args ! idx] else None)"

text \<open>Taking ownership of the raw-owned objects among those given.\<close>

definition reconstitute_object ::
  "object_id \<Rightarrow> (object_id, heap_state) fmap \<Rightarrow> (object_id, heap_state) fmap" where
  "reconstitute_object oid h =
     (if fmlookup h oid = Some RawOwned then fmupd oid Reconstituted h else h)"

definition reconstitute_objects :: "local \<Rightarrow> block_state \<Rightarrow> block_state" where
  "reconstitute_objects l s = s\<lparr>heap := fold reconstitute_object (objects_for s l) (heap s)\<rparr>"

definition apply_param_effect ::
  "operand list \<Rightarrow> nat \<times> param_heap_effect \<Rightarrow> block_state \<Rightarrow> block_state" where
  "apply_param_effect args = (\<lambda>(param_idx, effect) s.
     case nth_arg_local args param_idx of
       None \<Rightarrow> s
     | Some arg_local \<Rightarrow>
         (case effect of
            EffectReconstituted \<Rightarrow>
              let s = reconstitute_objects arg_local s
              in s\<lparr>local_proto := fmdrop arg_local (local_proto s)\<rparr>
          | EffectEscaped \<Rightarrow> escape_local arg_local s
          | EffectNone \<Rightarrow> s))"

definition seed_raw_owned :: "local \<Rightarrow> basic_block \<Rightarrow> block_state \<Rightarrow> block_state" where
  "seed_raw_owned dest bb s =
     (let obj_id = word_of_nat bb
      in s\<lparr>points_to := fmupd dest {|obj_id|} (points_to s), heap := fmupd obj_id RawOwned (heap s)\<rparr>)"

text \<open>\<^verbatim>\<open>if let Some(objs) = points_to.get(&arg) { if !objs.is_empty() { insert } }\<close>.\<close>

definition inherit_points_to :: "local \<Rightarrow> local \<Rightarrow> block_state \<Rightarrow> block_state" where
  "inherit_points_to dest arg s =
     (case some_objs (fmlookup (points_to s) arg) of
        None \<Rightarrow> s
      | Some objs \<Rightarrow> s\<lparr>points_to := fmupd dest objs (points_to s)\<rparr>)"

definition alias_owners :: "body \<Rightarrow> local \<Rightarrow> block_state \<Rightarrow> local list" where
  "alias_owners body arg s =
     (let arg_ty = local_decls body arg
      in if is_reference_param body arg then [arg]
         else if is_ref_ty arg_ty \<or> is_raw_ptr_ty arg_ty then owners_of s arg
         else [])"

definition apply_return_alias ::
  "body \<Rightarrow> operand list \<Rightarrow> local \<Rightarrow> nat \<Rightarrow> block_state \<Rightarrow> block_state" where
  "apply_return_alias body args dest n s =
     (case nth_arg_local args n of
        None \<Rightarrow> s
      | Some arg \<Rightarrow>
          let s = fold (set_owner_alias dest) (alias_owners body arg s) s
          in if \<not> is_raw_ptr_ty (local_decls body dest) then inherit_points_to dest arg s else s)"

definition apply_return_value ::
  "body \<Rightarrow> operand list \<Rightarrow> local \<Rightarrow> basic_block \<Rightarrow> fn_summary \<Rightarrow> block_state \<Rightarrow> block_state" where
  "apply_return_value body args dest call_bb summary s =
     (let s = (if returns_raw_owned summary then seed_raw_owned dest call_bb s
               else s\<lparr>points_to := fmdrop dest (points_to s), local_proto := fmdrop dest (local_proto s)\<rparr>);
          s = s\<lparr>owner_alias := fmdrop dest (owner_alias s)\<rparr>;
          s = (case returns_alias_of_param summary of
                 None \<Rightarrow> s
               | Some n \<Rightarrow> apply_return_alias body args dest n s)
      in case returns_ptr_of_param summary of
           None \<Rightarrow> s
         | Some n \<Rightarrow>
             (case nth_arg_local args n of None \<Rightarrow> s | Some arg \<Rightarrow> inherit_points_to dest arg s))"

definition apply_fn_summary ::
  "body \<Rightarrow> operand list \<Rightarrow> local \<Rightarrow> basic_block \<Rightarrow> fn_summary \<Rightarrow> block_state \<Rightarrow> block_state" where
  "apply_fn_summary body args dest call_bb summary s =
     apply_return_value body args dest call_bb summary
       (fold (apply_param_effect args) (param_effects summary) s)"

end
