(* ===== verification/Transfer_Terminator.thy ===== *)
theory Transfer_Terminator
  imports Transfer_Statement Summary
begin

text \<open>
  \<^verbatim>\<open>apply_terminator\<close> of \<^verbatim>\<open>analysis/transfer.rs\<close>: the effect of calls,
  assertions and drops. A call first resolves the callee and invalidates aliases, then
  clears the destination and dispatches on the path of the callee; each branch of that
  dispatch is a definition.
\<close>

section \<open>Resolving the callee\<close>

definition REALLOC_BASE :: u32 where
  "REALLOC_BASE = 0x40000000"

definition resolve_trait_method :: "tyctxt \<Rightarrow> body \<Rightarrow> def_id \<Rightarrow> generic_args \<Rightarrow> def_id" where
  "resolve_trait_method tcx body did substs =
     (if trait_of_assoc tcx did \<noteq> None
      then (case try_resolve tcx (source_def_id body) did substs of
              Some (Some (InstanceItem d)) \<Rightarrow> d
            | _ \<Rightarrow> did)
      else did)"

definition resolve_callee :: "tyctxt \<Rightarrow> body \<Rightarrow> operand \<Rightarrow> block_state \<Rightarrow> def_id option" where
  "resolve_callee tcx body func s =
     or_else (map_option (\<lambda>(did, substs). resolve_trait_method tcx body did substs) (const_fn_def func))
             (Option.bind (operand_local func) (fmlookup (fn_ptr_targets s)))"

definition callee_summary :: "summary_map \<Rightarrow> def_id option \<Rightarrow> fn_summary option" where
  "callee_summary summaries callee = Option.bind callee (fmlookup summaries)"

section \<open>Before the dispatch\<close>

definition realloc_receiver ::
  "tyctxt \<Rightarrow> summary_map \<Rightarrow> def_id option \<Rightarrow> operand list \<Rightarrow> local option" where
  "realloc_receiver tcx summaries callee args =
     (if (case callee of None \<Rightarrow> False | Some d \<Rightarrow> is_reallocating_method (def_path_str tcx d))
      then first_arg_local args
      else case Option.bind (callee_summary summaries callee) reallocs_param of
             Some n \<Rightarrow> nth_arg_local args n
           | None \<Rightarrow> None)"

definition mark_stale :: "local \<Rightarrow> block_state \<Rightarrow> block_state" where
  "mark_stale p s =
     (let obj = REALLOC_BASE + p
      in s\<lparr>heap := fmupd obj MaybeFreed (heap s), points_to := fmupd p {|obj|} (points_to s),
           owner_alias := fmdrop p (owner_alias s)\<rparr>)"

definition buffer_owners :: "local \<Rightarrow> block_state \<Rightarrow> local list" where
  "buffer_owners recv s = (let aliased = owners_of s recv in if aliased = [] then [recv] else aliased)"

definition stale_handles :: "body \<Rightarrow> local list \<Rightarrow> block_state \<Rightarrow> local list" where
  "stale_handles body owners s =
     map fst (filter (\<lambda>(p, os). list_ex (\<lambda>o'. o' |\<in>| os) owners \<and> \<not> is_ref_ty (local_decls body p))
       (sorted_list_of_fmap (owner_alias s)))"

definition apply_realloc :: "body \<Rightarrow> local \<Rightarrow> block_state \<Rightarrow> block_state" where
  "apply_realloc body recv s =
     (let owners = buffer_owners recv s;
          s = fold (\<lambda>o' s. if is_param body o' then s\<lparr>realloced_params := finsert o' (realloced_params s)\<rparr> else s)
                owners s
      in fold mark_stale (stale_handles body owners s) s)"

fun may_mutate_through :: "ty \<Rightarrow> bool" where
  "may_mutate_through (TyRef _ Mut) = True"
| "may_mutate_through (TyRawPtr _ Mut) = True"
| "may_mutate_through _ = False"

definition drop_capacity_proofs :: "body \<Rightarrow> operand list \<Rightarrow> block_state \<Rightarrow> block_state" where
  "drop_capacity_proofs body args =
     fold (\<lambda>arg s. case operand_local arg of
             None \<Rightarrow> s
           | Some l \<Rightarrow>
               if may_mutate_through (local_decls body l)
               then let base = deref_base s l
                    in s\<lparr>has_spare := fs_remove base (has_spare s), is_full := fs_remove base (is_full s)\<rparr>
               else s) args"

definition before_dispatch ::
  "tyctxt \<Rightarrow> body \<Rightarrow> summary_map \<Rightarrow> def_id option \<Rightarrow> operand list \<Rightarrow> local \<Rightarrow> block_state \<Rightarrow> block_state" where
  "before_dispatch tcx body summaries callee args dest = run_steps
     [if_some (realloc_receiver tcx summaries callee args) (apply_realloc body),
      invalidate_owner_args body args
        (Option.bind (callee_summary summaries callee) returns_alias_of_param),
      invalidate_owner dest,
      \<lambda>s. s\<lparr>owner_alias := fmdrop dest (owner_alias s)\<rparr>,
      drop_capacity_proofs body args]"

section \<open>The destination\<close>

definition clear_call_dest :: "local \<Rightarrow> block_state \<Rightarrow> block_state" where
  "clear_call_dest d s =
     s\<lparr>ref_base := fmdrop d (ref_base s), len_of := fmdrop d (len_of s), cap_of := fmdrop d (cap_of s),
       spare_if_true := fmdrop d (spare_if_true s), spare_if_false := fmdrop d (spare_if_false s),
       has_spare := fs_remove d (has_spare s),
       full_if_true := fmdrop d (full_if_true s), full_if_false := fmdrop d (full_if_false s),
       is_full := fs_remove d (is_full s),
       nonzero := fs_remove d (nonzero s),
       nonzero_if_true := fmdrop d (nonzero_if_true s), nonzero_if_false := fmdrop d (nonzero_if_false s),
       finite_locals := fs_remove d (finite_locals s),
       finite_if_true := fmdrop d (finite_if_true s), nan_if_true := fmdrop d (nan_if_true s),
       const_upper := fmdrop d (const_upper s), const_lower := fmdrop d (const_lower s),
       const_lt := fmdrop d (const_lt s), const_le := fmdrop d (const_le s),
       const_gt := fmdrop d (const_gt s), const_ge := fmdrop d (const_ge s),
       fd_origin := fs_remove d (fd_origin s), fd_consumed := fs_remove d (fd_consumed s),
       array_components := fmdrop d (array_components s),
       ne_pair_if_true := fmdrop d (ne_pair_if_true s), eq_pair_if_true := fmdrop d (eq_pair_if_true s),
       keys_are_ne := without d (keys_are_ne s), eq_locals := without d (eq_locals s),
       cast_origin := fmdrop d (cast_origin s),
       lt_for := fmdrop d (lt_for s), le_for := fmdrop d (le_for s),
       index_bounded_for := without d (index_bounded_for s),
       index_bounded_or_eq_for := without d (index_bounded_or_eq_for s)\<rparr>"

definition record_len_cap :: "string \<Rightarrow> operand list \<Rightarrow> local \<Rightarrow> block_state \<Rightarrow> block_state" where
  "record_len_cap path args dest s =
     (if ends_with path ''::len'' \<or> ends_with path ''::capacity''
      then (case first_arg_local args of
              None \<Rightarrow> s
            | Some recv \<Rightarrow>
                let coll = deref_base s recv
                in if ends_with path ''::capacity'' then s\<lparr>cap_of := fmupd dest coll (cap_of s)\<rparr>
                   else s\<lparr>len_of := fmupd dest coll (len_of s)\<rparr>)
      else s)"

definition record_float_test :: "string \<Rightarrow> operand list \<Rightarrow> local \<Rightarrow> block_state \<Rightarrow> block_state" where
  "record_float_test path args dest s =
     (if ends_with path ''::is_nan''
      then (case first_arg_local args of
              None \<Rightarrow> s | Some recv \<Rightarrow> s\<lparr>nan_if_true := fmupd dest recv (nan_if_true s)\<rparr>)
      else if ends_with path ''::is_finite''
      then (case first_arg_local args of
              None \<Rightarrow> s | Some recv \<Rightarrow> s\<lparr>finite_if_true := fmupd dest recv (finite_if_true s)\<rparr>)
      else s)"

definition record_deref :: "string \<Rightarrow> operand list \<Rightarrow> local \<Rightarrow> block_state \<Rightarrow> block_state" where
  "record_deref path args dest s =
     (if ends_with path ''::deref'' \<or> ends_with path ''::deref_mut''
      then (case first_arg_local args of
              None \<Rightarrow> s | Some recv \<Rightarrow> s\<lparr>ref_base := fmupd dest (deref_base s recv) (ref_base s)\<rparr>)
      else s)"

definition record_fd :: "string \<Rightarrow> operand list \<Rightarrow> local \<Rightarrow> block_state \<Rightarrow> block_state" where
  "record_fd path args dest s =
     (if is_into_raw_fd path then s\<lparr>fd_origin := finsert dest (fd_origin s)\<rparr>
      else if is_from_raw_fd_call path
      then (case first_arg_local args of
              None \<Rightarrow> s | Some arg \<Rightarrow> s\<lparr>fd_consumed := finsert arg (fd_consumed s)\<rparr>)
      else s)"

definition record_spawn :: "string \<Rightarrow> block_state \<Rightarrow> block_state" where
  "record_spawn path s =
     (if ends_with path ''thread::spawn'' \<or> ends_with path ''Builder::spawn'' \<or>
         ends_with path ''Builder::spawn_unchecked''
      then s\<lparr>thread_spawned := True\<rparr> else s)"

definition record_eq_call :: "string \<Rightarrow> operand list \<Rightarrow> local \<Rightarrow> block_state \<Rightarrow> block_state" where
  "record_eq_call path args dest s =
     (if (ends_with path ''::ne'' \<or> ends_with path ''::eq'') \<and> length args = 2
      then let arg_deref = (\<lambda>idx. map_option (deref_base s) (operand_local (args ! idx)))
           in (case (arg_deref 0, arg_deref 1) of
                 (Some a, Some b) \<Rightarrow>
                   if ends_with path ''::ne'' then s\<lparr>ne_pair_if_true := fmupd dest (a, b) (ne_pair_if_true s)\<rparr>
                   else s\<lparr>eq_pair_if_true := fmupd dest (a, b) (eq_pair_if_true s)\<rparr>
               | _ \<Rightarrow> s)
      else s)"

text \<open>The removals every branch of the dispatch performs on the destination.\<close>

definition clear_dest_tail :: "local \<Rightarrow> block_state \<Rightarrow> block_state" where
  "clear_dest_tail d s =
     s\<lparr>init := fmdrop d (init s), buf_written := fs_remove d (buf_written s),
       lt_facts := fmdrop d (lt_facts s), ge_facts := fmdrop d (ge_facts s),
       le_facts := fmdrop d (le_facts s), gt_facts := fmdrop d (gt_facts s),
       bounded := fs_remove d (bounded s), bounded_or_eq := fs_remove d (bounded_or_eq s)\<rparr>"

definition drop_dest_proto :: "local \<Rightarrow> block_state \<Rightarrow> block_state" where
  "drop_dest_proto d s = s\<lparr>local_proto := fmdrop d (local_proto s)\<rparr>"

section \<open>The branches of the dispatch\<close>

definition call_raw_realloc :: "operand list \<Rightarrow> local \<Rightarrow> basic_block \<Rightarrow> block_state \<Rightarrow> block_state" where
  "call_raw_realloc args dest bb s =
     clear_dest_tail dest (seed_raw_owned dest bb (if_some (first_arg_local args) reconstitute_objects s))"

definition call_into_raw :: "local \<Rightarrow> basic_block \<Rightarrow> block_state \<Rightarrow> block_state" where
  "call_into_raw dest bb s = clear_dest_tail dest (seed_raw_owned dest bb s)"

definition call_from_raw :: "operand list \<Rightarrow> local \<Rightarrow> block_state \<Rightarrow> block_state" where
  "call_from_raw args dest s =
     (let src_local = or_else (first_arg_local args) (first_arg_base_local args);
          s = if_some src_local reconstitute_objects s;
          s = s\<lparr>points_to := fmdrop dest (points_to s), local_proto := fmdrop dest (local_proto s),
                owner_alias := fmdrop dest (owner_alias s)\<rparr>;
          s = if_some (Option.bind src_local (fmlookup (owner_alias s)))
                (\<lambda>owners s. s\<lparr>owner_alias := fmupd dest owners (owner_alias s)\<rparr>) s
      in clear_dest_tail dest s)"

definition forget_local :: "tyctxt \<Rightarrow> body \<Rightarrow> local \<Rightarrow> block_state \<Rightarrow> block_state" where
  "forget_local tcx body src s =
     (let proto_ids = entry_or_default (local_proto s) src;
          s = s\<lparr>heap := fold (\<lambda>oid. fmupd oid Escaped) (objects_for s src) (heap s),
                points_to := fmdrop src (points_to s),
                local_proto := fmdrop src (local_proto s),
                typestate := fold (\<lambda>p. fmupd p Forgotten) (sorted_list_of_fset proto_ids) (typestate s)\<rparr>;
          s = (if proto_ids = {||} \<and> is_guard_type tcx (local_decls body src)
               then s\<lparr>untracked_forget_seen := True\<rparr> else s)
      in s\<lparr>init := fmdrop src (init s), buf_written := fs_remove src (buf_written s)\<rparr>)"

definition call_mem_forget :: "tyctxt \<Rightarrow> body \<Rightarrow> operand list \<Rightarrow> local \<Rightarrow> block_state \<Rightarrow> block_state" where
  "call_mem_forget tcx body args dest s =
     clear_dest_tail dest (drop_dest_proto dest (set_points_to dest None
       (if_some (first_arg_base_local args) (forget_local tcx body) s)))"

text \<open>\<^verbatim>\<open>is_epoch_pin\<close> and \<^verbatim>\<open>is_lock_acquire\<close> have the same body.\<close>

definition call_acquire_guard :: "local \<Rightarrow> basic_block \<Rightarrow> block_state \<Rightarrow> block_state" where
  "call_acquire_guard dest bb s =
     (let proto_id = word_of_nat bb;
          s = s\<lparr>local_proto := fmupd dest (finsert proto_id (entry_or_default (local_proto s) dest)) (local_proto s),
                typestate := fmupd proto_id Active (typestate s)\<rparr>
      in clear_dest_tail dest s)"

text \<open>
  \<^verbatim>\<open>dest\<close> points to what the first argument points to, if that is a nonempty set.
\<close>

definition points_to_first_arg :: "operand list \<Rightarrow> local \<Rightarrow> block_state \<Rightarrow> block_state" where
  "points_to_first_arg args dest s =
     set_points_to dest
       (Option.bind (first_arg_local args) (\<lambda>src. some_objs (fmlookup (points_to s) src))) s"

definition call_assume_init :: "operand list \<Rightarrow> local \<Rightarrow> block_state \<Rightarrow> block_state" where
  "call_assume_init args dest s =
     clear_dest_tail dest (drop_dest_proto dest (points_to_first_arg args dest
       (if_some (first_arg_local args) (\<lambda>src s. s\<lparr>init := fmdrop src (init s)\<rparr>) s)))"

definition call_maybe_uninit_init :: "operand list \<Rightarrow> local \<Rightarrow> block_state \<Rightarrow> block_state" where
  "call_maybe_uninit_init args dest s =
     (let s = clear_dest_tail dest (drop_dest_proto dest (points_to_first_arg args dest s))
      in s\<lparr>init := fmupd dest Initialized (init s)\<rparr>)"

definition call_maybe_uninit_write :: "operand list \<Rightarrow> local \<Rightarrow> block_state \<Rightarrow> block_state" where
  "call_maybe_uninit_write args dest s =
     clear_dest_tail dest (drop_dest_proto dest
       (if_some (first_arg_local args)
          (\<lambda>self_ref s. s\<lparr>init := fmupd (deref_base s self_ref) Initialized (init s)\<rparr>) s))"

definition call_maybe_uninit_as_mut_ptr :: "operand list \<Rightarrow> local \<Rightarrow> block_state \<Rightarrow> block_state" where
  "call_maybe_uninit_as_mut_ptr args dest s =
     clear_dest_tail dest (drop_dest_proto dest
       (if_some (first_arg_local args)
          (\<lambda>self_ref s. s\<lparr>mu_raw_ptr := fmupd dest (deref_base s self_ref) (mu_raw_ptr s)\<rparr>) s))"

definition call_buf_write :: "operand list \<Rightarrow> local \<Rightarrow> block_state \<Rightarrow> block_state" where
  "call_buf_write args dest s =
     clear_dest_tail dest (drop_dest_proto dest (set_points_to dest None
       (if_some (first_arg_local args)
          (\<lambda>buf s. s\<lparr>buf_written := finsert buf (buf_written s)\<rparr>) s)))"

definition call_ptr_read :: "operand list \<Rightarrow> local \<Rightarrow> block_state \<Rightarrow> block_state" where
  "call_ptr_read args dest s =
     clear_dest_tail dest (drop_dest_proto dest (points_to_first_arg args dest s))"

text \<open>The debug output under \<^verbatim>\<open>SAN_DBG2\<close> is left out.\<close>

definition call_summarized ::
  "body \<Rightarrow> string \<Rightarrow> operand list \<Rightarrow> local \<Rightarrow> basic_block \<Rightarrow> fn_summary \<Rightarrow> block_state \<Rightarrow> block_state" where
  "call_summarized body path args dest bb summary s =
     (let s = apply_fn_summary body args dest bb summary s;
          s = (if is_owned_buffer_accessor path \<and> fmlookup (points_to s) dest = None
               then if_some (first_arg_local args) (inherit_points_to dest) s else s)
      in clear_dest_tail dest s)"

definition mark_owners_written :: "local \<Rightarrow> block_state \<Rightarrow> block_state" where
  "mark_owners_written l s = s\<lparr>buf_written := buf_written s |\<union>| fset_of_list (owners_of s l)\<rparr>"

definition inherit_owner_alias :: "local \<Rightarrow> local \<Rightarrow> block_state \<Rightarrow> block_state" where
  "inherit_owner_alias dest arg s =
     (case some_objs (fmlookup (owner_alias s) arg) of
        None \<Rightarrow> s
      | Some owners \<Rightarrow> s\<lparr>owner_alias := fmupd dest owners (owner_alias s)\<rparr>)"

definition call_unknown ::
  "body \<Rightarrow> string \<Rightarrow> operand list \<Rightarrow> local \<Rightarrow> block_state \<Rightarrow> block_state" where
  "call_unknown body path args dest s =
     clear_dest_tail dest (drop_dest_proto dest
       (if is_owned_buffer_accessor path
        then if_some (first_arg_local args)
               (\<lambda>arg0 s. inherit_points_to dest arg0 (inherit_owner_alias dest arg0 s)) s
        else if is_ptr_write_to_first_arg path
        then if_some (first_arg_local args) mark_owners_written s
        else if is_global_ptr_copy_to_second_arg path
        then if_some (nth_arg_local args 1) mark_owners_written s
        else if is_ptr_pure_read path then s
        else escape_raw_ptr_args body args s))"

definition dispatch_call ::
  "tyctxt \<Rightarrow> body \<Rightarrow> summary_map \<Rightarrow> def_id \<Rightarrow> operand list \<Rightarrow> local \<Rightarrow> basic_block \<Rightarrow> block_state \<Rightarrow> block_state" where
  "dispatch_call tcx body summaries did args dest bb s =
     (let path = def_path_str tcx did in
      if is_raw_realloc path then call_raw_realloc args dest bb s
      else if is_into_raw path then call_into_raw dest bb s
      else if is_from_raw path then call_from_raw args dest s
      else if is_mem_forget path then call_mem_forget tcx body args dest s
      else if is_epoch_pin path then call_acquire_guard dest bb s
      else if is_lock_acquire path then call_acquire_guard dest bb s
      else if is_maybe_uninit_assume_init path then call_assume_init args dest s
      else if is_maybe_uninit_init path then call_maybe_uninit_init args dest s
      else if is_maybe_uninit_write path then call_maybe_uninit_write args dest s
      else if is_maybe_uninit_as_mut_ptr path then call_maybe_uninit_as_mut_ptr args dest s
      else if is_buf_write path then call_buf_write args dest s
      else if is_ptr_read path then call_ptr_read args dest s
      else case fmlookup summaries did of
             Some summary \<Rightarrow> call_summarized body path args dest bb summary s
           | None \<Rightarrow> call_unknown body path args dest s)"

definition after_dispatch ::
  "tyctxt \<Rightarrow> body \<Rightarrow> string \<Rightarrow> operand list \<Rightarrow> local \<Rightarrow> block_state \<Rightarrow> block_state" where
  "after_dispatch tcx body path args dest s =
     (let s = enforce_type_facts tcx dest (local_decls body dest) s;
          s = (if ends_with_any path
                    [''::as_ptr'', ''::as_mut_ptr'', ''::as_non_null_ptr'', ''::as_non_null_slice'',
                     ''::as_non_null'']
               then s\<lparr>nonzero := finsert dest (nonzero s)\<rparr> else s);
          s = (if ends_with path ''::dangling'' then s\<lparr>nonzero := finsert dest (nonzero s)\<rparr> else s)
      in if (ends_with path ''Layout::from_size_align_unchecked'' \<or>
             ends_with path ''Layout::from_size_alignment_unchecked'') \<and>
            (case first_arg_local args of None \<Rightarrow> False | Some l \<Rightarrow> l |\<in>| mul_overflow s)
         then s\<lparr>layout_overflow := finsert dest (layout_overflow s)\<rparr> else s)"

definition apply_resolved_call ::
  "tyctxt \<Rightarrow> body \<Rightarrow> summary_map \<Rightarrow> def_id \<Rightarrow> operand list \<Rightarrow> local \<Rightarrow> basic_block \<Rightarrow> block_state \<Rightarrow> block_state" where
  "apply_resolved_call tcx body summaries did args dest bb =
     (let path = def_path_str tcx did
      in run_steps
           [clear_call_dest dest,
            record_len_cap path args dest,
            record_float_test path args dest,
            record_deref path args dest,
            record_fd path args dest,
            record_spawn path,
            record_eq_call path args dest,
            dispatch_call tcx body summaries did args dest bb,
            after_dispatch tcx body path args dest])"

text \<open>A call whose callee is unknown or whose destination is a projection returns early.\<close>

definition apply_callee ::
  "tyctxt \<Rightarrow> body \<Rightarrow> summary_map \<Rightarrow> def_id option \<Rightarrow> operand list \<Rightarrow> place \<Rightarrow> basic_block \<Rightarrow> block_state \<Rightarrow> block_state" where
  "apply_callee tcx body summaries callee args destination bb s =
     (let s = before_dispatch tcx body summaries callee args (place_local destination) s
      in if callee = None \<or> projection destination \<noteq> [] then escape_raw_ptr_args body args s
         else apply_resolved_call tcx body summaries (the callee) args (place_local destination) bb s)"

definition apply_call ::
  "tyctxt \<Rightarrow> body \<Rightarrow> summary_map \<Rightarrow> operand \<Rightarrow> operand list \<Rightarrow> place \<Rightarrow> basic_block \<Rightarrow> block_state \<Rightarrow> block_state" where
  "apply_call tcx body summaries func args destination bb s =
     apply_callee tcx body summaries (resolve_callee tcx body func s) args destination bb s"

section \<open>Assertions and drops\<close>

definition apply_assert :: "operand \<Rightarrow> bool \<Rightarrow> block_state \<Rightarrow> block_state" where
  "apply_assert cond expected s =
     (case operand_local cond of
        None \<Rightarrow> s
      | Some c \<Rightarrow>
          if expected
          then run_steps
            [on_fact lt_facts c (\<lambda>lhs s. s\<lparr>bounded := finsert lhs (bounded s)\<rparr>),
             on_fact le_facts c (\<lambda>lhs s. s\<lparr>bounded_or_eq := finsert lhs (bounded_or_eq s)\<rparr>)] s
          else run_steps
            [on_fact ge_facts c (\<lambda>lhs s. s\<lparr>bounded := finsert lhs (bounded s)\<rparr>),
             on_fact gt_facts c (\<lambda>lhs s. s\<lparr>bounded_or_eq := finsert lhs (bounded_or_eq s)\<rparr>)] s)"

definition apply_drop :: "place \<Rightarrow> block_state \<Rightarrow> block_state" where
  "apply_drop place s =
     (if projection place = []
      then let l = place_local place;
               proto_ids = entry_or_default (local_proto s) l
           in s\<lparr>local_proto := fmdrop l (local_proto s),
                typestate := fold (\<lambda>p. fmupd p Consumed) (sorted_list_of_fset proto_ids) (typestate s),
                points_to := fmdrop l (points_to s),
                init := fmdrop l (init s), buf_written := fs_remove l (buf_written s)\<rparr>
      else s)"

fun apply_terminator ::
  "tyctxt \<Rightarrow> body \<Rightarrow> basic_block \<Rightarrow> terminator \<Rightarrow> summary_map \<Rightarrow> block_state \<Rightarrow> block_state" where
  "apply_terminator tcx body bb (Terminator (Call func args destination _ _) _) summaries s =
     apply_call tcx body summaries func args destination bb s"
| "apply_terminator tcx body bb (Terminator (Assert cond expected _ _) _) summaries s =
     apply_assert cond expected s"
| "apply_terminator tcx body bb (Terminator (Drop place _ _) _) summaries s = apply_drop place s"
| "apply_terminator tcx body bb _ summaries s = s"

end
