(* ===== verification/Dataflow.thy ===== *)
theory Dataflow
  imports Worklist Transfer_Terminator
begin

text \<open>
  The fixpoint engine of \<^verbatim>\<open>analysis/dataflow.rs\<close> on the bodies of the compiler:
  the successors of a block, the state of each outgoing edge, \<^verbatim>\<open>run_fixpoint\<close>,
  and the recomputation of the state inside a block.
\<close>

section \<open>Successors\<close>

fun push_unwind :: "unwind_action \<Rightarrow> basic_block list \<Rightarrow> basic_block list" where
  "push_unwind (Cleanup bb) succs = succs @ [bb]"
| "push_unwind _ succs = succs"

definition block_successors :: "basic_block_data \<Rightarrow> basic_block list" where
  "block_successors block_data =
     (case terminator block_data of
        None \<Rightarrow> []
      | Some term \<Rightarrow>
          (case term_kind term of
             Goto target \<Rightarrow> [target]
           | SwitchInt _ targets \<Rightarrow> all_targets targets
           | Return \<Rightarrow> []
           | Unreachable \<Rightarrow> []
           | CoroutineDrop \<Rightarrow> []
           | TailCall _ _ \<Rightarrow> []
           | Call _ _ _ target unwind \<Rightarrow>
               push_unwind unwind (case target of None \<Rightarrow> [] | Some t \<Rightarrow> [t])
           | Drop _ target unwind \<Rightarrow> push_unwind unwind [target]
           | Assert _ _ target unwind \<Rightarrow> push_unwind unwind [target]
           | FalseEdge real_target imaginary_target \<Rightarrow> [real_target, imaginary_target]
           | FalseUnwind real_target unwind \<Rightarrow> push_unwind unwind [real_target]
           | Yield resume drop_bb \<Rightarrow> resume # (case drop_bb of None \<Rightarrow> [] | Some d \<Rightarrow> [d])
           | InlineAsm _ targets unwind \<Rightarrow> push_unwind unwind targets
           | UnwindResume \<Rightarrow> []
           | UnwindTerminate \<Rightarrow> []))"

section \<open>The fixpoint\<close>

definition run_statements :: "tyctxt \<Rightarrow> body \<Rightarrow> statement list \<Rightarrow> block_state \<Rightarrow> block_state" where
  "run_statements tcx body stmts s = fold (apply_statement tcx body) stmts s"

fun block_exit ::
  "tyctxt \<Rightarrow> body \<Rightarrow> summary_map \<Rightarrow> basic_block \<Rightarrow> basic_block_data \<Rightarrow> block_state \<Rightarrow> block_state" where
  "block_exit tcx body summaries bb (BasicBlockData stmts None) entry = run_statements tcx body stmts entry"
| "block_exit tcx body summaries bb (BasicBlockData stmts (Some term)) entry =
     apply_terminator tcx body bb term summaries (run_statements tcx body stmts entry)"

fun edge_state :: "basic_block_data \<Rightarrow> block_state \<Rightarrow> basic_block \<Rightarrow> block_state" where
  "edge_state (BasicBlockData _ None) s succ = s"
| "edge_state (BasicBlockData _ (Some term)) s succ = refine_switchint_edge term succ s"

definition block_flow ::
  "tyctxt \<Rightarrow> body \<Rightarrow> summary_map \<Rightarrow> basic_block \<Rightarrow> block_state \<Rightarrow> (basic_block \<times> block_state) list" where
  "block_flow tcx body summaries bb entry =
     (let block_data = basic_blocks body ! bb;
          s = block_exit tcx body summaries bb block_data entry
      in map (\<lambda>succ. (succ, edge_state block_data s succ)) (block_successors block_data))"

definition run_fixpoint ::
  "tyctxt \<Rightarrow> body \<Rightarrow> block_state \<Rightarrow> summary_map \<Rightarrow> block_state option list option" where
  "run_fixpoint tcx body initial_state summaries =
     run_worklist join_with (block_flow tcx body summaries) (length (basic_blocks body)) initial_state"

section \<open>Flow results\<close>

record precond_summary =
  nonzero_args :: "nat fset"
  ascii_args :: "nat fset"
  bounded_for_args :: "(nat \<times> nat) fset"

type_synonym precond_summary_map = "(def_id, precond_summary) fmap"

record flow_results =
  flow_entry_states :: "block_state option list"
  flow_summaries :: summary_map
  precond_summaries :: "precond_summary_map option"

definition state_at :: "flow_results \<Rightarrow> basic_block \<Rightarrow> block_state option" where
  "state_at flow bb =
     (if bb < length (flow_entry_states flow) then flow_entry_states flow ! bb else None)"

definition state_before_terminator ::
  "flow_results \<Rightarrow> tyctxt \<Rightarrow> body \<Rightarrow> basic_block \<Rightarrow> block_state option" where
  "state_before_terminator flow tcx body bb =
     map_option (run_statements tcx body (statements (basic_blocks body ! bb))) (state_at flow bb)"

definition state_at_location ::
  "flow_results \<Rightarrow> tyctxt \<Rightarrow> body \<Rightarrow> basic_block \<Rightarrow> nat \<Rightarrow> block_state option" where
  "state_at_location flow tcx body bb statement_index =
     (let stmts = statements (basic_blocks body ! bb);
          upto = min statement_index (length stmts)
      in map_option (run_statements tcx body (take upto stmts)) (state_at flow bb))"

definition compute_flow :: "tyctxt \<Rightarrow> body \<Rightarrow> summary_map \<Rightarrow> flow_results option" where
  "compute_flow tcx body summaries =
     map_option (\<lambda>es. \<lparr>flow_entry_states = es, flow_summaries = summaries, precond_summaries = None\<rparr>)
       (run_fixpoint tcx body (seed_param_type_facts tcx body block_state_default) summaries)"

definition compute_flow_for_summary :: "tyctxt \<Rightarrow> body \<Rightarrow> summary_map \<Rightarrow> flow_results option" where
  "compute_flow_for_summary tcx body summaries =
     map_option (\<lambda>es. \<lparr>flow_entry_states = es, flow_summaries = fmempty, precond_summaries = None\<rparr>)
       (run_fixpoint tcx body (summary_initial_state body) summaries)"

section \<open>The engine on bodies\<close>

text \<open>
  Bodies the compiler hands out have an entry block, and their terminators name blocks of
  the body.
\<close>

definition body_succs :: "body \<Rightarrow> basic_block \<Rightarrow> basic_block list" where
  "body_succs body bb = block_successors (basic_blocks body ! bb)"

definition wf_body :: "body \<Rightarrow> bool" where
  "wf_body body \<longleftrightarrow>
     basic_blocks body \<noteq> [] \<and>
     list_all (\<lambda>b. list_all (\<lambda>q. q < length (basic_blocks body)) (block_successors b)) (basic_blocks body)"

definition cfg_edges :: "body \<Rightarrow> (basic_block \<times> basic_block) set" where
  "cfg_edges body = {(b, q). b < length (basic_blocks body) \<and> q \<in> set (body_succs body b)}"

interpretation fixpoint: worklist_engine join_with block_rank
  "block_flow tcx body summaries" "body_succs body" "length (basic_blocks body)"
  for tcx body summaries
  by unfold_locales (simp add: block_flow_def body_succs_def Let_def comp_def)

lemma fixpoint_closed: "fixpoint.closed_graph body \<longleftrightarrow> wf_body body"
  by (auto simp: fixpoint.closed_graph_def wf_body_def body_succs_def list_all_iff all_set_conv_all_nth)

lemma fixpoint_edges: "fixpoint.edges body = cfg_edges body"
  by (simp add: fixpoint.edges_def cfg_edges_def)

end
