(* ===== verification/Precond.thy ===== *)
theory Precond
  imports Dataflow
begin

text \<open>
  Precondition summaries (\<^verbatim>\<open>analysis/precond.rs\<close>): which parameters of a body are
  handed to an unsafe operation without the body having established its precondition.
  The record \<open>precond_summary\<close> is declared with the flow results in \<open>Dataflow\<close>.
\<close>

section \<open>Definitions\<close>

definition precond_summary_default :: precond_summary where
  "precond_summary_default = \<lparr>nonzero_args = {||}, ascii_args = {||}, bounded_for_args = {||}\<rparr>"

definition precond_is_empty :: "precond_summary \<Rightarrow> bool" where
  "precond_is_empty p \<longleftrightarrow> nonzero_args p = {||} \<and> ascii_args p = {||} \<and> bounded_for_args p = {||}"

definition param_index :: "body \<Rightarrow> local \<Rightarrow> nat option" where
  "param_index body l =
     (let idx = unat l in if 1 \<le> idx \<and> idx \<le> arg_count body then Some (idx - 1) else None)"

definition arg_local :: "operand list \<Rightarrow> nat \<Rightarrow> local option" where
  "arg_local args idx = (if idx < length args then operand_local (args ! idx) else None)"

definition is_nonzero_precond :: "string \<Rightarrow> bool" where
  "is_nonzero_precond path = ends_with_any path
     [''::new_unchecked'', ''::unchecked_new'', ''::from_mut_unchecked'', ''ctlz_nonzero'', ''cttz_nonzero'']"

definition is_ascii_precond :: "string \<Rightarrow> bool" where
  "is_ascii_precond path = ends_with_any path [''::as_ascii_unchecked'', ''Char::from_u8_unchecked'']"

definition is_index_precond :: "string \<Rightarrow> bool" where
  "is_index_precond path =
     ((ends_with path ''get_unchecked_mut'' \<or> ends_with path ''get_unchecked'') \<and> \<not> contains path ''pin::Pin'')"

definition add_nonzero_arg ::
  "body \<Rightarrow> string \<Rightarrow> operand list \<Rightarrow> block_state \<Rightarrow> precond_summary \<Rightarrow> precond_summary" where
  "add_nonzero_arg body path args state p =
     (case (if is_nonzero_precond path then first_arg_local args else None) of
        None \<Rightarrow> p
      | Some a \<Rightarrow>
          if local_is_nonzero state a then p
          else case param_index body a of
                 None \<Rightarrow> p
               | Some idx \<Rightarrow> p\<lparr>nonzero_args := finsert idx (nonzero_args p)\<rparr>)"

definition add_ascii_arg ::
  "body \<Rightarrow> string \<Rightarrow> operand list \<Rightarrow> block_state \<Rightarrow> precond_summary \<Rightarrow> precond_summary" where
  "add_ascii_arg body path args state p =
     (case (if is_ascii_precond path then first_arg_local args else None) of
        None \<Rightarrow> p
      | Some a \<Rightarrow>
          if local_is_ascii state a then p
          else case param_index body a of
                 None \<Rightarrow> p
               | Some idx \<Rightarrow> p\<lparr>ascii_args := finsert idx (ascii_args p)\<rparr>)"

definition add_bounded_arg ::
  "body \<Rightarrow> string \<Rightarrow> operand list \<Rightarrow> block_state \<Rightarrow> precond_summary \<Rightarrow> precond_summary" where
  "add_bounded_arg body path args state p =
     (case (if is_index_precond path
            then both (map_option (deref_base state) (arg_local args 0)) (arg_local args 1) else None) of
        None \<Rightarrow> p
      | Some (recv, idx) \<Rightarrow>
          if index_is_bounded_for state idx recv \<or> local_is_bounded state idx then p
          else case both (param_index body recv) (param_index body idx) of
                 None \<Rightarrow> p
               | Some (rp, ip) \<Rightarrow> p\<lparr>bounded_for_args := finsert (ip, rp) (bounded_for_args p)\<rparr>)"

fun call_of_block :: "basic_block_data \<Rightarrow> (operand \<times> operand list) option" where
  "call_of_block (BasicBlockData _ (Some (Terminator (Call func args _ _ _) _))) = Some (func, args)"
| "call_of_block _ = None"

definition add_call_preconds ::
  "tyctxt \<Rightarrow> body \<Rightarrow> flow_results \<Rightarrow> nat \<times> basic_block_data \<Rightarrow> precond_summary \<Rightarrow> precond_summary" where
  "add_call_preconds tcx body flow = (\<lambda>(bb, block_data) p.
     case call_of_block block_data of
       None \<Rightarrow> p
     | Some (func, args) \<Rightarrow>
         (case const_fn_def func of
            None \<Rightarrow> p
          | Some (did, _) \<Rightarrow>
              (case state_before_terminator flow tcx body bb of
                 None \<Rightarrow> p
               | Some state \<Rightarrow>
                   let path = def_path_str tcx did
                   in add_bounded_arg body path args state
                        (add_ascii_arg body path args state
                          (add_nonzero_arg body path args state p)))))"

definition extract_precond_summary :: "tyctxt \<Rightarrow> body \<Rightarrow> flow_results \<Rightarrow> precond_summary" where
  "extract_precond_summary tcx body flow =
     fold (add_call_preconds tcx body flow) (enumerate 0 (basic_blocks body)) precond_summary_default"

end
