(* ===== verification/Summary_Extract.thy ===== *)
theory Summary_Extract
  imports Dataflow
begin

text \<open>
  \<^verbatim>\<open>extract_summary\<close> of \<^verbatim>\<open>analysis/summary.rs\<close>: joining the states at the
  return terminators of a body and reading the effects on its parameters off the result.
\<close>

section \<open>Definitions\<close>

fun is_return_block :: "basic_block_data \<Rightarrow> bool" where
  "is_return_block (BasicBlockData _ (Some (Terminator Return _))) = True"
| "is_return_block _ = False"

definition join_return_state ::
  "flow_results \<Rightarrow> tyctxt \<Rightarrow> body \<Rightarrow> nat \<times> basic_block_data \<Rightarrow> block_state option \<Rightarrow> block_state option" where
  "join_return_state flow tcx body = (\<lambda>(bb, block_data) joined.
     if \<not> is_return_block block_data then joined
     else case state_before_terminator flow tcx body bb of
            None \<Rightarrow> joined
          | Some state \<Rightarrow>
              (case joined of
                 None \<Rightarrow> Some state
               | Some existing \<Rightarrow> Some (fst (join_with existing state))))"

definition exit_state :: "flow_results \<Rightarrow> tyctxt \<Rightarrow> body \<Rightarrow> block_state option" where
  "exit_state flow tcx body =
     fold (join_return_state flow tcx body) (enumerate 0 (basic_blocks body)) None"

definition param_effect :: "block_state \<Rightarrow> nat \<Rightarrow> param_heap_effect" where
  "param_effect s param_idx =
     (case fmlookup (heap s) (SUMMARY_BASE + word_of_nat param_idx) of
        Some Reconstituted \<Rightarrow> EffectReconstituted
      | Some Escaped \<Rightarrow> EffectEscaped
      | Some MaybeFreed \<Rightarrow> EffectEscaped
      | _ \<Rightarrow> EffectNone)"

text \<open>\<^verbatim>\<open>(k >= 1 && k <= body.arg_count).then(|| k - 1)\<close>.\<close>

definition param_of_local :: "body \<Rightarrow> nat \<Rightarrow> nat option" where
  "param_of_local body k = (if 1 \<le> k \<and> k \<le> arg_count body then Some (k - 1) else None)"

definition param_of_object :: "body \<Rightarrow> object_id \<Rightarrow> nat option" where
  "param_of_object body oid =
     (if SUMMARY_BASE \<le> oid
      then let param_idx = unat (oid - SUMMARY_BASE)
           in if param_idx < arg_count body then Some param_idx else None
      else param_of_local body (unat oid))"

definition no_summary :: fn_summary where
  "no_summary =
     \<lparr>param_effects = [], returns_raw_owned = False, returns_alias_of_param = None,
      returns_ptr_of_param = None, reallocs_param = None\<rparr>"

definition summary_of_exit :: "body \<Rightarrow> block_state \<Rightarrow> fn_summary" where
  "summary_of_exit body s =
     \<lparr>param_effects =
        filter (\<lambda>(_, effect). effect \<noteq> EffectNone)
          (map (\<lambda>i. (i, param_effect s i)) [0 ..< arg_count body]),
      returns_raw_owned =
        list_ex (\<lambda>oid. oid < SUMMARY_BASE \<and> fmlookup (heap s) oid = Some RawOwned) (objects_for s 0),
      returns_alias_of_param = find_map (\<lambda>owner. param_of_local body (unat owner)) (owners_of s 0),
      returns_ptr_of_param = find_map (param_of_object body) (objects_for s 0),
      reallocs_param =
        find_map (\<lambda>owner. param_of_local body (unat owner)) (sorted_list_of_fset (realloced_params s))\<rparr>"

definition extract_summary :: "tyctxt \<Rightarrow> body \<Rightarrow> flow_results \<Rightarrow> fn_summary" where
  "extract_summary tcx body flow =
     (case exit_state flow tcx body of None \<Rightarrow> no_summary | Some s \<Rightarrow> summary_of_exit body s)"

text \<open>What the driver computes for one body in one round: the flow from the seeded parameters, then the summary.\<close>

definition summarize_body :: "tyctxt \<Rightarrow> body \<Rightarrow> summary_map \<Rightarrow> fn_summary option" where
  "summarize_body tcx body summaries =
     map_option (extract_summary tcx body) (compute_flow_for_summary tcx body summaries)"

end
