(* ===== verification/Findings.thy ===== *)
theory Findings
  imports Precond Summary_Extract
begin

text \<open>
  Findings and the checker interface (\<^verbatim>\<open>lib.rs\<close>), the string formatting their
  messages use, and the checker of implicit preconditions
  (\<^verbatim>\<open>checkers/precond_propagation.rs\<close>).
\<close>

section \<open>Findings and checkers\<close>

datatype severity = Error | Warning | Info

record finding =
  rule_id :: string
  severity_of :: severity
  span_of :: span
  message :: string

text \<open>The trait \<^verbatim>\<open>Checker\<close>; both methods default to no findings.\<close>

record checker =
  check :: "tyctxt \<Rightarrow> body \<Rightarrow> flow_results \<Rightarrow> finding list"
  check_crate :: "tyctxt \<Rightarrow> finding list"

definition default_checker :: checker where
  "default_checker = \<lparr>check = (\<lambda>_ _ _. []), check_crate = (\<lambda>_. [])\<rparr>"

section \<open>Formatting\<close>

fun show_nat :: "nat \<Rightarrow> string" where
  "show_nat n = (if n < 10 then [char_of (48 + n)] else show_nat (n div 10) @ [char_of (48 + n mod 10)])"

text \<open>\<^verbatim>\<open>str::split("::")\<close>, with the current segment reversed in \<open>acc\<close>.\<close>

fun split_colons :: "string \<Rightarrow> string \<Rightarrow> string list" where
  "split_colons acc [] = [rev acc]"
| "split_colons acc [c] = [rev (c # acc)]"
| "split_colons acc (c # d # cs) =
     (if c = CHR 0x3A \<and> d = CHR 0x3A then rev acc # split_colons [] cs
      else split_colons (c # acc) (d # cs))"

definition rsplit_colons :: "string \<Rightarrow> string list" where
  "rsplit_colons path = map rev (split_colons [] (rev path))"

fun join_colons :: "string list \<Rightarrow> string" where
  "join_colons [] = ''''"
| "join_colons [s] = s"
| "join_colons (s # ss) = s @ ''::'' @ join_colons ss"

text \<open>The last two segments of a path.\<close>

definition callee_short :: "string \<Rightarrow> string" where
  "callee_short path = join_colons (rev (take 2 (rsplit_colons path)))"

section \<open>Precondition propagation\<close>

definition tick :: string where
  "tick = [CHR 0x60]"

definition nonzero_message :: "string \<Rightarrow> nat \<Rightarrow> string" where
  "nonzero_message short arg_idx =
     tick @ short @ tick @ '' requires arg['' @ show_nat arg_idx @ ''] to be nonzero, but the value is not provably nonzero at this call site; '' @
     tick @ short @ tick @ '' is a safe function that internally calls unsafe code without verifying this precondition '' @
     [CHR 0xE2, CHR 0x80, CHR 0x94] @ '' the caller can trigger UB without writing '' @ tick @ ''unsafe'' @ tick"

definition ascii_message :: "string \<Rightarrow> nat \<Rightarrow> string" where
  "ascii_message short arg_idx =
     tick @ short @ tick @ '' requires arg['' @ show_nat arg_idx @ ''] to be valid ASCII ('' @
     [CHR 0xE2, CHR 0x89, CHR 0xA4] @ '' 127), but the value is not provably ASCII at this call site; '' @
     tick @ short @ tick @ '' is a safe function that internally calls '' @
     tick @ ''as_ascii_unchecked'' @ tick @ '' without verifying this precondition''"

definition bounds_message :: "string \<Rightarrow> nat \<Rightarrow> nat \<Rightarrow> string" where
  "bounds_message short idx_arg coll_arg =
     tick @ short @ tick @ '' requires arg['' @ show_nat idx_arg @ ''] < arg['' @ show_nat coll_arg @
     ''].len(), but the index is not provably in-bounds at this call site; '' @
     tick @ short @ tick @ '' is a safe function wrapping '' @ tick @ ''get_unchecked'' @ tick @
     '' without a bounds check '' @ [CHR 0xE2, CHR 0x80, CHR 0x94] @
     '' the caller can trigger an out-of-bounds read via safe code''"

definition precond_finding :: "span \<Rightarrow> string \<Rightarrow> finding" where
  "precond_finding sp msg =
     \<lparr>rule_id = ''precond_violation'', severity_of = Warning, span_of = sp, message = msg\<rparr>"

definition nonzero_violations ::
  "body \<Rightarrow> block_state \<Rightarrow> operand list \<Rightarrow> string \<Rightarrow> span \<Rightarrow> precond_summary \<Rightarrow> finding list" where
  "nonzero_violations body state args short sp precond =
     List.map_filter (\<lambda>arg_idx.
       case arg_local args arg_idx of
         None \<Rightarrow> None
       | Some l \<Rightarrow>
           if local_is_nonzero state l \<or> param_index body l \<noteq> None then None
           else Some (precond_finding sp (nonzero_message short arg_idx)))
       (sorted_list_of_fset (nonzero_args precond))"

definition ascii_violations ::
  "body \<Rightarrow> block_state \<Rightarrow> operand list \<Rightarrow> string \<Rightarrow> span \<Rightarrow> precond_summary \<Rightarrow> finding list" where
  "ascii_violations body state args short sp precond =
     List.map_filter (\<lambda>arg_idx.
       case arg_local args arg_idx of
         None \<Rightarrow> None
       | Some l \<Rightarrow>
           if local_is_ascii state l \<or> param_index body l \<noteq> None then None
           else Some (precond_finding sp (ascii_message short arg_idx)))
       (sorted_list_of_fset (ascii_args precond))"

definition bounds_violations ::
  "body \<Rightarrow> block_state \<Rightarrow> operand list \<Rightarrow> string \<Rightarrow> span \<Rightarrow> precond_summary \<Rightarrow> finding list" where
  "bounds_violations body state args short sp precond =
     List.map_filter (\<lambda>(idx_arg, coll_arg).
       case both (arg_local args idx_arg) (arg_local args coll_arg) of
         None \<Rightarrow> None
       | Some (idx_local, coll_local) \<Rightarrow>
           if index_is_bounded_for state idx_local (deref_base state coll_local) \<or>
              local_is_bounded state idx_local \<or> param_index body idx_local \<noteq> None then None
           else Some (precond_finding sp (bounds_message short idx_arg coll_arg)))
       (sorted_list_of_fset (bounded_for_args precond))"

fun span_of_block :: "basic_block_data \<Rightarrow> span" where
  "span_of_block (BasicBlockData _ (Some term)) = term_span term"
| "span_of_block (BasicBlockData _ None) = Span 0 0 0"

definition call_violations ::
  "tyctxt \<Rightarrow> body \<Rightarrow> flow_results \<Rightarrow> precond_summary_map \<Rightarrow> nat \<times> basic_block_data \<Rightarrow> finding list" where
  "call_violations tcx body flow precond_map = (\<lambda>(bb, block_data).
     case call_of_block block_data of
       None \<Rightarrow> []
     | Some (func, args) \<Rightarrow>
         (case const_fn_def func of
            None \<Rightarrow> []
          | Some (callee, _) \<Rightarrow>
              (case fmlookup precond_map callee of
                 None \<Rightarrow> []
               | Some precond \<Rightarrow>
                   if precond_is_empty precond then []
                   else case state_before_terminator flow tcx body bb of
                          None \<Rightarrow> []
                        | Some state \<Rightarrow>
                            let short = callee_short (def_path_str tcx callee);
                                sp = span_of_block block_data
                            in nonzero_violations body state args short sp precond @
                               ascii_violations body state args short sp precond @
                               bounds_violations body state args short sp precond)))"

definition check_precond_propagation :: "tyctxt \<Rightarrow> body \<Rightarrow> flow_results \<Rightarrow> finding list" where
  "check_precond_propagation tcx body flow =
     (case precond_summaries flow of
        None \<Rightarrow> []
      | Some precond_map \<Rightarrow>
          concat (map (call_violations tcx body flow precond_map) (enumerate 0 (basic_blocks body))))"

definition PrecondPropagation :: checker where
  "PrecondPropagation = default_checker\<lparr>check := check_precond_propagation\<rparr>"

end
