(* ===== verification/Flow_Checkers.thy ===== *)
theory Flow_Checkers
  imports Findings
begin

text \<open>
  The flow-sensitive checkers of \<^verbatim>\<open>checkers/flow/\<close>: the ownership protocol
  (leaks, double frees, frees that leave an owner dangling), the lock protocol and the
  epoch-guard protocol, and the shared constructor of use-after-free findings.
\<close>

section \<open>Shared helpers\<close>

definition uaf_finding :: "span \<Rightarrow> string \<Rightarrow> bool \<Rightarrow> finding" where
  "uaf_finding sp op potential =
     \<lparr>rule_id = ''use_after_free'', severity_of = Warning, span_of = sp,
      message =
        (if potential
         then ''potential use-after-free: '' @ op @ '' through a pointer whose allocation may already have been reclaimed (reconstituted via '' @
              tick @ ''from_raw'' @ tick @ '' or a consuming call) on some control-flow path reaching here''
         else ''use-after-free: '' @ op @ '' through a pointer whose allocation was already reclaimed (reconstituted via '' @
              tick @ ''from_raw'' @ tick @ '' or a consuming call) '' @ [CHR 0xE2, CHR 0x80, CHR 0x94] @
              '' the raw pointer no longer owns valid memory'')\<rparr>"

text \<open>The call sites of a body with the state in front of the call.\<close>

definition call_sites ::
  "tyctxt \<Rightarrow> body \<Rightarrow> flow_results \<Rightarrow> (block_state \<times> operand \<times> operand list \<times> span) list" where
  "call_sites tcx body flow =
     List.map_filter (\<lambda>(bb, block_data).
       case (state_before_terminator flow tcx body bb, call_of_block block_data) of
         (Some state, Some (func, args)) \<Rightarrow> Some (state, func, args, span_of_block block_data)
       | _ \<Rightarrow> None)
       (enumerate 0 (basic_blocks body))"

section \<open>Ownership\<close>

definition is_drop_method :: "tyctxt \<Rightarrow> body \<Rightarrow> bool" where
  "is_drop_method tcx body =
     (if source_is_drop_glue body then True
      else case (drop_trait tcx, impl_of_assoc tcx (source_def_id body)) of
             (Some drop_tr, Some impl_id) \<Rightarrow> impl_is_of_trait tcx impl_id \<and> impl_trait_ref tcx impl_id = drop_tr
           | _ \<Rightarrow> False)"

definition from_raw_short :: "string \<Rightarrow> string" where
  "from_raw_short path =
     (if ends_with path ''dealloc'' then ''alloc::dealloc''
      else if contains path ''triomphe'' then ''triomphe::Arc::from_raw''
      else if contains path ''Weak'' then ''Weak::from_raw''
      else if contains path ''Box'' then ''Box::from_raw''
      else if contains path ''Arc'' then ''Arc::from_raw''
      else if contains path ''Rc'' then ''Rc::from_raw''
      else if contains path ''Vec'' then ''Vec::from_raw_parts''
      else if contains path ''String'' then ''String::from_raw_parts''
      else if contains path ''CString'' then ''CString::from_raw''
      else if contains path ''Thread'' then ''Thread::from_raw''
      else ''from_raw'')"

definition leak_finding :: "span \<Rightarrow> finding" where
  "leak_finding sp =
     \<lparr>rule_id = ''ownership_leak'', severity_of = Warning, span_of = sp,
      message = ''raw pointer obtained from '' @ tick @ ''into_raw'' @ tick @ '' is never reconstituted via '' @
        tick @ ''from_raw'' @ tick @ '' '' @ [CHR 0xE2, CHR 0x80, CHR 0x94] @ '' memory leak''\<rparr>"

text \<open>
  One object of the loop at a return: the objects seen at this return, the objects
  reported as leaked so far, and the findings.
\<close>

definition leak_step ::
  "block_state \<Rightarrow> span \<Rightarrow> object_id list \<Rightarrow> object_id
     \<Rightarrow> object_id fset \<times> object_id fset \<times> finding list \<Rightarrow> object_id fset \<times> object_id fset \<times> finding list" where
  "leak_step state sp returned oid = (\<lambda>(seen, leaked, fs).
     if oid \<in> set returned \<or> oid |\<in>| seen then (seen, leaked, fs)
     else if fmlookup (heap state) oid = Some RawOwned \<and> oid |\<notin>| leaked
     then (finsert oid seen, finsert oid leaked, fs @ [leak_finding sp])
     else (finsert oid seen, leaked, fs))"

definition tracked_objects :: "block_state \<Rightarrow> object_id list" where
  "tracked_objects state =
     concat (map (\<lambda>(_, objs). sorted_list_of_fset objs) (sorted_list_of_fmap (points_to state)))"

definition leaks_at_return ::
  "block_state \<Rightarrow> span \<Rightarrow> object_id fset \<times> finding list \<Rightarrow> object_id fset \<times> finding list" where
  "leaks_at_return state sp = (\<lambda>(leaked, fs).
     snd (fold (leak_step state sp (objects_for state 0)) (tracked_objects state) ({||}, leaked, fs)))"

definition freed_args ::
  "flow_results \<Rightarrow> def_id \<Rightarrow> string \<Rightarrow> operand list \<Rightarrow> local list" where
  "freed_args flow did path args =
     (if is_from_raw path
      then (case or_else (first_arg_local args) (first_arg_base_local args) of None \<Rightarrow> [] | Some l \<Rightarrow> [l])
      else case fmlookup (flow_summaries flow) did of
             None \<Rightarrow> []
           | Some summary \<Rightarrow>
               List.map_filter (\<lambda>(idx, effect).
                 if effect = EffectReconstituted then nth_arg_local args idx else None) (param_effects summary))"

definition dangling_owner_finding :: "span \<Rightarrow> finding" where
  "dangling_owner_finding sp =
     \<lparr>rule_id = ''use_after_free'', severity_of = Warning, span_of = sp,
      message = ''freeing a pointer that still aliases memory owned by a live value (e.g. '' @ tick @ ''&mut self'' @ tick @
        [CHR 0x27] @ ''s buffer) '' @ [CHR 0xE2, CHR 0x80, CHR 0x94] @
        '' the owner is left with a dangling pointer; double-free when it is dropped''\<rparr>"

definition double_free_finding :: "span \<Rightarrow> string \<Rightarrow> bool \<Rightarrow> finding" where
  "double_free_finding sp call_name definite =
     \<lparr>rule_id = ''ownership_double_free'', severity_of = Warning, span_of = sp,
      message =
        (if definite
         then tick @ call_name @ tick @ '' called on a pointer that was already reconstituted on this path '' @
              [CHR 0xE2, CHR 0x80, CHR 0x94] @ '' double-free''
         else tick @ call_name @ tick @ '' '' @ [CHR 0xE2, CHR 0x80, CHR 0x94] @
              '' potential double-free: pointer may have already been reconstituted on another control-flow path'')\<rparr>"

definition double_frees_of :: "block_state \<Rightarrow> span \<Rightarrow> string \<Rightarrow> local \<Rightarrow> finding list" where
  "double_frees_of state sp call_name l =
     List.map_filter (\<lambda>oid.
       case fmlookup (heap state) oid of
         Some Reconstituted \<Rightarrow> Some (double_free_finding sp call_name True)
       | Some MaybeFreed \<Rightarrow> Some (double_free_finding sp call_name False)
       | _ \<Rightarrow> None) (objects_for state l)"

definition ownership_at_call ::
  "tyctxt \<Rightarrow> body \<Rightarrow> flow_results \<Rightarrow> bool \<Rightarrow> block_state \<Rightarrow> operand \<Rightarrow> operand list \<Rightarrow> span \<Rightarrow> finding list" where
  "ownership_at_call tcx body flow in_drop state func args sp =
     (case or_else (map_option fst (const_fn_def func))
             (Option.bind (operand_local func) (fmlookup (fn_ptr_targets state))) of
        None \<Rightarrow> []
      | Some did \<Rightarrow>
          let path = def_path_str tcx did;
              freed = freed_args flow did path args;
              call_name = (if is_from_raw path then from_raw_short path else item_name tcx did)
          in List.map_filter (\<lambda>l.
               if \<not> in_drop \<and> list_ex (is_reference_param body) (owners_of state l)
               then Some (dangling_owner_finding sp) else None) freed @
             concat (map (double_frees_of state sp call_name) freed))"

definition ownership_at_block ::
  "tyctxt \<Rightarrow> body \<Rightarrow> flow_results \<Rightarrow> nat \<times> basic_block_data
     \<Rightarrow> object_id fset \<times> finding list \<Rightarrow> object_id fset \<times> finding list" where
  "ownership_at_block tcx body flow = (\<lambda>(bb, block_data) (leaked, fs).
     case state_before_terminator flow tcx body bb of
       None \<Rightarrow> (leaked, fs)
     | Some state \<Rightarrow>
         if is_return_block block_data
         then (if is_closure_like tcx (source_def_id body) then (leaked, fs)
               else leaks_at_return state (span_of_block block_data) (leaked, fs))
         else (case call_of_block block_data of
                 None \<Rightarrow> (leaked, fs)
               | Some (func, args) \<Rightarrow>
                   (leaked, fs @ ownership_at_call tcx body flow (is_drop_method tcx body) state func args
                              (span_of_block block_data))))"

definition check_ownership :: "tyctxt \<Rightarrow> body \<Rightarrow> flow_results \<Rightarrow> finding list" where
  "check_ownership tcx body flow =
     snd (fold (ownership_at_block tcx body flow) (enumerate 0 (basic_blocks body)) ({||}, []))"

definition OwnershipProtocol :: checker where
  "OwnershipProtocol = default_checker\<lparr>check := check_ownership\<rparr>"

section \<open>Locks\<close>

definition force_unlock_name :: "string \<Rightarrow> string" where
  "force_unlock_name path =
     (if ends_with path ''::force_unlock_write'' \<or> ends_with path ''::force_unlock_write_fair''
      then ''force_unlock_write''
      else if ends_with path ''::force_unlock_read'' \<or> ends_with path ''::force_unlock_read_fair''
      then ''force_unlock_read''
      else if ends_with path ''::force_unlock_fair'' then ''force_unlock_fair''
      else ''force_unlock'')"

definition unpaired_finding :: "span \<Rightarrow> string \<Rightarrow> finding" where
  "unpaired_finding sp path =
     \<lparr>rule_id = ''lock_force_unlock_unpaired'', severity_of = Warning, span_of = sp,
      message = tick @ force_unlock_name path @ tick @ '' called without a preceding '' @ tick @ ''lock()'' @ tick @
        '' + '' @ tick @ ''mem::forget(guard)'' @ tick @ '' on this path '' @ [CHR 0xE2, CHR 0x80, CHR 0x94] @
        '' calling force_unlock on an unlocked mutex corrupts its internal state''\<rparr>"

definition lock_at_call ::
  "tyctxt \<Rightarrow> block_state \<times> operand \<times> operand list \<times> span \<Rightarrow> finding option" where
  "lock_at_call tcx = (\<lambda>(state, func, _, sp).
     case const_fn_def func of
       None \<Rightarrow> None
     | Some (did, _) \<Rightarrow>
         let path = def_path_str tcx did
         in if \<not> is_force_unlock path \<or> has_forgotten_protocol state then None
            else Some (unpaired_finding sp path))"

definition check_lock_state :: "tyctxt \<Rightarrow> body \<Rightarrow> flow_results \<Rightarrow> finding list" where
  "check_lock_state tcx body flow = List.map_filter (lock_at_call tcx) (call_sites tcx body flow)"

definition LockState :: checker where
  "LockState = default_checker\<lparr>check := check_lock_state\<rparr>"

section \<open>Epoch guards\<close>

definition is_defer_destroy :: "string \<Rightarrow> bool" where
  "is_defer_destroy path = (ends_with path ''::defer_destroy'' \<and> contains path ''Guard'')"

definition op_name :: "string \<Rightarrow> string" where
  "op_name path =
     (if ends_with path ''::deref_mut'' then ''Shared::deref_mut''
      else if ends_with path ''::defer_destroy'' then ''Guard::defer_destroy''
      else ''Shared::deref'')"

definition epoch_finding :: "span \<Rightarrow> string \<Rightarrow> finding" where
  "epoch_finding sp path =
     \<lparr>rule_id = ''epoch_guard_expired'', severity_of = Warning, span_of = sp,
      message = tick @ op_name path @ tick @ '' called but an epoch guard may have been dropped '' @
        [CHR 0xE2, CHR 0x80, CHR 0x94] @ '' dereferencing a '' @ tick @ ''Shared'' @ tick @
        '' pointer after its guard is dropped is use-after-free''\<rparr>"

definition epoch_at_call ::
  "tyctxt \<Rightarrow> block_state \<times> operand \<times> operand list \<times> span \<Rightarrow> finding option" where
  "epoch_at_call tcx = (\<lambda>(state, func, _, sp).
     case const_fn_def func of
       None \<Rightarrow> None
     | Some (did, _) \<Rightarrow>
         let path = def_path_str tcx did
         in if \<not> is_shared_deref path \<and> \<not> is_defer_destroy path then None
            else if has_hazard_protocol state then Some (epoch_finding sp path) else None)"

definition check_epoch_guard :: "tyctxt \<Rightarrow> body \<Rightarrow> flow_results \<Rightarrow> finding list" where
  "check_epoch_guard tcx body flow = List.map_filter (epoch_at_call tcx) (call_sites tcx body flow)"

definition EpochGuard :: checker where
  "EpochGuard = default_checker\<lparr>check := check_epoch_guard\<rparr>"

end
