(* ===== verification/Driver.thy ===== *)
theory Driver
  imports Flow_Checkers
begin

text \<open>
  \<^verbatim>\<open>run_checks\<close> of \<^verbatim>\<open>lib.rs\<close>: which functions are summarized, the rounds
  that compute the summaries, the precondition pre-pass, the checkers, and the two filters
  on their findings. The list of checkers is an argument. \<open>None\<close> stands for a panic of
  the fixpoint engine, which does not happen on well-formed bodies.
\<close>

section \<open>Which functions are summarized\<close>

definition MAX_EXTERNAL_DEPTH :: nat where "MAX_EXTERNAL_DEPTH = 2"

definition MAX_EXTERNAL_FNS :: nat where "MAX_EXTERNAL_FNS = 600"

definition MAX_SUMMARY_ROUNDS :: nat where "MAX_SUMMARY_ROUNDS = 8"

definition local_fns :: "tyctxt \<Rightarrow> def_id list" where
  "local_fns tcx =
     filter (\<lambda>d. def_kind_of tcx d \<in> {DkFn, DkAssocFn, DkClosure, DkSyntheticCoroutineBody}) (mir_keys tcx)"

record discovery =
  in_set :: "def_id fset"
  to_summarize :: "def_id list"
  next_frontier :: "def_id list"
  ext_count :: nat

definition visit_block :: "tyctxt \<Rightarrow> basic_block_data \<Rightarrow> discovery \<Rightarrow> discovery" where
  "visit_block tcx block_data w =
     (case Option.bind (call_of_block block_data) (\<lambda>(func, _). const_fn_def func) of
        None \<Rightarrow> w
      | Some (callee, _) \<Rightarrow>
          if callee |\<in>| in_set w \<or> MAX_EXTERNAL_FNS \<le> ext_count w then w
          else if def_kind_of tcx callee \<in> {DkFn, DkAssocFn} \<and> is_mir_available tcx callee
          then \<lparr>in_set = finsert callee (in_set w), to_summarize = to_summarize w @ [callee],
                next_frontier = next_frontier w @ [callee], ext_count = ext_count w + 1\<rparr>
          else w)"

definition visit_fn :: "tyctxt \<Rightarrow> def_id \<Rightarrow> discovery \<Rightarrow> discovery" where
  "visit_fn tcx def_id w = fold (visit_block tcx) (basic_blocks (optimized_mir tcx def_id)) w"

fun discover :: "nat \<Rightarrow> tyctxt \<Rightarrow> def_id list \<Rightarrow> discovery \<Rightarrow> discovery" where
  "discover 0 tcx frontier w = w"
| "discover (Suc depth) tcx frontier w =
     (if MAX_EXTERNAL_FNS \<le> ext_count w then w
      else let w = fold (visit_fn tcx) frontier (w\<lparr>next_frontier := []\<rparr>)
           in if next_frontier w = [] then w else discover depth tcx (next_frontier w) w)"

definition fns_to_summarize :: "tyctxt \<Rightarrow> def_id list" where
  "fns_to_summarize tcx =
     to_summarize (discover MAX_EXTERNAL_DEPTH tcx (local_fns tcx)
       \<lparr>in_set = fset_of_list (local_fns tcx), to_summarize = local_fns tcx, next_frontier = [], ext_count = 0\<rparr>)"

section \<open>Summary rounds\<close>

definition keep_external_effects :: "string \<Rightarrow> fn_summary \<Rightarrow> fn_summary" where
  "keep_external_effects path s =
     (let s = s\<lparr>param_effects := [], returns_raw_owned := False\<rparr>;
          s = (if is_owned_buffer_accessor path then s\<lparr>returns_alias_of_param := Some 0\<rparr> else s);
          is_ptr_cast = contains path ''::cast'' \<and>
            (contains path ''const_ptr'' \<or> contains path ''mut_ptr'' \<or> contains path ''NonNull'');
          is_nonnull_wrap = contains path ''NonNull'' \<and>
            (ends_with path ''::new_unchecked'' \<or> ends_with path ''::new'')
      in if \<not> is_ptr_cast \<and> \<not> is_nonnull_wrap then s\<lparr>returns_ptr_of_param := None\<rparr> else s)"

definition is_trivial_summary :: "fn_summary \<Rightarrow> bool" where
  "is_trivial_summary s \<longleftrightarrow>
     \<not> (param_effects s \<noteq> [] \<or> returns_raw_owned s \<or> returns_alias_of_param s \<noteq> None \<or>
        returns_ptr_of_param s \<noteq> None \<or> reallocs_param s \<noteq> None)"

definition round_summary :: "tyctxt \<Rightarrow> summary_map \<Rightarrow> def_id \<Rightarrow> fn_summary option" where
  "round_summary tcx snap did =
     map_option (\<lambda>s. if is_local did then s else keep_external_effects (def_path_str tcx did) s)
       (summarize_body tcx (optimized_mir tcx did) snap)"

fun summary_round ::
  "tyctxt \<Rightarrow> summary_map \<Rightarrow> def_id list \<Rightarrow> summary_map \<Rightarrow> summary_map option" where
  "summary_round tcx snap [] summaries = Some summaries"
| "summary_round tcx snap (did # dids) summaries =
     (case round_summary tcx snap did of
        None \<Rightarrow> None
      | Some s \<Rightarrow>
          summary_round tcx snap dids
            (if is_trivial_summary s then fmdrop did summaries else fmupd did s summaries))"

fun summary_rounds :: "nat \<Rightarrow> tyctxt \<Rightarrow> def_id list \<Rightarrow> summary_map \<Rightarrow> summary_map option" where
  "summary_rounds 0 tcx dids summaries = Some summaries"
| "summary_rounds (Suc n) tcx dids snap =
     (case summary_round tcx snap dids snap of
        None \<Rightarrow> None
      | Some summaries \<Rightarrow>
          if summaries = snap then Some summaries else summary_rounds n tcx dids summaries)"

definition compute_summaries :: "tyctxt \<Rightarrow> summary_map option" where
  "compute_summaries tcx = summary_rounds MAX_SUMMARY_ROUNDS tcx (fns_to_summarize tcx) fmempty"

section \<open>The passes over the bodies\<close>

fun precond_pass ::
  "tyctxt \<Rightarrow> summary_map \<Rightarrow> def_id list \<Rightarrow> precond_summary_map \<Rightarrow> precond_summary_map option" where
  "precond_pass tcx summaries [] precond_map = Some precond_map"
| "precond_pass tcx summaries (did # dids) precond_map =
     (case compute_flow tcx (optimized_mir tcx did) summaries of
        None \<Rightarrow> None
      | Some flow \<Rightarrow>
          let ps = extract_precond_summary tcx (optimized_mir tcx did) flow
          in precond_pass tcx summaries dids
               (if precond_is_empty ps then precond_map else fmupd did ps precond_map))"

fun checker_pass ::
  "checker list \<Rightarrow> tyctxt \<Rightarrow> summary_map \<Rightarrow> precond_summary_map \<Rightarrow> def_id list \<Rightarrow> finding list option" where
  "checker_pass checkers tcx summaries precond_map [] = Some []"
| "checker_pass checkers tcx summaries precond_map (did # dids) =
     (case (compute_flow tcx (optimized_mir tcx did) summaries,
            checker_pass checkers tcx summaries precond_map dids) of
        (Some flow, Some rest) \<Rightarrow>
          let flow = flow\<lparr>precond_summaries := Some precond_map\<rparr>
          in Some (concat (map (\<lambda>c. check c tcx (optimized_mir tcx did) flow) checkers) @ rest)
      | _ \<Rightarrow> None)"

section \<open>Filtering the findings\<close>

definition finding_key :: "finding \<Rightarrow> string \<times> u32 \<times> u32" where
  "finding_key f = (rule_id f, span_lo (span_of f), span_hi (span_of f))"

fun dedup_findings :: "(string \<times> u32 \<times> u32) fset \<Rightarrow> finding list \<Rightarrow> finding list" where
  "dedup_findings seen [] = []"
| "dedup_findings seen (f # fs) =
     (if finding_key f |\<in>| seen then dedup_findings seen fs
      else f # dedup_findings (finsert (finding_key f) seen) fs)"

definition covered_spans :: "finding list \<Rightarrow> (u32 \<times> u32) list" where
  "covered_spans fs =
     sort (map (\<lambda>f. (span_lo (span_of f), span_hi (span_of f)))
       (filter (\<lambda>f. rule_id f \<noteq> ''unsafe_fn_call'') fs))"

definition backstop_filter :: "finding list \<Rightarrow> finding list" where
  "backstop_filter fs =
     (let covered = covered_spans fs
      in filter (\<lambda>f.
           if rule_id f \<noteq> ''unsafe_fn_call'' then True
           else let lo = span_lo (span_of f); hi = span_hi (span_of f)
                in \<not> list_ex (\<lambda>(clo, chi). clo < hi \<and> lo < chi) covered) fs)"

definition report :: "finding list \<Rightarrow> finding list" where
  "report fs = backstop_filter (dedup_findings {||} fs)"

section \<open>The whole run\<close>

definition run_checks :: "checker list \<Rightarrow> tyctxt \<Rightarrow> finding list option" where
  "run_checks checkers tcx =
     (case compute_summaries tcx of
        None \<Rightarrow> None
      | Some summaries \<Rightarrow>
          (case precond_pass tcx summaries (local_fns tcx) fmempty of
             None \<Rightarrow> None
           | Some precond_map \<Rightarrow>
               map_option (\<lambda>fs. report (concat (map (\<lambda>c. check_crate c tcx) checkers) @ fs))
                 (checker_pass checkers tcx summaries precond_map (local_fns tcx))))"

end
