(* ===== verification/Join_Properties.thy ===== *)
theory Join_Properties
  imports State_Join
begin

text \<open>
  What a merge of two states promises its callers: chains of merges that change something are finite, an unchanged merge can be thrown
  away, must-facts hold on both paths and may-facts on either. The last section shows
  where the join departs from what its comments promise.
\<close>

section \<open>Ownership states\<close>

text \<open>
  Joining two ownership states never forgets that one of them was escaped, and
  otherwise never forgets a disagreement about whether the object was freed: the join is
  the least upper bound in the order in which \<^verbatim>\<open>RawOwned\<close> and
  \<^verbatim>\<open>Reconstituted\<close> are incomparable, both lie below \<^verbatim>\<open>MaybeFreed\<close>, and
  everything lies below \<^verbatim>\<open>Escaped\<close>.
\<close>

lemma heap_state_join_lub:
  "heap_state_join a (heap_state_join a b) = heap_state_join a b \<and>
   heap_state_join b (heap_state_join a b) = heap_state_join a b \<and>
   (heap_state_join a c = c \<and> heap_state_join b c = c \<longleftrightarrow>
    heap_state_join (heap_state_join a b) c = c)"
  by (cases a; cases b; cases c) (simp_all add: heap_state_join_def)

section \<open>Chains of merges\<close>

text \<open>
  The relation between a state and any merge that reports a change is well-founded:
  no block's state can change forever, whatever edges flow into it. All domains are
  finite, the 64-bit bounds included.
\<close>

lemma changing_merges_terminate:
  "wf {(fst (join_with s e), s) | s e. snd (join_with s e)}"
  by (rule wf_subset [OF wf_measure [of block_rank]]) (auto dest: block_join.rank_less)

section \<open>A merge without change\<close>

lemma join_entries_unchanged:
  assumes "\<not> snd (join_entries body self other)"
    and "\<And>v w. \<not> snd (body (Some v) w) \<Longrightarrow> fst (body (Some v) w) = v"
    and "\<And>w. snd (body None w)"
  shows "fst (join_entries body self other) = self"
proof (rule fmap_ext)
  fix k
  show "fmlookup (fst (join_entries body self other)) k = fmlookup self k"
  proof (cases "fmlookup other k")
    case None
    then show ?thesis by simp
  next
    case (Some w)
    with assms(1) have "\<not> snd (body (fmlookup self k) w)" by (auto simp: join_entries_changed)
    with assms(2,3) Some show ?thesis by (cases "fmlookup self k") auto
  qed
qed

lemma join_filter_unchanged: "\<not> snd (join_filter body self other) \<Longrightarrow> fst (join_filter body self other) = self"
  by (auto simp: join_filter_def Let_def)

lemma extend_map_entry:
  "entry_or_default (fst (extend_map self other)) k = entry_or_default self k |\<union>| entry_or_default other k"
  by (auto simp: entry_or_default_def extend_body_simps split: option.splits)

lemma extend_map_unchanged:
  assumes "\<not> snd (extend_map self other)"
  shows "entry_or_default (fst (extend_map self other)) k = entry_or_default self k"
proof -
  have "entry_or_default other k |\<subseteq>| entry_or_default self k"
  proof (cases "fmlookup other k")
    case None
    then show ?thesis by (simp add: entry_or_default_def)
  next
    case (Some w)
    with assms have "\<not> snd (extend_body (fmlookup self k) w)" by (auto simp: join_entries_changed)
    with Some show ?thesis
      by (cases "fmlookup self k") (simp_all add: entry_or_default_def extend_body_simps)
  qed
  then show ?thesis by (simp add: extend_map_entry sup_absorb1)
qed

lemma unchanged_containers:
  "\<not> snd (join_heap_map h h') \<Longrightarrow> fst (join_heap_map h h') = h"
  "\<not> snd (join_typestate_map t t') \<Longrightarrow> fst (join_typestate_map t t') = t"
  "\<not> snd (join_init_map i i') \<Longrightarrow> fst (join_init_map i i') = i"
  "\<not> snd (or_insert_map m m') \<Longrightarrow> fst (or_insert_map m m') = m"
  "\<not> snd (inter_set s s') \<Longrightarrow> fst (inter_set s s') = s"
  "\<not> snd (insert_all a a') \<Longrightarrow> fst (insert_all a a') = a"
  "\<not> snd (or_flag f f') \<Longrightarrow> fst (or_flag f f') = f"
proof -
  show "\<not> snd (join_heap_map h h') \<Longrightarrow> fst (join_heap_map h h') = h"
    by (erule join_entries_unchanged) (auto simp: heap_entries.or_insert_join_simps)
  show "\<not> snd (join_typestate_map t t') \<Longrightarrow> fst (join_typestate_map t t') = t"
    by (erule join_entries_unchanged) (auto simp: typestate_entries.or_insert_join_simps)
  show "\<not> snd (join_init_map i i') \<Longrightarrow> fst (join_init_map i i') = i"
    by (erule join_entries_unchanged) (auto simp: init_body_simps)
  show "\<not> snd (or_insert_map m m') \<Longrightarrow> fst (or_insert_map m m') = m"
    by (erule join_entries_unchanged) (auto simp: or_insert_body_simps)
qed (auto simp: inf_absorb1 sup_absorb1)

text \<open>Two states that differ only in empty entries of the maps of sets.\<close>

definition same_facts :: "block_state \<Rightarrow> block_state \<Rightarrow> bool" where
  "same_facts s t \<longleftrightarrow>
     t\<lparr>points_to := points_to s, local_proto := local_proto s,
       owner_alias := owner_alias s, field_owned := field_owned s\<rparr> = s \<and>
     entry_or_default (points_to t) = entry_or_default (points_to s) \<and>
     entry_or_default (local_proto t) = entry_or_default (local_proto s) \<and>
     entry_or_default (owner_alias t) = entry_or_default (owner_alias s) \<and>
     entry_or_default (field_owned t) = entry_or_default (field_owned s)"

lemma unchanged_same_facts:
  assumes "\<not> snd (join_with s e)"
  shows "same_facts s (fst (join_with s e))"
proof -
  note no = assms [unfolded join_with_changed de_Morgan_disj]
  have "(fst (join_with s e))\<lparr>points_to := points_to s, local_proto := local_proto s,
       owner_alias := owner_alias s, field_owned := field_owned s\<rparr> = s"
    using no
    by (elim conjE, simp only: join_with_conv fst_conv unchanged_containers join_filter_unchanged)
      (cases s, simp)
  moreover from no have "\<not> snd (extend_map (points_to s) (points_to e))"
    "\<not> snd (extend_map (local_proto s) (local_proto e))"
    "\<not> snd (extend_map (owner_alias s) (owner_alias e))"
    "\<not> snd (extend_map (field_owned s) (field_owned e))" by (simp_all only: simp_thms)
  ultimately show ?thesis
    by (simp add: same_facts_def join_with_fields fun_eq_iff extend_map_unchanged)
qed

text \<open>States with the same facts answer every query alike.\<close>

lemma same_facts_heap: "same_facts s t \<Longrightarrow> heap t = heap s"
  unfolding same_facts_def by (drule conjunct1, drule arg_cong [of _ _ heap]) simp

lemma same_facts_objects_for: "same_facts s t \<Longrightarrow> objects_for t l = objects_for s l"
  by (simp add: same_facts_def objects_for_entry)

lemma same_facts_owners_of: "same_facts s t \<Longrightarrow> owners_of t l = owners_of s l"
  by (simp add: same_facts_def owners_of_entry)

lemma same_facts_freed_kind:
  assumes "same_facts s t"
  shows "freed_kind t l = freed_kind s l"
proof -
  from assms have step: "freed_kind_step t = freed_kind_step s"
    by (simp add: fun_eq_iff freed_kind_step_def same_facts_heap)
  show ?thesis unfolding freed_kind_def step same_facts_objects_for [OF assms] ..
qed

text \<open>
  C30: a merge that reports no change can be discarded, as the engine does. The merged
  state differs from the stored one at most by entries that map to an empty set, so the
  objects and owners of every local and the verdict on freed memory are the same.
\<close>

theorem unchanged_merge_discardable:
  assumes "\<not> snd (join_with s e)"
  shows "same_facts s (fst (join_with s e)) \<and>
    objects_for (fst (join_with s e)) l = objects_for s l \<and>
    owners_of (fst (join_with s e)) l = owners_of s l \<and>
    freed_kind (fst (join_with s e)) l = freed_kind s l"
  using unchanged_same_facts [OF assms]
  by (simp add: same_facts_objects_for same_facts_owners_of same_facts_freed_kind)

definition unchanged_example :: "block_state \<times> block_state" where
  "unchanged_example =
     (block_state_default\<lparr>points_to := fmap_of_list [(1, {|7|})], heap := fmap_of_list [(7, Reconstituted)]\<rparr>,
      block_state_default\<lparr>points_to := fmap_of_list [(2, {||})]\<rparr>)"

theorem unchanged_merge_discardable_witness:
  "(case unchanged_example of (s, e) \<Rightarrow>
     \<not> snd (join_with s e) \<and> fst (join_with s e) \<noteq> s \<and> freed_kind (fst (join_with s e)) 1 = Definite)"
proof -
  define s where "s = fst unchanged_example"
  define e where "e = snd unchanged_example"
  have no: "\<not> snd (join_with s e)" unfolding s_def e_def by code_simp
  have "points_to (fst (join_with s e)) \<noteq> points_to s" unfolding s_def e_def by code_simp
  then have "fst (join_with s e) \<noteq> s" by auto
  moreover have "freed_kind s 1 = Definite" unfolding s_def by code_simp
  ultimately show ?thesis
    using no unchanged_merge_discardable [OF no, of 1] by (simp add: s_def e_def case_prod_beta)
qed

section \<open>Must-facts and may-facts\<close>

lemma const_upper_join:
  "fmlookup (const_upper (fst (join_with a b))) l =
     (case (fmlookup (const_upper a) l, fmlookup (const_upper b) l) of
        (Some x, Some y) \<Rightarrow> Some (max x y) | _ \<Rightarrow> None)"
  by (auto simp: join_with_fields upper_body_def split: bind_splits option.splits)

lemma const_lower_join:
  "fmlookup (const_lower (fst (join_with a b))) l =
     (case (fmlookup (const_lower a) l, fmlookup (const_lower b) l) of
        (Some x, Some y) \<Rightarrow> Some (min x y) | _ \<Rightarrow> None)"
  by (auto simp: join_with_fields lower_body_def split: bind_splits option.splits)

lemma nonzero_join: "nonzero (fst (join_with a b)) = nonzero a |\<inter>| nonzero b"
  by (simp add: join_with_fields)

lemma objects_for_join:
  "set (objects_for (fst (join_with a b)) l) = set (objects_for a l) \<union> set (objects_for b l)"
  by (simp add: set_objects_for join_with_fields extend_map_entry)

lemma owners_of_join:
  "set (owners_of (fst (join_with a b)) l) = set (owners_of a l) \<union> set (owners_of b l)"
  by (simp add: set_owners_of join_with_fields extend_map_entry)

lemma heap_join_lookup:
  "fmlookup (heap (fst (join_with a b))) oid =
     (case (fmlookup (heap a) oid, fmlookup (heap b) oid) of
        (None, y) \<Rightarrow> y
      | (x, None) \<Rightarrow> x
      | (Some x, Some y) \<Rightarrow> Some (heap_state_join x y))"
  by (auto simp: join_with_fields heap_entries.or_insert_join_simps split: option.splits)


text \<open>
  C14: what may have happened on one path is kept. The objects a pointer may refer to and
  the owners it may borrow from are the union over both paths, a consumed file descriptor
  stays consumed, and memory freed on one path is still reported as freed unless the
  other path let the object escape.
\<close>

theorem may_facts_of_either_path:
  assumes "\<And>oid. oid \<in> set (objects_for a l) \<Longrightarrow> fmlookup (heap b) oid \<noteq> Some Escaped"
  shows "set (objects_for (fst (join_with a b)) l) = set (objects_for a l) \<union> set (objects_for b l) \<and>
    set (owners_of (fst (join_with a b)) l) = set (owners_of a l) \<union> set (owners_of b l) \<and>
    fd_is_consumed (fst (join_with a b)) l = (fd_is_consumed a l \<or> fd_is_consumed b l) \<and>
    (freed_kind a l \<noteq> NotFreed \<longrightarrow> freed_kind (fst (join_with a b)) l \<noteq> NotFreed)"
proof (intro conjI impI)
  assume "freed_kind a l \<noteq> NotFreed"
  then obtain oid where oid: "oid \<in> set (objects_for a l)"
    "fmlookup (heap a) oid = Some Reconstituted \<or> fmlookup (heap a) oid = Some MaybeFreed"
    by (auto simp: freed_kind_NotFreed)
  from oid(1) have "oid \<in> set (objects_for (fst (join_with a b)) l)" by (simp add: objects_for_join)
  moreover have "fmlookup (heap (fst (join_with a b))) oid \<in> {Some Reconstituted, Some MaybeFreed}"
    using oid(2) assms [OF oid(1)]
    by (auto simp: heap_join_lookup heap_state_join_def split: option.splits heap_state.splits)
  ultimately show "freed_kind (fst (join_with a b)) l \<noteq> NotFreed"
    unfolding freed_kind_NotFreed by blast
qed (simp_all add: objects_for_join owners_of_join fd_is_consumed_def join_with_fields)

definition freed_path :: block_state where
  "freed_path = block_state_default\<lparr>points_to := fmap_of_list [(1, {|7|})],
     heap := fmap_of_list [(7, Reconstituted)], fd_consumed := {|3|}\<rparr>"

definition live_path :: block_state where
  "live_path = block_state_default\<lparr>points_to := fmap_of_list [(1, {|7, 8|})],
     heap := fmap_of_list [(7, RawOwned), (8, RawOwned)]\<rparr>"

theorem may_facts_of_either_path_witness:
  "freed_kind freed_path 1 = Definite \<and> freed_kind live_path 1 = NotFreed \<and>
   freed_kind (fst (join_with freed_path live_path)) 1 \<noteq> NotFreed"
proof -
  have objs: "objects_for freed_path 1 = [7]" by code_simp
  have "fmlookup (heap live_path) 7 \<noteq> Some Escaped" by code_simp
  moreover have "freed_kind freed_path 1 = Definite" by code_simp
  moreover have "freed_kind live_path 1 = NotFreed" by code_simp
  ultimately show ?thesis
    using may_facts_of_either_path [of freed_path 1 live_path] objs by simp
qed



section \<open>Where the join is weaker than its comments\<close>

lemma init_join_lookup:
  "fmlookup (init (fst (join_with a b))) l =
     (case (fmlookup (init a) l, fmlookup (init b) l) of
        (None, y) \<Rightarrow> y
      | (x, None) \<Rightarrow> x
      | (Some x, Some y) \<Rightarrow> Some (init_state_join x y))"
  by (simp add: join_with_fields init_body_simps split: option.split)

text \<open>
  C31: exactly when a local counts as initialized after a merge. Absence of an entry means
  "unknown" to every reader of the map, but the join treats it as neutral: an entry that
  is initialized on one path and absent on the other survives the merge.
\<close>

theorem init_after_merge:
  "local_is_maybeuninit_initialized (fst (join_with a b)) l \<longleftrightarrow>
     Some Initialized \<in> {fmlookup (init a) l, fmlookup (init b) l} \<and>
     Some Unknown \<notin> {fmlookup (init a) l, fmlookup (init b) l}"
  unfolding local_is_maybeuninit_initialized_def init_join_lookup init_state_join_def
  by (cases "fmlookup (init a) l"; cases "fmlookup (init b) l"; cases "the (fmlookup (init a) l)";
      cases "the (fmlookup (init b) l)") simp_all

text \<open>
  C32: an escape on one path hides a free on the other. The comment on
  \<^verbatim>\<open>escape_local\<close> states that stale-ness does not disappear when a stale pointer
  is handed to an opaque call; the join of the two paths nevertheless drops it.
\<close>

theorem escape_hides_free_at_merge:
  assumes "objects_for a l = [oid]" and "fmlookup (heap a) oid = Some Reconstituted"
    and "objects_for b l = [oid] \<or> objects_for b l = []" and "fmlookup (heap b) oid = Some Escaped"
  shows "freed_kind a l = Definite \<and> freed_kind (fst (join_with a b)) l = NotFreed"
  using assms
  by (auto simp: freed_kind_Definite freed_kind_NotFreed objects_for_join heap_join_lookup heap_state_join_def)

definition escaped_path :: block_state where
  "escaped_path = escape_local 1 (block_state_default\<lparr>points_to := fmap_of_list [(1, {|7|})],
     heap := fmap_of_list [(7, RawOwned)]\<rparr>)"

theorem escape_hides_free_at_merge_witness:
  "freed_kind freed_path 1 = Definite \<and> freed_kind (fst (join_with freed_path escaped_path)) 1 = NotFreed"
proof (rule escape_hides_free_at_merge)
  show "objects_for freed_path 1 = [7]" by code_simp
  show "fmlookup (heap freed_path) 7 = Some Reconstituted" by code_simp
  show "objects_for escaped_path 1 = [7] \<or> objects_for escaped_path 1 = []" by code_simp
  show "fmlookup (heap escaped_path) 7 = Some Escaped" by code_simp
qed

end
