(* ===== verification/Dataflow_Properties.thy ===== *)
theory Dataflow_Properties
  imports Dataflow Join_Properties
begin

text \<open>
  What the fixpoint engine promises on the bodies of the compiler, and what a checker may
  conclude from the states it computes.
\<close>

section \<open>An absorbed edge\<close>

text \<open>What it means for the facts of the stored state that a merge reports no change.\<close>

lemma absorbed_sets:
  assumes "\<not> snd (join_with t e)"
  shows "bounded t |\<subseteq>| bounded e" "bounded_or_eq t |\<subseteq>| bounded_or_eq e" "nonzero t |\<subseteq>| nonzero e"
    "has_spare t |\<subseteq>| has_spare e" "is_full t |\<subseteq>| is_full e" "finite_locals t |\<subseteq>| finite_locals e"
    "index_bounded_for t |\<subseteq>| index_bounded_for e"
  using assms unfolding join_with_changed by simp_all

lemma absorbed_const_upper:
  assumes "\<not> snd (join_with t e)" and "fmlookup (const_upper t) l = Some u"
  obtains v where "fmlookup (const_upper e) l = Some v" "v \<le> u"
proof -
  from assms(1) have "\<not> snd (join_filter upper_body (const_upper t) (const_upper e))"
    unfolding join_with_changed by simp
  with assms(2) have "upper_body u (fmlookup (const_upper e) l) = Some u"
    by (auto simp: join_filter_changed)
  with that show ?thesis by (auto simp: upper_body_def max_def split: option.splits if_splits)
qed

lemma absorbed_const_lower:
  assumes "\<not> snd (join_with t e)" and "fmlookup (const_lower t) l = Some u"
  obtains v where "fmlookup (const_lower e) l = Some v" "u \<le> v"
proof -
  from assms(1) have "\<not> snd (join_filter lower_body (const_lower t) (const_lower e))"
    unfolding join_with_changed by simp
  with assms(2) have "lower_body u (fmlookup (const_lower e) l) = Some u"
    by (auto simp: join_filter_changed)
  with that show ?thesis by (auto simp: lower_body_def min_def split: option.splits if_splits)
qed

lemma absorbed_nonzero: "\<not> snd (join_with t e) \<Longrightarrow> local_is_nonzero t l \<Longrightarrow> local_is_nonzero e l"
  using absorbed_sets(3) [of t e]
  by (auto simp: local_is_nonzero_def split: option.splits elim!: absorbed_const_lower)

lemma absorbed_ascii: "\<not> snd (join_with t e) \<Longrightarrow> local_is_ascii t l \<Longrightarrow> local_is_ascii e l"
  by (auto simp: local_is_ascii_def split: option.splits elim!: absorbed_const_upper)

lemma absorbed_valid_scalar:
  assumes "\<not> snd (join_with t e)" and "local_is_valid_scalar t l"
  shows "local_is_valid_scalar e l"
proof -
  from assms(2) obtain u where u: "fmlookup (const_upper t) l = Some u" "u \<le> 0x10FFFF"
    and low: "u < 0xD800 \<or> (\<exists>lb. fmlookup (const_lower t) l = Some lb \<and> 0xDFFF < lb)"
    by (auto simp: local_is_valid_scalar_def Let_def split: option.splits if_splits)
  obtain v where v: "fmlookup (const_upper e) l = Some v" "v \<le> u"
    using assms(1) u(1) by (rule absorbed_const_upper)
  have "v < 0xD800 \<or> (\<exists>lb. fmlookup (const_lower e) l = Some lb \<and> 0xDFFF < lb)"
    using low v(2) by (auto elim!: absorbed_const_lower [OF assms(1)])
  with u(2) v show ?thesis by (auto simp: local_is_valid_scalar_def Let_def)
qed

lemma absorbed_objects:
  assumes "\<not> snd (join_with t e)"
  shows "set (objects_for e l) \<subseteq> set (objects_for t l)"
  using same_facts_objects_for [OF unchanged_same_facts [OF assms], of l] objects_for_join [of t e l] by auto

text \<open>The facts by which checkers suppress a report, and the objects a local may refer to.\<close>

definition keeps_to :: "block_state \<Rightarrow> block_state \<Rightarrow> bool" where
  "keeps_to t e \<longleftrightarrow>
     (\<forall>l. (local_is_bounded t l \<longrightarrow> local_is_bounded e l) \<and>
          (local_is_bounded_or_eq t l \<longrightarrow> local_is_bounded_or_eq e l) \<and>
          (local_is_nonzero t l \<longrightarrow> local_is_nonzero e l) \<and>
          (local_is_finite t l \<longrightarrow> local_is_finite e l) \<and>
          (local_is_ascii t l \<longrightarrow> local_is_ascii e l) \<and>
          (local_is_valid_scalar t l \<longrightarrow> local_is_valid_scalar e l) \<and>
          (collection_has_spare t l \<longrightarrow> collection_has_spare e l) \<and>
          (collection_is_full t l \<longrightarrow> collection_is_full e l) \<and>
          set (objects_for e l) \<subseteq> set (objects_for t l))"

lemma absorbed_keeps_to: "\<not> snd (join_with t e) \<Longrightarrow> keeps_to t e"
  unfolding keeps_to_def
  using absorbed_sets [of t e] absorbed_nonzero absorbed_ascii absorbed_valid_scalar absorbed_objects
  by (auto simp: local_is_bounded_def local_is_bounded_or_eq_def local_is_finite_def
      collection_has_spare_def collection_is_full_def)

section \<open>The fixpoint of a body\<close>

definition edge_into ::
  "tyctxt \<Rightarrow> body \<Rightarrow> summary_map \<Rightarrow> basic_block \<Rightarrow> block_state \<Rightarrow> basic_block \<Rightarrow> block_state" where
  "edge_into tcx body summaries b s q =
     edge_state (basic_blocks body ! b) (block_exit tcx body summaries b (basic_blocks body ! b) s) q"

lemma edge_into_flow:
  "q \<in> set (body_succs body b) \<Longrightarrow> (q, edge_into tcx body summaries b s q) \<in> set (block_flow tcx body summaries b s)"
  by (auto simp: block_flow_def body_succs_def edge_into_def Let_def)

lemma run_fixpoint_Some:
  "wf_body body \<Longrightarrow> \<exists>es. run_fixpoint tcx body initial summaries = Some es \<and> length es = length (basic_blocks body)"
  using fixpoint.run_worklist_returns fixpoint.run_worklist_length
  by (fastforce simp: run_fixpoint_def fixpoint_closed)

lemma run_fixpoint_entry:
  "wf_body body \<Longrightarrow> run_fixpoint tcx body initial summaries = Some es \<Longrightarrow> covers join_with es 0 initial"
  by (simp add: run_fixpoint_def fixpoint.run_worklist_entry fixpoint_closed)

lemma run_fixpoint_edge:
  assumes "wf_body body" and "run_fixpoint tcx body initial summaries = Some es"
    and "b < length es" and "es ! b = Some s" and "q \<in> set (body_succs body b)"
  shows "covers join_with es q (edge_into tcx body summaries b s q)"
proof -
  from assms(1,2) have "length es = length (basic_blocks body)"
    by (metis fixpoint.run_worklist_length fixpoint_closed run_fixpoint_def)
  with assms show ?thesis
    by (simp add: run_fixpoint_def fixpoint.run_worklist_edge fixpoint_closed edge_into_flow)
qed

text \<open>A body with a guard: \<^verbatim>\<open>if _1 < 10 { bb1 } bb2\<close>, and a block nothing jumps to.\<close>

definition sample_tcx :: "(def_id \<Rightarrow> string) \<Rightarrow> (def_id \<Rightarrow> body) \<Rightarrow> def_id list \<Rightarrow> tyctxt" where
  "sample_tcx path mir keys =
     \<lparr>def_path_str = path, item_name = path, crate_name = (\<lambda>_. ''main''), trait_of_assoc = (\<lambda>_. None),
      try_resolve = (\<lambda>_ _ _. None), mir_keys = keys, def_kind_of = (\<lambda>_. DkFn), is_mir_available = (\<lambda>_. False),
      optimized_mir = mir, is_closure_like = (\<lambda>_. False), drop_trait = None, impl_of_assoc = (\<lambda>_. None),
      impl_is_of_trait = (\<lambda>_. False), impl_trait_ref = (\<lambda>d. d),
      hir_free_items = [], fn_sig_safety = (\<lambda>_ _. Safe), fn_abi = (\<lambda>_. ''Rust''), target_features = (\<lambda>_. []),
      is_naked = (\<lambda>_. False), def_span = (\<lambda>_. Span 0 0 0), is_foreign_item = (\<lambda>_. False),
      generic_types = (\<lambda>_. []), show_ty = (\<lambda>_. ''_''), place_ty = (\<lambda>b p. local_decls b (place_local p)),
      operand_ty = (\<lambda>_ _. TyOther 0), ty_is_box = (\<lambda>_. False), place_visits = (\<lambda>_ _. [])\<rparr>"

definition sample_body :: "nat \<Rightarrow> (local \<Rightarrow> ty) \<Rightarrow> basic_block_data list \<Rightarrow> body" where
  "sample_body args decls blocks =
     \<lparr>arg_count = args, local_decls = decls, basic_blocks = blocks,
      source_def_id = DefId 0 0, source_is_drop_glue = False,
      source_scopes = [], scope_at = (\<lambda>_ _. 0)\<rparr>"

definition assign_stmt :: "local \<Rightarrow> rvalue \<Rightarrow> statement" where
  "assign_stmt d rv = Statement (Assign (Place d []) rv) (Span 0 0 0)"

definition block_of :: "statement list \<Rightarrow> terminator_kind \<Rightarrow> basic_block_data" where
  "block_of stmts k = BasicBlockData stmts (Some (Terminator k (Span 0 0 0)))"

definition guard_body :: body where
  "guard_body = sample_body 1
     (\<lambda>l. if l = 1 then TyUint U32 else if l = 2 then TyBool else TyTuple [])
     [block_of [assign_stmt 2 (BinaryOp Lt (Copy (Place 1 [])) (Constant (ScalarInt 10)))]
        (SwitchInt (Move (Place 2 [])) (SwitchTargets [(0, 2)] 1)),
      block_of [] (Goto 2), block_of [] Return, block_of [] (Goto 2)]"

definition empty_tcx :: tyctxt where
  "empty_tcx = sample_tcx (\<lambda>_. ''f'') (\<lambda>_. sample_body 0 (\<lambda>_. TyOther 0) []) []"

text \<open>
  C11: the worklist loop of the engine terminates without panicking on every well-formed
  body, from every initial state and with every summary map, and gives one entry per
  block.
\<close>

theorem run_fixpoint_returns:
  assumes "wf_body body"
  shows "\<exists>es. run_fixpoint tcx body initial summaries = Some es \<and> length es = length (basic_blocks body)"
  using assms by (rule run_fixpoint_Some)

theorem run_fixpoint_returns_witness:
  "wf_body guard_body \<and>
   (\<exists>es. run_fixpoint empty_tcx guard_body block_state_default fmempty = Some es \<and> length es = 4)"
proof -
  have "wf_body guard_body" by code_simp
  moreover have "length (basic_blocks guard_body) = 4" by code_simp
  ultimately show ?thesis using run_fixpoint_returns [of guard_body] by metis
qed

text \<open>
  C5: the result of the engine is a post-fixpoint. The entry block absorbs the initial
  state, and for every block that has a state, the successor absorbs the state of every
  outgoing edge: transfer of the statements and the terminator, refined for the edge.
\<close>

theorem run_fixpoint_post_fixpoint:
  assumes "wf_body body" and "run_fixpoint tcx body initial summaries = Some es"
  shows "covers join_with es 0 initial \<and>
    (\<forall>b s q. b < length es \<and> es ! b = Some s \<and> q \<in> set (body_succs body b) \<longrightarrow>
       covers join_with es q (edge_into tcx body summaries b s q))"
  using run_fixpoint_entry [OF assms] run_fixpoint_edge [OF assms] by blast

theorem run_fixpoint_post_fixpoint_witness:
  "\<exists>es s. run_fixpoint empty_tcx guard_body block_state_default fmempty = Some es \<and> es ! 0 = Some s \<and>
     covers join_with es 1 (edge_into empty_tcx guard_body fmempty 0 s 1)"
proof -
  have wf: "wf_body guard_body" by code_simp
  moreover have "length (basic_blocks guard_body) = 4" by code_simp
  ultimately obtain es where es: "run_fixpoint empty_tcx guard_body block_state_default fmempty = Some es"
    "length es = 4" using run_fixpoint_Some by metis
  note post = run_fixpoint_post_fixpoint [OF wf es(1)]
  then obtain s where s: "es ! 0 = Some s" by (auto simp: covers_def)
  have "1 \<in> set (body_succs guard_body 0)" by code_simp
  with post s es show ?thesis by auto
qed

text \<open>
  C27: a block has an entry state exactly if it is reachable from the entry block along
  the successor edges, as the documentation of \<^verbatim>\<open>FlowResults\<close> says: \<^verbatim>\<open>None\<close>
  means the block is unreachable.
\<close>

theorem run_fixpoint_reachable:
  assumes "wf_body body" and "run_fixpoint tcx body initial summaries = Some es"
    and "b < length (basic_blocks body)"
  shows "es ! b \<noteq> None \<longleftrightarrow> (0, b) \<in> (cfg_edges body)\<^sup>*"
  using assms fixpoint.run_worklist_reachable [of body tcx summaries initial es b]
  by (simp add: run_fixpoint_def fixpoint_closed fixpoint_edges)

theorem run_fixpoint_reachable_witness:
  "\<exists>es. run_fixpoint empty_tcx guard_body block_state_default fmempty = Some es \<and> es ! 3 = None \<and> es ! 2 \<noteq> None"
proof -
  have wf: "wf_body guard_body" by code_simp
  have len: "length (basic_blocks guard_body) = 4" by code_simp
  obtain es where es: "run_fixpoint empty_tcx guard_body block_state_default fmempty = Some es"
    using wf run_fixpoint_Some by metis
  have succs: "body_succs guard_body 0 = [2, 1]" "body_succs guard_body 1 = [2]"
    "body_succs guard_body 2 = []" "body_succs guard_body 3 = [2]" by code_simp+
  have "(0, 2) \<in> (cfg_edges guard_body)\<^sup>*"
    by (rule r_into_rtrancl) (simp add: cfg_edges_def len succs)
  moreover have "(0, 3) \<notin> (cfg_edges guard_body)\<^sup>*"
  proof
    assume "(0, 3) \<in> (cfg_edges guard_body)\<^sup>*"
    then obtain b where "(b, 3) \<in> cfg_edges guard_body" by (auto elim: rtranclE)
    then have "b \<in> {0, 1, 2, 3}" "3 \<in> set (body_succs guard_body b)" by (auto simp: cfg_edges_def len)
    with succs show False by auto
  qed
  ultimately show ?thesis
    using es len run_fixpoint_reachable [OF wf es, of 2] run_fixpoint_reachable [OF wf es, of 3] by auto
qed



section \<open>Replaying the statements of a block\<close>

lemma run_statements_snoc:
  "run_statements tcx body (stmts @ [st]) s = apply_statement tcx body st (run_statements tcx body stmts s)"
  by (simp add: run_statements_def)

text \<open>
  The state at a location is the entry state of the block with the statements before
  the location applied one by one: at index 0 it is the entry state, each further
  statement is applied once, and at the terminator and beyond it is the state in front of
  the terminator.
\<close>

lemma state_at_location_replays:
  "state_at_location flow tcx body bb 0 = state_at flow bb \<and>
   state_at_location flow tcx body bb (length (statements (basic_blocks body ! bb)) + k) =
     state_before_terminator flow tcx body bb \<and>
   (i < length (statements (basic_blocks body ! bb)) \<longrightarrow>
      state_at_location flow tcx body bb (Suc i) =
        map_option (apply_statement tcx body (statements (basic_blocks body ! bb) ! i))
          (state_at_location flow tcx body bb i))"
  unfolding state_at_location_def state_before_terminator_def Let_def
  by (cases "state_at flow bb")
    (simp_all add: run_statements_def take_Suc_conv_app_nth min_def Suc_leI)

end
