(* ===== verification/Driver_Properties.thy ===== *)
theory Driver_Properties
  imports Driver Dataflow_Properties "HOL-Library.Sublist"
begin

text \<open>
  What a run of the analyzer promises: which functions it summarizes, what summaries of
  other crates may say, that it returns, and which findings reach the user.
\<close>

section \<open>Filtering the findings\<close>

lemma dedup_subseq: "subseq (dedup_findings seen fs) fs"
  by (induction seen fs rule: dedup_findings.induct) auto

lemma dedup_keys:
  "finding_key ` set (dedup_findings seen fs) = finding_key ` set fs - fset seen"
  by (induction seen fs rule: dedup_findings.induct) auto

lemma dedup_distinct: "distinct (map finding_key (dedup_findings seen fs))"
proof (induction seen fs rule: dedup_findings.induct)
  case (2 seen f fs)
  have "finding_key f \<notin> finding_key ` set (dedup_findings (finsert (finding_key f) seen) fs)"
    by (simp add: dedup_keys)
  with 2 show ?case by auto
qed simp

text \<open>A backstop finding whose span meets the span of a finding of another rule.\<close>

definition backstop_covered :: "finding list \<Rightarrow> finding \<Rightarrow> bool" where
  "backstop_covered fs f \<longleftrightarrow>
     rule_id f = ''unsafe_fn_call'' \<and>
     (\<exists>g. g \<in> set fs \<and> rule_id g \<noteq> ''unsafe_fn_call'' \<and>
        span_lo (span_of g) < span_hi (span_of f) \<and> span_lo (span_of f) < span_hi (span_of g))"

lemma backstop_filter_covered: "backstop_filter fs = filter (\<lambda>f. \<not> backstop_covered fs f) fs"
  unfolding backstop_filter_def Let_def
  by (rule filter_cong) (auto simp: backstop_covered_def covered_spans_def list_ex_iff)

text \<open>The same, read off the keys.\<close>

definition key_covered :: "(string \<times> u32 \<times> u32) set \<Rightarrow> string \<times> u32 \<times> u32 \<Rightarrow> bool" where
  "key_covered ks k \<longleftrightarrow>
     fst k = ''unsafe_fn_call'' \<and>
     (\<exists>k' \<in> ks. fst k' \<noteq> ''unsafe_fn_call'' \<and> fst (snd k') < snd (snd k) \<and> fst (snd k) < snd (snd k'))"

lemma backstop_covered_key: "backstop_covered fs f = key_covered (finding_key ` set fs) (finding_key f)"
  by (auto simp: backstop_covered_def key_covered_def finding_key_def)

lemma uncovered_keys:
  "finding_key ` {f. f \<in> set fs \<and> \<not> backstop_covered fs f} =
     {k \<in> finding_key ` set fs. \<not> key_covered (finding_key ` set fs) k}"
  by (auto simp: backstop_covered_key)

lemma report_keys:
  "finding_key ` set (report fs) = finding_key ` {f. f \<in> set fs \<and> \<not> backstop_covered fs f}"
proof -
  let ?ds = "dedup_findings {||} fs"
  have keys: "finding_key ` set ?ds = finding_key ` set fs" by (simp add: dedup_keys)
  have "set (report fs) = {f. f \<in> set ?ds \<and> \<not> backstop_covered ?ds f}"
    by (auto simp: report_def backstop_filter_covered)
  then show ?thesis by (simp only: uncovered_keys keys)
qed

text \<open>
  C18: the report holds, in the order of the checkers, one finding for every pair of rule
  and source range that some checker reported, except the backstop findings whose range
  meets a finding of another rule: no key twice, no key lost, nothing invented.
\<close>

theorem report_exact:
  "distinct (map finding_key (report fs)) \<and> subseq (report fs) fs \<and>
   finding_key ` set (report fs) = finding_key ` {f. f \<in> set fs \<and> \<not> backstop_covered fs f}"
proof (intro conjI)
  show "distinct (map finding_key (report fs))"
    using dedup_distinct by (simp add: report_def backstop_filter_covered distinct_map_filter)
  show "subseq (report fs) fs"
    unfolding report_def backstop_filter_covered by (meson dedup_subseq subseq_filter_left subseq_order.trans)
qed (rule report_keys)

section \<open>Which functions are summarized\<close>

text \<open>
  The worklist of the discovery: the local functions, then the external ones found so far,
  each once.
\<close>

definition discovery_inv :: "tyctxt \<Rightarrow> discovery \<Rightarrow> bool" where
  "discovery_inv tcx w \<longleftrightarrow>
     (\<exists>ext. to_summarize w = local_fns tcx @ ext \<and> distinct ext \<and> length ext = ext_count w \<and>
        in_set w = fset_of_list (to_summarize w) \<and> set ext \<inter> set (local_fns tcx) = {} \<and>
        ext_count w \<le> MAX_EXTERNAL_FNS \<and>
        list_all (\<lambda>d. def_kind_of tcx d \<in> {DkFn, DkAssocFn} \<and> is_mir_available tcx d) ext)"

lemma visit_block_inv: "discovery_inv tcx w \<Longrightarrow> discovery_inv tcx (visit_block tcx b w)"
  by (auto simp: discovery_inv_def visit_block_def fset_of_list.rep_eq split: option.splits)

lemma visit_fn_inv: "discovery_inv tcx w \<Longrightarrow> discovery_inv tcx (visit_fn tcx d w)"
  unfolding visit_fn_def by (rule fold_invariant [where Q = "\<lambda>_. True"]) (auto intro: visit_block_inv)

lemma discovery_inv_frontier [simp]: "discovery_inv tcx (w\<lparr>next_frontier := f\<rparr>) = discovery_inv tcx w"
  by (simp add: discovery_inv_def)

lemma discover_inv: "discovery_inv tcx w \<Longrightarrow> discovery_inv tcx (discover n tcx frontier w)"
proof (induction n tcx frontier w rule: discover.induct)
  case (2 depth tcx frontier w)
  have "discovery_inv tcx (fold (visit_fn tcx) frontier (w\<lparr>next_frontier := []\<rparr>))"
    by (rule fold_invariant [where Q = "\<lambda>_. True"]) (auto intro: visit_fn_inv simp: "2.prems")
  with 2 show ?case by (simp add: Let_def)
qed simp

lemma fns_to_summarize_ext:
  obtains ext where "fns_to_summarize tcx = local_fns tcx @ ext" "distinct ext"
    "length ext \<le> MAX_EXTERNAL_FNS" "set ext \<inter> set (local_fns tcx) = {}"
    "list_all (\<lambda>d. def_kind_of tcx d \<in> {DkFn, DkAssocFn} \<and> is_mir_available tcx d) ext"
proof -
  have "discovery_inv tcx \<lparr>in_set = fset_of_list (local_fns tcx), to_summarize = local_fns tcx,
      next_frontier = [], ext_count = 0\<rparr>"
    by (simp add: discovery_inv_def)
  from discover_inv [OF this, of MAX_EXTERNAL_DEPTH "local_fns tcx"] that show thesis
    unfolding fns_to_summarize_def discovery_inv_def by metis
qed

lemma local_fns_summarized: "set (local_fns tcx) \<subseteq> set (fns_to_summarize tcx)"
  by (rule fns_to_summarize_ext [of tcx]) auto

text \<open>
  C29: the functions that are summarized are the local ones followed by at most 600 others,
  none of them twice or local, each a function whose MIR the compiler has.
\<close>

theorem fns_to_summarize_bounded:
  "\<exists>ext. fns_to_summarize tcx = local_fns tcx @ ext \<and> distinct ext \<and> length ext \<le> 600 \<and>
     set ext \<inter> set (local_fns tcx) = {} \<and>
     set ext \<subseteq> {d. def_kind_of tcx d \<in> {DkFn, DkAssocFn} \<and> is_mir_available tcx d}"
  by (rule fns_to_summarize_ext [of tcx]) (auto simp: MAX_EXTERNAL_FNS_def list_all_iff)

section \<open>Sample crates\<close>

definition call_block :: "def_id \<Rightarrow> operand list \<Rightarrow> local \<Rightarrow> basic_block \<Rightarrow> basic_block_data" where
  "call_block d args dest target =
     BasicBlockData [] (Some (Terminator
       (Call (Constant (FnItem d 0)) args (Place dest []) (Some target) UnwindContinue)
       (Span (word_of_nat target) (word_of_nat target + 1) 0)))"

definition library_path :: "def_id \<Rightarrow> string" where
  "library_path d =
     (if d = DefId 1 1 then ''alloc::boxed::Box::<T>::into_raw''
      else if d = DefId 1 2 then ''alloc::boxed::Box::<T>::from_raw''
      else if d = DefId 1 3 then ''alloc::vec::Vec::<T>::as_mut_ptr''
      else ''main::f'')"

definition ptr_decls :: "local \<Rightarrow> ty" where
  "ptr_decls l = (if l = 1 then TyRawPtr (TyOther 0) Mut else TyOther 0)"

text \<open>A pointer from \<^verbatim>\<open>Box::into_raw\<close> that is given back twice.\<close>

definition double_free_body :: body where
  "double_free_body = sample_body 0 ptr_decls
     [call_block (DefId 1 1) [Constant OtherConst] 1 1,
      call_block (DefId 1 2) [Copy (Place 1 [])] 2 2,
      call_block (DefId 1 2) [Copy (Place 1 [])] 3 3,
      block_of [] Return]"

definition double_free_tcx :: tyctxt where
  "double_free_tcx = sample_tcx library_path (\<lambda>_. double_free_body) [DefId 0 0]"

text \<open>
  A local function that calls a function of another crate, whose body frees its parameter.
\<close>

definition consuming_body :: body where
  "consuming_body = sample_body 1 ptr_decls
     [call_block (DefId 1 2) [Copy (Place 1 [])] 2 1, block_of [] Return]"

definition calling_body :: body where
  "calling_body = sample_body 1 ptr_decls
     [call_block (DefId 1 3) [Copy (Place 1 [])] 2 1, block_of [] Return]"

definition external_tcx :: tyctxt where
  "external_tcx =
     (sample_tcx library_path (\<lambda>d. if d = DefId 0 0 then calling_body else consuming_body) [DefId 0 0])
       \<lparr>is_mir_available := (\<lambda>d. d = DefId 1 3)\<rparr>"

lemma external_tcx_summary:
  obtains S s where "compute_summaries external_tcx = Some S" "fmlookup S (DefId 1 3) = Some s"
    "returns_alias_of_param s = Some 0"
proof -
  have "map_option returns_alias_of_param
      (Option.bind (compute_summaries external_tcx) (\<lambda>S. fmlookup S (DefId 1 3))) = Some (Some 0)"
    by code_simp
  with that show thesis by (auto simp: bind_eq_Some_conv)
qed

section \<open>Summary rounds\<close>

lemma summary_round_lookup:
  "summary_round tcx snap dids m = Some S \<Longrightarrow>
   fmlookup S d =
     (if d \<in> set dids then filter_opt (\<lambda>s. \<not> is_trivial_summary s) (round_summary tcx snap d) else fmlookup m d)"
proof (induction dids arbitrary: m)
  case (Cons did dids)
  then show ?case by (cases "round_summary tcx snap did") auto
qed simp

lemma summary_round_None:
  "summary_round tcx snap dids m = None \<longleftrightarrow> (\<exists>d \<in> set dids. round_summary tcx snap d = None)"
proof (induction dids arbitrary: m)
  case (Cons did dids)
  then show ?case by (cases "round_summary tcx snap did") auto
qed simp

text \<open>
  A round computes every summary from the map of the round before, so the order in
  which the functions are visited, and how often one is visited, does not matter.
\<close>

lemma summary_round_order_irrelevant:
  assumes "set dids = set dids'"
  shows "summary_round tcx snap dids m = summary_round tcx snap dids' m"
proof (cases "summary_round tcx snap dids m")
  case None
  with assms show ?thesis by (metis summary_round_None)
next
  case (Some S)
  with assms obtain S' where S': "summary_round tcx snap dids' m = Some S'"
    by (metis option.exhaust summary_round_None)
  have "S = S'"
    by (rule fmap_ext) (simp only: summary_round_lookup [OF Some] summary_round_lookup [OF S'] assms)
  with Some S' show ?thesis by simp
qed

text \<open>The map after a number of rounds.\<close>

fun after_rounds :: "nat \<Rightarrow> tyctxt \<Rightarrow> def_id list \<Rightarrow> summary_map \<Rightarrow> summary_map option" where
  "after_rounds 0 tcx dids m = Some m"
| "after_rounds (Suc k) tcx dids m = Option.bind (summary_round tcx m dids m) (after_rounds k tcx dids)"

lemma summary_rounds_after:
  "summary_rounds n tcx dids m = Some S \<Longrightarrow>
   \<exists>k \<le> n. after_rounds k tcx dids m = Some S \<and> (k = n \<or> summary_round tcx S dids S = Some S)"
proof (induction n tcx dids m rule: summary_rounds.induct)
  case (2 n tcx dids m)
  then obtain m' where m': "summary_round tcx m dids m = Some m'" by (auto split: option.splits)
  show ?case
  proof (cases "m' = m")
    case True
    with 2 m' show ?thesis by (intro exI [of _ 0]) auto
  next
    case False
    with 2 m' obtain k where "k \<le> n" "after_rounds k tcx dids m' = Some S"
      "k = n \<or> summary_round tcx S dids S = Some S" by auto
    with m' show ?thesis by (intro exI [of _ "Suc k"]) auto
  qed
qed auto

text \<open>
  C28: the summaries the checkers use are those of the first round that changes nothing, and
  then summarizing any function again from them gives its entry, or those of the eighth
  round.
\<close>

theorem summaries_stable_or_eighth_round:
  assumes "compute_summaries tcx = Some S"
  shows "\<exists>k \<le> 8. after_rounds k tcx (fns_to_summarize tcx) fmempty = Some S \<and>
     (k = 8 \<or> summary_round tcx S (fns_to_summarize tcx) S = Some S)"
  using assms summary_rounds_after unfolding compute_summaries_def MAX_SUMMARY_ROUNDS_def by blast

theorem summaries_stable_or_eighth_round_witness:
  "\<exists>S k. compute_summaries external_tcx = Some S \<and> k \<le> 8 \<and>
     after_rounds k external_tcx (fns_to_summarize external_tcx) fmempty = Some S"
proof -
  obtain S where S: "compute_summaries external_tcx = Some S" by (rule external_tcx_summary)
  from summaries_stable_or_eighth_round [OF this] S show ?thesis by blast
qed

text \<open>Every entry comes from summarizing the function in some round.\<close>

definition from_rounds :: "tyctxt \<Rightarrow> def_id list \<Rightarrow> summary_map \<Rightarrow> bool" where
  "from_rounds tcx dids m \<longleftrightarrow>
     (\<forall>d s. fmlookup m d = Some s \<longrightarrow>
        d \<in> set dids \<and> \<not> is_trivial_summary s \<and> (\<exists>snap. round_summary tcx snap d = Some s))"

lemma summary_round_from:
  assumes "from_rounds tcx dids m" and "summary_round tcx snap dids m = Some m'"
  shows "from_rounds tcx dids m'"
  unfolding from_rounds_def
proof (intro allI impI)
  fix d s assume "fmlookup m' d = Some s"
  then show "d \<in> set dids \<and> \<not> is_trivial_summary s \<and> (\<exists>snap. round_summary tcx snap d = Some s)"
    using assms(1) unfolding summary_round_lookup [OF assms(2)] from_rounds_def
    by (cases "d \<in> set dids") (auto simp: filter_opt_eq_Some)
qed

lemma summary_rounds_from:
  "from_rounds tcx dids m \<Longrightarrow> summary_rounds n tcx dids m = Some S \<Longrightarrow> from_rounds tcx dids S"
  by (induction n tcx dids m rule: summary_rounds.induct)
    (auto split: option.splits if_splits intro: summary_round_from)

lemma compute_summaries_from:
  "compute_summaries tcx = Some S \<Longrightarrow> from_rounds tcx (fns_to_summarize tcx) S"
  unfolding compute_summaries_def by (rule summary_rounds_from) (simp_all add: from_rounds_def)

lemma keep_external_effects_simps [simp]:
  "param_effects (keep_external_effects path s) = []" "\<not> returns_raw_owned (keep_external_effects path s)"
  by (simp_all add: keep_external_effects_def Let_def)



section \<open>The whole run\<close>

lemma summarize_body_Some: "wf_body body \<Longrightarrow> \<exists>s. summarize_body tcx body m = Some s"
  using run_fixpoint_Some [of body tcx _ m]
  by (auto simp: summarize_body_def compute_flow_for_summary_def)

lemma compute_flow_Some: "wf_body body \<Longrightarrow> \<exists>flow. compute_flow tcx body m = Some flow"
  using run_fixpoint_Some [of body tcx _ m] by (auto simp: compute_flow_def)

lemma summary_round_Some:
  assumes "\<forall>d \<in> set dids. wf_body (optimized_mir tcx d)"
  shows "\<exists>S. summary_round tcx snap dids m = Some S"
proof -
  have "round_summary tcx snap d \<noteq> None" if "d \<in> set dids" for d
    using assms that summarize_body_Some [of "optimized_mir tcx d" tcx snap] by (auto simp: round_summary_def)
  then have "summary_round tcx snap dids m \<noteq> None" by (auto simp: summary_round_None)
  then show ?thesis by auto
qed

lemma summary_rounds_Some:
  assumes "\<forall>d \<in> set dids. wf_body (optimized_mir tcx d)"
  shows "\<exists>S. summary_rounds n tcx dids m = Some S"
proof (induction n arbitrary: m)
  case (Suc n)
  from summary_round_Some [OF assms] obtain m' where "summary_round tcx m dids m = Some m'" by blast
  with Suc show ?case by simp
qed simp

lemma precond_pass_Some:
  assumes "\<forall>d \<in> set dids. wf_body (optimized_mir tcx d)"
  shows "\<exists>pm. precond_pass tcx S dids m = Some pm"
  using assms
proof (induction dids arbitrary: m)
  case (Cons d dids)
  from Cons.prems compute_flow_Some obtain flow where "compute_flow tcx (optimized_mir tcx d) S = Some flow"
    by (meson list.set_intros(1))
  with Cons show ?case by (simp add: Let_def)
qed simp

text \<open>The findings of a checker on one body, with the flow the driver gives it.\<close>

definition body_findings ::
  "tyctxt \<Rightarrow> summary_map \<Rightarrow> precond_summary_map \<Rightarrow> checker \<Rightarrow> def_id \<Rightarrow> finding list" where
  "body_findings tcx S pm c d =
     (case compute_flow tcx (optimized_mir tcx d) S of
        None \<Rightarrow> []
      | Some flow \<Rightarrow> check c tcx (optimized_mir tcx d) (flow\<lparr>precond_summaries := Some pm\<rparr>))"

lemma checker_pass_Some:
  assumes "\<forall>d \<in> set dids. wf_body (optimized_mir tcx d)"
  shows "checker_pass checkers tcx S pm dids =
    Some (concat (map (\<lambda>d. concat (map (\<lambda>c. body_findings tcx S pm c d) checkers)) dids))"
  using assms
proof (induction dids)
  case (Cons d dids)
  from Cons.prems compute_flow_Some obtain flow where "compute_flow tcx (optimized_mir tcx d) S = Some flow"
    by (meson list.set_intros(1))
  with Cons show ?case by (simp add: Let_def body_findings_def)
qed simp

lemma run_parts:
  assumes "\<forall>d \<in> set (fns_to_summarize tcx). wf_body (optimized_mir tcx d)"
  obtains S pm where "compute_summaries tcx = Some S" and "precond_pass tcx S (local_fns tcx) fmempty = Some pm"
    and "\<And>checkers. checker_pass checkers tcx S pm (local_fns tcx) =
      Some (concat (map (\<lambda>d. concat (map (\<lambda>c. body_findings tcx S pm c d) checkers)) (local_fns tcx)))"
proof -
  from assms have wf: "\<forall>d \<in> set (local_fns tcx). wf_body (optimized_mir tcx d)"
    using local_fns_summarized by blast
  obtain S where S: "compute_summaries tcx = Some S"
    unfolding compute_summaries_def using summary_rounds_Some [OF assms] by blast
  obtain pm where "precond_pass tcx S (local_fns tcx) fmempty = Some pm"
    using precond_pass_Some [OF wf] by blast
  from that [OF S this checker_pass_Some [OF wf]] show thesis .
qed

lemma run_checks_returns:
  assumes "\<forall>d \<in> set (fns_to_summarize tcx). wf_body (optimized_mir tcx d)"
  obtains fs where "run_checks checkers tcx = Some fs"
  by (rule run_parts [OF assms]) (simp add: run_checks_def that)

text \<open>
  C6: on a crate whose bodies are well-formed a run of the analyzer ends without a panic, and
  its report is exactly the filtered findings of every checker: first those on the crate, then
  those on each local function with the flow computed from the final summaries.
\<close>

theorem run_checks_reports_every_checker:
  assumes "\<forall>d \<in> set (fns_to_summarize tcx). wf_body (optimized_mir tcx d)"
  shows "\<exists>S pm. compute_summaries tcx = Some S \<and> precond_pass tcx S (local_fns tcx) fmempty = Some pm \<and>
    run_checks checkers tcx =
      Some (report (concat (map (\<lambda>c. check_crate c tcx) checkers) @
        concat (map (\<lambda>d. concat (map (\<lambda>c. body_findings tcx S pm c d) checkers)) (local_fns tcx))))"
proof -
  from run_parts [OF assms] obtain S pm where "compute_summaries tcx = Some S"
    "precond_pass tcx S (local_fns tcx) fmempty = Some pm"
    "\<And>checkers. checker_pass checkers tcx S pm (local_fns tcx) =
       Some (concat (map (\<lambda>d. concat (map (\<lambda>c. body_findings tcx S pm c d) checkers)) (local_fns tcx)))" by blast
  then show ?thesis by (simp add: run_checks_def)
qed

theorem run_checks_reports_every_checker_witness:
  "\<exists>S pm. compute_summaries double_free_tcx = Some S \<and>
     run_checks [OwnershipProtocol] double_free_tcx =
       Some (report (body_findings double_free_tcx S pm OwnershipProtocol (DefId 0 0)))"
proof -
  have "\<forall>d \<in> set (fns_to_summarize double_free_tcx). wf_body (optimized_mir double_free_tcx d)" by code_simp
  note run = run_checks_reports_every_checker [OF this, of "[OwnershipProtocol]"]
  have "local_fns double_free_tcx = [DefId 0 0]" by code_simp
  with run show ?thesis by (auto simp: OwnershipProtocol_def default_checker_def)
qed

text \<open>What the whole run reports for the crate that frees a pointer twice.\<close>

lemma double_free_crate_report:
  "map_option (map (\<lambda>f. (rule_id f, span_of f))) (run_checks [OwnershipProtocol] double_free_tcx) =
     Some [(''ownership_double_free'', Span 3 4 0)]"
  by code_simp

end
