(* ===== verification/Ownership_Properties.thy ===== *)
theory Ownership_Properties
  imports Driver_Properties
begin

text \<open>
  The life of a raw-owned allocation: how calls create it, give it back, let it escape and
  invalidate handles to it, how that crosses a function boundary by a summary, and which
  of it the ownership checker reports.
\<close>

section \<open>Objects of the heap\<close>

lemma escape_fold_lookup:
  "fmlookup (fold escape_object objs h) oid =
     (if oid \<in> set objs \<and> fmlookup h oid \<notin> {Some Reconstituted, Some MaybeFreed} then Some Escaped
      else fmlookup h oid)"
  by (induction objs arbitrary: h) (auto simp: escape_object_def)

lemma reconstitute_fold_lookup:
  "fmlookup (fold reconstitute_object objs h) oid =
     (if oid \<in> set objs \<and> fmlookup h oid = Some RawOwned then Some Reconstituted else fmlookup h oid)"
  by (induction objs arbitrary: h) (auto simp: reconstitute_object_def)

lemma reconstitute_objects_simps [simp]:
  "points_to (reconstitute_objects l s) = points_to s"
  "fmlookup (heap (reconstitute_objects l s)) oid =
     (if oid \<in> set (objects_for s l) \<and> fmlookup (heap s) oid = Some RawOwned then Some Reconstituted
      else fmlookup (heap s) oid)"
  by (simp_all add: reconstitute_objects_def reconstitute_fold_lookup)

lemma sorted_list_of_fset_single [simp]: "sorted_list_of_fset {|x|} = [x]"
  by (simp add: sorted_list_of_fset.rep_eq)

lemma objects_for_cong: "fmlookup (points_to s) l = fmlookup (points_to t) l \<Longrightarrow> objects_for s l = objects_for t l"
  by (simp add: objects_for_def)

lemma ptr_is_raw_owned_iff:
  "ptr_is_raw_owned s l \<longleftrightarrow>
     objects_for s l \<noteq> [] \<and> (\<forall>oid \<in> set (objects_for s l). fmlookup (heap s) oid = Some RawOwned)"
  by (simp add: ptr_is_raw_owned_def list_all_iff)

section \<open>Escapes\<close>

text \<open>What an escape leaves of the objects: a freed object stays freed, and other locals keep their objects.\<close>

definition freed_survives :: "local \<Rightarrow> block_state \<Rightarrow> block_state \<Rightarrow> bool" where
  "freed_survives l s t \<longleftrightarrow>
     objects_for t l = objects_for s l \<and>
     (\<forall>oid. fmlookup (heap s) oid \<in> {Some Reconstituted, Some MaybeFreed} \<longrightarrow>
        fmlookup (heap t) oid = fmlookup (heap s) oid)"

lemma freed_survives_refl [simp]: "freed_survives l s s"
  by (simp add: freed_survives_def)

lemma freed_survives_trans: "freed_survives l s t \<Longrightarrow> freed_survives l t u \<Longrightarrow> freed_survives l s u"
  by (simp add: freed_survives_def)

lemma freed_survives_kind:
  assumes "freed_survives l s t"
  shows "freed_kind s l = Definite \<Longrightarrow> freed_kind t l = Definite"
    and "freed_kind s l \<noteq> NotFreed \<Longrightarrow> freed_kind t l \<noteq> NotFreed"
  using assms by (auto simp: freed_survives_def freed_kind_Definite freed_kind_NotFreed)

lemma escape_local_survives: "l \<noteq> l' \<Longrightarrow> freed_survives l s (escape_local l' s)"
  by (auto simp: freed_survives_def escape_local_def escape_fold_lookup Let_def
      intro: objects_for_cong split: option.splits)

lemma escape_args_survives:
  "\<forall>a \<in> set args. operand_local a \<noteq> Some l \<Longrightarrow> freed_survives l s (escape_raw_ptr_args body args s)"
proof (induction args arbitrary: s)
  case Nil
  then show ?case by (simp add: escape_raw_ptr_args_def)
next
  case (Cons a args)
  let ?s = "escape_raw_ptr_args body [a] s"
  have "freed_survives l s ?s"
    using Cons.prems by (auto simp: escape_raw_ptr_args_def intro: escape_local_survives split: option.splits)
  moreover have "freed_survives l ?s (escape_raw_ptr_args body args ?s)" using Cons by simp
  moreover have "escape_raw_ptr_args body (a # args) s = escape_raw_ptr_args body args ?s"
    by (simp add: escape_raw_ptr_args_def)
  ultimately show ?case by (metis freed_survives_trans)
qed

text \<open>
  C22: handing pointers to an unknown callee never hides that another pointer is dangling. A
  local that is not among the arguments keeps its verdict, even if it shares an object with an
  argument that escapes.
\<close>

theorem escape_keeps_freed_verdict:
  assumes "\<forall>a \<in> set args. operand_local a \<noteq> Some l"
  shows "(freed_kind s l = Definite \<longrightarrow> freed_kind (escape_raw_ptr_args body args s) l = Definite) \<and>
    (freed_kind s l \<noteq> NotFreed \<longrightarrow> freed_kind (escape_raw_ptr_args body args s) l \<noteq> NotFreed)"
  using freed_survives_kind [OF escape_args_survives [OF assms]] by blast

definition shared_freed_state :: block_state where
  "shared_freed_state = block_state_default
     \<lparr>heap := fmap_of_list [(7, Reconstituted)], points_to := fmap_of_list [(1, {|7|}), (2, {|7|})]\<rparr>"

theorem escape_keeps_freed_verdict_witness:
  "freed_kind (escape_raw_ptr_args double_free_body [Copy (Place 1 [])] shared_freed_state) 2 = Definite"
proof -
  have "freed_kind shared_freed_state 2 = Definite" by code_simp
  moreover have "\<forall>a \<in> set [Copy (Place 1 [])]. operand_local a \<noteq> Some 2" by simp
  ultimately show ?thesis using escape_keeps_freed_verdict by blast
qed

section \<open>Creating and giving back\<close>

text \<open>The steps of a call that leave the heap and the points-to map alone.\<close>

lemma same_objects_fold:
  assumes "\<And>x s. heap (f x s) = heap s \<and> points_to (f x s) = points_to s"
  shows "heap (fold f xs s) = heap s \<and> points_to (fold f xs s) = points_to s"
  by (induction xs arbitrary: s) (simp_all add: assms)

lemma invalidate_owner_objects [simp]:
  "heap (invalidate_owner l s) = heap s" "points_to (invalidate_owner l s) = points_to s"
  by (simp_all add: invalidate_owner_def)

lemma invalidate_owner_args_objects [simp]:
  "heap (invalidate_owner_args body args k s) = heap s"
  "points_to (invalidate_owner_args body args k s) = points_to s"
  by (simp_all add: invalidate_owner_args_def same_objects_fold)

lemma drop_capacity_objects [simp]:
  "heap (drop_capacity_proofs body args s) = heap s"
  "points_to (drop_capacity_proofs body args s) = points_to s"
proof -
  have "heap (drop_capacity_proofs body args s) = heap s \<and>
      points_to (drop_capacity_proofs body args s) = points_to s"
    unfolding drop_capacity_proofs_def
    by (rule same_objects_fold) (simp add: Let_def split: option.splits)
  then show "heap (drop_capacity_proofs body args s) = heap s"
    "points_to (drop_capacity_proofs body args s) = points_to s" by simp_all
qed

lemma clear_objects [simp]:
  "heap (clear_call_dest d s) = heap s" "points_to (clear_call_dest d s) = points_to s"
  "heap (clear_dest_tail d s) = heap s" "points_to (clear_dest_tail d s) = points_to s"
  by (simp_all add: clear_call_dest_def clear_dest_tail_def)

lemma record_objects [simp]:
  "heap (record_len_cap path args d s) = heap s" "points_to (record_len_cap path args d s) = points_to s"
  "heap (record_float_test path args d s) = heap s" "points_to (record_float_test path args d s) = points_to s"
  "heap (record_deref path args d s) = heap s" "points_to (record_deref path args d s) = points_to s"
  "heap (record_fd path args d s) = heap s" "points_to (record_fd path args d s) = points_to s"
  "heap (record_spawn path s) = heap s" "points_to (record_spawn path s) = points_to s"
  "heap (record_eq_call path args d s) = heap s" "points_to (record_eq_call path args d s) = points_to s"
  by (simp_all add: record_len_cap_def record_float_test_def record_deref_def record_fd_def
      record_spawn_def record_eq_call_def Let_def split: option.splits)

lemma enforce_objects [simp]:
  "heap (enforce_type_facts tcx l ty s) = heap s" "points_to (enforce_type_facts tcx l ty s) = points_to s"
  by (simp_all add: enforce_type_facts_def lower_upper_bound_def Let_def split: option.splits)

lemma after_dispatch_objects [simp]:
  "heap (after_dispatch tcx body path args d s) = heap s"
  "points_to (after_dispatch tcx body path args d s) = points_to s"
  by (simp_all add: after_dispatch_def Let_def)

lemma before_dispatch_objects:
  assumes "realloc_receiver tcx summaries callee args = None"
  shows "heap (before_dispatch tcx body summaries callee args d s) = heap s"
    and "points_to (before_dispatch tcx body summaries callee args d s) = points_to s"
  using assms by (simp_all add: before_dispatch_def run_steps_def if_some_def)

lemma apply_call_resolved:
  assumes "resolve_callee tcx body func s = Some did" and "projection destination = []"
  obtains t where
    "apply_call tcx body summaries func args destination bb s =
       after_dispatch tcx body (def_path_str tcx did) args (place_local destination)
         (dispatch_call tcx body summaries did args (place_local destination) bb t)"
    "heap t = heap (before_dispatch tcx body summaries (Some did) args (place_local destination) s)"
    "points_to t = points_to (before_dispatch tcx body summaries (Some did) args (place_local destination) s)"
  using assms by (simp add: apply_call_def apply_callee_def apply_resolved_call_def run_steps_def Let_def)

text \<open>
  A call recognized as handing out an allocation (\<^verbatim>\<open>Box::into_raw\<close> and its
  kin) leaves its destination with one raw-owned object, the one of the call's block.
\<close>

lemma into_raw_gives_owned_pointer:
  assumes "resolve_callee tcx body func s = Some did" and "projection destination = []"
    and "is_into_raw (def_path_str tcx did)" and "\<not> is_raw_realloc (def_path_str tcx did)"
  shows "objects_for (apply_call tcx body summaries func args destination bb s) (place_local destination) =
      [word_of_nat bb] \<and>
    ptr_is_raw_owned (apply_call tcx body summaries func args destination bb s) (place_local destination)"
proof -
  from apply_call_resolved [OF assms(1,2)] obtain t where
    "apply_call tcx body summaries func args destination bb s =
       after_dispatch tcx body (def_path_str tcx did) args (place_local destination)
         (dispatch_call tcx body summaries did args (place_local destination) bb t)" by blast
  then show ?thesis using assms(3,4)
    by (simp add: dispatch_call_def call_into_raw_def seed_raw_owned_def ptr_is_raw_owned_def objects_for_def Let_def)
qed

text \<open>
  C23: a call recognized as taking an allocation back (\<^verbatim>\<open>Box::from_raw\<close> and its kin)
  on a raw-owned pointer leaves every object of the pointer reclaimed and the pointer still
  referring to them, so every later use through it is judged a definite use after free.
\<close>

theorem from_raw_makes_pointer_dangling:
  assumes "resolve_callee tcx body func s = Some did" and "projection destination = []"
    and "is_from_raw (def_path_str tcx did)" and "\<not> is_into_raw (def_path_str tcx did)"
    and "\<not> is_raw_realloc (def_path_str tcx did)"
    and "realloc_receiver tcx summaries (Some did) args = None"
    and "first_arg_local args = Some src" and "src \<noteq> place_local destination" and "ptr_is_raw_owned s src"
  shows "freed_kind (apply_call tcx body summaries func args destination bb s) src = Definite"
proof -
  from apply_call_resolved [OF assms(1,2)] obtain t where t:
    "apply_call tcx body summaries func args destination bb s =
       after_dispatch tcx body (def_path_str tcx did) args (place_local destination)
         (dispatch_call tcx body summaries did args (place_local destination) bb t)"
    "heap t = heap s" "points_to t = points_to s"
    using before_dispatch_objects [OF assms(6)] by metis
  let ?u = "apply_call tcx body summaries func args destination bb s"
  have call: "dispatch_call tcx body summaries did args (place_local destination) bb t =
      call_from_raw args (place_local destination) t"
    using assms(3-5) by (simp add: dispatch_call_def)
  have objs: "objects_for t src = objects_for s src" by (simp add: objects_for_def t)
  have "heap ?u = heap (reconstitute_objects src t)"
    unfolding t(1) call by (simp add: call_from_raw_def assms(7) if_some_def Let_def split: option.splits)
  moreover have "fmlookup (points_to ?u) src = fmlookup (points_to s) src"
    unfolding t(1) call using assms(8)
    by (simp add: call_from_raw_def assms(7) if_some_def Let_def t split: option.splits)
  then have "objects_for ?u src = objects_for s src" by (rule objects_for_cong)
  ultimately show ?thesis using assms(9)
    by (simp add: freed_kind_Definite ptr_is_raw_owned_iff objs t)
qed

definition owned_state :: block_state where
  "owned_state = block_state_default
     \<lparr>heap := fmap_of_list [(7, RawOwned)], points_to := fmap_of_list [(1, {|7|})]\<rparr>"

theorem from_raw_makes_pointer_dangling_witness:
  "freed_kind
     (apply_call double_free_tcx double_free_body fmempty (Constant (FnItem (DefId 1 2) 0)) [Copy (Place 1 [])]
        (Place 2 []) 1 owned_state) 1 = Definite"
proof -
  have "resolve_callee double_free_tcx double_free_body (Constant (FnItem (DefId 1 2) 0)) owned_state =
      Some (DefId 1 2)"
    "is_from_raw (def_path_str double_free_tcx (DefId 1 2))"
    "\<not> is_into_raw (def_path_str double_free_tcx (DefId 1 2))"
    "\<not> is_raw_realloc (def_path_str double_free_tcx (DefId 1 2))"
    "realloc_receiver double_free_tcx fmempty (Some (DefId 1 2)) [Copy (Place 1 [])] = None"
    "first_arg_local [Copy (Place 1 [])] = Some 1" "1 \<noteq> place_local (Place 2 [])"
    "ptr_is_raw_owned owned_state 1" by code_simp+
  from from_raw_makes_pointer_dangling [OF this(1) _ this(2-8)] show ?thesis by simp
qed

section \<open>Reallocation\<close>

lemma mark_stale_fold:
  "fmlookup (points_to (fold mark_stale ps s)) p =
     (if p \<in> set ps then Some {|REALLOC_BASE + p|} else fmlookup (points_to s) p)"
  "p \<in> set ps \<or> fmlookup (heap s) (REALLOC_BASE + p) = Some MaybeFreed \<Longrightarrow>
   fmlookup (heap (fold mark_stale ps s)) (REALLOC_BASE + p) = Some MaybeFreed"
  by (induction ps arbitrary: s) (auto simp: mark_stale_def Let_def)

lemma realloced_fold:
  "points_to (fold (\<lambda>o' s. if is_param body o' then s\<lparr>realloced_params := finsert o' (realloced_params s)\<rparr> else s) os s)
     = points_to s"
  "owner_alias (fold (\<lambda>o' s. if is_param body o' then s\<lparr>realloced_params := finsert o' (realloced_params s)\<rparr> else s) os s)
     = owner_alias s"
  by (induction os arbitrary: s) auto

text \<open>A local that is not a reference and aliases an owner of the receiver's buffer.\<close>

definition aliases_buffer :: "body \<Rightarrow> local \<Rightarrow> block_state \<Rightarrow> local \<Rightarrow> bool" where
  "aliases_buffer body recv s p \<longleftrightarrow>
     \<not> is_ref_ty (local_decls body p) \<and>
     (\<exists>o'. o' \<in> set (buffer_owners recv s) \<and> o' \<in> set (owners_of s p))"

lemma in_sorted_list_of_fmap: "(k, v) \<in> set (sorted_list_of_fmap m) \<longleftrightarrow> fmlookup m k = Some v"
proof -
  have "(k, v) \<in> set (sorted_list_of_fmap m) \<longleftrightarrow> k |\<in>| fmdom m \<and> v = the (fmlookup m k)"
    by (auto simp: sorted_list_of_fmap_def)
  also have "\<dots> \<longleftrightarrow> fmlookup m k = Some v" by (cases "fmlookup m k") (auto simp: fmlookup_dom_iff)
  finally show ?thesis .
qed

lemma stale_handles_iff:
  "p \<in> set (stale_handles body (buffer_owners recv s) s) \<longleftrightarrow> aliases_buffer body recv s p"
proof -
  have "p \<in> set (stale_handles body os s) \<longleftrightarrow>
      (\<exists>as. (p, as) \<in> set (sorted_list_of_fmap (owner_alias s)) \<and> (\<exists>o' \<in> set os. o' |\<in>| as) \<and>
        \<not> is_ref_ty (local_decls body p))" for os
    unfolding stale_handles_def by (simp add: image_iff list_ex_iff Bex_def)
  then show ?thesis
    unfolding in_sorted_list_of_fmap aliases_buffer_def set_owners_of entry_or_default_def
    by (cases "fmlookup (owner_alias s) p") auto
qed

lemma stale_handles_cong: "owner_alias t = owner_alias u \<Longrightarrow> stale_handles body os t = stale_handles body os u"
  by (simp add: stale_handles_def)

lemma apply_realloc_handles:
  obtains t where "apply_realloc body recv s = fold mark_stale (stale_handles body (buffer_owners recv s) s) t"
    "points_to t = points_to s"
proof (rule that)
  let ?t = "fold (\<lambda>o' s. if is_param body o' then s\<lparr>realloced_params := finsert o' (realloced_params s)\<rparr> else s)
    (buffer_owners recv s) s"
  show "apply_realloc body recv s = fold mark_stale (stale_handles body (buffer_owners recv s) s) ?t"
    unfolding apply_realloc_def Let_def stale_handles_cong [OF realloced_fold(2)] ..
qed (rule realloced_fold(1))

text \<open>
  C24: a call that may move the buffer of its receiver makes exactly the locals that are not
  references and alias an owner of the buffer potentially dangling; every other local keeps
  its objects.
\<close>

theorem realloc_makes_handles_stale:
  "if aliases_buffer body recv s p then freed_kind (apply_realloc body recv s) p = Potential
   else objects_for (apply_realloc body recv s) p = objects_for s p"
proof -
  obtain t where t: "apply_realloc body recv s = fold mark_stale (stale_handles body (buffer_owners recv s) s) t"
    "points_to t = points_to s" by (rule apply_realloc_handles)
  show ?thesis
  proof (cases "aliases_buffer body recv s p")
    case True
    let ?t = "apply_realloc body recv s"
    have "objects_for ?t p = [REALLOC_BASE + p]" "fmlookup (heap ?t) (REALLOC_BASE + p) = Some MaybeFreed"
      using True unfolding t(1) by (simp_all add: objects_for_def mark_stale_fold stale_handles_iff)
    then have "freed_kind ?t p = Potential" by (simp add: freed_kind_def freed_kind_step_def)
    with True show ?thesis by simp
  next
    case False
    then show ?thesis unfolding t(1) by (simp add: objects_for_def mark_stale_fold stale_handles_iff t)
  qed
qed

section \<open>What the ownership checker reports\<close>

lemma in_map_filter: "y \<in> set (List.map_filter f xs) \<longleftrightarrow> (\<exists>x \<in> set xs. f x = Some y)"
  by (induction xs) (auto simp: List.map_filter_simps split: option.splits)

lemma in_enumerate_0: "(i, x) \<in> set (enumerate 0 xs) \<longleftrightarrow> i < length xs \<and> x = xs ! i"
  by (auto simp: in_set_enumerate_eq)

text \<open>The findings of the block when its terminator is a call.\<close>

definition call_block_findings ::
  "tyctxt \<Rightarrow> body \<Rightarrow> flow_results \<Rightarrow> nat \<times> basic_block_data \<Rightarrow> finding list" where
  "call_block_findings tcx body flow = (\<lambda>(bb, block_data).
     case (state_before_terminator flow tcx body bb, call_of_block block_data) of
       (Some state, Some (func, args)) \<Rightarrow>
         ownership_at_call tcx body flow (is_drop_method tcx body) state func args (span_of_block block_data)
     | _ \<Rightarrow> [])"

text \<open>The objects the block leaks when its terminator is a return.\<close>

definition leaked_at :: "tyctxt \<Rightarrow> body \<Rightarrow> flow_results \<Rightarrow> nat \<times> basic_block_data \<Rightarrow> object_id set" where
  "leaked_at tcx body flow = (\<lambda>(bb, block_data).
     {oid. is_return_block block_data \<and> \<not> is_closure_like tcx (source_def_id body) \<and>
        (\<exists>state l. state_before_terminator flow tcx body bb = Some state \<and>
           oid \<in> set (objects_for state l) \<and> oid \<notin> set (objects_for state 0) \<and>
           fmlookup (heap state) oid = Some RawOwned)})"

definition is_leak :: "finding \<Rightarrow> bool" where
  "is_leak f \<longleftrightarrow> rule_id f = ''ownership_leak''"

lemma return_no_call: "is_return_block b \<Longrightarrow> call_of_block b = None"
  by (cases b rule: is_return_block.cases) auto

lemma tracked_objects_iff: "oid \<in> set (tracked_objects s) \<longleftrightarrow> (\<exists>l. oid \<in> set (objects_for s l))"
proof -
  have "oid \<in> set (tracked_objects s) \<longleftrightarrow> (\<exists>l objs. fmlookup (points_to s) l = Some objs \<and> oid |\<in>| objs)"
    by (simp add: tracked_objects_def in_sorted_list_of_fmap Bex_def split_def)
  also have "\<dots> \<longleftrightarrow> (\<exists>l. oid \<in> set (objects_for s l))"
    by (auto simp: set_objects_for entry_or_default_def split: option.splits)
  finally show ?thesis .
qed

lemma leak_step_apply:
  "leak_step s sp ret oid (seen, leaked, fs) =
     (if oid \<in> set ret \<or> oid |\<in>| seen then (seen, leaked, fs)
      else if fmlookup (heap s) oid = Some RawOwned \<and> oid |\<notin>| leaked
      then (finsert oid seen, finsert oid leaked, fs @ [leak_finding sp])
      else (finsert oid seen, leaked, fs))"
  by (simp add: leak_step_def)

lemma leak_steps:
  assumes "\<forall>oid. oid |\<in>| seen \<and> fmlookup (heap s) oid = Some RawOwned \<longrightarrow> oid |\<in>| leaked"
    and "fold (leak_step s sp ret) oids (seen, leaked, fs) = (seen', leaked', fs')"
  shows "fset leaked' = fset leaked \<union> {oid \<in> set oids. oid \<notin> set ret \<and> fmlookup (heap s) oid = Some RawOwned} \<and>
    (\<exists>k. fs' = fs @ replicate k (leak_finding sp) \<and> fcard leaked' = fcard leaked + k)"
  using assms
proof (induction oids arbitrary: seen leaked fs)
  case (Cons oid oids)
  let ?raw = "fmlookup (heap s) oid = Some RawOwned"
  consider "oid \<in> set ret \<or> oid |\<in>| seen" | "oid \<notin> set ret" "oid |\<notin>| seen" "?raw" "oid |\<notin>| leaked"
    | "oid \<notin> set ret" "oid |\<notin>| seen" "\<not> (?raw \<and> oid |\<notin>| leaked)" by blast
  then show ?case
  proof cases
    case 1
    with Cons.prems(2) have "fold (leak_step s sp ret) oids (seen, leaked, fs) = (seen', leaked', fs')"
      by (auto simp: leak_step_apply)
    from Cons.IH [OF Cons.prems(1) this] 1 Cons.prems(1) show ?thesis by auto
  next
    case 2
    with Cons.prems(2) have
      "fold (leak_step s sp ret) oids (finsert oid seen, finsert oid leaked, fs @ [leak_finding sp]) = (seen', leaked', fs')"
      by (auto simp: leak_step_apply)
    from Cons.IH [OF _ this] Cons.prems(1) obtain k where
      "fset leaked' = fset (finsert oid leaked) \<union> {oid \<in> set oids. oid \<notin> set ret \<and> fmlookup (heap s) oid = Some RawOwned}"
      "fs' = (fs @ [leak_finding sp]) @ replicate k (leak_finding sp)" "fcard leaked' = fcard (finsert oid leaked) + k"
      by auto
    with 2 show ?thesis by (auto intro!: exI [of _ "Suc k"] simp: fcard_finsert_disjoint)
  next
    case 3
    with Cons.prems(2) have "fold (leak_step s sp ret) oids (finsert oid seen, leaked, fs) = (seen', leaked', fs')"
      by (auto simp: leak_step_apply)
    from Cons.IH [OF _ this] 3 Cons.prems(1) show ?thesis by auto
  qed
qed simp

lemma leaks_at_return_spec:
  assumes "leaks_at_return s sp (leaked, fs) = (leaked', fs')"
  shows "fset leaked' = fset leaked \<union>
      {oid. (\<exists>l. oid \<in> set (objects_for s l)) \<and> oid \<notin> set (objects_for s 0) \<and> fmlookup (heap s) oid = Some RawOwned} \<and>
    (\<exists>k. fs' = fs @ replicate k (leak_finding sp) \<and> fcard leaked' = fcard leaked + k)"
proof -
  obtain seen' l f where run:
    "fold (leak_step s sp (objects_for s 0)) (tracked_objects s) ({||}, leaked, fs) = (seen', l, f)"
    by (rule prod_cases3)
  with assms have "l = leaked'" "f = fs'" by (simp_all add: leaks_at_return_def)
  with leak_steps [OF _ run] show ?thesis by (simp add: tracked_objects_iff)
qed

lemma finding_simps [simp]:
  "rule_id (dangling_owner_finding sp) = ''use_after_free''" "span_of (dangling_owner_finding sp) = sp"
  "rule_id (double_free_finding sp n d) = ''ownership_double_free''" "span_of (double_free_finding sp n d) = sp"
  "rule_id (leak_finding sp) = ''ownership_leak''"
  by (simp_all add: dangling_owner_finding_def double_free_finding_def leak_finding_def)

lemma in_double_frees_of:
  "f \<in> set (double_frees_of s sp n l) \<longleftrightarrow>
     (\<exists>oid \<in> set (objects_for s l).
        fmlookup (heap s) oid = Some Reconstituted \<and> f = double_free_finding sp n True \<or>
        fmlookup (heap s) oid = Some MaybeFreed \<and> f = double_free_finding sp n False)"
  unfolding double_frees_of_def in_map_filter
  by (rule bex_cong [OF refl]) (auto split: option.splits heap_state.splits)

lemma calls_never_leak:
  assumes "f \<in> set (call_block_findings tcx body flow b)"
  shows "\<not> is_leak f"
proof -
  from assms obtain state func args sp where
    "f \<in> set (ownership_at_call tcx body flow (is_drop_method tcx body) state func args sp)"
    by (auto simp: call_block_findings_def split_def split: option.splits)
  then have "f = dangling_owner_finding sp \<or> (\<exists>n d. f = double_free_finding sp n d)"
    by (auto simp: ownership_at_call_def in_double_frees_of in_map_filter Let_def split: option.splits if_splits)
  then show ?thesis by (auto simp: is_leak_def)
qed

lemma ownership_at_block_spec:
  assumes "ownership_at_block tcx body flow b (leaked, fs) = (leaked', fs')"
  shows "fset leaked' = fset leaked \<union> leaked_at tcx body flow b \<and>
    (\<exists>k. fs' = fs @ call_block_findings tcx body flow b @ replicate k (leak_finding (span_of_block (snd b))) \<and>
       fcard leaked' = fcard leaked + k)"
proof (cases "is_return_block (snd b) \<and> state_before_terminator flow tcx body (fst b) \<noteq> None \<and>
    \<not> is_closure_like tcx (source_def_id body)")
  case True
  then obtain s where s: "state_before_terminator flow tcx body (fst b) = Some s" by blast
  from True s assms have "leaks_at_return s (span_of_block (snd b)) (leaked, fs) = (leaked', fs')"
    by (simp add: ownership_at_block_def split_def)
  from leaks_at_return_spec [OF this] True s show ?thesis
    by (simp add: leaked_at_def call_block_findings_def split_def return_no_call)
next
  case False
  then have "leaked_at tcx body flow b = {}" by (auto simp: leaked_at_def split_def)
  moreover from False assms have "leaked' = leaked \<and> fs' = fs @ call_block_findings tcx body flow b"
    by (auto simp: ownership_at_block_def call_block_findings_def split_def return_no_call
        split: option.splits if_splits)
  ultimately show ?thesis by (simp add: exI [of _ 0])
qed

lemma ownership_fold_spec:
  assumes "fold (ownership_at_block tcx body flow) bs (leaked, fs) = (leaked', fs')"
  shows "fset leaked' = fset leaked \<union> (\<Union>b \<in> set bs. leaked_at tcx body flow b) \<and>
    length (filter is_leak fs') + fcard leaked = length (filter is_leak fs) + fcard leaked' \<and>
    (\<forall>f. \<not> is_leak f \<longrightarrow>
       f \<in> set fs' \<longleftrightarrow> f \<in> set fs \<or> (\<exists>b \<in> set bs. f \<in> set (call_block_findings tcx body flow b)))"
  using assms
proof (induction bs arbitrary: leaked fs)
  case (Cons b bs)
  obtain leaked1 fs1 where step: "ownership_at_block tcx body flow b (leaked, fs) = (leaked1, fs1)" by fastforce
  note spec = ownership_at_block_spec [OF step]
  then obtain k where k: "fs1 = fs @ call_block_findings tcx body flow b @
      replicate k (leak_finding (span_of_block (snd b)))" "fcard leaked1 = fcard leaked + k" by blast
  have leak: "is_leak (leak_finding sp)" for sp by (simp add: is_leak_def)
  have "filter is_leak (call_block_findings tcx body flow b) = []"
    using calls_never_leak by (auto simp: filter_empty_conv)
  then have "length (filter is_leak fs1) = length (filter is_leak fs) + k"
    using k leak by (simp add: filter_replicate)
  moreover have "f \<in> set fs1 \<longleftrightarrow> f \<in> set fs \<or> f \<in> set (call_block_findings tcx body flow b)" if "\<not> is_leak f" for f
    using that leak k by auto
  moreover from Cons.prems step have "fold (ownership_at_block tcx body flow) bs (leaked1, fs1) = (leaked', fs')" by simp
  note Cons.IH [OF this]
  ultimately show ?case using spec k(2) by auto
qed simp

lemma check_ownership_spec:
  obtains leaked where "fset leaked = (\<Union>b \<in> set (enumerate 0 (basic_blocks body)). leaked_at tcx body flow b)"
    "length (filter is_leak (check_ownership tcx body flow)) = fcard leaked"
    "\<And>f. \<not> is_leak f \<Longrightarrow> f \<in> set (check_ownership tcx body flow) \<longleftrightarrow>
       (\<exists>b \<in> set (enumerate 0 (basic_blocks body)). f \<in> set (call_block_findings tcx body flow b))"
proof -
  obtain leaked fs where run:
    "fold (ownership_at_block tcx body flow) (enumerate 0 (basic_blocks body)) ({||}, []) = (leaked, fs)" by fastforce
  from ownership_fold_spec [OF this] run that [of leaked] show thesis by (simp add: check_ownership_def fcard.rep_eq)
qed

lemma double_free_of_local:
  "(\<exists>f. f \<in> set (double_frees_of s sp n l)) \<longleftrightarrow> freed_kind s l \<noteq> NotFreed"
  by (auto simp: in_double_frees_of freed_kind_NotFreed)

text \<open>The function a call names, directly or through a tracked function pointer.\<close>

definition called_fn :: "block_state \<Rightarrow> operand \<Rightarrow> def_id option" where
  "called_fn state func =
     or_else (map_option fst (const_fn_def func)) (Option.bind (operand_local func) (fmlookup (fn_ptr_targets state)))"

lemma in_ownership_at_call:
  assumes "called_fn state func = Some did"
  shows "f \<in> set (ownership_at_call tcx body flow in_drop state func args sp) \<longleftrightarrow>
    (\<exists>l \<in> set (freed_args flow did (def_path_str tcx did) args).
       \<not> in_drop \<and> list_ex (is_reference_param body) (owners_of state l) \<and> f = dangling_owner_finding sp \<or>
       f \<in> set (double_frees_of state sp
         (if is_from_raw (def_path_str tcx did) then from_raw_short (def_path_str tcx did) else item_name tcx did) l))"
  using assms unfolding ownership_at_call_def called_fn_def [symmetric] Let_def
  by (auto simp: in_map_filter)

lemma in_double_frees_rule: "f \<in> set (double_frees_of s sp n l) \<Longrightarrow> rule_id f = ''ownership_double_free''"
  by (auto simp: in_double_frees_of)

lemma double_free_at_call:
  assumes "called_fn state func = Some did"
  shows "(\<exists>f. f \<in> set (ownership_at_call tcx body flow in_drop state func args sp) \<and>
      rule_id f = ''ownership_double_free'') \<longleftrightarrow>
    (\<exists>l \<in> set (freed_args flow did (def_path_str tcx did) args). freed_kind state l \<noteq> NotFreed)"
  (is "_ \<longleftrightarrow> (\<exists>l \<in> ?freed. _)")
proof -
  let ?n = "if is_from_raw (def_path_str tcx did) then from_raw_short (def_path_str tcx did) else item_name tcx did"
  have "rule_id (dangling_owner_finding sp) \<noteq> ''ownership_double_free''" by simp
  then have "(\<exists>f. f \<in> set (ownership_at_call tcx body flow in_drop state func args sp) \<and>
      rule_id f = ''ownership_double_free'') \<longleftrightarrow> (\<exists>l \<in> ?freed. \<exists>f. f \<in> set (double_frees_of state sp ?n l))"
    unfolding in_ownership_at_call [OF assms] using in_double_frees_rule by metis
  then show ?thesis by (simp only: double_free_of_local)
qed

lemma at_call_span:
  assumes "f \<in> set (ownership_at_call tcx body flow in_drop state func args sp)"
  shows "span_of f = sp" and "called_fn state func \<noteq> None"
proof -
  from assms show "called_fn state func \<noteq> None"
    unfolding ownership_at_call_def called_fn_def [symmetric] by (rule contrapos_pn) simp
  then obtain did where did: "called_fn state func = Some did" by blast
  from assms show "span_of f = sp" unfolding in_ownership_at_call [OF did] by (auto simp: in_double_frees_of)
qed

lemma in_call_block_findings:
  "f \<in> set (call_block_findings tcx body flow (bb, b)) \<longleftrightarrow>
     (\<exists>state func args. state_before_terminator flow tcx body bb = Some state \<and> call_of_block b = Some (func, args) \<and>
        f \<in> set (ownership_at_call tcx body flow (is_drop_method tcx body) state func args (span_of_block b)))"
  unfolding call_block_findings_def
  by (cases "state_before_terminator flow tcx body bb"; cases "call_of_block b") auto

lemma check_ownership_calls:
  assumes "\<not> is_leak f"
  shows "f \<in> set (check_ownership tcx body flow) \<longleftrightarrow>
    (\<exists>bb < length (basic_blocks body). f \<in> set (call_block_findings tcx body flow (bb, basic_blocks body ! bb)))"
proof -
  have "f \<in> set (check_ownership tcx body flow) \<longleftrightarrow>
    (\<exists>b \<in> set (enumerate 0 (basic_blocks body)). f \<in> set (call_block_findings tcx body flow b))"
    using assms by (rule_tac check_ownership_spec [of tcx body flow]) blast
  then show ?thesis by (auto simp: in_enumerate_0 Bex_def)
qed

lemma double_free_found:
  assumes "bb < length (basic_blocks body)" and "call_of_block (basic_blocks body ! bb) = Some (func, args)"
    and "state_before_terminator flow tcx body bb = Some state" and "called_fn state func = Some did"
    and "l \<in> set (freed_args flow did (def_path_str tcx did) args)" and "freed_kind state l \<noteq> NotFreed"
  shows "\<exists>f. f \<in> set (check_ownership tcx body flow) \<and> rule_id f = ''ownership_double_free'' \<and>
    span_of f = span_of_block (basic_blocks body ! bb)"
proof -
  let ?sp = "span_of_block (basic_blocks body ! bb)"
  obtain f where f: "f \<in> set (ownership_at_call tcx body flow (is_drop_method tcx body) state func args ?sp)"
    "rule_id f = ''ownership_double_free''" using double_free_at_call [OF assms(4)] assms(5,6) by blast
  then have "f \<in> set (call_block_findings tcx body flow (bb, basic_blocks body ! bb))"
    unfolding in_call_block_findings using assms by blast
  moreover from f(2) have "\<not> is_leak f" by (simp add: is_leak_def)
  ultimately have "f \<in> set (check_ownership tcx body flow)" using check_ownership_calls assms(1) by blast
  with f at_call_span(1) [OF f(1)] show ?thesis by blast
qed

text \<open>
  C16: the checker reports a double free at a source range exactly if a reachable call there
  frees an argument (a \<^verbatim>\<open>from_raw\<close> call, or a callee whose summary consumes the
  parameter) that the state in front of the call judges freed, definitely or potentially.
\<close>

theorem double_free_reported_iff:
  "(\<exists>f. f \<in> set (check_ownership tcx body flow) \<and> rule_id f = ''ownership_double_free'' \<and> span_of f = sp) \<longleftrightarrow>
   (\<exists>bb state func args did l. bb < length (basic_blocks body) \<and>
      call_of_block (basic_blocks body ! bb) = Some (func, args) \<and>
      state_before_terminator flow tcx body bb = Some state \<and>
      called_fn state func = Some did \<and> l \<in> set (freed_args flow did (def_path_str tcx did) args) \<and>
      freed_kind state l \<noteq> NotFreed \<and> span_of_block (basic_blocks body ! bb) = sp)" (is "?l \<longleftrightarrow> ?r")
proof
  assume ?l
  then obtain f where f: "f \<in> set (check_ownership tcx body flow)" "rule_id f = ''ownership_double_free''" "span_of f = sp"
    by blast
  from f(2) have "\<not> is_leak f" by (simp add: is_leak_def)
  with f(1) obtain bb where bb: "bb < length (basic_blocks body)"
    "f \<in> set (call_block_findings tcx body flow (bb, basic_blocks body ! bb))"
    using check_ownership_calls by blast
  from bb(2) obtain state func args where call: "state_before_terminator flow tcx body bb = Some state"
    "call_of_block (basic_blocks body ! bb) = Some (func, args)"
    "f \<in> set (ownership_at_call tcx body flow (is_drop_method tcx body) state func args
      (span_of_block (basic_blocks body ! bb)))" unfolding in_call_block_findings by blast
  from at_call_span [OF call(3)] f(3) obtain did where
    "span_of_block (basic_blocks body ! bb) = sp" "called_fn state func = Some did" by auto
  moreover have "\<exists>l \<in> set (freed_args flow did (def_path_str tcx did) args). freed_kind state l \<noteq> NotFreed"
    using iffD1 [OF double_free_at_call [OF calculation(2)]] call(3) f(2) by blast
  ultimately show ?r using bb(1) call by blast
next
  assume ?r
  with double_free_found show ?l by metis
qed

lemma leak_count:
  "length (filter is_leak (check_ownership tcx body flow)) =
   card {oid. \<not> is_closure_like tcx (source_def_id body) \<and>
     (\<exists>bb state l. bb < length (basic_blocks body) \<and> is_return_block (basic_blocks body ! bb) \<and>
        state_before_terminator flow tcx body bb = Some state \<and>
        oid \<in> set (objects_for state l) \<and> oid \<notin> set (objects_for state 0) \<and>
        fmlookup (heap state) oid = Some RawOwned)}"
proof -
  obtain leaked where leaked: "fset leaked = (\<Union>b \<in> set (enumerate 0 (basic_blocks body)). leaked_at tcx body flow b)"
    "length (filter is_leak (check_ownership tcx body flow)) = fcard leaked" by (rule check_ownership_spec)
  have "(\<Union>b \<in> set (enumerate 0 (basic_blocks body)). leaked_at tcx body flow b) =
    {oid. \<not> is_closure_like tcx (source_def_id body) \<and>
     (\<exists>bb state l. bb < length (basic_blocks body) \<and> is_return_block (basic_blocks body ! bb) \<and>
        state_before_terminator flow tcx body bb = Some state \<and>
        oid \<in> set (objects_for state l) \<and> oid \<notin> set (objects_for state 0) \<and>
        fmlookup (heap state) oid = Some RawOwned)}"
    unfolding leaked_at_def by (auto simp: in_enumerate_0 Bex_def) blast+
  with leaked show ?thesis by (simp add: fcard.rep_eq)
qed

text \<open>
  C17: every leaked object is reported once: there are as many leak findings in a body as
  there are objects that some return terminator leaves raw-owned, reachable from a local and
  not returned; closures and coroutines report none.
\<close>

theorem leak_reported_once_per_object:
  "length (filter is_leak (check_ownership tcx body flow)) =
   card {oid. \<not> is_closure_like tcx (source_def_id body) \<and>
     (\<exists>bb state l. bb < length (basic_blocks body) \<and> is_return_block (basic_blocks body ! bb) \<and>
        state_before_terminator flow tcx body bb = Some state \<and>
        oid \<in> set (objects_for state l) \<and> oid \<notin> set (objects_for state 0) \<and>
        fmlookup (heap state) oid = Some RawOwned)}"
  by (rule leak_count)

end
