(* ===== verification/Summary_Properties.thy ===== *)
theory Summary_Properties
  imports Ownership_Properties
begin

text \<open>
  Summaries across a call: what a body does to its parameters, read off its exit state and
  applied at a call site, is what the call does to the arguments.
\<close>

section \<open>Applying a summary\<close>

lemma apply_param_effect_reconstituted:
  assumes "e \<noteq> EffectEscaped"
  shows "points_to (apply_param_effect args (i, e) s) = points_to s"
    and "fmlookup (heap (apply_param_effect args (i, e) s)) oid =
      (if fmlookup (heap s) oid = Some RawOwned \<and> e = EffectReconstituted \<and>
          (\<exists>l. nth_arg_local args i = Some l \<and> oid \<in> set (objects_for s l))
       then Some Reconstituted else fmlookup (heap s) oid)"
  using assms by (auto simp: apply_param_effect_def Let_def split: option.splits param_heap_effect.splits)

lemma objects_for_points_to: "points_to s = points_to t \<Longrightarrow> objects_for s = objects_for t"
  by (simp add: objects_for_def fun_eq_iff)

text \<open>The objects of the arguments that the effects consume.\<close>

definition consumed :: "operand list \<Rightarrow> (nat \<times> param_heap_effect) list \<Rightarrow> block_state \<Rightarrow> object_id \<Rightarrow> bool" where
  "consumed args effs s oid \<longleftrightarrow>
     list_ex (\<lambda>(i, e). e = EffectReconstituted \<and>
       (\<exists>l. nth_arg_local args i = Some l \<and> oid \<in> set (objects_for s l))) effs"

lemma apply_param_effects_reconstituted:
  assumes "list_all (\<lambda>(i, e). e \<noteq> EffectEscaped) effs"
  shows "points_to (fold (apply_param_effect args) effs s) = points_to s \<and>
    fmlookup (heap (fold (apply_param_effect args) effs s)) oid =
      (if fmlookup (heap s) oid = Some RawOwned \<and> consumed args effs s oid
       then Some Reconstituted else fmlookup (heap s) oid)"
  using assms
proof (induction effs arbitrary: s)
  case Nil
  then show ?case by (simp add: consumed_def)
next
  case (Cons ie effs)
  obtain i e where ie: "ie = (i, e)" by force
  with Cons.prems have e: "e \<noteq> EffectEscaped" by simp
  let ?s = "apply_param_effect args (i, e) s"
  have "objects_for ?s = objects_for s"
    using apply_param_effect_reconstituted(1) [OF e] by (rule objects_for_points_to)
  then have "consumed args effs ?s oid = consumed args effs s oid" by (simp add: consumed_def)
  moreover have "consumed args (ie # effs) s oid \<longleftrightarrow> consumed args [(i, e)] s oid \<or> consumed args effs s oid"
    by (simp add: consumed_def ie)
  moreover have "fmlookup (heap ?s) oid = (if fmlookup (heap s) oid = Some RawOwned \<and> consumed args [(i, e)] s oid
      then Some Reconstituted else fmlookup (heap s) oid)"
    by (simp add: consumed_def apply_param_effect_reconstituted [OF e])
  ultimately show ?case
    using Cons.IH [of ?s] Cons.prems apply_param_effect_reconstituted(1) [OF e, of args i s] by (simp add: ie)
qed

lemma inherit_points_to_simps:
  "heap (inherit_points_to d a s) = heap s"
  "l \<noteq> d \<Longrightarrow> fmlookup (points_to (inherit_points_to d a s)) l = fmlookup (points_to s) l"
  by (simp_all add: inherit_points_to_def split: option.splits)

lemma set_owner_alias_fold:
  "heap (fold (set_owner_alias d) os s) = heap s" "points_to (fold (set_owner_alias d) os s) = points_to s"
  by (induction os arbitrary: s) (simp_all add: set_owner_alias_def)

lemma apply_return_alias_simps:
  "heap (apply_return_alias body args d n s) = heap s"
  "l \<noteq> d \<Longrightarrow> fmlookup (points_to (apply_return_alias body args d n s)) l = fmlookup (points_to s) l"
  by (simp_all add: apply_return_alias_def Let_def inherit_points_to_simps set_owner_alias_fold split: option.splits)

lemma apply_return_value_simps:
  assumes "\<not> returns_raw_owned summary"
  shows "heap (apply_return_value body args d bb summary s) = heap s"
    and "l \<noteq> d \<Longrightarrow>
      fmlookup (points_to (apply_return_value body args d bb summary s)) l = fmlookup (points_to s) l"
  using assms
  by (simp_all add: apply_return_value_def Let_def inherit_points_to_simps apply_return_alias_simps
      split: option.splits)

lemma extract_summary_exit:
  "exit_state flow tcx body = Some exit \<Longrightarrow> extract_summary tcx body flow = summary_of_exit body exit"
  by (simp add: extract_summary_def)

lemma exit_effects:
  "(i, e) \<in> set (param_effects (summary_of_exit body exit)) \<longleftrightarrow>
     i < arg_count body \<and> e = param_effect exit i \<and> e \<noteq> EffectNone"
  by (auto simp: summary_of_exit_def)

text \<open>
  C25: a wrapper consumes like the operation it wraps. If the exit state of a body has the
  object of parameter \<open>i\<close> reclaimed on every path, then a call to that body on a raw-owned
  argument leaves the argument judged definitely freed, as a direct \<^verbatim>\<open>from_raw\<close>
  call would.
\<close>

theorem consuming_callee_frees_argument:
  assumes "exit_state flow tcx callee = Some exit" and "i < arg_count callee"
    and "fmlookup (heap exit) (SUMMARY_BASE + word_of_nat i) = Some Reconstituted"
    and "\<forall>j < arg_count callee. param_effect exit j \<noteq> EffectEscaped"
    and "\<not> returns_raw_owned (extract_summary tcx callee flow)"
    and "nth_arg_local args i = Some a" and "a \<noteq> dest" and "ptr_is_raw_owned s a"
  shows "freed_kind (apply_fn_summary body args dest bb (extract_summary tcx callee flow) s) a = Definite"
proof -
  let ?sum = "extract_summary tcx callee flow"
  let ?mid = "fold (apply_param_effect args) (param_effects ?sum) s"
  let ?t = "apply_fn_summary body args dest bb ?sum s"
  note sum = extract_summary_exit [OF assms(1)]
  have "param_effect exit i = EffectReconstituted" using assms(3) by (simp add: param_effect_def)
  with assms(2) have eff: "(i, EffectReconstituted) \<in> set (param_effects ?sum)" by (simp add: sum exit_effects)
  have "list_all (\<lambda>(i, e). e \<noteq> EffectEscaped) (param_effects ?sum)"
    using assms(4) by (auto simp: list_all_iff sum exit_effects)
  note mid = apply_param_effects_reconstituted [OF this, of args s]
  have t: "heap ?t = heap ?mid" "fmlookup (points_to ?t) a = fmlookup (points_to s) a"
    using apply_return_value_simps [OF assms(5)] assms(7) mid by (simp_all add: apply_fn_summary_def)
  have objs: "objects_for ?t a = objects_for s a" by (rule objects_for_cong [OF t(2)])
  have "fmlookup (heap ?t) oid = Some Reconstituted" if "oid \<in> set (objects_for s a)" for oid
  proof -
    have "consumed args (param_effects ?sum) s oid"
      using eff assms(6) that by (auto simp: consumed_def list_ex_iff)
    with that assms(8) mid show ?thesis by (simp add: t ptr_is_raw_owned_iff)
  qed
  with assms(8) show ?thesis by (simp add: freed_kind_Definite objs ptr_is_raw_owned_iff)
qed

lemma consuming_body_exit:
  obtains flow exit where "exit_state flow double_free_tcx consuming_body = Some exit"
    "fmlookup (heap exit) SUMMARY_BASE = Some Reconstituted"
    "param_effect exit 0 \<noteq> EffectEscaped"
    "\<not> returns_raw_owned (extract_summary double_free_tcx consuming_body flow)"
proof -
  define flow where "flow = compute_flow_for_summary double_free_tcx consuming_body fmempty"
  have "Option.bind flow (\<lambda>flow. map_option
      (\<lambda>exit. (fmlookup (heap exit) SUMMARY_BASE, param_effect exit 0,
         returns_raw_owned (extract_summary double_free_tcx consuming_body flow)))
      (exit_state flow double_free_tcx consuming_body)) = Some (Some Reconstituted, EffectReconstituted, False)"
    unfolding flow_def by code_simp
  with that show thesis by (auto simp: bind_eq_Some_conv)
qed

theorem consuming_callee_frees_argument_witness:
  "\<exists>flow. freed_kind (apply_fn_summary double_free_body [Copy (Place 1 [])] 2 0
     (extract_summary double_free_tcx consuming_body flow) owned_state) 1 = Definite"
proof -
  obtain flow exit where exit: "exit_state flow double_free_tcx consuming_body = Some exit"
    "fmlookup (heap exit) SUMMARY_BASE = Some Reconstituted"
    "param_effect exit 0 \<noteq> EffectEscaped"
    "\<not> returns_raw_owned (extract_summary double_free_tcx consuming_body flow)"
    by (rule consuming_body_exit)
  have count: "arg_count consuming_body = 1" by (simp add: consuming_body_def sample_body_def)
  have "nth_arg_local [Copy (Place 1 [])] 0 = Some 1" "ptr_is_raw_owned owned_state 1" by code_simp+
  from consuming_callee_frees_argument [OF exit(1) _ _ _ exit(4) this(1) _ this(2), of 2] exit(2,3)
  show ?thesis by (auto simp: count)
qed

section \<open>Pointers that pass through a callee\<close>

lemma unat_word_u32: "n < 2 ^ 32 \<Longrightarrow> unat (word_of_nat n :: u32) = n"
  by (simp add: unsigned_of_nat take_bit_nat_eq_self)

lemma seeded_object:
  assumes "i < 2 ^ 31"
  shows "SUMMARY_BASE \<le> SUMMARY_BASE + word_of_nat i" "unat (SUMMARY_BASE + word_of_nat i - SUMMARY_BASE) = i"
proof -
  have i: "unat (word_of_nat i :: u32) = i" using assms by (intro unat_word_u32) simp
  then have "unat SUMMARY_BASE + unat (word_of_nat i :: u32) < 2 ^ 32" using assms by (simp add: SUMMARY_BASE_def)
  then have "unat (SUMMARY_BASE + word_of_nat i) = unat SUMMARY_BASE + i"
    using i by (simp add: unat_word_ariths)
  then show "SUMMARY_BASE \<le> SUMMARY_BASE + word_of_nat i" by (simp add: word_le_nat_alt)
  show "unat (SUMMARY_BASE + word_of_nat i - SUMMARY_BASE) = i" using i by simp
qed

text \<open>
  C26: a pointer survives a call that only passes it on. If all that a body returns is the
  object of its parameter \<open>i\<close>, and it changes no parameter, then after a call the
  destination refers to exactly the objects of argument \<open>i\<close>.
\<close>

theorem identity_callee_passes_pointer:
  assumes "exit_state flow tcx callee = Some exit" and "i < arg_count callee" and "arg_count callee \<le> 2 ^ 31"
    and "objects_for exit 0 = [SUMMARY_BASE + word_of_nat i]" and "owners_of exit 0 = []"
    and "\<forall>j < arg_count callee. param_effect exit j = EffectNone"
    and "nth_arg_local args i = Some a" and "a \<noteq> dest" and "objects_for s a \<noteq> []"
  shows "objects_for (apply_fn_summary body args dest bb (extract_summary tcx callee flow) s) dest = objects_for s a"
proof -
  let ?sum = "extract_summary tcx callee flow"
  note sum = extract_summary_exit [OF assms(1)]
  have "i < 2 ^ 31" using assms(2,3) by simp
  note seed = seeded_object [OF this]
  have "param_effects ?sum = []" using assms(6) by (simp add: sum summary_of_exit_def filter_empty_conv)
  moreover have "\<not> returns_raw_owned ?sum" "returns_ptr_of_param ?sum = Some i" "returns_alias_of_param ?sum = None"
    using seed assms(2,4,5) by (simp_all add: sum summary_of_exit_def param_of_object_def Let_def not_less)
  moreover obtain objs where "fmlookup (points_to s) a = Some objs" "objs \<noteq> {||}"
    using assms(9) by (auto simp: objects_for_eq_Nil entry_or_default_def split: option.splits)
  ultimately show ?thesis using assms(7,8)
    by (simp add: apply_fn_summary_def apply_return_value_def inherit_points_to_def some_objs_def objects_for_def)
qed

definition passing_body :: body where
  "passing_body = sample_body 1 (\<lambda>l. TyRawPtr (TyOther 0) Mut)
     [block_of [assign_stmt 0 (Use (Copy (Place 1 [])))] Return]"

theorem identity_callee_passes_pointer_witness:
  "\<exists>flow. objects_for (apply_fn_summary double_free_body [Copy (Place 1 [])] 2 0
     (extract_summary double_free_tcx passing_body flow) owned_state) 2 = [7]"
proof -
  have "Option.bind (compute_flow_for_summary double_free_tcx passing_body fmempty) (\<lambda>flow. map_option
      (\<lambda>exit. (objects_for exit 0, owners_of exit 0, param_effect exit 0))
      (exit_state flow double_free_tcx passing_body)) = Some ([SUMMARY_BASE], [], EffectNone)"
    by code_simp
  then obtain flow exit where exit: "exit_state flow double_free_tcx passing_body = Some exit"
    "objects_for exit 0 = [SUMMARY_BASE]" "owners_of exit 0 = []" "param_effect exit 0 = EffectNone"
    by (auto simp: bind_eq_Some_conv)
  have count: "arg_count passing_body = 1" by (simp add: passing_body_def sample_body_def)
  have "nth_arg_local [Copy (Place 1 [])] 0 = Some 1" "objects_for owned_state 1 = [7]" by code_simp+
  with identity_callee_passes_pointer [OF exit(1), of 0 "[Copy (Place 1 [])]" 1 2 owned_state] exit(2-4)
  show ?thesis by (auto simp: count)
qed

text \<open>
  C38: an object allocated in block \<open>bb\<close> of a body with at least \<open>bb\<close> parameters that is
  returned is mistaken for parameter \<open>bb - 1\<close>: the summary says that the result is that
  parameter's pointer.
\<close>

theorem fresh_object_taken_for_parameter:
  assumes "exit_state flow tcx callee = Some exit" and "objects_for exit 0 = [word_of_nat bb]"
    and "1 \<le> bb" and "bb \<le> arg_count callee" and "bb < 2 ^ 31"
  shows "returns_ptr_of_param (extract_summary tcx callee flow) = Some (bb - 1)"
proof -
  have "unat (word_of_nat bb :: u32) = bb" using assms(5) by (intro unat_word_u32) simp
  moreover from this have "\<not> SUMMARY_BASE \<le> word_of_nat bb"
    using assms(5) by (simp add: word_le_nat_alt SUMMARY_BASE_def)
  ultimately show ?thesis using assms(2-4)
    by (simp add: extract_summary_exit [OF assms(1)] summary_of_exit_def param_of_object_def param_of_local_def)
qed

definition allocating_body :: body where
  "allocating_body = sample_body 1 (\<lambda>l. TyRawPtr (TyOther 0) Mut)
     [block_of [] (Goto 1), call_block (DefId 1 1) [Constant OtherConst] 0 2, block_of [] Return]"

theorem fresh_object_taken_for_parameter_witness:
  "\<exists>flow. compute_flow_for_summary double_free_tcx allocating_body fmempty = Some flow \<and>
     returns_ptr_of_param (extract_summary double_free_tcx allocating_body flow) = Some 0"
proof -
  have "Option.bind (compute_flow_for_summary double_free_tcx allocating_body fmempty) (\<lambda>flow. map_option
      (\<lambda>exit. objects_for exit 0) (exit_state flow double_free_tcx allocating_body)) = Some [1]"
    by code_simp
  then obtain flow exit where exit: "compute_flow_for_summary double_free_tcx allocating_body fmempty = Some flow"
    "exit_state flow double_free_tcx allocating_body = Some exit" "objects_for exit 0 = [1]"
    by (auto simp: bind_eq_Some_conv)
  have count: "arg_count allocating_body = 1" by (simp add: allocating_body_def sample_body_def)
  from fresh_object_taken_for_parameter [OF exit(2), of 1] exit count show ?thesis by simp
qed

end
