(* ===== verification/Call_Checkers.thy ===== *)
theory Call_Checkers
  imports Flow_Checkers
begin

text \<open>
  What the call-site checkers of \<^verbatim>\<open>checkers/\<close> have in common. Each of them walks the
  blocks of a body, takes the calls of function items, looks at the path of the callee, and
  pushes findings at the call unless the state in front of it shows that the call is fine.
  A checker is a function from call sites to findings here; \<^verbatim>\<open>continue\<close> before a
  push is the empty list.
\<close>

section \<open>Call sites\<close>

record call_site =
  site_block :: basic_block
  site_fn :: def_id
  site_generics :: generic_args
  site_path :: string
  site_args :: "operand list"
  site_dest :: place
  site_span :: span
  site_state :: "block_state option"

fun site_of :: "tyctxt \<Rightarrow> body \<Rightarrow> flow_results \<Rightarrow> nat \<times> basic_block_data \<Rightarrow> call_site option" where
  "site_of tcx body flow (bb, BasicBlockData _ (Some (Terminator (Call func args dest _ _) sp))) =
     (case const_fn_def func of
        None \<Rightarrow> None
      | Some (did, generics) \<Rightarrow>
          Some \<lparr>site_block = bb, site_fn = did, site_generics = generics, site_path = def_path_str tcx did,
                site_args = args, site_dest = dest, site_span = sp,
                site_state = state_before_terminator flow tcx body bb\<rparr>)"
| "site_of tcx body flow (bb, _) = None"

definition fn_calls :: "tyctxt \<Rightarrow> body \<Rightarrow> flow_results \<Rightarrow> call_site list" where
  "fn_calls tcx body flow = List.map_filter (site_of tcx body flow) (enumerate 0 (basic_blocks body))"

definition body_checker :: "(tyctxt \<Rightarrow> body \<Rightarrow> flow_results \<Rightarrow> finding list) \<Rightarrow> checker" where
  "body_checker f = default_checker\<lparr>check := f\<rparr>"

definition call_checker :: "(call_site \<Rightarrow> finding list) \<Rightarrow> checker" where
  "call_checker f = body_checker (\<lambda>tcx body flow. concat (map f (fn_calls tcx body flow)))"

section \<open>Strings\<close>

text \<open>The characters outside ASCII the messages use, in UTF-8.\<close>

definition em_dash :: string where "em_dash = [CHR 0xE2, CHR 0x80, CHR 0x94]"

definition right_arrow :: string where "right_arrow = [CHR 0xE2, CHR 0x86, CHR 0x92]"

definition le_sign :: string where "le_sign = [CHR 0xE2, CHR 0x89, CHR 0xA4]"

definition plus_minus :: string where "plus_minus = [CHR 0xC2, CHR 0xB1]"

text \<open>\<^verbatim>\<open>path.rsplit("::").next()\<close>, which is never \<^verbatim>\<open>None\<close>.\<close>

definition last_segment :: "string \<Rightarrow> string" where
  "last_segment path = hd (rsplit_colons path)"

section \<open>Findings at a call\<close>

definition finding_at :: "severity \<Rightarrow> string \<Rightarrow> span \<Rightarrow> string \<Rightarrow> finding" where
  "finding_at sev rule sp msg = \<lparr>rule_id = rule, severity_of = sev, span_of = sp, message = msg\<rparr>"

definition warning :: "string \<Rightarrow> call_site \<Rightarrow> string \<Rightarrow> finding list" where
  "warning rule c msg = [finding_at Warning rule (site_span c) msg]"

definition info :: "string \<Rightarrow> call_site \<Rightarrow> string \<Rightarrow> finding list" where
  "info rule c msg = [finding_at Info rule (site_span c) msg]"

definition error_finding :: "string \<Rightarrow> call_site \<Rightarrow> string \<Rightarrow> finding list" where
  "error_finding rule c msg = [finding_at Error rule (site_span c) msg]"

text \<open>The common form of a message: the function and what has to hold.\<close>

definition named_note :: "string \<Rightarrow> string \<Rightarrow> string" where
  "named_note fn_name note = ''`'' @ fn_name @ ''` '' @ em_dash @ '' '' @ note"

text \<open>The local of operand \<open>i\<close>, also if the operand is a projection of it.\<close>

definition arg_base_local :: "operand list \<Rightarrow> nat \<Rightarrow> local option" where
  "arg_base_local args i = (if i < length args then map_option place_local (operand_place (args ! i)) else None)"

section \<open>What the state shows of an argument\<close>

text \<open>A query holds of an argument in the state in front of the call, if both are known.\<close>

definition arg_proves :: "(block_state \<Rightarrow> local \<Rightarrow> bool) \<Rightarrow> local option \<Rightarrow> call_site \<Rightarrow> bool" where
  "arg_proves q arg c =
     (case (site_state c, arg) of (Some state, Some l) \<Rightarrow> q state l | _ \<Rightarrow> False)"

text \<open>The pointer is one whose life the ownership checker follows.\<close>

definition is_tracked :: "block_state \<Rightarrow> local \<Rightarrow> bool" where
  "is_tracked state l \<longleftrightarrow> freed_kind state l \<noteq> NotFreed \<or> objects_for state l \<noteq> []"

text \<open>
  The start of the checkers of pointer operations: a pointer that was freed is reported as a
  use after free, one that \<open>quiet\<close> holds of is not reported; otherwise the checker goes on.
\<close>

definition uaf_first ::
  "string \<Rightarrow> (block_state \<Rightarrow> local \<Rightarrow> bool) \<Rightarrow> local option \<Rightarrow> call_site \<Rightarrow> finding list \<Rightarrow> finding list" where
  "uaf_first access quiet ptr c rest =
     (case (site_state c, ptr) of
        (Some state, Some l) \<Rightarrow>
          (case freed_kind state l of
             Definite \<Rightarrow> [uaf_finding (site_span c) access False]
           | Potential \<Rightarrow> [uaf_finding (site_span c) access True]
           | NotFreed \<Rightarrow> if quiet state l then [] else rest)
      | _ \<Rightarrow> rest)"

text \<open>The findings of the checkers that look at several pointers: one for each that was freed.\<close>

definition uaf_findings :: "span \<Rightarrow> block_state \<Rightarrow> (local \<times> string) list \<Rightarrow> finding list" where
  "uaf_findings sp state ptrs =
     List.map_filter (\<lambda>(l, access).
       case freed_kind state l of
         Definite \<Rightarrow> Some (uaf_finding sp access False)
       | Potential \<Rightarrow> Some (uaf_finding sp access True)
       | NotFreed \<Rightarrow> None) ptrs"

definition never_quiet :: "block_state \<Rightarrow> local \<Rightarrow> bool" where
  "never_quiet state l = False"

section \<open>The contract of the pointer checkers\<close>

text \<open>
  What a checker says about a call if nothing is known about the state.
\<close>

definition without_flow :: "call_site \<Rightarrow> call_site" where
  "without_flow c = c\<lparr>site_state := None\<rparr>"

lemma without_flow_simps [simp]:
  "site_path (without_flow c) = site_path c" "site_args (without_flow c) = site_args c"
  "site_span (without_flow c) = site_span c" "site_state (without_flow c) = None"
  "site_fn (without_flow c) = site_fn c" "site_block (without_flow c) = site_block c"
  by (simp_all add: without_flow_def)

lemma warning_without_flow [simp]: "warning rule (without_flow c) msg = warning rule c msg"
  by (simp add: warning_def)

lemma uaf_first_without_flow [simp]: "uaf_first access quiet ptr (without_flow c) rest = rest"
  by (simp add: uaf_first_def)

lemma arg_proves_without_flow [simp]: "\<not> arg_proves q arg (without_flow c)"
  by (simp add: arg_proves_def)

text \<open>
  A checker that reports the use of a pointer puts the flow state to one use: it turns the
  report into a use after free or drops it for a pointer that \<open>quiet\<close> holds of.
\<close>

locale pointer_checker =
  fixes at :: "call_site \<Rightarrow> finding list"
    and ptr :: "call_site \<Rightarrow> local option"
    and quiet :: "block_state \<Rightarrow> local \<Rightarrow> bool"
  assumes silent: "at (without_flow c) = [] \<Longrightarrow> at c = []"
    and speaks: "at (without_flow c) \<noteq> [] \<Longrightarrow>
      \<exists>access. at c = uaf_first access quiet (ptr c) c (at (without_flow c))"
begin

lemma freed_reported:
  assumes "at (without_flow c) \<noteq> []" and "site_state c = Some s" and "ptr c = Some l"
    and "freed_kind s l \<noteq> NotFreed"
  shows "\<exists>access. at c = [uaf_finding (site_span c) access (freed_kind s l = Potential)]"
  using speaks [OF assms(1)] assms by (cases "freed_kind s l") (auto simp: uaf_first_def)

lemma live_reported:
  assumes "site_state c = Some s" and "ptr c = Some l" and "freed_kind s l = NotFreed" and "\<not> quiet s l"
  shows "at c = at (without_flow c)"
  using silent [of c] speaks [of c] assms by (cases "at (without_flow c) = []") (auto simp: uaf_first_def)

end

section \<open>The contract of the suppressing checkers\<close>

text \<open>
  A checker that only lets the flow state drop a report does so on the strength of one query
  about one argument, and reports nothing else than without the state.
\<close>

locale suppressing_checker =
  fixes at :: "call_site \<Rightarrow> finding list"
    and arg :: "call_site \<Rightarrow> local option"
    and proves :: "block_state \<Rightarrow> local \<Rightarrow> bool"
  assumes drops: "at c = at (without_flow c) \<or> at c = [] \<and> arg_proves proves (arg c) c"
begin

lemma silence_proves:
  assumes "at (without_flow c) \<noteq> []" and "at c = []" and "site_state c = Some s"
  shows "\<exists>l. arg c = Some l \<and> proves s l"
  using drops [of c] assms by (auto simp: arg_proves_def split: option.splits)

lemma reports_no_more: "set (at c) \<subseteq> set (at (without_flow c))"
  using drops [of c] by auto

end

end
