(* ===== verification/Checkers_Pointers.thy ===== *)
theory Checkers_Pointers
  imports Call_Checkers
begin

text \<open>
  The checkers of operations on pointers. Their common plan: a pointer the flow state judges
  freed is reported as a use after free; a live pointer that is known to own its allocation is
  not reported; every other use is reported with the obligations of the operation.
\<close>

subsection \<open>\<^verbatim>\<open>ptr_read.rs\<close>\<close>

definition ptr_read_message :: "string \<Rightarrow> string option" where
  "ptr_read_message path =
     (if ends_with path ''ptr::read_unaligned''
      then Some (''`ptr::read_unaligned` '' @ em_dash @ '' verify src is non-null, valid for size_of::<T>() '' @
                 ''bytes, and fully initialized; the copy is a semantic move '' @ em_dash @ '' dropping both '' @
                 ''the original and the copy is a double-drop'')
      else if ends_with path ''::read_volatile'' \<and> (contains path ''const_ptr'' \<or>
              contains path ''mut_ptr'')
      then Some (''`ptr::read_volatile` '' @ em_dash @ '' src must be non-null, aligned, and valid for the '' @
                 ''hardware address; does NOT provide atomic ordering '' @ em_dash @ '' not safe for '' @
                 ''concurrent access without additional synchronization'')
      else if ends_with path ''ptr::read''
      then Some (''`ptr::read` '' @ em_dash @ '' verify src is non-null, properly aligned for T, valid for '' @
                 ''size_of::<T>() bytes, and fully initialized; the copy is a semantic move '' @
                 em_dash @ '' dropping both the original and the copy is a double-drop'')
      else if ends_with path ''::read'' \<and> contains path ''NonNull''
      then Some (''`NonNull::read` '' @ em_dash @ '' NonNull guarantees non-null but NOT validity or alignment; '' @
                 ''the pointer must be properly aligned for T, valid for size_of::<T>() bytes, '' @
                 ''and point to initialized memory; copy semantics apply '' @ em_dash @ '' double-drop if both '' @
                 ''the original and copy are dropped'')
      else if ends_with path ''::read_volatile'' \<and> contains path ''NonNull''
      then Some (''`NonNull::read_volatile` '' @ em_dash @ '' pointer must be non-null (guaranteed), properly '' @
                 ''aligned, and a valid hardware address; does NOT provide atomic ordering; '' @
                 ''copy semantics apply'')
      else if ends_with path ''::read_unaligned'' \<and> contains path ''NonNull''
      then Some (''`NonNull::read_unaligned` '' @ em_dash @ '' pointer must be non-null (guaranteed) and valid '' @
                 ''for size_of::<T>() bytes; copy semantics '' @ em_dash @ '' dropping both the original and '' @
                 ''the copy is a double-drop'')
      else if ends_with path ''::read_unaligned'' \<and> (contains path ''const_ptr'' \<or>
              contains path ''mut_ptr'')
      then Some (''`ptr::read_unaligned` '' @ em_dash @ '' verify src is non-null, valid for size_of::<T>() '' @
                 ''bytes, and fully initialized; the copy is a semantic move '' @ em_dash @ '' dropping both '' @
                 ''the original and the copy is a double-drop'')
      else if ends_with path ''::read'' \<and> (contains path ''const_ptr'' \<or>
              contains path ''mut_ptr'')
      then Some (''`ptr::read` '' @ em_dash @ '' verify src is non-null, properly aligned for T, valid for '' @
                 ''size_of::<T>() bytes, and fully initialized; the copy is a semantic move '' @
                 em_dash @ '' dropping both the original and the copy is a double-drop'')
      else None)"

definition ptr_read_at :: "call_site \<Rightarrow> finding list" where
  "ptr_read_at c =
     (let path = site_path c in
      case ptr_read_message path of
        None \<Rightarrow> []
      | Some msg \<Rightarrow>
          uaf_first ''read'' ptr_is_raw_owned (first_arg_local (site_args c)) c
             (warning ''ptr_read'' c msg))"

abbreviation PtrRead :: checker where
  "PtrRead \<equiv> call_checker ptr_read_at"

subsection \<open>\<^verbatim>\<open>ptr_write.rs\<close>\<close>

definition ptr_write_note :: "string \<Rightarrow> (string \<times> string) option" where
  "ptr_write_note path =
     (if ends_with path ''::write_volatile'' \<and> contains path ''mut_ptr''
      then Some (''ptr::write_volatile'',
                 ''`ptr::write_volatile` '' @ em_dash @ '' dst must be non-null, aligned, and a valid '' @
                 ''hardware address; does NOT provide atomic ordering '' @ em_dash @ '' not safe for '' @
                 ''concurrent access without additional synchronization; previous value '' @
                 ''at dst is NOT dropped'')
      else if ends_with path ''ptr::write_bytes''
      then Some (''ptr::write_bytes'',
                 ''`ptr::write_bytes` '' @ em_dash @ '' verify dst is non-null, aligned, and valid for '' @
                 ''count*size_of::<T>() bytes; leaves typed values in potentially invalid '' @
                 ''states '' @ em_dash @ '' only safe to use on MaybeUninit or to zero-init plain-data types'')
      else if ends_with path ''ptr::write_unaligned''
      then Some (''ptr::write_unaligned'',
                 ''`ptr::write_unaligned` '' @ em_dash @ '' verify dst is non-null and valid for '' @
                 ''size_of::<T>() bytes; previous value at dst is NOT dropped (memory leak '' @
                 ''if initialized)'')
      else if ends_with path ''ptr::write''
      then Some (''ptr::write'',
                 ''`ptr::write` '' @ em_dash @ '' verify dst is non-null, properly aligned, and valid for '' @
                 ''size_of::<T>() bytes; previous value at dst is NOT dropped (memory leak '' @
                 ''if initialized)'')
      else if ends_with path ''ptr::replace''
      then Some (''ptr::replace'',
                 ''`ptr::replace` '' @ em_dash @ '' dst must be non-null, aligned, and valid; returns the '' @
                 ''old value (ownership transferred to caller '' @ em_dash @ '' must be dropped or used)'')
      else if ends_with path ''::write'' \<and> contains path ''NonNull''
      then Some (''NonNull::write'',
                 ''`NonNull::write` '' @ em_dash @ '' dst must be properly aligned for T and valid for '' @
                 ''size_of::<T>() bytes; previous value at dst is NOT dropped (leak if initialized)'')
      else if ends_with path ''::replace'' \<and> contains path ''NonNull''
      then Some (''NonNull::replace'',
                 ''`NonNull::replace` '' @ em_dash @ '' dst must be non-null, aligned, and valid; '' @
                 ''returns the old value (caller owns it and must drop it)'')
      else if ends_with path ''::write_bytes'' \<and> contains path ''NonNull''
      then Some (''NonNull::write_bytes'',
                 ''`NonNull::write_bytes` '' @ em_dash @ '' verify dst is non-null and valid for '' @
                 ''count*size_of::<T>() bytes; leaves typed values in potentially '' @
                 ''invalid states '' @ em_dash @ '' only safe on MaybeUninit or for zero-init of plain-data types'')
      else if ends_with path ''::write_volatile'' \<and> contains path ''NonNull''
      then Some (''NonNull::write_volatile'',
                 ''`NonNull::write_volatile` '' @ em_dash @ '' pointer must be non-null (guaranteed), properly '' @
                 ''aligned, and a valid hardware address; does NOT provide atomic ordering; '' @
                 ''previous value at dst is NOT dropped'')
      else if ends_with path ''::write_unaligned'' \<and> contains path ''NonNull''
      then Some (''NonNull::write_unaligned'',
                 ''`NonNull::write_unaligned` '' @ em_dash @ '' pointer must be non-null (guaranteed) and valid '' @
                 ''for size_of::<T>() bytes; previous value at dst is NOT dropped (leak if initialized)'')
      else if ends_with path ''::write_bytes'' \<and> (contains path ''const_ptr'' \<or>
              contains path ''mut_ptr'')
      then Some (''ptr::write_bytes'',
                 ''`ptr::write_bytes` '' @ em_dash @ '' verify dst is non-null, aligned, and valid for '' @
                 ''count*size_of::<T>() bytes; leaves typed values in potentially invalid '' @
                 ''states '' @ em_dash @ '' only safe to use on MaybeUninit or to zero-init plain-data types'')
      else if ends_with path ''::write_unaligned'' \<and> (contains path ''const_ptr'' \<or>
              contains path ''mut_ptr'')
      then Some (''ptr::write_unaligned'',
                 ''`ptr::write_unaligned` '' @ em_dash @ '' verify dst is non-null and valid for '' @
                 ''size_of::<T>() bytes; previous value at dst is NOT dropped (memory leak '' @
                 ''if initialized)'')
      else if ends_with path ''::replace'' \<and> (contains path ''const_ptr'' \<or>
              contains path ''mut_ptr'')
      then Some (''ptr::replace'',
                 ''`ptr::replace` '' @ em_dash @ '' dst must be non-null, aligned, and valid; returns the '' @
                 ''old value (ownership transferred to caller '' @ em_dash @ '' must be dropped or used)'')
      else if ends_with path ''::write'' \<and> (contains path ''const_ptr'' \<or>
              contains path ''mut_ptr'')
      then Some (''ptr::write'',
                 ''`ptr::write` '' @ em_dash @ '' verify dst is non-null, properly aligned, and valid for '' @
                 ''size_of::<T>() bytes; previous value at dst is NOT dropped (memory leak '' @
                 ''if initialized)'')
      else None)"

definition ptr_write_at :: "call_site \<Rightarrow> finding list" where
  "ptr_write_at c =
     (let path = site_path c in
      case ptr_write_note path of
        None \<Rightarrow> []
      | Some (fn_name, msg) \<Rightarrow>
          uaf_first ''write'' ptr_is_raw_owned (first_arg_local (site_args c)) c
             (warning ''ptr_write'' c msg))"

abbreviation PtrWrite :: checker where
  "PtrWrite \<equiv> call_checker ptr_write_at"

subsection \<open>\<^verbatim>\<open>ptr_swap.rs\<close>\<close>

definition ptr_swap_at :: "call_site \<Rightarrow> finding list" where
  "ptr_swap_at c =
     (let path = site_path c in
      let found =
             (if ends_with path ''::swap_nonoverlapping'' \<or>
                      ends_with path ''ptr::swap_nonoverlapping'' \<or>
                      ends_with path ''intrinsics::swap_nonoverlapping''
              then Some (''ptr::swap_nonoverlapping'',
                         ''both pointers must be non-null, aligned, and each valid for '' @
                         ''count*size_of::<T>() bytes; the two regions must NOT overlap '' @ em_dash @ '' '' @
                         ''overlapping regions are immediate UB; common mistake: passing byte '' @
                         ''counts instead of element counts'')
              else if ends_with path ''ptr::swap'' \<or> ends_with path ''::swap'' \<and>
                      (contains path ''const_ptr'' \<or> contains path ''mut_ptr'')
              then Some (''ptr::swap'',
                         ''both pointers must be non-null, properly aligned for T, valid for '' @
                         ''size_of::<T>() bytes of reads and writes, and point to initialized values; '' @
                         ''regions may overlap (ptr::swap handles this), but each must be within '' @
                         ''a single allocation'')
              else if ends_with path ''::swap'' \<and> contains path ''NonNull''
              then Some (''NonNull::swap'',
                         ''both NonNull pointers must be properly aligned for T and valid for '' @
                         ''size_of::<T>() bytes of reads and writes; non-null is guaranteed but '' @
                         ''alignment and initialization are not'')
              else None)
      in case found of
           None \<Rightarrow> []
         | Some (fn_name, note) \<Rightarrow>
             uaf_first ''read'' ptr_is_raw_owned (first_arg_local (site_args c)) c
                (warning ''ptr_swap'' c (named_note fn_name note)))"

abbreviation PtrSwap :: checker where
  "PtrSwap \<equiv> call_checker ptr_swap_at"

subsection \<open>\<^verbatim>\<open>ptr_arith.rs\<close>\<close>

definition ptr_arith_message :: "string \<Rightarrow> string option" where
  "ptr_arith_message path =
     (if ends_with path ''::wrapping_byte_offset''
      then Some (''`ptr::wrapping_byte_offset` (wrapping, byte) '' @ em_dash @ '' result may be outside the '' @
                 ''allocation; must not be dereferenced unless provably within bounds'')
      else if ends_with path ''::wrapping_byte_add''
      then Some (''`ptr::wrapping_byte_add` (wrapping, byte) '' @ em_dash @ '' result may be outside the '' @
                 ''allocation; must not be dereferenced unless provably within bounds'')
      else if ends_with path ''::wrapping_byte_sub''
      then Some (''`ptr::wrapping_byte_sub` (wrapping, byte) '' @ em_dash @ '' result may be outside the '' @
                 ''allocation; must not be dereferenced unless provably within bounds'')
      else if ends_with path ''::wrapping_add''
      then Some (''`ptr::wrapping_add` (wrapping) '' @ em_dash @ '' result may be outside the allocation; '' @
                 ''must not be dereferenced unless provably within bounds'')
      else if ends_with path ''::wrapping_sub''
      then Some (''`ptr::wrapping_sub` (wrapping) '' @ em_dash @ '' result may be outside the allocation; '' @
                 ''must not be dereferenced unless provably within bounds'')
      else if ends_with path ''::wrapping_offset''
      then Some (''`ptr::wrapping_offset` (wrapping) '' @ em_dash @ '' result may be outside the allocation; '' @
                 ''must not be dereferenced unless provably within bounds'')
      else if ends_with path ''::add''
      then Some (''`ptr::add` '' @ em_dash @ '' both original and result must stay within the same '' @
                 ''allocation; offset*size_of::<T>() must not overflow isize; '' @
                 ''going before the start of an allocation is UB'')
      else if ends_with path ''::sub''
      then Some (''`ptr::sub` '' @ em_dash @ '' both original and result must stay within the same '' @
                 ''allocation; offset*size_of::<T>() must not overflow isize; '' @
                 ''going before the start of an allocation is UB'')
      else if ends_with path ''::offset''
      then Some (''`ptr::offset` '' @ em_dash @ '' both original and result must stay within the same '' @
                 ''allocation; offset*size_of::<T>() must not overflow isize; '' @
                 ''going before the start of an allocation is UB'')
      else if ends_with path ''::offset_from''
      then Some (''`ptr::offset_from` '' @ em_dash @ '' both self and origin must point into the same '' @
                 ''allocated object; cross-allocation offset_from is immediate UB; '' @
                 ''result is in units of T, not bytes'')
      else if ends_with path ''::byte_add''
      then Some (''`ptr::byte_add` '' @ em_dash @ '' result must stay within the same allocation; '' @
                 ''byte offset must not overflow isize; going past the end (or before start) is UB'')
      else if ends_with path ''::byte_sub''
      then Some (''`ptr::byte_sub` '' @ em_dash @ '' result must stay within the same allocation; '' @
                 ''byte offset must not overflow isize; going before the start of an allocation is UB'')
      else if ends_with path ''::byte_offset''
      then Some (''`ptr::byte_offset` '' @ em_dash @ '' result must stay within the same allocation; '' @
                 ''signed byte offset must not overflow isize; going outside the allocation is UB'')
      else if ends_with path ''::byte_offset_from''
      then Some (''`ptr::byte_offset_from` '' @ em_dash @ '' both self and origin must point into the same '' @
                 ''allocated object; cross-allocation comparison is immediate UB; '' @
                 ''result is in bytes (not T elements)'')
      else if ends_with path ''::sub_ptr''
      then Some (''`ptr::sub_ptr` '' @ em_dash @ '' self must be >= origin and both must point into the same '' @
                 ''allocation; cross-allocation subtraction is UB; result is in units of T'')
      else if ends_with path ''::offset_from_unsigned''
      then Some (''`ptr::offset_from_unsigned` '' @ em_dash @ '' self must be >= origin and both must point into '' @
                 ''the same allocated object; cross-allocation comparison is UB; result is the '' @
                 ''distance in units of T (unsigned)'')
      else if ends_with path ''::byte_offset_from_unsigned''
      then Some (''`ptr::byte_offset_from_unsigned` '' @ em_dash @ '' self must be >= origin and both must point '' @
                 ''into the same allocated object; cross-allocation comparison is UB; result is '' @
                 ''the distance in bytes (unsigned)'')
      else if ends_with path ''::mask''
      then Some (''`ptr::mask` '' @ em_dash @ '' the resulting pointer must still point into the same allocation '' @
                 ''as the original; masking bits that cross allocation boundaries produces a '' @
                 ''dangling pointer '' @ em_dash @ '' any dereference would be UB '' @
                 ''(nightly feature `ptr_mask`)'')
      else None)"

definition ptr_arith_at :: "call_site \<Rightarrow> finding list" where
  "ptr_arith_at c =
     (let path = site_path c in
      let is_ptr_type = contains path ''const_ptr'' \<or> contains path ''mut_ptr'' \<or>
                       contains path ''NonNull''
      in if \<not> is_ptr_type then []
         else case ptr_arith_message path of
           None \<Rightarrow> []
         | Some msg \<Rightarrow>
             uaf_first ''read'' ptr_is_raw_owned (first_arg_local (site_args c)) c
                (warning ''ptr_arith'' c msg))"

abbreviation PtrArith :: checker where
  "PtrArith \<equiv> call_checker ptr_arith_at"

subsection \<open>\<^verbatim>\<open>ptr_as_ref.rs\<close>\<close>

definition ptr_as_ref_at :: "call_site \<Rightarrow> finding list" where
  "ptr_as_ref_at c =
     (let path = site_path c in
      let found =
             (if ends_with path ''::as_ref'' \<and> (contains path ''const_ptr'' \<or>
                      contains path ''mut_ptr'')
              then Some (''*const T::as_ref'',
                         ''no mutable reference to the same memory must exist simultaneously'')
              else if ends_with path ''::as_mut'' \<and> contains path ''mut_ptr''
              then Some (''*mut T::as_mut'',
                         ''no other reference (mutable or shared) to the same memory must exist '' @
                         ''for the lifetime of the returned &mut T'')
              else None)
      in case found of
           None \<Rightarrow> []
         | Some (fn_name, extra) \<Rightarrow>
             uaf_first ''read'' ptr_is_raw_owned (first_arg_local (site_args c)) c
                (warning ''ptr_as_ref'' c
                  (''`'' @ fn_name @ ''` '' @ em_dash @ '' if non-null: pointer must be valid, aligned, and point to '' @
                   ''initialized T; '' @ extra @ ''; returned reference must not outlive the allocation'')))"

abbreviation PtrAsRef :: checker where
  "PtrAsRef \<equiv> call_checker ptr_as_ref_at"

subsection \<open>\<^verbatim>\<open>ptr_as_ref_unchecked.rs\<close>\<close>

definition ptr_as_ref_unchecked_at :: "call_site \<Rightarrow> finding list" where
  "ptr_as_ref_unchecked_at c =
     (let path = site_path c in
      let found =
             (if ends_with path ''::as_ref_unchecked'' \<and> (contains path ''const_ptr'' \<or>
                      contains path ''mut_ptr'')
              then Some (''as_ref_unchecked'',
                         ''no check is made for null; pointer must be non-null, valid, aligned, '' @
                         ''and point to initialized T; no mutable alias may exist'')
              else if ends_with path ''::as_mut_unchecked'' \<and> contains path ''mut_ptr''
              then Some (''as_mut_unchecked'',
                         ''no check is made for null; pointer must be non-null, valid, aligned, '' @
                         ''and point to initialized T; exclusive access required '' @ em_dash @ '' no other reference '' @
                         ''(shared or mutable) may exist for the lifetime of the returned &mut T'')
              else None)
      in case found of
           None \<Rightarrow> []
         | Some (fn_name, extra) \<Rightarrow>
             uaf_first ''read'' ptr_is_raw_owned (first_arg_local (site_args c)) c
                (warning ''ptr_as_ref_unchecked'' c
                  (''`'' @ fn_name @ ''` '' @ em_dash @ '' '' @ extra @ ''; use `as_ref()`/`as_mut()` for the '' @
                   ''checked `Option`-returning variants'')))"

abbreviation PtrAsRefUnchecked :: checker where
  "PtrAsRefUnchecked \<equiv> call_checker ptr_as_ref_unchecked_at"

subsection \<open>\<^verbatim>\<open>ptr_drop_in_place.rs\<close>\<close>

definition ptr_drop_in_place_at :: "call_site \<Rightarrow> finding list" where
  "ptr_drop_in_place_at c =
     (let path = site_path c in
      let found =
             (if ends_with path ''ptr::drop_in_place''
              then Some (''ptr::drop_in_place'')
              else if ends_with path ''::drop_in_place'' \<and> contains path ''NonNull''
              then Some (''NonNull::drop_in_place'')
              else if ends_with path ''::drop_in_place'' \<and> (contains path ''const_ptr'' \<or>
                      contains path ''mut_ptr'')
              then Some (''ptr::drop_in_place'')
              else None)
      in case found of
           None \<Rightarrow> []
         | Some fn_name \<Rightarrow>
             uaf_first ''drop'' ptr_is_raw_owned (first_arg_local (site_args c)) c
                (warning ''ptr_drop_in_place'' c
                  (''`'' @ fn_name @ ''` '' @ em_dash @ '' ensure the pointer is valid and aligned, '' @
                   ''call it exactly once (double-drop if called twice), and use a '' @
                   ''DropGuard (reset len to 0 before the loop) if iterating to '' @
                   ''protect against double-free when element drops panic'')))"

abbreviation PtrDropInPlace :: checker where
  "PtrDropInPlace \<equiv> call_checker ptr_drop_in_place_at"

subsection \<open>\<^verbatim>\<open>ptr_from_raw_parts.rs\<close>\<close>

definition ptr_from_raw_parts_at :: "call_site \<Rightarrow> finding list" where
  "ptr_from_raw_parts_at c =
     (let path = site_path c in
      let found =
             (if ends_with path ''ptr::from_raw_parts_mut''
              then Some (''ptr::from_raw_parts_mut'',
                         ''for trait objects: vtable metadata must match the concrete type behind '' @
                         ''the data pointer exactly '' @ em_dash @ '' type confusion is immediate UB; '' @
                         ''for slices: len must not exceed the backing allocation'')
              else if ends_with path ''ptr::from_raw_parts''
              then Some (''ptr::from_raw_parts'',
                         ''for trait objects: vtable metadata must match the concrete type behind '' @
                         ''the data pointer exactly '' @ em_dash @ '' type confusion is immediate UB; '' @
                         ''for slices: len must not exceed the backing allocation'')
              else if contains path ''NonNull'' \<and> ends_with path ''::from_raw_parts''
              then Some (''NonNull::from_raw_parts'',
                         ''data pointer must be non-null and properly aligned; '' @
                         ''for trait objects: vtable metadata must match the concrete type exactly '' @
                         ''(type confusion is immediate UB); '' @
                         ''for slices: len must not exceed the backing allocation'')
              else None)
      in case found of
           None \<Rightarrow> []
         | Some (fn_name, note) \<Rightarrow>
             uaf_first ''read'' ptr_is_raw_owned (first_arg_local (site_args c)) c
                (warning ''ptr_from_raw_parts'' c (named_note fn_name note)))"

abbreviation PtrFromRawParts :: checker where
  "PtrFromRawParts \<equiv> call_checker ptr_from_raw_parts_at"

subsection \<open>\<^verbatim>\<open>nonnull_deref.rs\<close>\<close>

definition nonnull_deref_note :: "string \<Rightarrow> (string \<times> string) option" where
  "nonnull_deref_note path =
     (if ends_with path ''NonNull::<T>::as_ref'' \<or> ends_with path ''NonNull::as_ref''
      then Some (''NonNull::as_ref'',
                 ''no mutable reference to the same memory must exist simultaneously'')
      else if ends_with path ''NonNull::<T>::as_mut'' \<or> ends_with path ''NonNull::as_mut''
      then Some (''NonNull::as_mut'',
                 ''no other reference (mutable or shared) to the same memory must exist for '' @
                 ''the lifetime of the returned &mut T'')
      else if ends_with path ''::as_uninit_ref'' \<and> contains path ''NonNull''
      then Some (''NonNull::as_uninit_ref'',
                 ''pointer must be valid and aligned for T even though the value may be uninit; '' @
                 ''no mutable reference to the same memory must exist simultaneously'')
      else if ends_with path ''::as_uninit_mut'' \<and> contains path ''NonNull''
      then Some (''NonNull::as_uninit_mut'',
                 ''pointer must be valid and aligned for T; no other reference to the same '' @
                 ''memory must exist for the lifetime of the returned &mut MaybeUninit<T>'')
      else if ends_with path ''::as_uninit_slice'' \<and> contains path ''NonNull''
      then Some (''NonNull::as_uninit_slice'',
                 ''pointer must be valid for len elements and properly aligned for T; '' @
                 ''no mutable reference to any of the elements may exist simultaneously'')
      else None)"

definition nonnull_deref_at :: "call_site \<Rightarrow> finding list" where
  "nonnull_deref_at c =
     (let path = site_path c in
      case nonnull_deref_note path of
        None \<Rightarrow> []
      | Some (fn_name, extra) \<Rightarrow>
          uaf_first ''read'' ptr_is_raw_owned (first_arg_base_local (site_args c)) c
             (warning ''nonnull_deref'' c
               (''`'' @ fn_name @ ''` '' @ em_dash @ '' pointer must be valid, aligned, and point to initialized T; '' @
                extra @ ''; returned reference must not outlive the allocation'')))"

abbreviation NonNullDeref :: checker where
  "NonNullDeref \<equiv> call_checker nonnull_deref_at"

subsection \<open>\<^verbatim>\<open>nonnull_new_unchecked.rs\<close>\<close>

definition nonnull_new_unchecked_at :: "call_site \<Rightarrow> finding list" where
  "nonnull_new_unchecked_at c =
     (let path = site_path c in
      if \<not> ends_with path ''NonNull::<T>::new_unchecked'' \<and>
           \<not> ends_with path ''NonNull::new_unchecked'' then []
      else uaf_first ''read'' (\<lambda>state l. ptr_is_raw_owned state l \<or> local_is_nonzero state l) (first_arg_local (site_args c)) c
        (warning ''nonnull_new_unchecked'' c
          (''`NonNull::new_unchecked` '' @ em_dash @ '' pointer must be non-null (null is '' @
           ''immediate UB); use `NonNull::new` (returns Option) unless the '' @
           ''pointer provably comes from a non-null source'')))"

abbreviation NonNullNewUnchecked :: checker where
  "NonNullNewUnchecked \<equiv> call_checker nonnull_new_unchecked_at"

subsection \<open>\<^verbatim>\<open>atomic_from_ptr.rs\<close>\<close>

definition atomic_from_ptr_at :: "call_site \<Rightarrow> finding list" where
  "atomic_from_ptr_at c =
     (let path = site_path c in
      if \<not> ends_with path ''::from_ptr'' then []
      else let is_std_atomic = contains path ''sync::atomic''
      in let is_portable = contains path ''portable_atomic''
         in if \<not> is_std_atomic \<and> \<not> is_portable then []
            else uaf_first ''read'' ptr_is_raw_owned (first_arg_local (site_args c)) c
              (warning ''atomic_from_ptr'' c
                (''`Atomic::from_ptr` '' @ em_dash @ '' pointer must be non-null, aligned, valid for the '' @
                 ''reference lifetime, and must not be aliased by non-atomic accesses; '' @
                 ''concurrent non-atomic access to the same memory is a data race (UB)'')))"

abbreviation AtomicFromPtr :: checker where
  "AtomicFromPtr \<equiv> call_checker atomic_from_ptr_at"

subsection \<open>\<^verbatim>\<open>cstr_from_ptr.rs\<close>\<close>

definition cstr_from_ptr_at :: "call_site \<Rightarrow> finding list" where
  "cstr_from_ptr_at c =
     (let path = site_path c in
      let found =
             (if ends_with path ''CStr::from_ptr''
              then Some (''CStr::from_ptr'',
                         ''ptr must be non-null, point to a valid null-terminated C string, and '' @
                         ''remain valid for the returned &CStr's lifetime; embedded null bytes '' @
                         ''silently truncate the string (path injection risk)'')
              else if ends_with path ''CStr::from_bytes_with_nul_unchecked''
              then Some (''CStr::from_bytes_with_nul_unchecked'',
                         ''bytes must end with exactly one b'' @ [CHR 0x27] @ [CHR 0x5C] @ ''0' and contain no interior null bytes; '' @
                         ''use CStr::from_bytes_with_nul (returns Result) instead'')
              else if ends_with path ''CString::from_vec_unchecked''
              then Some (''CString::from_vec_unchecked'',
                         ''bytes must contain no null bytes (interior or trailing); '' @
                         ''use CString::new (returns Result) instead'')
              else if ends_with path ''CString::from_vec_with_nul_unchecked''
              then Some (''CString::from_vec_with_nul_unchecked'',
                         ''bytes must contain exactly one null byte and it must be the last byte; '' @
                         ''use CString::from_vec_with_nul (returns Result) instead'')
              else None)
      in case found of
           None \<Rightarrow> []
         | Some (fn_name, note) \<Rightarrow>
             let rest = warning ''cstr_from_ptr'' c (named_note fn_name note)
              in if fn_name = ''CStr::from_ptr''
                 then uaf_first ''read'' ptr_is_raw_owned (first_arg_local (site_args c)) c rest
                 else rest)"

abbreviation CStrFromPtr :: checker where
  "CStrFromPtr \<equiv> call_checker cstr_from_ptr_at"

subsection \<open>\<^verbatim>\<open>waker_from_raw.rs\<close>\<close>

definition waker_from_raw_at :: "call_site \<Rightarrow> finding list" where
  "waker_from_raw_at c =
     (let path = site_path c in
      let found =
             (if ends_with path ''Waker::from_raw'' \<and> \<not> contains path ''LocalWaker''
              then Some (''Waker::from_raw'',
                         ''vtable fn pointers must be valid and thread-safe (Waker is Send+Sync); '' @
                         ''data pointer must outlive all Waker clones; '' @
                         ''clone/drop must be correctly paired '' @ em_dash @ '' missing drop leaks, double-drop is UB'')
              else if ends_with path ''Waker::new'' \<and> \<not> contains path ''Local'' \<and>
                      \<not> contains path ''Raw''
              then Some (''Waker::new'',
                         ''data pointer must be valid for the lifetime of all Waker clones; '' @
                         ''all four vtable function pointers (clone, wake, wake_by_ref, drop) must be '' @
                         ''valid and thread-safe (Waker is Send+Sync); drop must free the data exactly '' @
                         ''once '' @ em_dash @ '' stable since 1.83.0'')
              else if ends_with path ''LocalWaker::from_raw''
              then Some (''LocalWaker::from_raw'',
                         ''vtable fn pointers must be valid; data pointer must outlive the LocalWaker '' @
                         ''and all clones; clone/drop must be correctly paired'')
              else if ends_with path ''LocalWaker::new''
              then Some (''LocalWaker::new'',
                         ''data pointer must be valid for the lifetime of all LocalWaker clones; '' @
                         ''vtable functions must be valid; LocalWaker is !Send+!Sync so the data pointer '' @
                         ''need not be thread-safe, but must not be sent across threads '' @
                         ''(nightly feature `local_waker`)'')
              else None)
      in case found of
           None \<Rightarrow> []
         | Some (fn_name, note) \<Rightarrow>
             uaf_first ''read'' ptr_is_raw_owned (first_arg_local (site_args c)) c
                (warning ''waker_from_raw'' c (named_note fn_name note)))"

abbreviation WakerFromRaw :: checker where
  "WakerFromRaw \<equiv> call_checker waker_from_raw_at"

subsection \<open>\<^verbatim>\<open>manually_drop.rs\<close>\<close>

definition manually_drop_at :: "call_site \<Rightarrow> finding list" where
  "manually_drop_at c =
     (let path = site_path c in
      let found =
             (if ends_with path ''ManuallyDrop::<T>::drop'' \<or>
                      ends_with path ''ManuallyDrop::drop''
              then Some (''ManuallyDrop::drop'',
                         ''must be called exactly once; double-drop if called twice or if the '' @
                         ''inner value was already moved out via ManuallyDrop::take'')
              else if ends_with path ''ManuallyDrop::<T>::take'' \<or>
                      ends_with path ''ManuallyDrop::take''
              then Some (''ManuallyDrop::take'',
                         ''moves out by copy '' @ em_dash @ '' calling twice yields two owners of the same value; '' @
                         ''dropping both is a double-drop; do not use the ManuallyDrop afterwards'')
              else None)
      in case found of
           None \<Rightarrow> []
         | Some (fn_name, note) \<Rightarrow>
             uaf_first ''read'' ptr_is_raw_owned (first_arg_local (site_args c)) c
                (warning ''manually_drop'' c (named_note fn_name note)))"

abbreviation ManuallyDropOps :: checker where
  "ManuallyDropOps \<equiv> call_checker manually_drop_at"

subsection \<open>\<^verbatim>\<open>arc_get_mut_unchecked.rs\<close>\<close>

definition arc_get_mut_unchecked_at :: "call_site \<Rightarrow> finding list" where
  "arc_get_mut_unchecked_at c =
     (let path = site_path c in
      if \<not> ends_with path ''::get_mut_unchecked'' then []
      else let found =
             (if contains path ''Arc''
              then Some (''Arc'',
                         ''also ensure no other Arc/Weak is dropped concurrently '' @ em_dash @ '' '' @
                         ''the refcount write races with the returned &mut T (Issue #136322)'')
              else if contains path ''Rc''
              then Some (''Rc'',
                         ''also ensure no Rc clone is dropped for the borrow duration '' @ em_dash @ '' '' @
                         ''a concurrent refcount decrement to zero while the &mut T is live '' @
                         ''is unsound (Issue #136322)'')
              else None)
      in case found of
           None \<Rightarrow> []
         | Some (container, extra) \<Rightarrow>
             uaf_first ''read'' never_quiet (first_arg_local (site_args c)) c
                (warning ''arc_get_mut_unchecked'' c
                  (''`'' @ container @ ''::get_mut_unchecked` '' @ em_dash @ '' strong count must be exactly 1 '' @
                   ''and no Weak must be upgrading; '' @ extra)))"

abbreviation ArcGetMutUnchecked :: checker where
  "ArcGetMutUnchecked \<equiv> call_checker arc_get_mut_unchecked_at"

subsection \<open>\<^verbatim>\<open>downcast_unchecked.rs\<close>\<close>

definition downcast_unchecked_at :: "call_site \<Rightarrow> finding list" where
  "downcast_unchecked_at c =
     (let path = site_path c in
      let is_downcast = ends_with path ''downcast_unchecked'' \<or>
                       ends_with path ''downcast_unchecked_ref'' \<or>
                       ends_with path ''downcast_unchecked_mut''
      in if \<not> is_downcast then []
         else let fn_name =
                (if ends_with path ''downcast_unchecked_ref''
                 then (''downcast_unchecked_ref'')
                 else if ends_with path ''downcast_unchecked_mut''
                 then (''downcast_unchecked_mut'')
                 else (''downcast_unchecked''))
         in let container =
                   (if contains path ''Rc''
                    then (''Rc<dyn Any>'')
                    else if contains path ''Arc''
                    then (''Arc<dyn Any>'')
                    else (''Box<dyn Any>''))
            in uaf_first ''read'' never_quiet (first_arg_local (site_args c)) c
                 (warning ''downcast_unchecked'' c
                   (''`'' @ fn_name @ ''` on `'' @ container @ ''` (or `dyn Any`) '' @ em_dash @ '' caller must guarantee '' @
                    ''the actual runtime type is exactly T; a type mismatch produces a '' @
                    ''reference to the wrong type (type-confusion UB); use the checked '' @
                    ''downcast or `Any::is::<T>()` guard first'')))"

abbreviation DowncastUnchecked :: checker where
  "DowncastUnchecked \<equiv> call_checker downcast_unchecked_at"

subsection \<open>\<^verbatim>\<open>str_from_utf8_unchecked.rs\<close>\<close>

definition str_from_utf8_unchecked_name :: "string \<Rightarrow> string option" where
  "str_from_utf8_unchecked_name path =
     (if ends_with path ''str::from_utf8_unchecked_mut'' \<or>
              ends_with path ''from_utf8_unchecked_mut'' \<and> contains path ''str''
      then Some (''str::from_utf8_unchecked_mut'')
      else if ends_with path ''str::from_utf8_unchecked'' \<or> ends_with path ''from_utf8_unchecked'' \<and>
              contains path ''str'' \<and> \<not> contains path ''String''
      then Some (''str::from_utf8_unchecked'')
      else if ends_with path ''String::from_utf8_unchecked'' \<or>
              ends_with path ''::from_utf8_unchecked'' \<and> contains path ''String''
      then Some (''String::from_utf8_unchecked'')
      else if ends_with path ''str::from_boxed_utf8_unchecked''
      then Some (''str::from_boxed_utf8_unchecked'')
      else if ends_with path ''str::from_raw_parts_mut'' \<or> ends_with path ''from_raw_parts_mut'' \<and>
              contains path ''str::''
      then Some (''str::from_raw_parts_mut'')
      else if ends_with path ''str::from_raw_parts'' \<or> ends_with path ''from_raw_parts'' \<and>
              contains path ''str::'' \<and> \<not> contains path ''slice::''
      then Some (''str::from_raw_parts'')
      else None)"

definition str_from_utf8_unchecked_at :: "call_site \<Rightarrow> finding list" where
  "str_from_utf8_unchecked_at c =
     (let path = site_path c in
      case str_from_utf8_unchecked_name path of
        None \<Rightarrow> []
      | Some fn_name \<Rightarrow>
          let msg =
                  (if starts_with fn_name ''str::from_raw_parts''
                   then (''`'' @ fn_name @ ''` '' @ em_dash @ '' ptr must be non-null, aligned for u8, valid for `len` bytes, '' @
                         ''and the byte sequence must be valid UTF-8; invalid UTF-8 is immediate UB; '' @
                         ''the lifetime must not outlive the allocation '' @
                         ''(nightly: `#![feature(str_from_raw_parts)]`)'')
                   else (''`'' @ fn_name @ ''` '' @ em_dash @ '' bytes must be valid UTF-8; use `str::from_utf8` '' @
                         ''(returns Result) unless provably ASCII or already validated upstream''))
           in let rest = warning ''str_from_utf8_unchecked'' c msg
              in if starts_with fn_name ''str::from_raw_parts''
                 then uaf_first ''read'' never_quiet (first_arg_local (site_args c)) c rest
                 else rest)"

abbreviation StrFromUtf8Unchecked :: checker where
  "StrFromUtf8Unchecked \<equiv> call_checker str_from_utf8_unchecked_at"

subsection \<open>\<^verbatim>\<open>slice_from_raw_parts.rs\<close>\<close>

definition slice_from_raw_parts_message :: "string \<Rightarrow> string option" where
  "slice_from_raw_parts_message path =
     (if ends_with path ''::slice_from_raw_parts'' \<and> contains path ''NonNull''
      then Some (''`NonNull::slice_from_raw_parts` '' @ em_dash @ '' data pointer must be non-null '' @
                 ''(guaranteed), properly aligned for T, and valid for `len` '' @
                 ''consecutive initialized elements; len must not exceed the '' @
                 ''backing allocation'')
      else if ends_with path ''from_ptr_range'' \<or> ends_with path ''from_mut_ptr_range''
      then let fn_name =
             (if ends_with path ''from_mut_ptr_range'' then ''slice::from_mut_ptr_range'' else ''slice::from_ptr_range'');
               extra = (if ends_with path ''from_mut_ptr_range'' then '' with exclusive mutable access'' else '''')
           in Some (''`'' @ fn_name @ ''` '' @ em_dash @ '' both pointers must be derived from the same allocation, '' @
                    ''properly aligned, and the range [start, end) must be valid for '' @
                    ''the returned lifetime'' @ extra @ ''; stable since Rust 1.73'')
      else let is_mut = ends_with path ''from_raw_parts_mut''
           in if \<not> is_mut \<and> \<not> ends_with path ''from_raw_parts'' then None
              else if \<not> contains path ''slice::'' then None
              else let fn_name = (if is_mut then ''from_raw_parts_mut'' else ''from_raw_parts'');
                       access = (if is_mut then ''mutably exclusive'' else ''immutably accessible'')
                   in Some (''`'' @ fn_name @ ''` requires: non-null aligned ptr, '' @ access @ [CHR 0x27] @ ''s `len` initialized '' @
                            ''elements of the correct type, and a valid lifetime '' @ em_dash @ '' verify all '' @
                            ''three invariants''))"

definition slice_from_raw_parts_at :: "call_site \<Rightarrow> finding list" where
  "slice_from_raw_parts_at c =
     (case slice_from_raw_parts_message (site_path c) of
        None \<Rightarrow> []
      | Some msg \<Rightarrow>
          uaf_first ''read'' ptr_is_raw_owned (first_arg_local (site_args c)) c
            (warning ''slice_from_raw_parts'' c msg))"

abbreviation SliceFromRawParts :: checker where
  "SliceFromRawParts \<equiv> call_checker slice_from_raw_parts_at"

subsection \<open>\<^verbatim>\<open>clone_to_uninit_call.rs\<close>\<close>

definition clone_to_uninit_call_at :: "call_site \<Rightarrow> finding list" where
  "clone_to_uninit_call_at c =
     (if \<not> ends_with (site_path c) ''::clone_to_uninit'' then []
      else uaf_first ''write'' ptr_is_raw_owned (arg_local (site_args c) 1) c
             (warning ''clone_to_uninit_call'' c
               (''`clone_to_uninit` '' @ em_dash @ '' dst must be non-null, aligned, and valid for '' @
                ''size_of_val(src) bytes; dst must NOT hold an initialized value '' @
                ''(the old value will not be dropped '' @ em_dash @ '' leak if initialized); '' @
                ''if the clone panics, dst is partially initialized '' @ em_dash @ '' UB to use afterward'')))"

abbreviation CloneToUninitCall :: checker where
  "CloneToUninitCall \<equiv> call_checker clone_to_uninit_call_at"

subsection \<open>\<^verbatim>\<open>pin_new_unchecked.rs\<close>\<close>

definition pin_new_unchecked_message :: "string \<Rightarrow> string option" where
  "pin_new_unchecked_message path =
     (if ends_with path ''::new_unchecked'' \<and> contains path ''pin::Pin''
      then Some (''`Pin::new_unchecked` '' @ em_dash @ '' pointee must not be moved or invalidated '' @
                 ''for the Pin's lifetime; use `std::pin::pin!` for stack pinning '' @
                 ''or `Box::pin` for heap pinning instead'')
      else if ends_with path ''::map_unchecked_mut'' \<and> contains path ''Pin''
      then Some (''`Pin::map_unchecked_mut` '' @ em_dash @ '' the closure must only project to a '' @
                 ''structurally-pinned field; if the field is not structurally pinned, '' @
                 ''using the returned Pin<&mut Field> to move the value violates pinning'')
      else if ends_with path ''::map_unchecked'' \<and> contains path ''Pin''
      then Some (''`Pin::map_unchecked` '' @ em_dash @ '' the closure must only project to a '' @
                 ''structurally-pinned field; the returned Pin<&Field> must not outlive '' @
                 ''the original pin'')
      else if ends_with path ''::get_unchecked_mut'' \<and> contains path ''Pin''
      then Some (''`Pin::get_unchecked_mut` '' @ em_dash @ '' caller must not move out of the returned '' @
                 ''`&mut T` if T does not implement Unpin; moving a previously-pinned '' @
                 ''value breaks the pinning guarantee (async futures, self-referential structs)'')
      else if ends_with path ''::into_inner_unchecked'' \<and> contains path ''Pin''
      then Some (''`Pin::into_inner_unchecked` '' @ em_dash @ '' if `Ptr::Target` does not implement Unpin, '' @
                 ''the extracted value must remain pinned; moving it after extraction violates '' @
                 ''the pinning invariant and may cause UB in code that relied on address stability'')
      else None)"

definition pin_new_unchecked_at :: "call_site \<Rightarrow> finding list" where
  "pin_new_unchecked_at c =
     (if from_expansion (site_span c) then []
      else if \<not> contains (site_path c) ''Pin'' then []
      else case pin_new_unchecked_message (site_path c) of
             None \<Rightarrow> []
           | Some msg \<Rightarrow>
               uaf_first ''read'' never_quiet (first_arg_local (site_args c)) c (warning ''pin_new_unchecked'' c msg))"

abbreviation PinNewUnchecked :: checker where
  "PinNewUnchecked \<equiv> body_checker (\<lambda>tcx body flow.
     if def_kind_of tcx (source_def_id body) = DkSyntheticCoroutineBody then []
     else concat (map pin_new_unchecked_at (fn_calls tcx body flow)))"

subsection \<open>\<^verbatim>\<open>arc_strong_count.rs\<close>\<close>

definition strong_count_type :: "string \<Rightarrow> string" where
  "strong_count_type path = (if contains path ''Arc'' then ''Arc'' else ''Rc'')"

definition arc_strong_count_note :: "string \<Rightarrow> (string \<times> string) option" where
  "arc_strong_count_note path =
     (let type_name = strong_count_type path;
          counted = contains path ''Arc'' \<or> contains path ''Rc''
      in if ends_with path ''::increment_strong_count'' \<and> counted
         then Some (if contains path ''Arc'' then ''Arc::increment_strong_count'' else ''Rc::increment_strong_count'',
                    ''manually increments the strong count of a raw `'' @ type_name @ ''` pointer; '' @
                    ''ptr must be valid and owned by a live `'' @ type_name @ ''`, and every manual '' @
                    ''increment must be balanced by a matching decrement or `'' @ type_name @ ''::from_raw`; '' @
                    ''an unbalanced increment causes a memory leak; an increment after the last '' @
                    ''`'' @ type_name @ ''` was dropped is use-after-free'')
         else if ends_with path ''::decrement_strong_count'' \<and> counted
         then Some (if contains path ''Arc'' then ''Arc::decrement_strong_count'' else ''Rc::decrement_strong_count'',
                    ''manually decrements the strong count of a raw `'' @ type_name @ ''` pointer; '' @
                    ''if this brings the count to zero, the value is **dropped and freed** while '' @
                    ''the raw pointer still exists '' @ em_dash @ '' any subsequent access is use-after-free; '' @
                    ''must be exactly balanced with prior increments or clones'')
         else if ends_with path ''::increment_strong_count_in'' \<and> counted
         then Some (if contains path ''Arc'' then ''Arc::increment_strong_count_in'' else ''Rc::increment_strong_count_in'',
                    ''allocator-aware variant of `'' @ type_name @ ''::increment_strong_count`; '' @
                    ''all the same rules apply, and additionally the allocator `A` must '' @
                    ''exactly match the one used when the `'' @ type_name @ ''` was created'')
         else if ends_with path ''::decrement_strong_count_in'' \<and> counted
         then Some (if contains path ''Arc'' then ''Arc::decrement_strong_count_in'' else ''Rc::decrement_strong_count_in'',
                    ''allocator-aware variant of `'' @ type_name @ ''::decrement_strong_count`; '' @
                    ''if count reaches zero the value is dropped and freed; allocator `A` '' @
                    ''must match the one used at creation'')
         else None)"

definition arc_strong_count_at :: "call_site \<Rightarrow> finding list" where
  "arc_strong_count_at c =
     (case arc_strong_count_note (site_path c) of
        None \<Rightarrow> []
      | Some (fn_name, note) \<Rightarrow>
          uaf_first ''read'' ptr_is_raw_owned (first_arg_local (site_args c)) c
            (warning ''arc_strong_count'' c (named_note fn_name note)))"

abbreviation ArcStrongCount :: checker where
  "ArcStrongCount \<equiv> call_checker arc_strong_count_at"

subsection \<open>\<^verbatim>\<open>volatile_intrinsics.rs\<close>\<close>

definition volatile_intrinsics_note :: "string \<Rightarrow> (string \<times> string) option" where
  "volatile_intrinsics_note path =
     (if ends_with path ''volatile_load''
      then Some (''volatile_load'',
                 ''src must be valid for reads and properly aligned; does NOT provide '' @
                 ''synchronization '' @ em_dash @ '' concurrent access from another thread is still a data race; '' @
                 ''use atomics for inter-thread communication'')
      else if ends_with path ''volatile_store''
      then Some (''volatile_store'',
                 ''dst must be valid for writes and properly aligned; NOT atomic '' @ em_dash @ '' do not use '' @
                 ''for inter-thread signaling without additional synchronization; '' @
                 ''use atomics or a mutex instead'')
      else if ends_with path ''volatile_set_memory''
      then Some (''volatile_set_memory'',
                 ''dst must be valid for count * size_of::<T>() bytes; does NOT reliably '' @
                 ''clear sensitive memory '' @ em_dash @ '' the compiler may elide subsequent non-volatile reads; '' @
                 ''for zeroing secrets use write_bytes + black_box or a platform explicit_bzero'')
      else if ends_with path ''volatile_copy_nonoverlapping_memory''
      then Some (''volatile_copy_nonoverlapping_memory'',
                 ''both pointers must be valid for count elements and must NOT overlap; '' @
                 ''not atomic '' @ em_dash @ '' concurrent access to either range is a data race'')
      else if ends_with path ''volatile_copy_memory''
      then Some (''volatile_copy_memory'',
                 ''both pointers must be valid for count elements (overlap is allowed unlike '' @
                 ''the nonoverlapping variant); not atomic '' @ em_dash @ '' concurrent access to either range '' @
                 ''is a data race'')
      else if ends_with path ''nontemporal_store''
      then Some (''nontemporal_store'',
                 ''dst must be valid for writes and properly aligned; streaming stores bypass '' @
                 ''the CPU cache '' @ em_dash @ '' other threads may see stale data without an explicit memory '' @
                 ''fence (e.g. SFENCE on x86) after the store sequence; NOT atomic'')
      else if ends_with path ''unaligned_volatile_load''
      then Some (''unaligned_volatile_load'',
                 ''src must be valid for reads of size_of::<T>() bytes; alignment is NOT '' @
                 ''required (unlike volatile_load), so misaligned access is allowed but '' @
                 ''the value must still be initialized; does NOT provide synchronization '' @ em_dash @ '' '' @
                 ''concurrent writes from another thread are still a data race'')
      else if ends_with path ''unaligned_volatile_store''
      then Some (''unaligned_volatile_store'',
                 ''dst must be valid for writes of size_of::<T>() bytes; alignment is NOT '' @
                 ''required, so misaligned writes are allowed; NOT atomic '' @ em_dash @ '' do not use for '' @
                 ''inter-thread signaling without additional synchronization'')
      else None)"

definition volatile_pointers :: "string \<Rightarrow> operand list \<Rightarrow> (local \<times> string) list" where
  "volatile_pointers path args =
     (let is_copy = ends_with path ''volatile_copy_nonoverlapping_memory'' \<or> ends_with path ''volatile_copy_memory'';
          is_load = ends_with path ''volatile_load'' \<or> ends_with path ''unaligned_volatile_load'';
          access = (if is_load then ''read'' else ''write'');
          ptr1 = (if is_copy then arg_local args 1 else None)
      in List.map_filter (\<lambda>(ptr, acc). map_option (\<lambda>l. (l, acc)) ptr)
           [(first_arg_local args, access), (ptr1, ''read'')])"

definition volatile_intrinsics_at :: "call_site \<Rightarrow> finding list" where
  "volatile_intrinsics_at c =
     (case volatile_intrinsics_note (site_path c) of
        None \<Rightarrow> []
      | Some (fn_name, note) \<Rightarrow>
          let uafs = (case site_state c of
                        None \<Rightarrow> []
                      | Some state \<Rightarrow> uaf_findings (site_span c) state (volatile_pointers (site_path c) (site_args c)))
          in if uafs \<noteq> [] then uafs
             else if arg_proves ptr_is_raw_owned (first_arg_local (site_args c)) c then []
             else warning ''volatile_intrinsics'' c (named_note fn_name note))"

abbreviation VolatileIntrinsics :: checker where
  "VolatileIntrinsics \<equiv> call_checker volatile_intrinsics_at"

subsection \<open>\<^verbatim>\<open>ptr_copy.rs\<close>\<close>

definition check_for_uaf ::
  "tyctxt \<Rightarrow> body \<Rightarrow> flow_results \<Rightarrow> basic_block \<Rightarrow> nat \<Rightarrow> span \<Rightarrow> local option \<Rightarrow> local option \<Rightarrow> finding list" where
  "check_for_uaf tcx body flow bb i sp src dst =
     (case state_at_location flow tcx body bb i of
        None \<Rightarrow> []
      | Some state \<Rightarrow>
          uaf_findings sp state
            (List.map_filter (\<lambda>(l, dir). map_option (\<lambda>l. (l, dir)) l) [(src, ''read''), (dst, ''write'')]))"

fun copy_statement ::
  "tyctxt \<Rightarrow> body \<Rightarrow> flow_results \<Rightarrow> basic_block \<Rightarrow> nat \<times> statement \<Rightarrow> finding list" where
  "copy_statement tcx body flow bb (i, Statement (CopyNonOverlapping src dst) sp) =
     (let uafs = check_for_uaf tcx body flow bb i sp (operand_local src) (operand_local dst)
      in if uafs \<noteq> [] then uafs
         else [finding_at Warning ''ptr_copy'' sp
                (''`ptr::copy_nonoverlapping` '' @ em_dash @ '' verify src and dst are non-null, '' @
                 ''aligned, each backed by at least count*size_of::<T>() valid bytes, '' @
                 ''and that the ranges do not overlap'')])"
| "copy_statement tcx body flow bb _ = []"

definition is_nonoverlapping_copy :: "string \<Rightarrow> bool" where
  "is_nonoverlapping_copy path =
     (let is_raw_ptr = contains path ''NonNull'' \<or> contains path ''mut_ptr'' \<or> contains path ''const_ptr''
      in ends_with path ''ptr::copy_nonoverlapping'' \<or> ends_with path ''intrinsics::copy_nonoverlapping'' \<or>
         ends_with path ''::copy_to_nonoverlapping'' \<and> is_raw_ptr \<or>
         ends_with path ''::copy_from_nonoverlapping'' \<and> is_raw_ptr)"

definition is_ptr_copy :: "string \<Rightarrow> bool" where
  "is_ptr_copy path =
     (let is_raw_ptr = contains path ''NonNull'' \<or> contains path ''mut_ptr'' \<or> contains path ''const_ptr''
      in is_nonoverlapping_copy path \<or> ends_with path ''ptr::copy'' \<or>
         contains path ''intrinsics'' \<and> ends_with path ''::copy'' \<or>
         ends_with path ''::copy_to'' \<and> is_raw_ptr \<or> ends_with path ''::copy_from'' \<and> is_raw_ptr)"

definition ptr_copy_name :: "string \<Rightarrow> string" where
  "ptr_copy_name path =
     (if contains path ''NonNull''
      then (if ends_with path ''::copy_to_nonoverlapping'' then ''NonNull::copy_to_nonoverlapping''
            else if ends_with path ''::copy_from_nonoverlapping'' then ''NonNull::copy_from_nonoverlapping''
            else if ends_with path ''::copy_to'' then ''NonNull::copy_to''
            else if ends_with path ''::copy_from'' then ''NonNull::copy_from''
            else if is_nonoverlapping_copy path then ''ptr::copy_nonoverlapping''
            else ''ptr::copy'')
      else if is_nonoverlapping_copy path then ''ptr::copy_nonoverlapping''
      else ''ptr::copy'')"

definition ptr_copy_at :: "tyctxt \<Rightarrow> body \<Rightarrow> flow_results \<Rightarrow> nat \<Rightarrow> call_site \<Rightarrow> finding list" where
  "ptr_copy_at tcx body flow n_stmts c =
     (let path = site_path c in
      if \<not> is_ptr_copy path then []
      else
        let fn_name = ptr_copy_name path;
            extra = (if is_nonoverlapping_copy path
                     then '' and that src..src+count*size_of::<T>() and dst..dst+count*size_of::<T>() do not overlap''
                     else '''');
            src_local = first_arg_local (site_args c);
            dst_local = (if \<not> contains path ''NonNull'' then arg_local (site_args c) 1 else None);
            uafs = check_for_uaf tcx body flow (site_block c) n_stmts (site_span c) src_local dst_local
        in if uafs \<noteq> [] then uafs
           else if arg_proves ptr_is_raw_owned src_local c \<or> arg_proves ptr_is_raw_owned dst_local c then []
           else warning ''ptr_copy'' c
                  (''`'' @ fn_name @ ''` '' @ em_dash @ '' verify src and dst are non-null, aligned, and '' @
                   ''each backed by at least count*size_of::<T>() valid bytes'' @ extra))"

definition check_ptr_copy :: "tyctxt \<Rightarrow> body \<Rightarrow> flow_results \<Rightarrow> finding list" where
  "check_ptr_copy tcx body flow =
     concat (map (\<lambda>(bb, block_data).
       concat (map (copy_statement tcx body flow bb) (enumerate 0 (statements block_data))) @
       (case site_of tcx body flow (bb, block_data) of
          None \<Rightarrow> []
        | Some c \<Rightarrow> ptr_copy_at tcx body flow (length (statements block_data)) c))
       (enumerate 0 (basic_blocks body)))"

abbreviation PtrCopy :: checker where
  "PtrCopy \<equiv> body_checker check_ptr_copy"

section \<open>The pointer checkers keep the contract\<close>

text \<open>The pointer a checker looks at: the first argument, its base, or the second argument.\<close>

abbreviation first_ptr :: "call_site \<Rightarrow> local option" where
  "first_ptr c \<equiv> first_arg_local (site_args c)"

abbreviation base_ptr :: "call_site \<Rightarrow> local option" where
  "base_ptr c \<equiv> first_arg_base_local (site_args c)"

abbreviation second_ptr :: "call_site \<Rightarrow> local option" where
  "second_ptr c \<equiv> arg_local (site_args c) 1"

interpretation ptr_read: pointer_checker ptr_read_at first_ptr ptr_is_raw_owned
  by unfold_locales (auto simp: ptr_read_at_def Let_def warning_def split: option.splits)

interpretation ptr_write: pointer_checker ptr_write_at first_ptr ptr_is_raw_owned
  by unfold_locales (auto simp: ptr_write_at_def Let_def warning_def split: option.splits)

interpretation ptr_swap: pointer_checker ptr_swap_at first_ptr ptr_is_raw_owned
  by unfold_locales (auto simp: ptr_swap_at_def Let_def warning_def split: option.splits if_splits)

interpretation ptr_arith: pointer_checker ptr_arith_at first_ptr ptr_is_raw_owned
  by unfold_locales (auto simp: ptr_arith_at_def Let_def warning_def split: option.splits if_splits)

interpretation ptr_as_ref: pointer_checker ptr_as_ref_at first_ptr ptr_is_raw_owned
  by unfold_locales (auto simp: ptr_as_ref_at_def Let_def warning_def split: option.splits if_splits)

interpretation ptr_as_ref_unchecked: pointer_checker ptr_as_ref_unchecked_at first_ptr ptr_is_raw_owned
  by unfold_locales (auto simp: ptr_as_ref_unchecked_at_def Let_def warning_def split: option.splits if_splits)

interpretation ptr_drop_in_place: pointer_checker ptr_drop_in_place_at first_ptr ptr_is_raw_owned
  by unfold_locales (auto simp: ptr_drop_in_place_at_def Let_def warning_def split: option.splits if_splits)

interpretation ptr_from_raw_parts: pointer_checker ptr_from_raw_parts_at first_ptr ptr_is_raw_owned
  by unfold_locales (auto simp: ptr_from_raw_parts_at_def Let_def warning_def split: option.splits if_splits)

interpretation atomic_from_ptr: pointer_checker atomic_from_ptr_at first_ptr ptr_is_raw_owned
  by unfold_locales (auto simp: atomic_from_ptr_at_def Let_def warning_def split: option.splits if_splits)

interpretation waker_from_raw: pointer_checker waker_from_raw_at first_ptr ptr_is_raw_owned
  by unfold_locales (auto simp: waker_from_raw_at_def Let_def warning_def split: option.splits if_splits)

interpretation manually_drop: pointer_checker manually_drop_at first_ptr ptr_is_raw_owned
  by unfold_locales (auto simp: manually_drop_at_def Let_def warning_def split: option.splits if_splits)

interpretation slice_from_raw_parts: pointer_checker slice_from_raw_parts_at first_ptr ptr_is_raw_owned
  by unfold_locales (auto simp: slice_from_raw_parts_at_def Let_def warning_def split: option.splits)

interpretation arc_strong_count: pointer_checker arc_strong_count_at first_ptr ptr_is_raw_owned
  by unfold_locales (auto simp: arc_strong_count_at_def Let_def warning_def split: option.splits)

interpretation nonnull_deref: pointer_checker nonnull_deref_at base_ptr ptr_is_raw_owned
  by unfold_locales (auto simp: nonnull_deref_at_def Let_def warning_def split: option.splits)

interpretation clone_to_uninit_call: pointer_checker clone_to_uninit_call_at second_ptr ptr_is_raw_owned
  by unfold_locales (auto simp: clone_to_uninit_call_at_def Let_def warning_def split: option.splits if_splits)

interpretation nonnull_new_unchecked: pointer_checker nonnull_new_unchecked_at first_ptr "\<lambda>s l. ptr_is_raw_owned s l \<or> local_is_nonzero s l"
  by unfold_locales (auto simp: nonnull_new_unchecked_at_def Let_def warning_def split: option.splits if_splits)

interpretation arc_get_mut_unchecked: pointer_checker arc_get_mut_unchecked_at first_ptr never_quiet
  by unfold_locales (auto simp: arc_get_mut_unchecked_at_def Let_def warning_def split: option.splits if_splits)

interpretation downcast_unchecked: pointer_checker downcast_unchecked_at first_ptr never_quiet
  by unfold_locales (auto simp: downcast_unchecked_at_def Let_def warning_def split: option.splits if_splits)

interpretation pin_new_unchecked: pointer_checker pin_new_unchecked_at first_ptr never_quiet
  by unfold_locales (auto simp: pin_new_unchecked_at_def Let_def warning_def split: option.splits if_splits)

end
