(* ===== verification/Checkers_Ownership.thy ===== *)
theory Checkers_Ownership
  imports Call_Checkers
begin

text \<open>
  The checkers of calls that hand ownership out or take it back: raw pointers of boxes and
  counted references, allocators and file descriptors. Pointers the flow analysis follows are
  left to the ownership checker.
\<close>

subsection \<open>\<^verbatim>\<open>box_from_raw.rs\<close>\<close>

definition box_from_raw_at :: "call_site \<Rightarrow> finding list" where
  "box_from_raw_at c =
     (let path = site_path c in
      let found =
             (if ends_with path ''Box::<T>::from_raw'' \<or> ends_with path ''Box::from_raw'' \<or>
                      ends_with path ''::from_raw'' \<and> contains path ''Box''
              then Some (''Box::from_raw'',
                         '''')
              else if ends_with path ''Box::<T, A>::from_raw_in'' \<or>
                      ends_with path ''Box::from_raw_in''
              then Some (''Box::from_raw_in'',
                         '' and the allocator `A` must match the one that produced the pointer'')
              else if ends_with path ''::from_non_null'' \<and> contains path ''Box''
              then Some (''Box::from_non_null'',
                         ''; NonNull must have been produced by `Box::into_non_null` for the same T'')
              else if ends_with path ''::from_non_null_in'' \<and> contains path ''Box''
              then Some (''Box::from_non_null_in'',
                         ''; NonNull must have been produced by `Box::into_non_null_with_allocator` '' @
                         ''for the same T, and the allocator `A` must match '' @
                         ''(nightly feature `box_vec_non_null`)'')
              else None)
      in case found of
           None \<Rightarrow> []
         | Some (fn_name, extra) \<Rightarrow>
             if arg_proves is_tracked (first_arg_local (site_args c)) c then []
              else warning ''box_from_raw'' c
               (''`'' @ fn_name @ ''` '' @ em_dash @ '' pointer must come from `Box::into_raw` for the same T'' @ extra @ '', '' @
                ''must not be used again, and must be called exactly once (double-free if called twice)''))"

abbreviation BoxFromRaw :: checker where
  "BoxFromRaw \<equiv> call_checker box_from_raw_at"

subsection \<open>\<^verbatim>\<open>vec_from_raw_parts.rs\<close>\<close>

definition vec_from_raw_parts_at :: "call_site \<Rightarrow> finding list" where
  "vec_from_raw_parts_at c =
     (let path = site_path c in
      let found =
             (if ends_with path ''Vec::<T>::from_raw_parts'' \<or>
                      ends_with path ''Vec::from_raw_parts''
              then Some (''Vec::from_raw_parts'',
                         '''')
              else if ends_with path ''Vec::<T, A>::from_raw_parts_in'' \<or>
                      ends_with path ''Vec::from_raw_parts_in''
              then Some (''Vec::from_raw_parts_in'',
                         '' and the allocator A must match the one that produced the pointer'')
              else if contains path ''Vec'' \<and> ends_with path ''::from_parts'' \<and>
                      \<not> contains path ''raw''
              then Some (''Vec::from_parts'',
                         ''; takes NonNull<T> instead of *mut T but has identical '' @
                         ''safety requirements to `Vec::from_raw_parts` '' @ em_dash @ '' the NonNull '' @
                         ''wrapper does not relax any invariant (nightly `box_vec_non_null`)'')
              else if contains path ''Vec'' \<and> ends_with path ''::from_parts_in'' \<and>
                      \<not> contains path ''raw''
              then Some (''Vec::from_parts_in'',
                         ''; allocator-aware NonNull variant '' @ em_dash @ '' allocator A must match '' @
                         ''the one used at allocation (nightly `box_vec_non_null`)'')
              else None)
      in case found of
           None \<Rightarrow> []
         | Some (fn_name, extra) \<Rightarrow>
             if arg_proves is_tracked (first_arg_local (site_args c)) c then []
              else warning ''vec_from_raw_parts'' c
               (''`'' @ fn_name @ ''` '' @ em_dash @ '' ptr must come from the same allocator, len '' @ le_sign @ '' cap, '' @
                ''cap must match the allocation exactly, first len elements must be '' @
                ''initialized'' @ extra @ '', and the pointer must not be used again after this call''))"

abbreviation VecFromRawParts :: checker where
  "VecFromRawParts \<equiv> call_checker vec_from_raw_parts_at"

subsection \<open>\<^verbatim>\<open>string_from_raw_parts.rs\<close>\<close>

definition string_from_raw_parts_at :: "call_site \<Rightarrow> finding list" where
  "string_from_raw_parts_at c =
     (let path = site_path c in
      let is_from_raw_parts = ends_with path ''String::from_raw_parts'' \<or>
                             ends_with path ''::from_raw_parts'' \<and> contains path ''String'' \<or>
                             ends_with path ''::from_raw_parts_in'' \<and> contains path ''String''
      in if \<not> is_from_raw_parts then []
         else let fn_name =
                (if ends_with path ''::from_raw_parts_in''
                 then (''String::from_raw_parts_in'')
                 else (''String::from_raw_parts''))
         in if arg_proves is_tracked (first_arg_local (site_args c)) c then []
            else warning ''string_from_raw_parts'' c
             (''`'' @ fn_name @ ''` '' @ em_dash @ '' ptr must be valid for the declared capacity, bytes must be '' @
              ''valid UTF-8, length must be <= capacity, and the original buffer must be '' @
              ''forgotten; mismatches cause double-free, heap corruption, or UB from '' @
              ''invalid UTF-8''))"

abbreviation StringFromRawParts :: checker where
  "StringFromRawParts \<equiv> call_checker string_from_raw_parts_at"

subsection \<open>\<^verbatim>\<open>cstring_from_raw.rs\<close>\<close>

definition cstring_from_raw_at :: "call_site \<Rightarrow> finding list" where
  "cstring_from_raw_at c =
     (let path = site_path c in
      if \<not> ends_with path ''CString::from_raw'' then []
      else if arg_proves is_tracked (first_arg_local (site_args c)) c then []
      else warning ''cstring_from_raw'' c
       (''`CString::from_raw` '' @ em_dash @ '' ptr must have been obtained from '' @
        ''`CString::into_raw` with the same allocator; do not call twice '' @
        ''(double-free); do not use ptr after this call (use-after-free); '' @
        ''buffer must be unmodified with nul terminator intact''))"

abbreviation CStringFromRaw :: checker where
  "CStringFromRaw \<equiv> call_checker cstring_from_raw_at"

subsection \<open>\<^verbatim>\<open>triomphe_unchecked.rs\<close>\<close>

definition triomphe_unchecked_note :: "string \<Rightarrow> (string \<times> string) option" where
  "triomphe_unchecked_note path =
     (if ends_with path ''::from_ptr'' \<and> contains path ''ArcBorrow''
      then Some (''triomphe::ArcBorrow::from_ptr'',
                 ''ptr must point to a live triomphe::Arc<T> allocation; the borrow does NOT '' @
                 ''increment the reference count '' @ em_dash @ '' the Arc must outlive the ArcBorrow; '' @
                 ''using a pointer from a dropped Arc or a different allocator is use-after-free'')
      else if ends_with path ''::from_raw'' \<and> contains path ''ThinArc''
      then Some (''triomphe::ThinArc::from_raw'',
                 ''ptr must have been produced by ThinArc::into_raw on a live ThinArc; '' @
                 ''the thin-arc layout (header + slice in one allocation) differs from '' @
                 ''std::sync::Arc '' @ em_dash @ '' using a std Arc pointer is immediate UB'')
      else if ends_with path ''::from_raw'' \<and> contains path ''Arc''
      then Some (''triomphe::Arc::from_raw'',
                 ''ptr must have been produced by triomphe::Arc::into_raw on a live Arc<T>; '' @
                 ''triomphe's internal layout differs from std::sync::Arc '' @ em_dash @ '' do not mix pointers; '' @
                 ''must call exactly once per into_raw to avoid double-free or memory leak'')
      else if ends_with path ''::assume_init_slice_with_header''
      then Some (''UniqueArc::assume_init_slice_with_header'',
                 ''both the header and all slice elements must be fully initialized before this '' @
                 ''call; partial initialization is UB'')
      else if ends_with path ''::assume_init_slice''
      then Some (''UniqueArc::assume_init_slice'',
                 ''every element of the MaybeUninit<[T]> slice must be initialized before this '' @
                 ''call; partial initialization followed by assume_init_slice is UB'')
      else if ends_with path ''::assume_init'' \<and> (contains path ''UniqueArc'' \<or>
              contains path ''triomphe'')
      then Some (''UniqueArc::assume_init'',
                 ''all bytes of the MaybeUninit<T> must be written before calling assume_init; '' @
                 ''reading from any uninitialized field after this call is UB'')
      else None)"

definition triomphe_unchecked_at :: "call_site \<Rightarrow> finding list" where
  "triomphe_unchecked_at c =
     (let path = site_path c in
      let is_from_raw = ends_with path ''::from_raw'' \<or> ends_with path ''::from_raw_slice'' \<or>
                       ends_with path ''::from_ptr'' \<and> contains path ''ArcBorrow''
      in case triomphe_unchecked_note path of
           None \<Rightarrow> []
         | Some (fn_name, note) \<Rightarrow>
             if is_from_raw \<and> arg_proves is_tracked (first_arg_local (site_args c)) c then []
              else warning ''triomphe_unchecked'' c (named_note fn_name note))"

abbreviation TriompheUnchecked :: checker where
  "TriompheUnchecked \<equiv> call_checker triomphe_unchecked_at"

subsection \<open>\<^verbatim>\<open>raw_allocator.rs\<close>\<close>

definition raw_allocator_at :: "call_site \<Rightarrow> finding list" where
  "raw_allocator_at c =
     (let path = site_path c in
      let found =
             (if ends_with path ''alloc::realloc'' \<or> ends_with path ''GlobalAlloc::realloc''
              then Some (''realloc'',
                         ''old pointer is invalid after call; check return for null; '' @
                         ''new_size must not overflow when rounded up for alignment'')
              else if ends_with path ''alloc::dealloc'' \<or> ends_with path ''GlobalAlloc::dealloc''
              then Some (''dealloc'',
                         ''pointer must have been allocated by this allocator with the '' @
                         ''exact same layout; must not be used after this call (use-after-free); '' @
                         ''must be called exactly once (double-free)'')
              else if ends_with path ''alloc::alloc_zeroed'' \<or>
                      ends_with path ''GlobalAlloc::alloc_zeroed'' \<or>
                      ends_with path ''alloc::alloc'' \<or> ends_with path ''GlobalAlloc::alloc''
              then Some (''alloc'',
                         ''layout.size() must be > 0; check return value for null; '' @
                         ''returned pointer must be deallocated with the same layout'')
              else None)
      in case found of
           None \<Rightarrow> []
         | Some (fn_name, note) \<Rightarrow>
             if (fn_name = ''dealloc'' \<or> fn_name = ''realloc'') \<and>
                   arg_proves (\<lambda>state l. freed_kind state l \<noteq> NotFreed \<or>
                   ptr_is_raw_owned state l) (first_arg_local (site_args c)) c then []
              else warning ''raw_allocator'' c (named_note fn_name note))"

abbreviation RawAllocator :: checker where
  "RawAllocator \<equiv> call_checker raw_allocator_at"

subsection \<open>\<^verbatim>\<open>allocator_methods.rs\<close>\<close>

definition allocator_methods_at :: "call_site \<Rightarrow> finding list" where
  "allocator_methods_at c =
     (let path = site_path c in
      let found =
             (if ends_with path ''Allocator::deallocate''
              then Some (''Allocator::deallocate'',
                         ''ptr must have been returned by this same allocator with the exact same '' @
                         ''layout; wrong allocator, wrong layout, or double-free is immediate UB; '' @
                         ''the allocation is consumed '' @ em_dash @ '' do not use ptr after this call'')
              else if ends_with path ''Allocator::grow'' \<or>
                      ends_with path ''Allocator::grow_zeroed''
              then Some (''Allocator::grow'',
                         ''ptr must come from this allocator with old_layout; new_layout.size() '' @
                         ''must be >= old_layout.size(); the old ptr is consumed on success '' @ em_dash @ '' '' @
                         ''do not use it after a successful grow'')
              else if ends_with path ''Allocator::shrink''
              then Some (''Allocator::shrink'',
                         ''ptr must come from this allocator with old_layout; new_layout.size() '' @
                         ''must be <= old_layout.size(); the old ptr is consumed on success '' @ em_dash @ '' '' @
                         ''do not use it after a successful shrink'')
              else None)
      in case found of
           None \<Rightarrow> []
         | Some (fn_name, note) \<Rightarrow>
             if arg_proves (\<lambda>state l. freed_kind state l \<noteq> NotFreed \<or>
                   ptr_is_raw_owned state l) (first_arg_local (site_args c)) c then []
              else warning ''allocator_methods'' c (named_note fn_name note))"

abbreviation AllocatorMethods :: checker where
  "AllocatorMethods \<equiv> call_checker allocator_methods_at"

subsection \<open>\<^verbatim>\<open>arc_from_raw.rs\<close>\<close>

definition arc_from_raw_note :: "string \<Rightarrow> (string \<times> string) option" where
  "arc_from_raw_note path =
     (if ends_with path ''Arc::<T>::from_raw'' \<or> ends_with path ''Arc::from_raw''
      then Some (''Arc::from_raw'',
                 ''pointer must come from Arc::into_raw; does NOT increment the count; '' @
                 ''calling twice on the same pointer creates two Arcs that will '' @
                 ''double-free on drop'')
      else if ends_with path ''Rc::<T>::from_raw'' \<or> ends_with path ''Rc::from_raw''
      then Some (''Rc::from_raw'',
                 ''pointer must come from Rc::into_raw; does NOT increment the count; '' @
                 ''calling twice on the same pointer causes double-free on drop'')
      else if ends_with path ''Arc::<T>::increment_strong_count'' \<or>
              ends_with path ''Arc::increment_strong_count''
      then Some (''Arc::increment_strong_count'',
                 ''pointer must be valid for the lifetime of the call; every increment '' @
                 ''must be paired with exactly one decrement or from_raw '' @ em_dash @ '' mismatches '' @
                 ''cause premature free (underflow) or memory leak (overflow)'')
      else if ends_with path ''Arc::<T>::decrement_strong_count'' \<or>
              ends_with path ''Arc::decrement_strong_count''
      then Some (''Arc::decrement_strong_count'',
                 ''pointer must still be valid; decrement to zero frees the allocation; '' @
                 ''must be paired with a corresponding increment or into_raw'')
      else if ends_with path ''Rc::<T>::increment_strong_count'' \<or>
              ends_with path ''Rc::increment_strong_count''
      then Some (''Rc::increment_strong_count'',
                 ''pointer must be valid; every increment must be paired with exactly one '' @
                 ''decrement or from_raw '' @ em_dash @ '' mismatches cause premature free or memory leak; '' @
                 ''Rc is not thread-safe, this operation must be on the creating thread'')
      else if ends_with path ''Rc::<T>::decrement_strong_count'' \<or>
              ends_with path ''Rc::decrement_strong_count''
      then Some (''Rc::decrement_strong_count'',
                 ''pointer must still be valid; decrement to zero frees the allocation; '' @
                 ''must be paired with a corresponding increment or into_raw; '' @
                 ''Rc is not thread-safe, this operation must be on the creating thread'')
      else if ends_with path ''::from_raw'' \<and> contains path ''sync::Weak''
      then Some (''Arc::Weak::from_raw'',
                 ''pointer must have been obtained from Arc::Weak::into_raw; the control '' @
                 ''block must still be live; calling twice on the same pointer '' @
                 ''double-decrements the weak count and may free the control block prematurely'')
      else if ends_with path ''::from_raw'' \<and> contains path ''rc::Weak''
      then Some (''Rc::Weak::from_raw'',
                 ''pointer must have been obtained from Rc::Weak::into_raw; the control '' @
                 ''block must still be live; calling twice on the same pointer '' @
                 ''double-decrements the weak count; Rc is not thread-safe'')
      else if ends_with path ''::from_raw_in'' \<and> contains path ''Box''
      then Some (''Box::from_raw_in'',
                 ''pointer must have been returned by Box::into_raw_with_allocator (or '' @
                 ''Box::into_raw with the same allocator); the allocator must be the same '' @
                 ''one used for the original allocation; calling twice on the same pointer '' @
                 ''causes double-free'')
      else if ends_with path ''::from_raw_in'' \<and> contains path ''Arc''
      then Some (''Arc::from_raw_in'',
                 ''pointer must have been obtained from Arc::into_raw_with_allocator; '' @
                 ''does NOT increment the strong count; calling twice on the same pointer '' @
                 ''causes double-free when both Arcs are dropped'')
      else if ends_with path ''::from_raw_in'' \<and> contains path ''Rc''
      then Some (''Rc::from_raw_in'',
                 ''pointer must have been obtained from Rc::into_raw_with_allocator; '' @
                 ''does NOT increment the strong count; calling twice on the same pointer '' @
                 ''causes double-free when both Rcs are dropped'')
      else if ends_with path ''Thread::from_raw''
      then Some (''Thread::from_raw'',
                 ''pointer must have been obtained from Thread::into_raw; reconstructs '' @
                 ''ownership of the Thread handle; calling twice on the same pointer '' @
                 ''causes double-free when both handles are dropped '' @
                 ''(nightly: #![feature(thread_raw)])'')
      else None)"

definition arc_from_raw_at :: "call_site \<Rightarrow> finding list" where
  "arc_from_raw_at c =
     (case arc_from_raw_note (site_path c) of
        None \<Rightarrow> []
      | Some (fn_name, note) \<Rightarrow>
          let arg = first_arg_local (site_args c);
              rest = warning ''arc_from_raw'' c (named_note fn_name note)
          in if is_from_raw (site_path c) then (if arg_proves is_tracked arg c then [] else rest)
             else uaf_first ''read'' (\<lambda>state l. objects_for state l \<noteq> []) arg c rest)"

abbreviation ArcFromRaw :: checker where
  "ArcFromRaw \<equiv> call_checker arc_from_raw_at"

subsection \<open>\<^verbatim>\<open>into_raw.rs\<close>\<close>

definition into_raw_note :: "string \<Rightarrow> (string \<times> string) option" where
  "into_raw_note path =
     (if ends_with path ''::into_raw'' \<and> contains path ''sync::Weak''
      then Some (''Arc::Weak::into_raw'',
                 ''leaks the Weak reference without decrementing the weak count; the pointer '' @
                 ''must be passed to exactly one `Weak::from_raw` call '' @ em_dash @ '' forgetting to call '' @
                 ''`from_raw` leaks the control block; the strong count is unaffected but '' @
                 ''the allocation will not be freed until all weak references are dropped'')
      else if ends_with path ''::into_raw'' \<and> contains path ''rc::Weak''
      then Some (''Rc::Weak::into_raw'',
                 ''leaks the Weak reference without decrementing the weak count; the pointer '' @
                 ''must be passed to exactly one `Weak::from_raw` call '' @ em_dash @ '' forgetting to call '' @
                 ''`from_raw` leaks the control block; Rc::Weak is not thread-safe'')
      else if ends_with path ''::into_raw'' \<and> contains path ''Box''
      then Some (''Box::into_raw'',
                 ''leaks the Box; the pointer must be passed to exactly one '' @
                 ''`Box::from_raw` call with the same T; forgetting to call '' @
                 ''`from_raw` leaks memory; calling it twice causes double-free'')
      else if ends_with path ''::into_raw'' \<and> contains path ''Arc''
      then Some (''Arc::into_raw'',
                 ''leaks the Arc without decrementing the refcount; the pointer '' @
                 ''represents one logical Arc that MUST be reconstituted via '' @
                 ''`Arc::from_raw` exactly once'')
      else if ends_with path ''::into_raw'' \<and> contains path ''Rc''
      then Some (''Rc::into_raw'',
                 ''leaks the Rc without decrementing the refcount; the pointer '' @
                 ''represents one logical Rc that MUST be reconstituted via '' @
                 ''`Rc::from_raw` exactly once; Rc is not thread-safe'')
      else if ends_with path ''::into_raw_with_allocator'' \<and> contains path ''Box''
      then Some (''Box::into_raw_with_allocator'',
                 ''leaks the Box and returns the allocator; the pointer must be passed to '' @
                 ''exactly one `Box::from_raw_in` call with the same T and the returned '' @
                 ''allocator; forgetting to call `from_raw_in` leaks memory'')
      else if ends_with path ''::into_raw_with_allocator'' \<and> contains path ''Arc''
      then Some (''Arc::into_raw_with_allocator'',
                 ''leaks the Arc without decrementing the refcount; the pointer represents '' @
                 ''one logical Arc that MUST be reconstituted via `Arc::from_raw_in` with '' @
                 ''the returned allocator exactly once'')
      else if ends_with path ''::into_raw_with_allocator'' \<and> contains path ''Rc''
      then Some (''Rc::into_raw_with_allocator'',
                 ''leaks the Rc without decrementing the refcount; must be reconstituted via '' @
                 ''`Rc::from_raw_in` with the returned allocator exactly once; Rc is not thread-safe'')
      else if ends_with path ''::into_inner_unchecked'' \<and> contains path ''Pin''
      then Some (''Pin::into_inner_unchecked'',
                 ''bypasses pin-safety '' @ em_dash @ '' only valid if T: Unpin or the value is '' @
                 ''guaranteed not to move after unpinning; moving a self-referential '' @
                 ''struct after unpinning corrupts internal pointers'')
      else if ends_with path ''Thread::into_raw''
      then Some (''Thread::into_raw'',
                 ''leaks the Thread handle; the pointer must be passed to exactly one '' @
                 ''Thread::from_raw call to reconstruct it; forgetting to call from_raw '' @
                 ''leaks the thread object; calling from_raw twice causes double-free '' @
                 ''(nightly: #![feature(thread_raw)])'')
      else if ends_with path ''::into_non_null'' \<and> contains path ''Box''
      then Some (''Box::into_non_null'',
                 ''leaks the Box as NonNull<T>; must be passed to exactly one '' @
                 ''Box::from_non_null call with the same T; forgetting leaks memory; '' @
                 ''calling from_non_null twice causes double-free '' @
                 ''(nightly: #![feature(box_vec_non_null)])'')
      else if ends_with path ''::into_raw_parts_with_alloc'' \<and> contains path ''Vec''
      then Some (''Vec::into_raw_parts_with_alloc'',
                 ''leaks the Vec and returns (ptr, len, cap, allocator); must be '' @
                 ''reconstituted via Vec::from_raw_parts_in with the same T, exact len/cap, '' @
                 ''and the returned allocator; forgetting leaks memory, wrong allocator '' @
                 ''causes heap corruption (nightly `allocator_api`)'')
      else if ends_with path ''::into_raw_parts'' \<and> contains path ''Vec''
      then Some (''Vec::into_raw_parts'',
                 ''leaks the Vec and returns (ptr, len, cap); must be reconstituted via '' @
                 ''Vec::from_raw_parts with the same T, exact len/cap, and the global '' @
                 ''allocator; forgetting leaks memory; wrong cap causes heap corruption '' @
                 ''on drop; stable since Rust 1.93'')
      else if ends_with path ''String::into_raw_parts''
      then Some (''String::into_raw_parts'',
                 ''leaks the String and returns (ptr, len, cap); must be reconstituted via '' @
                 ''String::from_raw_parts with the exact same len/cap and a UTF-8-valid buffer; '' @
                 ''forgetting leaks memory; wrong cap causes heap corruption on drop; '' @
                 ''bytes written into the raw buffer must be valid UTF-8 before '' @
                 ''reconstituting; stable since Rust 1.93'')
      else if ends_with path ''::leak'' \<and> contains path ''Box''
      then Some (''Box::leak'',
                 ''intentionally leaks the Box, returning a `&'static mut T`; the allocation '' @
                 ''is never freed unless reclaimed via `Box::from_raw` '' @ em_dash @ '' use only when a '' @
                 [CHR 0x27] @ ''static lifetime is genuinely required (e.g. initializing global state); '' @
                 ''the returned reference has the same aliasing restrictions as any &mut T'')
      else None)"

definition return_states :: "tyctxt \<Rightarrow> body \<Rightarrow> flow_results \<Rightarrow> block_state list" where
  "return_states tcx body flow =
     List.map_filter (\<lambda>(bb, block_data).
       if is_return_block block_data then state_before_terminator flow tcx body bb else None)
       (enumerate 0 (basic_blocks body))"

definition into_raw_at :: "block_state list \<Rightarrow> call_site \<Rightarrow> finding list" where
  "into_raw_at exit_states c =
     (case into_raw_note (site_path c) of
        None \<Rightarrow> []
      | Some (fn_name, note) \<Rightarrow>
          if is_into_raw (site_path c) \<and> exit_states \<noteq> [] \<and>
             list_all (\<lambda>s. fmlookup (heap s) (word_of_nat (site_block c)) \<noteq> Some RawOwned) exit_states
          then []
          else info ''into_raw'' c (named_note fn_name note))"

abbreviation IntoRaw :: checker where
  "IntoRaw \<equiv> body_checker (\<lambda>tcx body flow.
     concat (map (into_raw_at (return_states tcx body flow)) (fn_calls tcx body flow)))"

subsection \<open>\<^verbatim>\<open>mem_forget.rs\<close>\<close>

definition mem_forget_note :: "string \<Rightarrow> (string \<times> string) option" where
  "mem_forget_note path =
     (if ends_with path ''mem::forget''
      then Some (''mem::forget'',
                 ''verify no panic path exists between taking raw pointers to the '' @
                 ''forgotten value and this call; ownership must be picked up elsewhere'')
      else None)"

fun is_fn_ptr_ty :: "ty \<Rightarrow> bool" where
  "is_fn_ptr_ty (TyFnPtr _ _) = True"
| "is_fn_ptr_ty _ = False"

definition mem_forget_at :: "body \<Rightarrow> call_site \<Rightarrow> finding list" where
  "mem_forget_at body c =
     (case mem_forget_note (site_path c) of
        None \<Rightarrow> []
      | Some (fn_name, note) \<Rightarrow>
          (case arg_base_local (site_args c) 0 of
             Some l \<Rightarrow>
               if is_raw_ptr_ty (local_decls body l) \<or> is_fn_ptr_ty (local_decls body l) then []
               else info ''mem_forget'' c (named_note fn_name note)
           | None \<Rightarrow> info ''mem_forget'' c (named_note fn_name note)))"

abbreviation MemForget :: checker where
  "MemForget \<equiv> body_checker (\<lambda>tcx body flow. concat (map (mem_forget_at body) (fn_calls tcx body flow)))"

subsection \<open>\<^verbatim>\<open>raw_fd.rs\<close>\<close>

definition is_fd_from_call :: "string \<Rightarrow> bool" where
  "is_fd_from_call path \<longleftrightarrow>
     ends_with path ''::from_raw_fd'' \<or> ends_with path ''::from_raw_socket'' \<or>
     ends_with path ''::from_raw_handle'' \<or> ends_with path ''::from_raw_handle_or_invalid'' \<or>
     ends_with path ''::borrow_raw'' \<and> (contains path ''BorrowedFd'' \<or> contains path ''BorrowedSocket'')"

definition raw_fd_from_name :: "string \<Rightarrow> string" where
  "raw_fd_from_name path =
     (if ends_with path ''::from_raw_fd''
      then (''from_raw_fd'')
      else if ends_with path ''::from_raw_socket''
      then (''from_raw_socket'')
      else if ends_with path ''::from_raw_handle'' \<or>
              ends_with path ''::from_raw_handle_or_invalid''
      then (''from_raw_handle'')
      else (''borrow_raw''))"

definition raw_fd_from_note :: "string \<Rightarrow> string" where
  "raw_fd_from_note fn_name =
     (if fn_name = ''from_raw_fd''
      then ''descriptor must be valid and uniquely owned; '' @
           ''double-close UB if another owner closes the same descriptor; '' @
           ''use OwnedFd and `from_raw_fd` via rustix/io_uring for correct I/O safety''
      else if fn_name = ''from_raw_socket''
      then ''socket must be valid and uniquely owned; '' @
           ''double-close UB if another owner closes the same socket''
      else if fn_name = ''from_raw_handle''
      then ''handle must be valid and uniquely owned; '' @
           ''double-close UB if another owner closes the same handle''
      else ''fd/socket must remain valid and open for the entire lifetime of the '' @
           ''returned BorrowedFd/BorrowedSocket; using an invalid descriptor is UB'')"

definition raw_fd_into_note :: "string \<Rightarrow> (string \<times> string) option" where
  "raw_fd_into_note path =
     (if ends_with path ''::into_raw_fd''
      then Some (''into_raw_fd'',
                 ''leaks the file descriptor '' @ em_dash @ '' caller must close it exactly once '' @
                 ''(e.g. via OwnedFd::from_raw_fd); forgetting to close causes an '' @
                 ''fd leak; closing twice (via another owner) causes use-after-close'')
      else if ends_with path ''::into_raw_socket''
      then Some (''into_raw_socket'',
                 ''leaks the socket '' @ em_dash @ '' caller must close it exactly once; '' @
                 ''double-close or forgetting to close are both bugs'')
      else if ends_with path ''::into_raw_handle''
      then Some (''into_raw_handle'',
                 ''leaks the Windows HANDLE '' @ em_dash @ '' caller must close it exactly once '' @
                 ''via CloseHandle; double-close or forgetting to close are both bugs'')
      else None)"

definition raw_fd_at :: "call_site \<Rightarrow> finding list" where
  "raw_fd_at c =
     (let path = site_path c; arg = first_arg_local (site_args c) in
      if from_expansion (site_span c) then []
      else if is_fd_from_call path
      then (let fn_name = raw_fd_from_name path
            in if arg_proves fd_was_transferred arg c then []
               else if arg_proves fd_is_consumed arg c
               then error_finding ''raw_fd'' c
                      (''double-ownership: `'' @ fn_name @ ''` on an fd integer already passed '' @
                       ''to `from_raw_fd` '' @ em_dash @ '' both Rust objects will close the same '' @
                       ''descriptor on drop; use `dup(2)` if two independent owners '' @
                       ''are intended'')
               else warning ''raw_fd'' c (named_note fn_name (raw_fd_from_note fn_name)))
      else case raw_fd_into_note path of
             None \<Rightarrow> []
           | Some (fn_name, note) \<Rightarrow> warning ''raw_fd'' c (named_note fn_name note))"

abbreviation RawFd :: checker where
  "RawFd \<equiv> call_checker raw_fd_at"

end
