(* ===== verification/Checkers_Values.thy ===== *)
theory Checkers_Values
  imports Call_Checkers
begin

text \<open>
  The checkers of calls whose obligation is a fact about values or about the order of calls:
  ranges, bounds, capacities, initialization, protocols. A call is not reported if the flow
  state shows the fact.
\<close>

unbundle bit_operations_syntax

subsection \<open>\<^verbatim>\<open>nonzero_new_unchecked.rs\<close>\<close>

definition nonzero_new_unchecked_note :: "string \<Rightarrow> (string \<times> string) option" where
  "nonzero_new_unchecked_note path =
     (if ends_with path ''::new_unchecked''
      then Some (last_segment path,
                 ''the caller must satisfy the type's invariant; bypassing the checked '' @
                 ''constructor may produce an invalid value '' @ em_dash @ '' immediate UB if the invariant '' @
                 ''is violated (e.g., zero for NonZero, NaN for NotNan wrapper types); '' @
                 ''use the checked constructor (returns Option/Result) instead'')
      else if ends_with path ''::from_mut_unchecked''
      then Some (''NonZero::from_mut_unchecked'',
                 ''caller must ensure the value is never set to zero through the returned '' @
                 ''`&mut NonZero<T>`; if zero is written, the NonZero invariant is broken '' @
                 ''and all subsequent uses that rely on the niche (e.g. Option<NonZero<T>>) '' @
                 ''are UB; use `NonZero::from_mut` for the checked version (nightly)'')
      else if ends_with path ''::unchecked_add''
      then Some (''NonZero::unchecked_add'',
                 ''self + rhs must not overflow T and must not produce zero; overflow or a '' @
                 ''zero result breaks the NonZero invariant and corrupts the '' @
                 ''Option<NonZero<T>> niche (UB); use checked_add or saturating_add instead '' @
                 ''(nightly `nonzero_ops`)'')
      else if ends_with path ''::unchecked_mul''
      then Some (''NonZero::unchecked_mul'',
                 ''self * rhs must not overflow T; overflow that wraps to zero breaks the '' @
                 ''NonZero invariant and corrupts the Option<NonZero<T>> niche (UB); '' @
                 ''use checked_mul or saturating_mul instead (nightly `nonzero_ops`)'')
      else if ends_with path ''::unchecked_new''
      then Some (last_segment path,
                 ''the caller must satisfy the type's invariant (e.g., not NaN for float '' @
                 ''wrappers); an invalid value produces immediate UB; use the checked '' @
                 ''constructor (returns Option/Result) instead'')
      else None)"

definition nonzero_new_unchecked_at :: "call_site \<Rightarrow> finding list" where
  "nonzero_new_unchecked_at c =
     (let path = site_path c in
      case nonzero_new_unchecked_note path of
        None \<Rightarrow> []
      | Some (fn_name, msg) \<Rightarrow>
          if (ends_with path ''::new_unchecked'' \<or> ends_with path ''::from_mut_unchecked'' \<or>
                ends_with path ''::unchecked_new'') \<and>
                arg_proves (\<lambda>state l. local_is_nonzero state l \<or>
                local_is_finite state l) (first_arg_local (site_args c)) c then []
           else warning ''nonzero_new_unchecked'' c (named_note fn_name msg))"

abbreviation NonZeroNewUnchecked :: checker where
  "NonZeroNewUnchecked \<equiv> call_checker nonzero_new_unchecked_at"

subsection \<open>\<^verbatim>\<open>char_from_u32_unchecked.rs\<close>\<close>

definition char_from_u32_unchecked_at :: "call_site \<Rightarrow> finding list" where
  "char_from_u32_unchecked_at c =
     (let path = site_path c in
      if \<not> ends_with path ''::from_u32_unchecked'' \<or> \<not> contains path ''char'' then []
      else if arg_proves local_is_valid_scalar (first_arg_local (site_args c)) c then []
      else warning ''char_from_u32_unchecked'' c
       (''`char::from_u32_unchecked` '' @ em_dash @ '' value must be a valid Unicode scalar: '' @
        ''0x0..=0xD7FF or 0xE000..=0x10FFFF; surrogates (0xD800..=0xDFFF) and '' @
        ''values > 0x10FFFF are UB; use `char::from_u32` (returns Option) instead''))"

abbreviation CharFromU32Unchecked :: checker where
  "CharFromU32Unchecked \<equiv> call_checker char_from_u32_unchecked_at"

subsection \<open>\<^verbatim>\<open>ascii_unchecked.rs\<close>\<close>

definition ascii_unchecked_note :: "string \<Rightarrow> (string \<times> string) option" where
  "ascii_unchecked_note path =
     (if ends_with path ''Char::from_u8_unchecked''
      then Some (''ascii::Char::from_u8_unchecked'',
                 ''byte must be < 128; values >= 128 are not valid ASCII and produce '' @
                 ''an ascii::Char with an invalid bit pattern (UB); use from_u8() instead'')
      else if ends_with path ''Char::digit_unchecked''
      then Some (''ascii::Char::digit_unchecked'',
                 ''argument must be in 0..=9; any other value produces an invalid '' @
                 ''ascii::Char (UB); use Char::from_u8 or explicit matching instead'')
      else if ends_with path ''::as_ascii_unchecked'' \<and> contains path ''str''
      then Some (''str::as_ascii_unchecked'',
                 ''every byte in the string must be valid ASCII (< 128); a single '' @
                 ''non-ASCII byte is UB; use str::as_ascii() which returns Option'')
      else if ends_with path ''::as_ascii_unchecked'' \<and> contains path ''char''
      then Some (''char::as_ascii_unchecked'',
                 ''char must have code point < 128 (ASCII); non-ASCII chars have no '' @
                 ''ascii::Char representation '' @ em_dash @ '' this call is UB for them; '' @
                 ''use char::as_ascii() which returns Option'')
      else if ends_with path ''::as_ascii_unchecked'' \<and> (contains path ''slice'' \<or>
              contains path ''array'')
      then Some (''[u8]::as_ascii_unchecked / [u8; N]::as_ascii_unchecked'',
                 ''every byte in the slice or array must be valid ASCII (< 128); '' @
                 ''a single byte >= 128 is UB; use as_ascii() which returns Option'')
      else if ends_with path ''::as_ascii_unchecked'' \<and> contains path ''num''
      then Some (''u8::as_ascii_unchecked'',
                 ''byte must be < 128 (valid ASCII); a byte >= 128 has no ascii::Char '' @
                 ''representation '' @ em_dash @ '' this call is UB for non-ASCII bytes; '' @
                 ''use u8::as_ascii() which returns Option'')
      else if ends_with path ''::as_ascii_unchecked''
      then Some (last_segment path,
                 ''caller must guarantee every byte/code-point is valid ASCII (< 128); '' @
                 ''non-ASCII input produces an invalid ascii::Char bit pattern (UB); '' @
                 ''use the checked variant which returns Option'')
      else None)"

definition ascii_unchecked_at :: "call_site \<Rightarrow> finding list" where
  "ascii_unchecked_at c =
     (let path = site_path c in
      case ascii_unchecked_note path of
        None \<Rightarrow> []
      | Some (fn_name, note) \<Rightarrow>
          if arg_proves local_is_ascii (first_arg_local (site_args c)) c then []
           else warning ''ascii_unchecked'' c (named_note fn_name note))"

abbreviation AsciiUnchecked :: checker where
  "AsciiUnchecked \<equiv> call_checker ascii_unchecked_at"

subsection \<open>\<^verbatim>\<open>ctlz_nonzero.rs\<close>\<close>

definition ctlz_nonzero_at :: "call_site \<Rightarrow> finding list" where
  "ctlz_nonzero_at c =
     (let path = site_path c in
      let found =
             (if ends_with path ''ctlz_nonzero''
              then Some (''ctlz_nonzero'',
                         ''input must be non-zero; passing 0 produces LLVM poison that propagates '' @
                         ''silently through subsequent computations; safe alternative: '' @
                         ''`u32::leading_zeros()` or `NonZeroU32::leading_zeros()` '' @
                         ''(nightly `core_intrinsics`)'')
              else if ends_with path ''cttz_nonzero''
              then Some (''cttz_nonzero'',
                         ''input must be non-zero; passing 0 produces LLVM poison; '' @
                         ''safe alternative: `u32::trailing_zeros()` or `NonZeroU32::trailing_zeros()` '' @
                         ''(nightly `core_intrinsics`)'')
              else None)
      in case found of
           None \<Rightarrow> []
         | Some (fn_name, note) \<Rightarrow>
             if arg_proves local_is_nonzero (first_arg_local (site_args c)) c then []
              else warning ''ctlz_nonzero'' c (named_note fn_name note))"

abbreviation CtlzNonzero :: checker where
  "CtlzNonzero \<equiv> call_checker ctlz_nonzero_at"

subsection \<open>\<^verbatim>\<open>hint_assert_unchecked.rs\<close>\<close>

definition hint_assert_unchecked_at :: "call_site \<Rightarrow> finding list" where
  "hint_assert_unchecked_at c =
     (let path = site_path c in
      let found =
             (if ends_with path ''hint::assert_unchecked''
              then Some (''hint::assert_unchecked'')
              else if ends_with path ''intrinsics::assume''
              then Some (''intrinsics::assume'')
              else None)
      in case found of
           None \<Rightarrow> []
         | Some fn_name \<Rightarrow>
             if arg_proves local_is_nonzero (first_arg_local (site_args c)) c then []
              else warning ''hint_assert_unchecked'' c
               (''`'' @ fn_name @ ''` '' @ em_dash @ '' the condition must ALWAYS be true; '' @
                ''if ever false, the optimizer may silently miscompile surrounding '' @
                ''code (no panic, no error '' @ em_dash @ '' pure UB); use `assert!` unless the '' @
                ''invariant is provably unbreakable''))"

abbreviation HintAssertUnchecked :: checker where
  "HintAssertUnchecked \<equiv> call_checker hint_assert_unchecked_at"

subsection \<open>\<^verbatim>\<open>smallvec_unchecked.rs\<close>\<close>

definition smallvec_unchecked_at :: "call_site \<Rightarrow> finding list" where
  "smallvec_unchecked_at c =
     (let path = site_path c in
      if \<not> ends_with path ''::from_buf_and_len_unchecked'' then []
      else if arg_proves local_is_bounded_or_eq (arg_local (site_args c) 1) c then []
      else warning ''smallvec_unchecked'' c
       (''`SmallVec::from_buf_and_len_unchecked` '' @ em_dash @ '' len must be '' @ le_sign @ '' the inline '' @
        ''buffer capacity (A::size()); exceeding it causes OOB reads/writes on '' @
        ''every subsequent SmallVec operation; all buf[0..len] elements must be '' @
        ''initialized; use `from_buf_and_len` (panics on overflow) instead''))"

abbreviation SmallVecUnchecked :: checker where
  "SmallVecUnchecked \<equiv> call_checker smallvec_unchecked_at"

subsection \<open>\<^verbatim>\<open>push_unchecked.rs\<close>\<close>

definition push_unchecked_at :: "call_site \<Rightarrow> finding list" where
  "push_unchecked_at c =
     (let path = site_path c in
      let found =
             (if ends_with path ''::push_unchecked''
              then Some (''push_unchecked'',
                         ''collection must have remaining capacity (len < capacity) before this call; '' @
                         ''writing to a full collection is an out-of-bounds write (immediate UB); '' @
                         ''use the checked push() which panics or returns an error on overflow'')
              else if ends_with path ''::try_push_unchecked''
              then Some (''try_push_unchecked'',
                         ''collection must have remaining capacity before this call; '' @
                         ''the _unchecked variant skips the capacity assertion entirely '' @ em_dash @ '' '' @
                         ''out-of-bounds write if the collection is already at capacity (UB)'')
              else if ends_with path ''::pop_unchecked''
              then Some (''pop_unchecked'',
                         ''collection must be non-empty before this call; popping from an empty '' @
                         ''collection reads uninitialized or out-of-bounds memory (immediate UB); '' @
                         ''use pop() which returns Option and checks the length'')
              else None)
      in case found of
           None \<Rightarrow> []
         | Some (fn_name, note) \<Rightarrow>
             if arg_proves collection_has_spare (first_arg_local (site_args c)) c then []
              else warning ''push_unchecked'' c (named_note fn_name note))"

abbreviation PushUnchecked :: checker where
  "PushUnchecked \<equiv> call_checker push_unchecked_at"

subsection \<open>\<^verbatim>\<open>arrayvec_unchecked.rs\<close>\<close>

definition arrayvec_unchecked_at :: "call_site \<Rightarrow> finding list" where
  "arrayvec_unchecked_at c =
     (let path = site_path c in
      if ends_with path ''::into_inner_unchecked''
      then if arg_proves collection_is_full (first_arg_local (site_args c)) c then []
            else warning ''arrayvec_unchecked'' c
             (''`ArrayVec::into_inner_unchecked` '' @ em_dash @ '' the vector must be completely '' @
              ''full (len == CAP) before calling; trailing uninitialized slots '' @
              ''become uninitialized `T` values in the returned array (UB); '' @
              ''use `into_inner()` for the checked version'')
      else [])"

abbreviation ArrayvecUnchecked :: checker where
  "ArrayvecUnchecked \<equiv> call_checker arrayvec_unchecked_at"

subsection \<open>\<^verbatim>\<open>assume_init.rs\<close>\<close>

definition assume_init_at :: "call_site \<Rightarrow> finding list" where
  "assume_init_at c =
     (let path = site_path c in
      let found =
             (if ends_with path ''::assume_init'' \<or> ends_with path ''::assume_init_ref'' \<or>
                      ends_with path ''::assume_init_mut'' \<or>
                      ends_with path ''::assume_init_slice'' \<or>
                      ends_with path ''::assume_init_slice_with_header''
              then Some (last_segment path,
                         ''all bytes must be fully initialized before calling `assume_init`; '' @
                         ''reading uninitialized memory is immediate UB'')
              else if contains path ''ReadBuf'' \<and> ends_with path ''::assume_init''
              then Some (''ReadBuf::assume_init'',
                         ''marks the first n bytes of the unfilled region as initialized without '' @
                         ''writing to them; caller must have actually written n bytes before this call; '' @
                         ''unwritten bytes become readable by the buffer consumer (UB)'')
              else if contains path ''ReadBuf'' \<and> ends_with path ''::inner_mut''
              then Some (''ReadBuf::inner_mut'',
                         ''returns the entire backing buffer as &mut [MaybeUninit<u8>], bypassing '' @
                         ''ReadBuf's initialization tracking; reading from uninitialized bytes is UB; '' @
                         ''writing fewer bytes than previously tracked shrinks the initialized region '' @
                         ''invisibly, causing future readers to observe stale uninitialized data'')
              else if contains path ''ReadBuf'' \<and> ends_with path ''::unfilled_mut''
              then Some (''ReadBuf::unfilled_mut'',
                         ''returns the unfilled portion of the buffer as &mut [MaybeUninit<u8>]; '' @
                         ''reading from returned bytes before writing to them is UB; '' @
                         ''caller must use assume_init() to register any bytes actually written'')
              else None)
      in case found of
           None \<Rightarrow> []
         | Some (fn_name, msg) \<Rightarrow>
             if contains path ''MaybeUninit'' \<and> (ends_with path ''::assume_init'' \<or>
                   ends_with path ''::assume_init_ref'' \<or> ends_with path ''::assume_init_mut'') \<and>
                   arg_proves (\<lambda>state l. fmlookup (init state) l = Some Initialized) (arg_base_local (site_args c) 0) c then []
              else warning ''assume_init'' c (named_note fn_name msg))"

abbreviation AssumeInit :: checker where
  "AssumeInit \<equiv> call_checker assume_init_at"

subsection \<open>\<^verbatim>\<open>bytes_buf.rs\<close>\<close>

definition bytes_buf_at :: "call_site \<Rightarrow> finding list" where
  "bytes_buf_at c =
     (let path = site_path c in
      let found =
             (if ends_with path ''::advance_mut'' \<and> contains path ''bytes''
              then Some (''BufMut::advance_mut'',
                         ''the first cnt bytes of the unfilled region must be fully initialized BEFORE '' @
                         ''this call; unwritten bytes become visible to buffer readers (UB); '' @
                         ''cnt must be <= remaining_mut(); prefer put_slice/put_bytes which write and '' @
                         ''advance atomically'')
              else if ends_with path ''::from_raw_parts_mut'' \<and> contains path ''UninitSlice''
              then Some (''UninitSlice::from_raw_parts_mut'',
                         ''creates a mutable uninit byte slice from a raw pointer without validity '' @
                         ''checks; ptr must be non-null, aligned, valid for len bytes of writes, and '' @
                         ''not aliased by any other reference for the slice's lifetime'')
              else if ends_with path ''::as_uninit_slice_mut'' \<and> contains path ''UninitSlice''
              then Some (''UninitSlice::as_uninit_slice_mut'',
                         ''returns the underlying &mut [MaybeUninit<u8>]; reading any byte that has '' @
                         ''not been written is UB '' @ em_dash @ '' only write through this slice, then call advance_mut'')
              else None)
      in case found of
           None \<Rightarrow> []
         | Some (fn_name, note) \<Rightarrow>
             if ends_with path ''::advance_mut'' \<and> contains path ''bytes'' \<and>
                   arg_proves (\<lambda>state l. l |\<in>| buf_written state) (arg_base_local (site_args c) 0) c then []
              else warning ''bytes_buf'' c (named_note fn_name note))"

abbreviation BytesBuf :: checker where
  "BytesBuf \<equiv> call_checker bytes_buf_at"

subsection \<open>\<^verbatim>\<open>hashbrown_raw.rs\<close>\<close>

definition hashbrown_raw_note :: "string \<Rightarrow> (string \<times> string) option" where
  "hashbrown_raw_note path =
     (if ends_with path ''::insert_no_grow''
      then Some (''RawTable::insert_no_grow'',
                 ''inserts without checking capacity '' @ em_dash @ '' table must have a free slot; '' @
                 ''if full, this corrupts control bytes or overwrites an occupied slot (UB); '' @
                 ''hash must match the key stored in value, or future lookups will miss it; '' @
                 ''call reserve() before inserting if capacity is uncertain'')
      else if ends_with path ''::as_mut'' \<and> contains path ''Bucket''
      then Some (''Bucket::as_mut'',
                 ''bucket must be occupied (not erased/empty) '' @ em_dash @ '' reading an empty bucket is '' @
                 ''UB (uninitialized memory); no other reference to this element may exist '' @
                 ''simultaneously (aliased &mut T is UB); bucket pointer is invalidated '' @
                 ''by any subsequent table resize or rehash'')
      else if ends_with path ''::as_ref'' \<and> contains path ''Bucket''
      then Some (''Bucket::as_ref'',
                 ''bucket must be occupied (not erased/empty) '' @ em_dash @ '' reading an empty bucket is '' @
                 ''UB (uninitialized memory); bucket pointer is invalidated by any subsequent '' @
                 ''table resize or rehash (e.g. after insert or reserve)'')
      else if ends_with path ''::erase'' \<and> contains path ''RawTable''
      then Some (''RawTable::erase'',
                 ''marks the bucket as empty but does NOT drop the value '' @ em_dash @ '' if the value '' @
                 ''owns heap memory, it leaks; read and drop the value before erasing '' @
                 ''(or use remove() which returns ownership); after erasing, the bucket '' @
                 ''pointer is invalid'')
      else if ends_with path ''::remove'' \<and> contains path ''RawTable''
      then Some (''RawTable::remove'',
                 ''bucket must be occupied; calling on an empty bucket is UB; '' @
                 ''moves out the value (returns ownership) and marks the slot empty; '' @
                 ''after calling, the bucket pointer is invalid'')
      else if ends_with path ''::get_bucket_unchecked'' \<and> contains path ''HashTable''
      then Some (''HashTable::get_bucket_unchecked'',
                 ''index must correspond to an occupied bucket; reading an empty or '' @
                 ''out-of-bounds bucket is UB (uninitialized memory); there is no bounds '' @
                 ''check '' @ em_dash @ '' index must be < table.capacity(); use find() for safe access'')
      else if ends_with path ''::get_bucket_unchecked_mut'' \<and> contains path ''HashTable''
      then Some (''HashTable::get_bucket_unchecked_mut'',
                 ''index must correspond to an occupied bucket; reading or writing an empty '' @
                 ''or out-of-bounds bucket is UB; no other reference to this bucket entry '' @
                 ''may exist simultaneously (aliased &mut T is UB)'')
      else if ends_with path ''::get_bucket_entry_unchecked'' \<and> contains path ''HashTable''
      then Some (''HashTable::get_bucket_entry_unchecked'',
                 ''index must correspond to an occupied bucket; accessing an empty or '' @
                 ''out-of-bounds bucket is UB; the returned OccupiedEntry must not '' @
                 ''outlive a concurrent resize or rehash'')
      else if ends_with path ''::insert_in_slot'' \<and> contains path ''hashbrown''
      then Some (''RawTable::insert_in_slot'',
                 ''slot must have been returned by find_or_find_insert_slot on this same table '' @
                 ''and must not have been invalidated by any subsequent insert, reserve, or '' @
                 ''grow; hash must be the actual hash of the key stored in value '' @ em_dash @ '' a mismatch '' @
                 ''causes future lookups to miss the entry (logical UB)'')
      else if ends_with path ''::is_bucket_full'' \<and> contains path ''hashbrown''
      then Some (''RawTable::is_bucket_full'',
                 ''index must be < table.buckets(); reading the control byte of an '' @
                 ''out-of-bounds index is UB (reads past the allocated control array)'')
      else if ends_with path ''::iter_hash'' \<and> contains path ''hashbrown''
      then Some (''RawTable::iter_hash'',
                 ''iterates over all buckets whose stored hash matches the given hash; '' @
                 ''the caller must compare the actual key of each returned bucket to '' @
                 ''detect hash collisions '' @ em_dash @ '' treating the first hit as the target entry '' @
                 ''without equality check may access the wrong value (logical UB); '' @
                 ''the table must not be mutated while the RawIterHash is live'')
      else None)"

definition hashbrown_raw_at :: "call_site \<Rightarrow> finding list" where
  "hashbrown_raw_at c =
     (let path = site_path c in
      if \<not> contains path ''hashbrown'' then []
      else case hashbrown_raw_note path of
        None \<Rightarrow> []
      | Some (fn_name, note) \<Rightarrow>
          if fn_name = ''RawTable::insert_no_grow'' \<and>
                arg_proves (\<lambda>state l. collection_has_spare state (deref_base state l)) (first_arg_local (site_args c)) c then []
           else warning ''hashbrown_raw'' c (named_note fn_name note))"

abbreviation HashbrownRaw :: checker where
  "HashbrownRaw \<equiv> call_checker hashbrown_raw_at"

subsection \<open>\<^verbatim>\<open>crossbeam_epoch.rs\<close>\<close>

definition crossbeam_epoch_note :: "string \<Rightarrow> (string \<times> string) option" where
  "crossbeam_epoch_note path =
     (if contains path ''Shared'' \<and> ends_with path ''::deref_mut''
      then Some (''Shared::deref_mut'',
                 ''pointer must be non-null, point to a live object within the current epoch, '' @
                 ''and have no concurrent readers or writers; aliased &mut T is immediate UB; '' @
                 ''the returned reference must not outlive the Guard'')
      else if contains path ''Shared'' \<and> ends_with path ''::deref''
      then Some (''Shared::deref'',
                 ''pointer must be non-null and point to a live object within the current epoch; '' @
                 ''after the Guard is dropped, the reference becomes dangling '' @ em_dash @ '' use-after-free; '' @
                 ''use `as_ref()` if the pointer might be null'')
      else if contains path ''Shared'' \<and> ends_with path ''::as_ref''
      then Some (''Shared::as_ref'',
                 ''returns None for null (safer than deref for null handling), but still '' @
                 ''requires the Guard to be active and the object to be live; the returned '' @
                 ''reference must not outlive the Guard's epoch'')
      else if contains path ''Atomic'' \<and> ends_with path ''::into_owned''
      then Some (''Atomic::into_owned'',
                 ''the Atomic must hold a valid non-null owned pointer; caller takes '' @
                 ''exclusive ownership '' @ em_dash @ '' no other thread may read or write this Atomic '' @
                 ''concurrently; null Atomic causes UB; the Owned must eventually be '' @
                 ''reclaimed (defer_destroy) or the allocation leaks'')
      else if contains path ''Owned'' \<and> ends_with path ''::into_shared''
      then Some (''Owned::into_shared'',
                 ''the Owned is consumed (caller no longer owns it); the returned Shared '' @
                 ''must not outlive the Guard's epoch; caller is responsible for ensuring '' @
                 ''the object is later reclaimed via defer_destroy to avoid memory leaks'')
      else if contains path ''Shared'' \<and> ends_with path ''::into_owned''
      then Some (''Shared::into_owned'',
                 ''converts a Shared pointer to an Owned, taking exclusive ownership; '' @
                 ''the pointer must be non-null and point to a live object; no other '' @
                 ''thread may hold a Shared or dereference the same pointer concurrently '' @
                 ''after this call '' @ em_dash @ '' doing so is use-after-free'')
      else if contains path ''Owned'' \<and> ends_with path ''::from_raw''
      then Some (''Owned::from_raw'',
                 ''constructs an Owned<T> from a raw pointer; the pointer must be non-null, '' @
                 ''properly aligned, and exclusively owned by the caller (not shared with '' @
                 ''any other Owned, Shared, or Atomic); Owned will drop the allocation when '' @
                 ''it goes out of scope '' @ em_dash @ '' double-free if another owner exists'')
      else if ends_with path ''::defer_unchecked'' \<and> contains path ''crossbeam''
      then Some (''Guard::defer_unchecked'',
                 ''defers a closure to run at a future epoch without enforcing Send bounds; '' @
                 ''if the closure captures non-Send data (e.g., Rc, raw pointers, RefCell) '' @
                 ''and the epoch collection runs on a different thread, the closure executes '' @
                 ''on the wrong thread '' @ em_dash @ '' data race or use-after-free (UB); '' @
                 ''use defer() which requires F: Send'')
      else if ends_with path ''::defer_destroy'' \<and> contains path ''crossbeam''
      then Some (''Guard::defer_destroy'',
                 ''schedules the object at `ptr` for drop once the current epoch ends; '' @
                 ''the Shared must point to a live, exclusively-owned object '' @ em_dash @ '' if any '' @
                 ''thread still holds a reference or another defer_destroy fires for the '' @
                 ''same pointer, the drop runs twice (double-free, UB); '' @
                 ''verify no other Shared or Owned references exist for this pointer'')
      else if path = ''crossbeam_epoch::unprotected'' \<or> ends_with path ''::unprotected'' \<and>
              contains path ''crossbeam''
      then Some (''crossbeam_epoch::unprotected'',
                 ''returns a static Guard without pinning the current thread to an epoch; '' @
                 ''any Shared pointers derived from this guard may be reclaimed at any time '' @
                 em_dash @ '' dereference is immediately unsound; only valid in single-threaded '' @
                 ''programs or when the caller can guarantee no concurrent reclamation '' @
                 ''(e.g., during program teardown)'')
      else None)"

definition crossbeam_epoch_at :: "call_site \<Rightarrow> finding list" where
  "crossbeam_epoch_at c =
     (let path = site_path c in
      if \<not> contains path ''crossbeam_epoch'' then []
      else case crossbeam_epoch_note path of
        None \<Rightarrow> []
      | Some (fn_name, note) \<Rightarrow>
          if (is_shared_deref path \<or> ends_with path ''::defer_destroy'') \<and>
                (case site_state c of None \<Rightarrow> False | Some state \<Rightarrow> \<not> has_hazard_protocol state \<and>
                \<not> typestate state = fmempty) then []
           else warning ''crossbeam_epoch'' c (named_note fn_name note))"

abbreviation CrossbeamEpoch :: checker where
  "CrossbeamEpoch \<equiv> call_checker crossbeam_epoch_at"

subsection \<open>\<^verbatim>\<open>lock_api_unsafe.rs\<close>\<close>

definition lock_api_unsafe_note :: "string \<Rightarrow> (string \<times> string) option" where
  "lock_api_unsafe_note path =
     (if ends_with path ''::force_unlock_write_fair''
      then Some (''RwLock::force_unlock_write_fair'',
                 ''must only be called when an exclusive write lock is held by this thread '' @
                 ''(e.g., after mem::forget of a write guard); calling on an unlocked or '' @
                 ''read-locked RwLock opens a concurrent write+read race window '' @ right_arrow @ '' data race UB'')
      else if ends_with path ''::force_unlock_write''
      then Some (''RwLock::force_unlock_write'',
                 ''must only be called when an exclusive write lock is held by this thread '' @
                 ''(e.g., after mem::forget of a write guard); calling on an unlocked or '' @
                 ''read-locked RwLock allows concurrent writers '' @ right_arrow @ '' data race UB'')
      else if ends_with path ''::force_unlock_read_fair''
      then Some (''RwLock::force_unlock_read_fair'',
                 ''must only be called when a shared read lock is held by this thread; '' @
                 ''underflowing the read-lock count corrupts the RwLock state '' @ right_arrow @ '' UB'')
      else if ends_with path ''::force_unlock_read''
      then Some (''RwLock::force_unlock_read'',
                 ''must only be called when a shared read lock is held by this thread; '' @
                 ''underflowing the read-lock count corrupts the RwLock state '' @ right_arrow @ '' UB'')
      else if ends_with path ''::force_unlock_fair''
      then Some (''Mutex::force_unlock_fair'',
                 ''must only be called when the mutex is locked by this thread (e.g., after '' @
                 ''mem::forget of a MutexGuard); calling on an unlocked mutex corrupts '' @
                 ''internal atomic state '' @ right_arrow @ '' spurious wakeups, deadlock, or UB'')
      else if ends_with path ''::force_unlock''
      then Some (''Mutex::force_unlock'',
                 ''must only be called when the mutex is locked by this thread (e.g., after '' @
                 ''mem::forget of a MutexGuard); calling on an unlocked mutex corrupts '' @
                 ''internal atomic state '' @ right_arrow @ '' spurious wakeups, deadlock, or UB'')
      else if ends_with path ''::make_write_guard_unchecked''
      then Some (''RwLock::make_write_guard_unchecked'',
                 ''creates an exclusive write guard without acquiring the lock; the caller must '' @
                 ''guarantee an exclusive lock is already held '' @ em_dash @ '' if not, two write guards alias '' @
                 ''the same T '' @ right_arrow @ '' immediate data race UB'')
      else if ends_with path ''::make_read_guard_unchecked''
      then Some (''RwLock::make_read_guard_unchecked'',
                 ''creates a read guard without acquiring the lock; the caller must guarantee '' @
                 ''a read lock is already held '' @ em_dash @ '' if a write lock is concurrently held, '' @
                 ''the resulting &T aliases the writer's &mut T '' @ right_arrow @ '' data race UB'')
      else if ends_with path ''::make_guard_unchecked'' \<and> (contains path ''Mutex'' \<or>
              contains path ''ReentrantMutex'')
      then Some (''Mutex::make_guard_unchecked'',
                 ''creates a mutex guard without acquiring the lock; if no lock is held, '' @
                 ''two guards for the same T exist simultaneously '' @ right_arrow @ '' aliased &mut T (UB)'')
      else if ends_with path ''::force_read_decrement''
      then Some (''RwLock::force_read_decrement'',
                 ''decrements the reader count without a read guard; underflowing the count '' @
                 ''or releasing a count that a writer is waiting on can unblock a writer while '' @
                 ''readers are still active '' @ em_dash @ '' data race (UB)'')
      else if ends_with path ''::force_write_unlock''
      then Some (''RwLock::force_write_unlock'',
                 ''releases the write lock without a write guard; any live &mut T derived from '' @
                 ''the previous write lock is now aliased '' @ em_dash @ '' two simultaneous mutable references '' @
                 ''is immediate UB'')
      else None)"

definition lock_api_unsafe_at :: "call_site \<Rightarrow> finding list" where
  "lock_api_unsafe_at c =
     (let path = site_path c in
      case lock_api_unsafe_note path of
        None \<Rightarrow> []
      | Some (fn_name, note) \<Rightarrow>
          if is_force_unlock path \<and>
                (case site_state c of None \<Rightarrow> False | Some state \<Rightarrow> has_forgotten_protocol state) then []
           else warning ''lock_api_unsafe'' c (named_note fn_name note))"

abbreviation LockApiUnsafe :: checker where
  "LockApiUnsafe \<equiv> call_checker lock_api_unsafe_at"

subsection \<open>\<^verbatim>\<open>vec_set_len.rs\<close>\<close>

definition vec_set_len_at :: "call_site \<Rightarrow> finding list" where
  "vec_set_len_at c =
     (if \<not> ends_with (site_path c) ''::set_len'' then []
      else if 1 < length (site_args c) \<and> const_u64 (site_args c ! 1) = Some 0 then []
      else if arg_proves local_is_bounded_or_eq (arg_local (site_args c) 1) c then []
      else warning ''vec_set_len'' c
             (''`set_len` bypasses Rust's safety checks '' @ em_dash @ '' verify that '' @
              ''new_len '' @ le_sign @ '' capacity() and all elements in old_len..new_len '' @
              ''are fully initialized''))"

abbreviation VecSetLen :: checker where
  "VecSetLen \<equiv> call_checker vec_set_len_at"

subsection \<open>\<^verbatim>\<open>heapless_unchecked.rs\<close>\<close>

definition heapless_unchecked_note :: "string \<Rightarrow> (string \<times> string) option" where
  "heapless_unchecked_note path =
     (if ends_with path ''::swap_remove_unchecked''
      then Some (''swap_remove_unchecked'',
                 ''no bounds check on index '' @ em_dash @ '' if index >= len, this reads/writes past the '' @
                 ''end of the inline array (OOB, immediate UB); use swap_remove() which '' @
                 ''panics on out-of-bounds'')
      else if ends_with path ''::push_front_unchecked''
      then Some (''push_front_unchecked'',
                 ''no capacity check '' @ em_dash @ '' if len == N, pushes past the end of the ring buffer '' @
                 ''(OOB write, immediate UB); use push_front() '' @ right_arrow @ '' Result'')
      else if ends_with path ''::push_back_unchecked''
      then Some (''push_back_unchecked'',
                 ''no capacity check '' @ em_dash @ '' if len == N, pushes past the end of the ring buffer '' @
                 ''(OOB write, immediate UB); use push_back() '' @ right_arrow @ '' Result'')
      else if ends_with path ''::pop_front_unchecked''
      then Some (''pop_front_unchecked'',
                 ''no empty check '' @ em_dash @ '' if the deque is empty this reads uninitialized memory '' @
                 ''(immediate UB); use pop_front() '' @ right_arrow @ '' Option<T>'')
      else if ends_with path ''::pop_back_unchecked''
      then Some (''pop_back_unchecked'',
                 ''no empty check '' @ em_dash @ '' if the deque is empty this reads uninitialized memory '' @
                 ''(immediate UB); use pop_back() '' @ right_arrow @ '' Option<T>'')
      else if ends_with path ''::enqueue_unchecked''
      then Some (''enqueue_unchecked'',
                 ''no capacity check '' @ em_dash @ '' if the SPSC queue is full this writes past the end '' @
                 ''of the ring buffer (OOB write, immediate UB); '' @
                 ''use enqueue() '' @ right_arrow @ '' Result'')
      else if ends_with path ''::dequeue_unchecked''
      then Some (''dequeue_unchecked'',
                 ''no empty check '' @ em_dash @ '' if the SPSC queue is empty this reads uninitialized '' @
                 ''or recycled memory (immediate UB); use dequeue() '' @ right_arrow @ '' Option<T>'')
      else None)"

definition heapless_unchecked_at :: "call_site \<Rightarrow> finding list" where
  "heapless_unchecked_at c =
     (let path = site_path c;
          spare_api = ends_with path ''::push_front_unchecked'' \<or> ends_with path ''::push_back_unchecked'' \<or>
            ends_with path ''::enqueue_unchecked''
      in case heapless_unchecked_note path of
           None \<Rightarrow> []
         | Some (fn_name, note) \<Rightarrow>
             if spare_api \<and> arg_proves collection_has_spare (first_arg_local (site_args c)) c then []
             else if \<not> spare_api \<and> ends_with path ''::swap_remove_unchecked'' \<and>
                     arg_proves local_is_bounded (arg_local (site_args c) 1) c then []
             else warning ''heapless_unchecked'' c (named_note fn_name note))"

abbreviation HeaplessUnchecked :: checker where
  "HeaplessUnchecked \<equiv> call_checker heapless_unchecked_at"

subsection \<open>\<^verbatim>\<open>slice_swap_unchecked.rs\<close>\<close>

definition slice_swap_unchecked_at :: "call_site \<Rightarrow> finding list" where
  "slice_swap_unchecked_at c =
     (if \<not> ends_with (site_path c) ''::swap_unchecked'' then []
      else if arg_proves local_is_bounded (arg_local (site_args c) 1) c \<and>
              arg_proves local_is_bounded (arg_local (site_args c) 2) c then []
      else warning ''slice_swap_unchecked'' c
             (''`swap_unchecked` '' @ em_dash @ '' both indices a and b must be < slice.len(); '' @
              ''out-of-bounds indices produce memory accesses past the end of the '' @
              ''allocation (UB); use `slice::swap` for the bounds-checked version''))"

abbreviation SliceSwapUnchecked :: checker where
  "SliceSwapUnchecked \<equiv> call_checker slice_swap_unchecked_at"

subsection \<open>\<^verbatim>\<open>split_at_unchecked.rs\<close>\<close>

definition split_at_unchecked_note :: "string \<Rightarrow> (string \<times> string) option" where
  "split_at_unchecked_note path =
     (if ends_with path ''split_at_mut_unchecked''
      then Some (''split_at_mut_unchecked'',
                 ''mid must be <= self.len(); out-of-bounds mid produces overlapping '' @
                 ''mutable references whose ranges extend past the allocation (UB); '' @
                 ''use `split_at_mut` or `split_at_mut_checked` instead'')
      else if ends_with path ''split_at_unchecked''
      then Some (''split_at_unchecked'',
                 ''mid must be <= self.len(); out-of-bounds mid creates a reference '' @
                 ''that extends past the allocation (OOB read UB); '' @
                 ''use `split_at` or `split_at_checked` instead'')
      else None)"

definition split_at_suppressed :: "operand list \<Rightarrow> block_state \<Rightarrow> bool" where
  "split_at_suppressed args state =
     (let recv_local = map_option (deref_base state) (arg_base_local args 0); mid_local = arg_local args 1
      in (case (recv_local, mid_local) of
            (Some recv, Some mid) \<Rightarrow> index_is_bounded_or_eq_for state mid recv \<or> index_is_bounded_for state mid recv
          | _ \<Rightarrow> False) \<or>
         (case mid_local of Some mid \<Rightarrow> local_is_bounded_or_eq state mid | None \<Rightarrow> False))"

definition split_at_unchecked_at :: "call_site \<Rightarrow> finding list" where
  "split_at_unchecked_at c =
     (case split_at_unchecked_note (site_path c) of
        None \<Rightarrow> []
      | Some (fn_name, note) \<Rightarrow>
          if (case site_state c of None \<Rightarrow> False | Some state \<Rightarrow> split_at_suppressed (site_args c) state) then []
          else warning ''split_at_unchecked'' c (named_note fn_name note))"

abbreviation SplitAtUnchecked :: checker where
  "SplitAtUnchecked \<equiv> call_checker split_at_unchecked_at"

subsection \<open>\<^verbatim>\<open>slice_get_unchecked.rs\<close>\<close>

definition slice_get_suppressed :: "operand list \<Rightarrow> block_state \<Rightarrow> bool" where
  "slice_get_suppressed args state =
     (let recv_local = map_option (deref_base state) (arg_base_local args 0);
          idx_local = arg_base_local args 1;
          idx_is_zero = 1 < length args \<and> const_u64 (args ! 1) = Some 0
      in (case (recv_local, idx_local) of
            (Some recv, Some idx) \<Rightarrow> index_is_bounded_for state idx recv
          | _ \<Rightarrow> False) \<or>
         (case idx_local of Some idx \<Rightarrow> local_is_bounded state idx | None \<Rightarrow> False) \<or>
         idx_local = None \<and> idx_is_zero \<and>
         (case recv_local of
            Some recv \<Rightarrow>
              list_ex (\<lambda>(len_l, coll). coll = recv \<and> len_l |\<in>| nonzero state) (sorted_list_of_fmap (len_of state))
          | None \<Rightarrow> False))"

definition slice_get_unchecked_message :: "string \<Rightarrow> string option" where
  "slice_get_unchecked_message path =
     (if ends_with path ''get_unchecked_mut'' \<and> contains path ''pin::Pin''
      then Some (''`Pin::get_unchecked_mut` '' @ em_dash @ '' must not move out of or invalidate the '' @
                 ''returned &mut T; moving the value violates pinning (self-referential '' @
                 ''structs will corrupt their internal pointers)'')
      else if ends_with path ''get_unchecked_mut''
      then Some (''`get_unchecked_mut` '' @ em_dash @ '' index must be strictly in-bounds (< len); '' @
                 ''out-of-bounds access is UB (no panic, silent memory corruption)'')
      else if ends_with path ''get_unchecked''
      then Some (''`get_unchecked` '' @ em_dash @ '' index must be strictly in-bounds (< len); '' @
                 ''out-of-bounds access is UB (no panic, silent memory corruption)'')
      else if ends_with path ''::slice_mut_unchecked''
      then Some (''`str::slice_mut_unchecked` (deprecated since 1.29 '' @ em_dash @ '' use `get_unchecked_mut`) '' @
                 em_dash @ '' begin and end must be on valid UTF-8 boundaries within the string; '' @
                 ''out-of-bounds or misaligned offsets are UB'')
      else if ends_with path ''::slice_unchecked''
      then Some (''`str::slice_unchecked` (deprecated since 1.29 '' @ em_dash @ '' use `get_unchecked`) '' @
                 em_dash @ '' begin and end must be on valid UTF-8 boundaries within the string; '' @
                 ''out-of-bounds or misaligned offsets are UB'')
      else None)"

definition slice_get_unchecked_at :: "call_site \<Rightarrow> finding list" where
  "slice_get_unchecked_at c =
     (let path = site_path c in
      if (ends_with path ''get_unchecked_mut'' \<or> ends_with path ''get_unchecked'') \<and> \<not> contains path ''pin::Pin'' \<and>
         (case site_state c of None \<Rightarrow> False | Some state \<Rightarrow> slice_get_suppressed (site_args c) state)
      then []
      else case slice_get_unchecked_message path of
             None \<Rightarrow> []
           | Some msg \<Rightarrow> warning ''slice_get_unchecked'' c msg)"

abbreviation SliceGetUnchecked :: checker where
  "SliceGetUnchecked \<equiv> call_checker slice_get_unchecked_at"

subsection \<open>\<^verbatim>\<open>slice_disjoint_unchecked.rs\<close>\<close>

definition earlier_pairs :: "'a list \<Rightarrow> ('a \<times> 'a) list" where
  "earlier_pairs xs = concat (map (\<lambda>(i, a). map (\<lambda>b. (a, b)) (take i xs)) (enumerate 0 xs))"

definition disjoint_array_suppressed :: "body \<Rightarrow> operand list \<Rightarrow> block_state \<Rightarrow> bool" where
  "disjoint_array_suppressed body args state =
     (case Option.bind (arg_local args 1) (array_components_of state) of
        None \<Rightarrow> False
      | Some comps \<Rightarrow>
          if length comps \<le> 1 then False
          else if \<not> list_all (\<lambda>(a, b). locals_are_ne state a b) (earlier_pairs comps) then False
          else if list_ex (\<lambda>l. is_int_ty (local_decls body l)) comps
          then list_all (index_is_fully_bounded state) comps
          else True)"

definition slice_disjoint_unchecked_at :: "body \<Rightarrow> call_site \<Rightarrow> finding list" where
  "slice_disjoint_unchecked_at body c =
     (let path = site_path c;
          is_disjoint_mut = ends_with path ''get_disjoint_unchecked_mut'';
          is_key_disjoint = ends_with path ''::get2_unchecked_mut'' \<or> ends_with path ''::get_many_unchecked_mut'' \<or>
            ends_with path ''::get_many_key_value_unchecked_mut'';
          suppressed = (\<lambda>state.
            disjoint_array_suppressed body (site_args c) state \<or>
            is_key_disjoint \<and>
            (case (arg_local (site_args c) 1, arg_local (site_args c) 2) of
               (Some a, Some b) \<Rightarrow> locals_are_ne state a b
             | _ \<Rightarrow> False))
      in if \<not> is_disjoint_mut \<and> \<not> is_key_disjoint then []
         else if (case site_state c of None \<Rightarrow> False | Some state \<Rightarrow> suppressed state) then []
         else warning ''disjoint_unchecked_mut'' c
                (named_note (last_segment path)
                  (if is_disjoint_mut
                   then ''all indices must be in-bounds (< self.len()) and pairwise distinct; '' @
                        ''duplicate indices produce aliased `&mut T` references (immediate UB); '' @
                        ''use the checked variant (returns Err/None on overlap)''
                   else ''all keys must be pairwise distinct; duplicate keys produce aliased '' @
                        ''`&mut T` references (immediate UB); use the checked variant (returns '' @
                        ''Err/None on duplicate keys)'')))"

abbreviation SliceDisjointUnchecked :: checker where
  "SliceDisjointUnchecked \<equiv> body_checker (\<lambda>tcx body flow.
     concat (map (slice_disjoint_unchecked_at body) (fn_calls tcx body flow)))"

subsection \<open>\<^verbatim>\<open>ndarray_unchecked.rs\<close>\<close>

definition ndarray_uget_note :: "string \<Rightarrow> string \<times> string" where
  "ndarray_uget_note path =
     (if ends_with path ''::uget_mut''
      then (''ArrayBase::uget_mut'',
            ''each index component must be < the corresponding dimension; '' @
            ''out-of-bounds index reads/writes outside the allocation (UB); '' @
            ''additionally, no other reference to the same element may exist '' @
            ''while this mutable reference is live (aliased &mut is UB); '' @
            ''use array[[i, j]] for the checked panicking version'')
      else (''ArrayBase::uget'',
            ''each index component must be < the corresponding array dimension; '' @
            ''out-of-bounds index reads memory past the array's allocation (UB); '' @
            ''use array[[i, j]] or array.get(index) (returns Option<&T>)''))"

definition ndarray_ptr_note :: "string \<Rightarrow> (string \<times> string) option" where
  "ndarray_ptr_note path =
     (if ends_with path ''::from_shape_ptr'' \<and> contains path ''ndarray''
      then Some (''ArrayView::from_shape_ptr'',
                 ''ptr must point to a contiguous allocation of at least shape.size() elements '' @
                 ''of type A; the shape and strides must not produce index addresses outside '' @
                 ''the pointed-to allocation (OOB read UB); no safe alternative '' @ em_dash @ '' '' @
                 ''validate layout manually before calling'')
      else None)"

definition ndarray_unchecked_at :: "call_site \<Rightarrow> finding list" where
  "ndarray_unchecked_at c =
     (let path = site_path c; args = site_args c in
      if ends_with path ''::from_shape_vec_unchecked''
      then warning ''ndarray_unchecked'' c
             (''`from_shape_vec_unchecked` '' @ em_dash @ '' shape.size() must equal v.len(); if '' @
              ''the shape product does not match the vector length, subsequent '' @
              ''indexing reads outside the vec's allocation (out-of-bounds UB); '' @
              ''use from_shape_vec which returns Result'')
      else if \<not> contains path ''ndarray'' then []
      else if ends_with path ''::uget'' \<or> ends_with path ''::uget_mut''
      then (if arg_proves index_is_fully_bounded (arg_local args 1) c then []
            else case ndarray_uget_note path of
                   (fn_name, note) \<Rightarrow> warning ''ndarray_unchecked'' c (named_note fn_name note))
      else if ends_with path ''::uswap''
      then (if arg_proves index_is_fully_bounded (arg_local args 1) c \<and>
               arg_proves index_is_fully_bounded (arg_local args 2) c then []
            else warning ''ndarray_unchecked'' c
                   (''ArrayBase::uswap '' @ em_dash @ '' both index1 and index2 must be in-bounds for '' @
                    ''all dimensions; out-of-bounds index swaps memory outside the array '' @
                    ''allocation (UB); use array.swap(i, j) for the checked panicking version''))
      else case ndarray_ptr_note path of
             None \<Rightarrow> []
           | Some (fn_name, note) \<Rightarrow> warning ''ndarray_unchecked'' c (named_note fn_name note))"

abbreviation NdarrayUnchecked :: checker where
  "NdarrayUnchecked \<equiv> call_checker ndarray_unchecked_at"

subsection \<open>\<^verbatim>\<open>step_unchecked.rs\<close>\<close>

definition step_unchecked_note :: "string \<Rightarrow> (string \<times> string) option" where
  "step_unchecked_note path =
     (if ends_with path ''forward_unchecked''
      then Some (''Step::forward_unchecked'',
                 ''start + count must not overflow the type's range; overflow is immediate UB '' @
                 ''and may cause out-of-bounds range iteration; use Step::forward_checked '' @
                 ''(returns Option) or verify the count before calling'')
      else if ends_with path ''backward_unchecked''
      then Some (''Step::backward_unchecked'',
                 ''start - count must not underflow the type's minimum value; underflow is '' @
                 ''immediate UB and may cause out-of-bounds range iteration; use '' @
                 ''Step::backward_checked (returns Option) or verify the count before calling'')
      else None)"

definition step_count_is_zero :: "block_state \<Rightarrow> local \<Rightarrow> bool" where
  "step_count_is_zero state cnt \<longleftrightarrow>
     fmlookup (const_upper state) cnt = Some 0 \<and>
     (case fmlookup (const_lower state) cnt of None \<Rightarrow> 0 | Some lo \<Rightarrow> lo) = 0"

definition step_unchecked_at :: "call_site \<Rightarrow> finding list" where
  "step_unchecked_at c =
     (case step_unchecked_note (site_path c) of
        None \<Rightarrow> []
      | Some (fn_name, note) \<Rightarrow>
          if arg_proves step_count_is_zero (arg_local (site_args c) 1) c then []
          else warning ''step_unchecked'' c (named_note fn_name note))"

abbreviation StepUnchecked :: checker where
  "StepUnchecked \<equiv> call_checker step_unchecked_at"

subsection \<open>\<^verbatim>\<open>unchecked_int_arith.rs\<close>\<close>

definition unchecked_int_arith_note :: "string \<Rightarrow> (string \<times> string) option" where
  "unchecked_int_arith_note path =
     (if ends_with path ''::unchecked_add''
      then Some (''unchecked_add'',
                 ''overflow is UB (not a panic or wrap); the optimizer may '' @
                 ''eliminate branches guarded by the assumption that addition cannot overflow'')
      else if ends_with path ''::unchecked_sub''
      then Some (''unchecked_sub'',
                 ''underflow is UB; unsigned underflow (lhs < rhs) and signed overflow '' @
                 ''are both immediate UB '' @ em_dash @ '' use `checked_sub` or `wrapping_sub` if unsure'')
      else if ends_with path ''::unchecked_mul''
      then Some (''unchecked_mul'',
                 ''overflow is UB; multiplicative overflow on size/length values is a '' @
                 ''frequent source of allocator bugs (CVE-class: integer overflow '' @ right_arrow @ '' heap OOB)'')
      else if ends_with path ''::unchecked_shl''
      then Some (''unchecked_shl'',
                 ''shift amount must be < bit-width of the type; any larger shift is UB '' @
                 ''(not masked like `<<` in C '' @ em_dash @ '' LLVM may produce poison)'')
      else if ends_with path ''::unchecked_shr''
      then Some (''unchecked_shr'',
                 ''shift amount must be < bit-width of the type; any larger shift is UB'')
      else if ends_with path ''::unchecked_neg''
      then Some (''unchecked_neg'',
                 ''negating T::MIN is UB (no positive counterpart); for i8: '' @
                 ''`(-128i8).unchecked_neg()` is immediately undefined behaviour'')
      else if ends_with path ''::unchecked_div''
      then Some (''unchecked_div'',
                 ''divisor must be non-zero; dividing by zero is UB (not a panic); '' @
                 ''for signed types T::MIN / -1 is also UB (nightly feature `division_unchecked`)'')
      else if ends_with path ''::unchecked_rem''
      then Some (''unchecked_rem'',
                 ''divisor must be non-zero; remainder with zero divisor is UB; '' @
                 ''for signed types T::MIN % -1 is also UB (nightly feature `division_unchecked`)'')
      else if ends_with path ''::unchecked_div_exact''
      then Some (''unchecked_div_exact'',
                 ''divisor must be non-zero, self must be exactly divisible by rhs (no remainder), '' @
                 ''and for signed types T::MIN / -1 is UB; all three conditions must hold simultaneously '' @
                 ''(nightly feature `exact_div`)'')
      else if ends_with path ''::unchecked_shl_exact''
      then Some (''unchecked_shl_exact'',
                 ''shift amount must be < bit-width; additionally the shifted-out bits must all '' @
                 ''be zero (no 1-bits lost); both conditions are UB if violated '' @
                 ''(nightly feature `exact_bitshifts`)'')
      else if ends_with path ''::unchecked_shr_exact''
      then Some (''unchecked_shr_exact'',
                 ''shift amount must be < bit-width; the shifted-out low bits must all be zero; '' @
                 ''both conditions are UB if violated '' @
                 ''(nightly feature `exact_bitshifts`)'')
      else if ends_with path ''::unchecked_disjoint_bitor''
      then Some (''unchecked_disjoint_bitor'',
                 ''self and rhs must have no overlapping set bits (self & rhs == 0); '' @
                 ''if any bit is set in both, the result is UB; the compiler uses this '' @
                 ''to emit a single OR without masking (nightly feature `disjoint_bitor`)'')
      else if ends_with path ''::unchecked_funnel_shl''
      then Some (''unchecked_funnel_shl'',
                 ''shift amount `n` must be < bit-width of the type; a funnel shift '' @
                 ''combines two integers `(self, low)` shifted left by `n` bits, '' @
                 ''taking the high bits from self and low bits from low; if n >= bit-width, '' @
                 ''the result is UB (nightly feature `funnel_shifts`, issue #145686)'')
      else if ends_with path ''::unchecked_funnel_shr''
      then Some (''unchecked_funnel_shr'',
                 ''shift amount `n` must be < bit-width of the type; a funnel shift '' @
                 ''combines two integers `(self, low)` shifted right by `n` bits; '' @
                 ''if n >= bit-width, the result is UB (nightly feature `funnel_shifts`, '' @
                 ''issue #145686)'')
      else None)"

text \<open>The bit width the shift check uses; \<^verbatim>\<open>u64::MAX\<close> for every other type.\<close>

fun shift_width :: "ty \<Rightarrow> u64" where
  "shift_width (TyUint U8) = 8"
| "shift_width (TyInt I8) = 8"
| "shift_width (TyUint U16) = 16"
| "shift_width (TyInt I16) = 16"
| "shift_width (TyUint U32) = 32"
| "shift_width (TyInt I32) = 32"
| "shift_width (TyUint U64) = 64"
| "shift_width (TyInt I64) = 64"
| "shift_width _ = u64_max"

text \<open>
  \<^verbatim>\<open>u64::checked_add\<close>: a sum that wraps around is less than its operands. The
  product is taken in 128 bits, where it cannot wrap.
\<close>

definition checked_add :: "u64 \<Rightarrow> u64 \<Rightarrow> u64 option" where
  "checked_add a b = (if a + b < a then None else Some (a + b))"

definition sum_fits :: "u64 \<Rightarrow> u64 \<Rightarrow> u64 \<Rightarrow> bool" where
  "sum_fits au bu type_max = (case checked_add au bu of None \<Rightarrow> False | Some s \<Rightarrow> s \<le> type_max)"

definition product_fits :: "u64 \<Rightarrow> u64 \<Rightarrow> u64 \<Rightarrow> bool" where
  "product_fits au bu type_max \<longleftrightarrow> (ucast au * ucast bu :: u128) \<le> ucast type_max"

definition add_mul_suppressed :: "string \<Rightarrow> body \<Rightarrow> place \<Rightarrow> block_state \<Rightarrow> local \<Rightarrow> local \<Rightarrow> bool" where
  "add_mul_suppressed path body dest state al bl =
     (case (fmlookup (const_upper state) al, fmlookup (const_upper state) bl,
            uint_type_max (local_decls body (place_local dest))) of
        (Some au, Some bu, Some type_max) \<Rightarrow>
          if ends_with path ''::unchecked_add'' then sum_fits au bu type_max else product_fits au bu type_max
      | _ \<Rightarrow> False)"

definition sub_suppressed :: "block_state \<Rightarrow> local \<Rightarrow> local \<Rightarrow> bool" where
  "sub_suppressed state al bl =
     (let a_lb = (case fmlookup (const_lower state) al of None \<Rightarrow> 0 | Some lo \<Rightarrow> lo);
          b_ub = (case fmlookup (const_upper state) bl of None \<Rightarrow> u64_max | Some up \<Rightarrow> up)
      in b_ub \<le> a_lb)"

definition shift_suppressed :: "body \<Rightarrow> block_state \<Rightarrow> local \<Rightarrow> local \<Rightarrow> bool" where
  "shift_suppressed body state val_local shift_local =
     (let shift_ub = (case fmlookup (const_upper state) shift_local of None \<Rightarrow> u64_max | Some up \<Rightarrow> up)
      in shift_ub < shift_width (local_decls body val_local))"

definition int_arith_suppressed :: "body \<Rightarrow> call_site \<Rightarrow> bool" where
  "int_arith_suppressed body c =
     (let path = site_path c in
      case (site_state c, arg_local (site_args c) 0, arg_local (site_args c) 1) of
        (Some state, Some a, Some b) \<Rightarrow>
          if ends_with path ''::unchecked_add'' \<or> ends_with path ''::unchecked_mul''
          then add_mul_suppressed path body (site_dest c) state a b
          else if ends_with path ''::unchecked_sub'' then sub_suppressed state a b
          else if ends_with path ''::unchecked_shl'' \<or> ends_with path ''::unchecked_shr'' \<or>
                  ends_with path ''::unchecked_shl_exact'' \<or> ends_with path ''::unchecked_shr_exact''
          then shift_suppressed body state a b
          else False
      | _ \<Rightarrow> False)"

definition unchecked_int_arith_at :: "body \<Rightarrow> call_site \<Rightarrow> finding list" where
  "unchecked_int_arith_at body c =
     (if \<not> contains (site_path c) ''num'' then []
      else case unchecked_int_arith_note (site_path c) of
             None \<Rightarrow> []
           | Some (fn_name, note) \<Rightarrow>
               if int_arith_suppressed body c then []
               else warning ''unchecked_int_arith'' c (named_note fn_name note))"

abbreviation UncheckedIntArith :: checker where
  "UncheckedIntArith \<equiv> body_checker (\<lambda>tcx body flow.
     concat (map (unchecked_int_arith_at body) (fn_calls tcx body flow)))"

subsection \<open>\<^verbatim>\<open>layout_unchecked.rs\<close>\<close>

definition SAFE_LAYOUT_SIZE :: u64 where
  "SAFE_LAYOUT_SIZE = 0x3FFFFFFFFFFFFFFF"

definition is_power_of_two :: "u64 \<Rightarrow> bool" where
  "is_power_of_two v \<longleftrightarrow> v \<noteq> 0 \<and> v AND (v - 1) = 0"

definition layout_suppressed :: "operand list \<Rightarrow> block_state \<Rightarrow> bool" where
  "layout_suppressed args state =
     (let align_is_pow2 =
            1 < length args \<and> (case const_u64 (args ! 1) of None \<Rightarrow> False | Some v \<Rightarrow> is_power_of_two v)
      in case arg_local args 0 of
           Some size_local \<Rightarrow>
             (case fmlookup (const_upper state) size_local of
                Some upper \<Rightarrow> upper \<le> SAFE_LAYOUT_SIZE
              | None \<Rightarrow> False) \<or>
             align_is_pow2 \<and> size_local |\<in>| mul_overflow state
         | None \<Rightarrow> align_is_pow2)"

definition layout_size_note :: "string \<Rightarrow> string" where
  "layout_size_note path =
     (if ends_with path ''Layout::from_size_alignment_unchecked''
      then (''size must not overflow isize::MAX when rounded to the given Alignment; '' @
            ''the `Alignment` type guarantees power-of-two but size overflow is still '' @
            ''unchecked (nightly feature `ptr_alignment_type`)'')
      else (''align must be a power of two and size must not overflow '' @
            ''isize::MAX when rounded to align; use `Layout::from_size_align` '' @
            ''(returns Result) instead''))"

definition layout_unchecked_at :: "call_site \<Rightarrow> finding list" where
  "layout_unchecked_at c =
     (let path = site_path c in
      if ends_with path ''Layout::from_size_align_unchecked'' \<or>
         ends_with path ''Layout::from_size_alignment_unchecked''
      then (if (case site_state c of None \<Rightarrow> False | Some state \<Rightarrow> layout_suppressed (site_args c) state) then []
            else warning ''layout_unchecked'' c (named_note (last_segment path) (layout_size_note path)))
      else if ends_with path ''Alignment::new_unchecked''
      then warning ''layout_unchecked'' c (named_note ''Alignment::new_unchecked''
             (''align must be a power of two; any other value produces an '' @
              ''Alignment with an invalid internal representation (UB); '' @
              ''use `Alignment::new` which returns Option '' @
              ''(nightly feature `ptr_alignment_type`)''))
      else [])"

abbreviation LayoutUnchecked :: checker where
  "LayoutUnchecked \<equiv> call_checker layout_unchecked_at"

subsection \<open>\<^verbatim>\<open>alloc_size_overflow.rs\<close>\<close>

definition is_layout_allocation :: "string \<Rightarrow> bool" where
  "is_layout_allocation path = ends_with_any path
     [''GlobalAlloc::alloc'', ''GlobalAlloc::alloc_zeroed'', ''GlobalAlloc::realloc'', ''alloc::alloc'',
      ''alloc::alloc_zeroed'', ''alloc::realloc'', ''Allocator::allocate'', ''Allocator::allocate_zeroed'',
      ''Allocator::grow'', ''Allocator::grow_zeroed'', ''Allocator::shrink'']"

definition alloc_size_overflow_at :: "call_site \<Rightarrow> finding list" where
  "alloc_size_overflow_at c =
     (let path = site_path c; arg = arg_local (site_args c) 0 in
      if ends_with path ''Layout::from_size_align_unchecked'' \<or>
         ends_with path ''Layout::from_size_alignment_unchecked''
      then (if arg_proves (\<lambda>state l. l |\<in>| mul_overflow state) arg c
            then warning ''alloc_size_overflow'' c
                   (''`Layout::from_size_align_unchecked` '' @ em_dash @ '' size argument came from '' @
                    ''arithmetic (mul/add) that can exceed isize::MAX without overflow '' @
                    ''check; wrapping produces a too-small allocation and heap overflow '' @
                    ''on subsequent writes; use `Layout::array::<T>(n)` or '' @
                    ''`n.checked_mul(size_of::<T>())` to handle overflow safely'')
            else [])
      else if is_layout_allocation path
      then (if arg_proves (\<lambda>state l. l |\<in>| layout_overflow state) arg c
            then warning ''alloc_size_overflow'' c
                   (''`'' @ last_segment path @ ''` '' @ em_dash @ '' layout passed to allocator has a size computed from '' @
                    ''arithmetic that can exceed isize::MAX without overflow check; '' @
                    ''the allocator will receive a too-small size and subsequent '' @
                    ''writes overflow the allocation; use `Layout::array::<T>(n)` '' @
                    ''or `n.checked_mul(size_of::<T>())` at the layout construction site'')
            else [])
      else [])"

abbreviation AllocSizeOverflow :: checker where
  "AllocSizeOverflow \<equiv> call_checker alloc_size_overflow_at"

subsection \<open>\<^verbatim>\<open>matrixmultiply_unchecked.rs\<close>\<close>

definition matrixmultiply_unchecked_note :: "string \<Rightarrow> (string \<times> string) option" where
  "matrixmultiply_unchecked_note path =
     (if ends_with path ''::sgemm''
      then Some (''sgemm (f32)'',
                 ''all pointer arguments must point to valid allocations of the declared size; '' @
                 ''incorrect dimensions or strides cause OOB reads/writes (UB); '' @
                 ''verify layout (row-major vs column-major) before calling'')
      else if ends_with path ''::dgemm''
      then Some (''dgemm (f64)'',
                 ''all pointer arguments must point to valid allocations; '' @
                 ''incorrect strides or dimensions produce OOB reads/writes (UB)'')
      else if ends_with path ''::cgemm''
      then Some (''cgemm (c32)'',
                 ''complex single-precision GEMM; each complex element is 2 floats; '' @
                 ''pointers must be valid for m*k, k*n, m*n complex elements respectively'')
      else if ends_with path ''::zgemm''
      then Some (''zgemm (c64)'',
                 ''complex double-precision GEMM; pointers must be valid for m*k, k*n, m*n '' @
                 ''complex double elements; incorrect strides produce OOB reads/writes (UB)'')
      else None)"

definition gemm_stride_coherent :: "call_site \<Rightarrow> bool" where
  "gemm_stride_coherent c =
     (let arg = arg_local (site_args c) in
      case (arg 1, arg 2, arg 5, arg 8, arg 12, site_state c) of
        (Some k, Some n, Some rsa, Some rsb, Some rsc, Some state) \<Rightarrow>
          locals_are_eq state k rsa \<and> locals_are_eq state n rsb \<and> locals_are_eq state n rsc
      | _ \<Rightarrow> False)"

definition matrixmultiply_unchecked_at :: "call_site \<Rightarrow> finding list" where
  "matrixmultiply_unchecked_at c =
     (case matrixmultiply_unchecked_note (site_path c) of
        None \<Rightarrow> []
      | Some (fn_name, note) \<Rightarrow>
          if gemm_stride_coherent c then []
          else warning ''matrixmultiply_unchecked'' c (named_note fn_name note))"

abbreviation MatrixmultiplyUnchecked :: checker where
  "MatrixmultiplyUnchecked \<equiv> call_checker matrixmultiply_unchecked_at"

subsection \<open>\<^verbatim>\<open>env_set_var.rs\<close>\<close>

definition env_set_var_note :: "string \<Rightarrow> (string \<times> string) option" where
  "env_set_var_note path =
     (if ends_with path ''env::set_var''
      then Some (''env::set_var'',
                 ''not thread-safe on POSIX: concurrent reads of the environment '' @
                 ''(from any thread, signal handler, or C code) are a data race; '' @
                 ''only safe before the first `thread::spawn` call; '' @
                 ''prefer `Command::env` to set vars for child processes'')
      else if ends_with path ''env::remove_var''
      then Some (''env::remove_var'',
                 ''not thread-safe on POSIX: concurrent reads of the environment '' @
                 ''(from any thread, signal handler, or C code) are a data race; '' @
                 ''only safe before the first `thread::spawn` call; '' @
                 ''prefer `Command::env_remove` to remove vars for child processes'')
      else None)"

definition env_set_var_at :: "call_site \<Rightarrow> finding list" where
  "env_set_var_at c =
     (case env_set_var_note (site_path c) of
        None \<Rightarrow> []
      | Some (fn_name, note) \<Rightarrow>
          if (case site_state c of None \<Rightarrow> False | Some state \<Rightarrow> thread_spawned state)
          then error_finding ''env_set_var'' c
                 (''CONCURRENT: `'' @ fn_name @ ''` called after `thread::spawn` '' @ em_dash @ '' '' @
                  note @ '' (thread-safety violation confirmed by dataflow)'')
          else warning ''env_set_var'' c (named_note fn_name note))"

abbreviation EnvSetVar :: checker where
  "EnvSetVar \<equiv> call_checker env_set_var_at"

section \<open>The value checkers keep the contract\<close>

interpretation nonzero_new_unchecked: suppressing_checker nonzero_new_unchecked_at "\<lambda>c. first_arg_local (site_args c)" "\<lambda>s l. local_is_nonzero s l \<or> local_is_finite s l"
  by unfold_locales (auto simp: nonzero_new_unchecked_at_def Let_def split: option.splits)

interpretation ctlz_nonzero: suppressing_checker ctlz_nonzero_at "\<lambda>c. first_arg_local (site_args c)" local_is_nonzero
  by unfold_locales (auto simp: ctlz_nonzero_at_def Let_def split: option.splits)

interpretation hint_assert_unchecked: suppressing_checker hint_assert_unchecked_at "\<lambda>c. first_arg_local (site_args c)" local_is_nonzero
  by unfold_locales (auto simp: hint_assert_unchecked_at_def Let_def split: option.splits)

interpretation ascii_unchecked: suppressing_checker ascii_unchecked_at "\<lambda>c. first_arg_local (site_args c)" local_is_ascii
  by unfold_locales (auto simp: ascii_unchecked_at_def Let_def split: option.splits)

interpretation char_from_u32_unchecked: suppressing_checker char_from_u32_unchecked_at "\<lambda>c. first_arg_local (site_args c)" local_is_valid_scalar
  by unfold_locales (auto simp: char_from_u32_unchecked_at_def Let_def split: option.splits)

interpretation push_unchecked: suppressing_checker push_unchecked_at "\<lambda>c. first_arg_local (site_args c)" collection_has_spare
  by unfold_locales (auto simp: push_unchecked_at_def Let_def split: option.splits)

interpretation arrayvec_unchecked: suppressing_checker arrayvec_unchecked_at "\<lambda>c. first_arg_local (site_args c)" collection_is_full
  by unfold_locales (auto simp: arrayvec_unchecked_at_def Let_def split: option.splits)

interpretation step_unchecked: suppressing_checker step_unchecked_at "\<lambda>c. arg_local (site_args c) 1" step_count_is_zero
  by unfold_locales (auto simp: step_unchecked_at_def Let_def split: option.splits)

interpretation smallvec_unchecked: suppressing_checker smallvec_unchecked_at "\<lambda>c. arg_local (site_args c) 1" local_is_bounded_or_eq
  by unfold_locales (auto simp: smallvec_unchecked_at_def Let_def split: option.splits)

interpretation vec_set_len: suppressing_checker vec_set_len_at "\<lambda>c. arg_local (site_args c) 1" local_is_bounded_or_eq
  by unfold_locales (auto simp: vec_set_len_at_def Let_def split: option.splits)

end
