(* ===== verification/Checkers_Backstop.thy ===== *)
theory Checkers_Backstop
  imports Checkers_Values
begin

text \<open>
  The checkers of calls by the kind of the callee instead of its path: foreign functions,
  functions with target features, unsafe function pointers, and the backstop that reports
  every call of an \<^verbatim>\<open>unsafe fn\<close> no other checker speaks about.
\<close>

text \<open>The locals passed as arguments, and those of a raw pointer type.\<close>

definition arg_locals :: "operand list \<Rightarrow> local list" where
  "arg_locals args = List.map_filter operand_local args"

definition raw_ptr_args :: "body \<Rightarrow> operand list \<Rightarrow> local list" where
  "raw_ptr_args body args = filter (\<lambda>l. is_raw_ptr_ty (local_decls body l)) (arg_locals args)"

definition reads_of :: "local list \<Rightarrow> (local \<times> string) list" where
  "reads_of ls = map (\<lambda>l. (l, ''read'')) ls"

subsection \<open>\<^verbatim>\<open>foreign_fn.rs\<close>\<close>

definition foreign_fn_at :: "tyctxt \<Rightarrow> body \<Rightarrow> call_site \<Rightarrow> finding list" where
  "foreign_fn_at tcx body c =
     (if \<not> is_foreign_item tcx (site_fn c) then []
      else if \<not> is_local (site_fn c) then []
      else let uafs = (case site_state c of
                         None \<Rightarrow> []
                       | Some state \<Rightarrow> uaf_findings (site_span c) state (reads_of (raw_ptr_args body (site_args c))));
               path = site_path c
           in if uafs \<noteq> [] then uafs
              else warning ''foreign_fn'' c
                     (''`'' @ path @ ''` is a foreign (`extern`) function '' @ em_dash @ '' verify ABI match, pointer '' @
                      ''validity, buffer sizes, ownership transfer, error-code handling, and '' @
                      ''thread-safety per the foreign API contract''))"

abbreviation ForeignFn :: checker where
  "ForeignFn \<equiv> body_checker (\<lambda>tcx body flow. concat (map (foreign_fn_at tcx body) (fn_calls tcx body flow)))"

subsection \<open>\<^verbatim>\<open>target_feature_call.rs\<close>\<close>

fun join_commas :: "string list \<Rightarrow> string" where
  "join_commas [] = ''''"
| "join_commas [s] = s"
| "join_commas (s # ss) = s @ '', '' @ join_commas ss"

definition target_feature_call_at :: "tyctxt \<Rightarrow> body \<Rightarrow> call_site \<Rightarrow> finding list" where
  "target_feature_call_at tcx body c =
     (let caller_features = target_features tcx (source_def_id body);
          required = filter (\<lambda>tf. tf \<notin> set caller_features) (target_features tcx (site_fn c));
          features_str = join_commas required;
          fn_name = site_path c
      in if required = [] then []
         else warning ''target_feature_call'' c
                (''`'' @ fn_name @ ''` requires CPU feature(s) ['' @ features_str @ ''] '' @ em_dash @ '' '' @
                 ''calling without the feature enabled is UB (SIGILL or wrong results); '' @
                 ''guard with `is_x86_feature_detected!('' @ [CHR 0x22] @ hd required @ [CHR 0x22] @ '')` or equivalent before '' @
                 ''this call''))"

abbreviation TargetFeatureCall :: checker where
  "TargetFeatureCall \<equiv> body_checker (\<lambda>tcx body flow.
     concat (map (target_feature_call_at tcx body) (fn_calls tcx body flow)))"

subsection \<open>\<^verbatim>\<open>unsafe_fn_ptr.rs\<close>\<close>

fun is_unsafe_fn_ptr :: "ty \<Rightarrow> bool" where
  "is_unsafe_fn_ptr (TyFnPtr safety _) = (safety = Unsafe)"
| "is_unsafe_fn_ptr _ = False"

definition unsafe_fn_ptr_block :: "tyctxt \<Rightarrow> body \<Rightarrow> flow_results \<Rightarrow> nat \<times> basic_block_data \<Rightarrow> finding list" where
  "unsafe_fn_ptr_block tcx body flow = (\<lambda>(bb, block_data).
     case call_of_block block_data of
       None \<Rightarrow> []
     | Some (func, args) \<Rightarrow>
         let ty = operand_ty tcx body func;
             sp = span_of_block block_data;
             uafs = (case state_before_terminator flow tcx body bb of
                       None \<Rightarrow> []
                     | Some state \<Rightarrow>
                         uaf_findings sp state (reads_of
                           (filter (\<lambda>l. is_raw_ptr_ty (local_decls body l) \<or> objects_for state l \<noteq> []) (arg_locals args))))
         in if const_fn_def func \<noteq> None then []
            else if \<not> is_unsafe_fn_ptr ty then []
            else if uafs \<noteq> [] then uafs
            else [finding_at Warning ''unsafe_fn_ptr'' sp
                   (''call through `unsafe fn` pointer (`'' @ show_ty tcx ty @ ''`) '' @ em_dash @ '' verify the pointer is '' @
                    ''non-null and valid, the ABI matches the callee exactly, and any required '' @
                    ''library/module is still loaded; a null or ABI-mismatched fn pointer call '' @
                    ''is immediate UB'')])"

abbreviation UnsafeFnPtr :: checker where
  "UnsafeFnPtr \<equiv> body_checker (\<lambda>tcx body flow.
     concat (map (unsafe_fn_ptr_block tcx body flow) (enumerate 0 (basic_blocks body))))"

subsection \<open>\<^verbatim>\<open>unsafe_fn_call.rs\<close>\<close>

text \<open>The facts about an argument that a checker of its own takes as proof.\<close>

definition arg_discharged :: "block_state \<Rightarrow> local \<Rightarrow> bool" where
  "arg_discharged state l \<longleftrightarrow>
     local_is_bounded_or_eq state l \<or> collection_has_spare state l \<or> collection_is_full state l \<or>
     local_is_nonzero state l \<or> local_is_finite state l \<or> local_is_valid_scalar state l \<or>
     fd_was_transferred state l \<or> index_is_fully_bounded state l"

definition expanded_locals :: "block_state \<Rightarrow> local list \<Rightarrow> local list" where
  "expanded_locals state ls =
     ls @ concat (map (\<lambda>l. case array_components_of state l of None \<Rightarrow> [] | Some comps \<Rightarrow> comps) ls)"

definition lifecycle_handled :: "string \<Rightarrow> bool" where
  "lifecycle_handled path \<longleftrightarrow>
     is_from_raw path \<or> is_ptr_read path \<or> is_raw_realloc path \<or> is_ptr_write_to_first_arg path \<or>
     is_owned_buffer_accessor path"

definition unsafe_call_quiet :: "call_site \<Rightarrow> block_state \<Rightarrow> bool" where
  "unsafe_call_quiet c state =
     (let path = site_path c; ls = arg_locals (site_args c)
      in list_ex (arg_discharged state) ls \<or>
         is_maybe_uninit_assume_init path \<and> arg_proves local_is_maybeuninit_initialized (arg_local (site_args c) 0) c \<or>
         list_ex (\<lambda>(a, b). locals_are_ne state a b) (earlier_pairs (expanded_locals state ls)) \<or>
         contains path ''matrixmultiply'' \<and> gemm_stride_coherent c \<or>
         list_ex (\<lambda>l. objects_for state l \<noteq> []) ls \<and> lifecycle_handled path)"

definition unsafe_fn_call_at :: "tyctxt \<Rightarrow> body \<Rightarrow> call_site \<Rightarrow> finding list" where
  "unsafe_fn_call_at tcx body c =
     (if fn_sig_safety tcx (site_fn c) (site_generics c) \<noteq> Unsafe then []
      else if from_expansion (site_span c) then []
      else let path = site_path c;
               rest = info ''unsafe_fn_call'' c
                 (''call to `unsafe fn` `'' @ path @ ''` '' @ em_dash @ '' the function's safety '' @
                  ''preconditions must be upheld by the caller; verify them at this site'')
           in case site_state c of
                None \<Rightarrow> rest
              | Some state \<Rightarrow>
                  let uafs = uaf_findings (site_span c) state (reads_of (raw_ptr_args body (site_args c)))
                  in if uafs \<noteq> [] then uafs
                     else if unsafe_call_quiet c state then []
                     else rest)"

abbreviation UnsafeFnCall :: checker where
  "UnsafeFnCall \<equiv> body_checker (\<lambda>tcx body flow. concat (map (unsafe_fn_call_at tcx body) (fn_calls tcx body flow)))"

end
