(* ===== verification/Checkers_Std_Audit.thy ===== *)
theory Checkers_Std_Audit
  imports Call_Checkers
begin

text \<open>
  The checkers that report every call of a listed function of the standard library: what is
  reported depends on the path of the callee alone.
\<close>

subsection \<open>\<^verbatim>\<open>binary_heap_unsafe.rs\<close>\<close>

definition binary_heap_unsafe_at :: "call_site \<Rightarrow> finding list" where
  "binary_heap_unsafe_at c =
     (let path = site_path c in
      if \<not> contains path ''BinaryHeap'' then []
      else let found =
             (if ends_with path ''::as_mut_slice''
              then Some (''BinaryHeap::as_mut_slice'',
                         ''any write through the returned slice must leave a valid max-heap; '' @
                         ''if the heap property is violated, all subsequent pop/push/peek '' @
                         ''operations silently return wrong results; restore with rebuild() '' @
                         ''if needed'')
              else if ends_with path ''::from_raw_vec''
              then Some (''BinaryHeap::from_raw_vec'',
                         ''the Vec's elements must already satisfy the max-heap invariant; '' @
                         ''if not, subsequent heap operations produce incorrect results silently; '' @
                         ''use `BinaryHeap::from(vec)` to re-heapify safely in O(n)'')
              else None)
      in case found of
           None \<Rightarrow> []
         | Some (fn_name, note) \<Rightarrow>
             warning ''binary_heap_unsafe'' c (named_note fn_name note))"

abbreviation BinaryHeapUnsafe :: checker where
  "BinaryHeapUnsafe \<equiv> call_checker binary_heap_unsafe_at"

subsection \<open>\<^verbatim>\<open>btree_cursor_unchecked.rs\<close>\<close>

definition btree_cursor_unchecked_at :: "call_site \<Rightarrow> finding list" where
  "btree_cursor_unchecked_at c =
     (let path = site_path c in
      if \<not> contains path ''CursorMut'' then []
      else let found =
             (if ends_with path ''::insert_after_unchecked''
              then Some (''CursorMut::insert_after_unchecked'',
                         ''key must not already exist in the map; key must be greater than all '' @
                         ''keys before the cursor and less than the key immediately after; '' @
                         ''invariant violation silently corrupts the BTree structure'')
              else if ends_with path ''::insert_before_unchecked''
              then Some (''CursorMut::insert_before_unchecked'',
                         ''key must not already exist in the map; key must be greater than the '' @
                         ''key immediately before the cursor and less than all keys after; '' @
                         ''invariant violation silently corrupts the BTree structure'')
              else if ends_with path ''::with_mutable_key''
              then Some (''CursorMut::with_mutable_key'',
                         ''returns CursorMutKey which allows direct mutation of keys; caller must '' @
                         ''maintain the BTree invariant: keys must remain in sorted order and be '' @
                         ''unique after any mutation; violating the ordering silently corrupts '' @
                         ''traversal and all subsequent map operations '' @
                         ''(nightly feature `btree_cursors`, tracking issue #107540)'')
              else None)
      in case found of
           None \<Rightarrow> []
         | Some (fn_name, note) \<Rightarrow>
             warning ''btree_cursor_unchecked'' c (named_note fn_name note))"

abbreviation BTreeCursorUnchecked :: checker where
  "BTreeCursorUnchecked \<equiv> call_checker btree_cursor_unchecked_at"

subsection \<open>\<^verbatim>\<open>unsafe_pinned.rs\<close>\<close>

definition unsafe_pinned_at :: "call_site \<Rightarrow> finding list" where
  "unsafe_pinned_at c =
     (let path = site_path c in
      if \<not> contains path ''UnsafePinned'' then []
      else let found =
             (if ends_with path ''::get_mut_unchecked''
              then Some (''UnsafePinned::get_mut_unchecked'',
                         ''writing through the returned *mut T while any other live alias to this '' @
                         ''memory exists (including *const T from get()) is UB; prefer '' @
                         ''get_mut_pinned which requires Pin for self-referential types'')
              else if ends_with path ''::get_mut_pinned''
              then Some (''UnsafePinned::get_mut_pinned'',
                         ''the Pin guarantee must hold for the entire lifetime of the returned '' @
                         ''*mut T; the value must not be moved or invalidated while the pointer '' @
                         ''is live'')
              else if ends_with path ''::raw_get_mut''
              then Some (''UnsafePinned::raw_get_mut'',
                         ''the raw pointer must be non-null, valid, and aligned; writing through '' @
                         ''the result while any other alias is active is UB'')
              else if ends_with path ''::raw_get''
              then Some (''UnsafePinned::raw_get'',
                         ''the raw pointer must be non-null, valid, and aligned; writing through '' @
                         ''the result while any &T or *const T alias is live is UB'')
              else if ends_with path ''::get''
              then Some (''UnsafePinned::get'',
                         ''writing through the returned *mut T while any shared reference or '' @
                         ''*const T derived from this cell is still live is UB; '' @
                         ''like UnsafeCell::get but for the mutable-aliasing use case'')
              else None)
      in case found of
           None \<Rightarrow> []
         | Some (fn_name, note) \<Rightarrow>
             warning ''unsafe_pinned'' c (named_note fn_name note))"

abbreviation UnsafePinned :: checker where
  "UnsafePinned \<equiv> call_checker unsafe_pinned_at"

subsection \<open>\<^verbatim>\<open>unsafecell_access.rs\<close>\<close>

definition unsafecell_access_at :: "call_site \<Rightarrow> finding list" where
  "unsafecell_access_at c =
     (let path = site_path c in
      if \<not> contains path ''UnsafeCell'' then []
      else let found =
             (if ends_with path ''::as_ref_unchecked''
              then Some (''UnsafeCell::as_ref_unchecked'',
                         ''no mutable reference to the interior may exist simultaneously; '' @
                         ''no concurrent mutation may occur'')
              else if ends_with path ''::as_mut_unchecked''
              then Some (''UnsafeCell::as_mut_unchecked'',
                         ''exclusive access required '' @ em_dash @ '' no other reference (shared or mutable) '' @
                         ''may exist simultaneously; the noalias annotation on the returned '' @
                         ''&mut T enables miscompilation if aliased'')
              else if ends_with path ''::replace'' \<and> contains path ''UnsafeCell''
              then Some (''UnsafeCell::replace'',
                         ''swaps the inner value in place; no other reference to the interior '' @
                         ''may exist while this runs; concurrent access is UB '' @
                         ''(nightly feature `unsafe_cell_access`)'')
              else None)
      in case found of
           None \<Rightarrow> []
         | Some (fn_name, note) \<Rightarrow>
             warning ''unsafecell_access'' c (named_note fn_name note))"

abbreviation UnsafeCellAccess :: checker where
  "UnsafeCellAccess \<equiv> call_checker unsafecell_access_at"

subsection \<open>\<^verbatim>\<open>unsafecell_get.rs\<close>\<close>

definition unsafecell_get_note :: "string \<Rightarrow> (string \<times> string) option" where
  "unsafecell_get_note path =
     (let is_sync = contains path ''SyncUnsafeCell'';
          cell_name = (if is_sync then ''SyncUnsafeCell'' else ''UnsafeCell'')
      in map_option (\<lambda>(fn_name, note). (cell_name @ ''::'' @ fn_name, note))
     (if ends_with path ''::raw_get''
      then Some (''raw_get'',
                 ''returns *mut T from a raw pointer to the cell '' @ em_dash @ '' no aliasing or '' @
                 ''validity checks; at most one &mut T may exist at a time; reads '' @
                 ''and writes through separate pointers without synchronization are '' @
                 ''data races (UB) (nightly: #![feature(sync_unsafe_cell)])'')
      else if ends_with path ''::get_mut'' \<and> is_sync
      then Some (''get_mut'',
                 ''returns &mut T from &mut SyncUnsafeCell<T>; the exclusive borrow prevents '' @
                 ''concurrent access through the SyncUnsafeCell but any outstanding raw '' @
                 ''pointers obtained from earlier get()/raw_get() calls that alias this memory '' @
                 ''still cause UB; ensure no such aliasing pointers are live '' @
                 ''(nightly: #![feature(sync_unsafe_cell)])'')
      else if ends_with path ''::get''
      then let extra =
             (if is_sync
              then ''SyncUnsafeCell implements Sync so get() may be called from multiple '' @
                   ''threads '' @ em_dash @ '' synchronization is entirely the caller's responsibility '' @
                   ''(nightly: #![feature(sync_unsafe_cell)])''
              else ''prefer Cell/RefCell/Mutex unless direct pointer access is necessary'')
           in Some (''get'',
                 ''returns *mut T, bypassing the borrow checker '' @ em_dash @ '' at most one &mut T '' @
                 ''may be active at a time; unsynchronized concurrent reads+writes are '' @
                 ''data races (UB); '' @ extra)
      else None))"

definition unsafecell_get_at :: "call_site \<Rightarrow> finding list" where
  "unsafecell_get_at c =
     (let path = site_path c;
          is_cell = contains path ''UnsafeCell'' \<or> contains path ''SyncUnsafeCell''
      in if \<not> is_cell then []
         else case unsafecell_get_note path of
           None \<Rightarrow> []
         | Some (fn_name, note) \<Rightarrow> warning ''unsafecell_get'' c (named_note fn_name note))"

abbreviation UnsafeCellGet :: checker where
  "UnsafeCellGet \<equiv> call_checker unsafecell_get_at"

subsection \<open>\<^verbatim>\<open>cstring_as_ptr.rs\<close>\<close>

definition cstring_as_ptr_at :: "call_site \<Rightarrow> finding list" where
  "cstring_as_ptr_at c =
     (let path = site_path c in
      let found =
             (if ends_with path ''CString::as_ptr''
              then Some (''CString::as_ptr'',
                         ''pointer is only valid while the CString is alive; if called on a '' @
                         ''temporary (`CString::new(...).unwrap().as_ptr()`), the CString is '' @
                         ''dropped at the semicolon and the pointer is immediately dangling'')
              else if ends_with path ''CString::from_vec_unchecked''
              then Some (''CString::from_vec_unchecked'',
                         ''bytes must not contain interior nul bytes; if they do, C functions '' @
                         ''receiving the pointer will stop at the first nul, causing truncation '' @
                         ''or security-relevant null-byte injection (e.g. in path construction); '' @
                         ''use `CString::new` for the checked version'')
              else if ends_with path ''CString::from_vec_with_nul_unchecked''
              then Some (''CString::from_vec_with_nul_unchecked'',
                         ''bytes must end with exactly one nul byte and contain no interior nuls; '' @
                         ''violating either condition causes C callers to truncate or overflow; '' @
                         ''use `CString::from_vec_with_nul` for the checked version (returns Result)'')
              else None)
      in case found of
           None \<Rightarrow> []
         | Some (fn_name, note) \<Rightarrow>
             warning ''cstring_as_ptr'' c (named_note fn_name note))"

abbreviation CStringAsPtr :: checker where
  "CStringAsPtr \<equiv> call_checker cstring_as_ptr_at"

subsection \<open>\<^verbatim>\<open>cstring_from_vec_unchecked.rs\<close>\<close>

definition cstring_from_vec_unchecked_at :: "call_site \<Rightarrow> finding list" where
  "cstring_from_vec_unchecked_at c =
     (let path = site_path c in
      let found =
             (if ends_with path ''CString::from_vec_unchecked''
              then Some (''CString::from_vec_unchecked'',
                         ''the byte vector must contain no interior nul bytes (0x00); any embedded '' @
                         ''nul will silently truncate the string when passed to C APIs, causing '' @
                         ''logic errors or path-traversal vulnerabilities; use `CString::new` for '' @
                         ''the checked alternative'')
              else if ends_with path ''CString::from_vec_with_nul_unchecked''
              then Some (''CString::from_vec_with_nul_unchecked'',
                         ''the vector must end with exactly one 0x00 byte and have no interior nuls; '' @
                         ''missing or misplaced terminator produces a `CString` that violates C-string '' @
                         ''invariants, causing UB in any C API that reads until the first nul; '' @
                         ''use `CString::from_vec_with_nul` for the checked alternative'')
              else None)
      in case found of
           None \<Rightarrow> []
         | Some (fn_name, note) \<Rightarrow>
             warning ''cstring_from_vec_unchecked'' c (named_note fn_name note))"

abbreviation CStringFromVecUnchecked :: checker where
  "CStringFromVecUnchecked \<equiv> call_checker cstring_from_vec_unchecked_at"

subsection \<open>\<^verbatim>\<open>fast_float_arith.rs\<close>\<close>

definition fast_float_arith_at :: "call_site \<Rightarrow> finding list" where
  "fast_float_arith_at c =
     (let path = site_path c in
      let found =
             (if ends_with path ''fadd_fast''
              then Some (''fadd_fast'',
                         ''both operands must be finite and non-NaN; uses LLVM `fast` flags '' @
                         ''(nnan + ninf + nsz), allowing the optimizer to assume finite results; '' @
                         ''NaN or Inf inputs are UB (nightly `core_intrinsics`)'')
              else if ends_with path ''fsub_fast''
              then Some (''fsub_fast'',
                         ''both operands must be finite and non-NaN; the optimizer may assume '' @
                         ''the result is never '' @ plus_minus @ ''Inf or NaN; UB if either operand violates this '' @
                         ''(nightly `core_intrinsics`)'')
              else if ends_with path ''fmul_fast''
              then Some (''fmul_fast'',
                         ''both operands must be finite and non-NaN; multiplicative overflow to '' @ plus_minus @ ''Inf '' @
                         ''is UB because the optimizer assumes finite results '' @
                         ''(nightly `core_intrinsics`)'')
              else if ends_with path ''fdiv_fast''
              then Some (''fdiv_fast'',
                         ''both operands must be finite and non-NaN, divisor must be non-zero; '' @
                         ''a zero divisor produces '' @ plus_minus @ ''Inf which is UB under the `ninf` assumption; '' @
                         ''the optimizer may miscompile surrounding code on this assumption '' @
                         ''(nightly `core_intrinsics`)'')
              else if ends_with path ''frem_fast''
              then Some (''frem_fast'',
                         ''both operands must be finite and non-NaN, divisor must be non-zero; '' @
                         ''`rem` of a zero divisor is NaN which violates the `nnan` assumption '' @ em_dash @ '' '' @
                         ''UB (nightly `core_intrinsics`)'')
              else None)
      in case found of
           None \<Rightarrow> []
         | Some (fn_name, note) \<Rightarrow>
             warning ''fast_float_arith'' c (named_note fn_name note))"

abbreviation FastFloatArith :: checker where
  "FastFloatArith \<equiv> call_checker fast_float_arith_at"

subsection \<open>\<^verbatim>\<open>mem_size_of_val_raw.rs\<close>\<close>

definition mem_size_of_val_raw_at :: "call_site \<Rightarrow> finding list" where
  "mem_size_of_val_raw_at c =
     (let path = site_path c in
      let found =
             (if ends_with path ''size_of_val_raw''
              then Some (''mem::size_of_val_raw'',
                         ''pointer must be non-null; for fat pointers (slices, dyn Trait), '' @
                         ''the metadata must be valid '' @ em_dash @ '' invalid slice length or wrong vtable '' @
                         ''is UB; prefer mem::size_of_val(&*ptr) when the value is accessible'')
              else if ends_with path ''align_of_val_raw''
              then Some (''mem::align_of_val_raw'',
                         ''pointer must be non-null; for fat pointers (slices, dyn Trait), '' @
                         ''the metadata must be valid '' @ em_dash @ '' invalid slice length or wrong vtable '' @
                         ''is UB; prefer mem::align_of_val(&*ptr) when the value is accessible'')
              else None)
      in case found of
           None \<Rightarrow> []
         | Some (fn_name, note) \<Rightarrow>
             warning ''mem_size_of_val_raw'' c (named_note fn_name note))"

abbreviation MemSizeOfValRaw :: checker where
  "MemSizeOfValRaw \<equiv> call_checker mem_size_of_val_raw_at"

subsection \<open>\<^verbatim>\<open>ptr_provenance.rs\<close>\<close>

definition ptr_provenance_at :: "call_site \<Rightarrow> finding list" where
  "ptr_provenance_at c =
     (let path = site_path c in
      let found =
             (if ends_with path ''ptr::with_exposed_provenance_mut''
              then Some (''ptr::with_exposed_provenance_mut'',
                         ''address must have been obtained via `ptr::expose_provenance` on a '' @
                         ''live, valid *mut T; using an arbitrary integer or a non-exposed '' @
                         ''pointer address is immediate UB'')
              else if ends_with path ''ptr::with_exposed_provenance''
              then Some (''ptr::with_exposed_provenance'',
                         ''address must have been obtained via `ptr::expose_provenance` on a '' @
                         ''live, valid *const T; using an arbitrary integer or a non-exposed '' @
                         ''pointer address is immediate UB'')
              else None)
      in case found of
           None \<Rightarrow> []
         | Some (fn_name, note) \<Rightarrow>
             warning ''ptr_provenance'' c (named_note fn_name note))"

abbreviation PtrProvenance :: checker where
  "PtrProvenance \<equiv> call_checker ptr_provenance_at"

subsection \<open>\<^verbatim>\<open>simd_unchecked.rs\<close>\<close>

definition simd_unchecked_at :: "call_site \<Rightarrow> finding list" where
  "simd_unchecked_at c =
     (let path = site_path c in
      let found =
             (if ends_with path ''::gather_select_unchecked'' \<and> contains path ''simd''
              then Some (''Simd::gather_select_unchecked'',
                         ''every active lane index (where enable[i] is true) must be < slice.len(); '' @
                         ''out-of-bounds active index reads arbitrary memory (UB); '' @
                         ''use Simd::gather_or for the bounds-checked version'')
              else if ends_with path ''::scatter_select_unchecked'' \<and> contains path ''simd''
              then Some (''Simd::scatter_select_unchecked'',
                         ''every active lane index (where enable[i] is true) must be < slice.len() '' @
                         ''and all active indices must be unique (aliased writes are UB); '' @
                         ''use Simd::scatter for the bounds-checked version'')
              else if ends_with path ''::load_select_unchecked'' \<and> contains path ''simd''
              then Some (''Simd::load_select_unchecked'',
                         ''for every enabled lane i, lane i is read from slice[i]; i must be < '' @
                         ''slice.len() for all active lanes '' @ em_dash @ '' out-of-bounds reads arbitrary memory (UB); '' @
                         ''use Simd::load_select for the bounds-checked version'')
              else if ends_with path ''::store_select_unchecked'' \<and> contains path ''simd''
              then Some (''Simd::store_select_unchecked'',
                         ''for every enabled lane i, lane i is written to slice[i]; i must be < '' @
                         ''slice.len() for all active lanes '' @ em_dash @ '' out-of-bounds writes arbitrary memory (UB); '' @
                         ''use Simd::store_select for the bounds-checked version'')
              else if ends_with path ''::gather_ptr'' \<and> contains path ''simd''
              then Some (''Simd::gather_ptr'',
                         ''every pointer lane must be non-null, properly aligned for T, and valid '' @
                         ''for a read of size_of::<T>() bytes; a dangling or unaligned pointer in any '' @
                         ''lane is immediate UB'')
              else if ends_with path ''::gather_select_ptr'' \<and> contains path ''simd''
              then Some (''Simd::gather_select_ptr'',
                         ''every active (mask=true) pointer lane must be non-null, properly aligned for T, '' @
                         ''and valid for a read; inactive lanes read from the fallback '' @ em_dash @ '' only the active '' @
                         ''pointers need validity'')
              else if ends_with path ''::load_select_ptr'' \<and> contains path ''simd''
              then Some (''Simd::load_select_ptr'',
                         ''the base pointer must be non-null, properly aligned for T, and valid for '' @
                         ''lane_count reads; for inactive lanes the fallback is used '' @ em_dash @ '' only the active '' @
                         ''lane positions within the array need to be valid'')
              else if ends_with path ''::scatter_ptr'' \<and> contains path ''simd''
              then Some (''Simd::scatter_ptr'',
                         ''every pointer lane must be non-null, properly aligned for T, valid for '' @
                         ''writes, and all destination pointers must be distinct (aliased mutable '' @
                         ''writes to the same address are UB)'')
              else if ends_with path ''::scatter_select_ptr'' \<and> contains path ''simd''
              then Some (''Simd::scatter_select_ptr'',
                         ''every active (mask=true) pointer lane must be non-null, properly aligned for T, '' @
                         ''valid for writes, and all active destination pointers must be distinct; '' @
                         ''inactive lanes are ignored'')
              else if ends_with path ''::set_unchecked'' \<and> contains path ''Mask''
              then Some (''Mask::set_unchecked'',
                         ''index must be < mask.len() (the number of lanes); an out-of-bounds '' @
                         ''index writes past the end of the mask's internal storage '' @ em_dash @ '' immediate UB; '' @
                         ''use Mask::set (bounds-checked, panics on OOB) instead'')
              else if ends_with path ''::test_unchecked'' \<and> contains path ''Mask''
              then Some (''Mask::test_unchecked'',
                         ''index must be < mask.len() (the number of lanes); an out-of-bounds '' @
                         ''index reads past the end of the mask's internal storage '' @ em_dash @ '' immediate UB; '' @
                         ''use Mask::test (bounds-checked, panics on OOB) instead'')
              else if ends_with path ''::from_simd_unchecked'' \<and> contains path ''Mask''
              then Some (''Mask::from_simd_unchecked'',
                         ''every lane in the source Simd must be exactly 0 (false) or -1/all-bits-set '' @
                         ''(true); any other value produces an invalid mask '' @ em_dash @ '' subsequent operations that '' @
                         ''read this mask may miscompile or produce wrong results'')
              else None)
      in case found of
           None \<Rightarrow> []
         | Some (fn_name, note) \<Rightarrow>
             warning ''simd_unchecked'' c (named_note fn_name note))"

abbreviation SimdUnchecked :: checker where
  "SimdUnchecked \<equiv> call_checker simd_unchecked_at"

subsection \<open>\<^verbatim>\<open>slice_align_to.rs\<close>\<close>

definition slice_align_to_at :: "call_site \<Rightarrow> finding list" where
  "slice_align_to_at c =
     (let path = site_path c in
      let found =
             (if ends_with path ''::align_to_mut'' \<and> contains path ''slice''
              then Some (''align_to_mut'',
                         ''the middle slice is a mutable transmutation of the source bytes to '' @
                         ''the target type; every bit pattern must be a valid instance of the '' @
                         ''target type (bool/char/enum/NonNull have restricted bit patterns); '' @
                         ''no concurrent mutable aliases through prefix/suffix are permitted'')
              else if ends_with path ''::align_to'' \<and> contains path ''slice''
              then Some (''align_to'',
                         ''the middle slice is a transmutation of the source bytes to the target '' @
                         ''type; every bit pattern must be a valid instance of the target type '' @
                         ''(bool/char/enum/NonNull have restricted bit patterns); alignment is '' @
                         ''handled but type validity is not checked'')
              else None)
      in case found of
           None \<Rightarrow> []
         | Some (fn_name, note) \<Rightarrow>
             warning ''slice_align_to'' c (named_note fn_name note))"

abbreviation SliceAlignTo :: checker where
  "SliceAlignTo \<equiv> call_checker slice_align_to_at"

subsection \<open>\<^verbatim>\<open>slice_chunks_unchecked.rs\<close>\<close>

definition slice_chunks_unchecked_at :: "call_site \<Rightarrow> finding list" where
  "slice_chunks_unchecked_at c =
     (let path = site_path c in
      let found =
             (if ends_with path ''as_chunks_unchecked_mut''
              then Some (''as_chunks_unchecked_mut'',
                         ''self.len() must be an exact multiple of N; if not, the last chunk reads '' @
                         ''past the allocation (OOB write UB); no other reference may exist during '' @
                         ''the mutable borrow '' @ em_dash @ '' use `as_chunks_mut` for the safe checked version'')
              else if ends_with path ''as_chunks_unchecked''
              then Some (''as_chunks_unchecked'',
                         ''self.len() must be an exact multiple of N; if not, the last chunk '' @
                         ''extends past the end of the allocation (OOB read UB); '' @
                         ''use `as_chunks` or `array_chunks` for the safe alternatives'')
              else None)
      in case found of
           None \<Rightarrow> []
         | Some (fn_name, note) \<Rightarrow>
             warning ''slice_chunks_unchecked'' c (named_note fn_name note))"

abbreviation SliceChunksUnchecked :: checker where
  "SliceChunksUnchecked \<equiv> call_checker slice_chunks_unchecked_at"

subsection \<open>\<^verbatim>\<open>str_mutation.rs\<close>\<close>

definition str_mutation_at :: "call_site \<Rightarrow> finding list" where
  "str_mutation_at c =
     (let path = site_path c in
      let found =
             (if ends_with path ''::as_bytes_mut''
              then Some (''as_bytes_mut'',
                         ''all written bytes must form valid UTF-8 when the borrow ends; '' @
                         ''truncating a multi-byte codepoint or writing non-UTF-8 bytes is UB'')
              else if ends_with path ''String::as_mut_vec'' \<or> ends_with path ''::as_mut_vec''
              then Some (''as_mut_vec'',
                         ''the underlying Vec<u8> must contain valid UTF-8 at all times; '' @
                         ''modifying length/capacity to violate the UTF-8 invariant is UB'')
              else None)
      in case found of
           None \<Rightarrow> []
         | Some (fn_name, note) \<Rightarrow>
             warning ''str_mutation'' c (named_note fn_name note))"

abbreviation StrMutation :: checker where
  "StrMutation \<equiv> call_checker str_mutation_at"

subsection \<open>\<^verbatim>\<open>unwrap_unchecked.rs\<close>\<close>

definition unwrap_unchecked_at :: "call_site \<Rightarrow> finding list" where
  "unwrap_unchecked_at c =
     (let path = site_path c in
      let found =
             (if ends_with path ''Option::<T>::unwrap_unchecked'' \<or>
                      ends_with path ''Option::unwrap_unchecked''
              then Some (''Option::unwrap_unchecked'',
                         ''UB if called on None; use unwrap() or expect() if the None case '' @
                         ''is not provably impossible'')
              else if ends_with path ''Result::<T, E>::unwrap_unchecked'' \<or>
                      ends_with path ''Result::unwrap_unchecked''
              then Some (''Result::unwrap_unchecked'',
                         ''UB if called on Err; use unwrap() or expect() if Err is not '' @
                         ''provably impossible'')
              else if ends_with path ''Result::<T, E>::unwrap_err_unchecked'' \<or>
                      ends_with path ''Result::unwrap_err_unchecked''
              then Some (''Result::unwrap_err_unchecked'',
                         ''UB if called on Ok; use unwrap_err() if Ok is not provably impossible'')
              else None)
      in case found of
           None \<Rightarrow> []
         | Some (fn_name, note) \<Rightarrow>
             warning ''unwrap_unchecked'' c (named_note fn_name note))"

abbreviation UnwrapUnchecked :: checker where
  "UnwrapUnchecked \<equiv> call_checker unwrap_unchecked_at"

subsection \<open>\<^verbatim>\<open>cstr_from_bytes_unchecked.rs\<close>\<close>

definition cstr_from_bytes_unchecked_at :: "call_site \<Rightarrow> finding list" where
  "cstr_from_bytes_unchecked_at c =
     (let path = site_path c in
      if \<not> ends_with path ''CStr::from_bytes_with_nul_unchecked'' then []
      else warning ''cstr_from_bytes_unchecked'' c
       (''`CStr::from_bytes_with_nul_unchecked` '' @ em_dash @ '' bytes must end with exactly '' @
        ''one '' @ [CHR 0x5C] @ ''0 byte and contain no interior nuls; missing terminator causes '' @
        ''buffer overread, interior nuls silently truncate C strings; '' @
        ''use `CStr::from_bytes_with_nul` (returns Result) instead''))"

abbreviation CStrFromBytesUnchecked :: checker where
  "CStrFromBytesUnchecked \<equiv> call_checker cstr_from_bytes_unchecked_at"

subsection \<open>\<^verbatim>\<open>float_to_int_unchecked.rs\<close>\<close>

definition float_to_int_unchecked_at :: "call_site \<Rightarrow> finding list" where
  "float_to_int_unchecked_at c =
     (let path = site_path c in
      if \<not> contains path ''to_int_unchecked'' then []
      else warning ''float_to_int_unchecked'' c
       (''`to_int_unchecked` '' @ em_dash @ '' value must be finite (not NaN, not infinite) and '' @
        ''fit within the target integer type's range when truncated toward zero; '' @
        ''NaN and out-of-range values are immediate UB''))"

abbreviation FloatToIntUnchecked :: checker where
  "FloatToIntUnchecked \<equiv> call_checker float_to_int_unchecked_at"

subsection \<open>\<^verbatim>\<open>mem_uninitialized.rs\<close>\<close>

definition mem_uninitialized_at :: "call_site \<Rightarrow> finding list" where
  "mem_uninitialized_at c =
     (let path = site_path c in
      if \<not> ends_with path ''mem::uninitialized'' then []
      else warning ''mem_uninitialized'' c
       (''`mem::uninitialized()` is immediately undefined behaviour for most types. '' @
        ''Replace with `MaybeUninit::uninit()` and explicit initialization.''))"

abbreviation MemUninitialized :: checker where
  "MemUninitialized \<equiv> call_checker mem_uninitialized_at"

subsection \<open>\<^verbatim>\<open>refcell_unsafe.rs\<close>\<close>

definition refcell_unsafe_at :: "call_site \<Rightarrow> finding list" where
  "refcell_unsafe_at c =
     (let path = site_path c in
      if \<not> contains path ''RefCell'' \<or> \<not> ends_with path ''try_borrow_unguarded'' then []
      else warning ''refcell_unsafe'' c
       (''`RefCell::try_borrow_unguarded` '' @ em_dash @ '' returns &T without a borrow guard; '' @
        ''no mutable borrow (borrow_mut) may be created while this reference '' @
        ''is alive; simultaneous mutable borrow is immediate UB; '' @
        ''use `RefCell::borrow()` for the safe guarded version''))"

abbreviation RefCellUnsafe :: checker where
  "RefCellUnsafe \<equiv> call_checker refcell_unsafe_at"

subsection \<open>\<^verbatim>\<open>thread_spawn_unchecked.rs\<close>\<close>

definition thread_spawn_unchecked_at :: "call_site \<Rightarrow> finding list" where
  "thread_spawn_unchecked_at c =
     (let path = site_path c in
      if \<not> ends_with path ''Builder::spawn_unchecked'' then []
      else warning ''thread_spawn_unchecked'' c
       (''`Builder::spawn_unchecked` '' @ em_dash @ '' all references captured by the closure '' @
        ''must outlive the thread; the parent must not drop borrowed data until '' @
        ''the thread exits (including on panic paths); prefer `thread::scope`''))"

abbreviation ThreadSpawnUnchecked :: checker where
  "ThreadSpawnUnchecked \<equiv> call_checker thread_spawn_unchecked_at"

subsection \<open>\<^verbatim>\<open>va_list.rs\<close>\<close>

definition va_list_at :: "call_site \<Rightarrow> finding list" where
  "va_list_at c =
     (let path = site_path c in
      if \<not> contains path ''VaList'' \<or> \<not> contains path ''next_arg'' then []
      else warning ''va_list'' c
       (''`VaList::next_arg` '' @ em_dash @ '' the type parameter T must exactly match '' @
        ''the type of the next argument as passed by the caller (modulo '' @
        ''C default promotion: i8/i16 '' @ right_arrow @ '' i32, f32 '' @ right_arrow @ '' f64); a type mismatch '' @
        ''reinterprets raw bytes as T (UB); calling past the last argument '' @
        ''reads indeterminate memory (nightly feature `c_variadic`)''))"

abbreviation VaListNextArg :: checker where
  "VaListNextArg \<equiv> call_checker va_list_at"

subsection \<open>\<^verbatim>\<open>layout_for_value_raw.rs\<close>\<close>

definition layout_for_value_raw_at :: "call_site \<Rightarrow> finding list" where
  "layout_for_value_raw_at c =
     (let path = site_path c in
      let found =
             (if ends_with path ''Layout::for_value_raw''
              then Some (''Layout::for_value_raw'')
              else if ends_with path ''mem::size_of_val_raw''
              then Some (''mem::size_of_val_raw'')
              else if ends_with path ''mem::align_of_val_raw''
              then Some (''mem::align_of_val_raw'')
              else None)
      in case found of
           None \<Rightarrow> []
         | Some fn_name \<Rightarrow>
             warning ''layout_for_value_raw'' c
               (''`'' @ fn_name @ ''` '' @ em_dash @ '' the pointer's metadata must be valid for the concrete '' @
                ''type (correct vtable for trait objects, correct length for slices); '' @
                ''invalid metadata produces wrong size/alignment and can corrupt allocations''))"

abbreviation LayoutForValueRaw :: checker where
  "LayoutForValueRaw \<equiv> call_checker layout_for_value_raw_at"

subsection \<open>\<^verbatim>\<open>pre_exec.rs\<close>\<close>

definition pre_exec_at :: "call_site \<Rightarrow> finding list" where
  "pre_exec_at c =
     (let path = site_path c in
      let found =
             (if ends_with path ''CommandExt::pre_exec''
              then Some (''CommandExt::pre_exec'')
              else if ends_with path ''CommandExt::before_exec''
              then Some (''CommandExt::before_exec (deprecated; use pre_exec)'')
              else None)
      in case found of
           None \<Rightarrow> []
         | Some fn_name \<Rightarrow>
             warning ''pre_exec'' c
               (''`'' @ fn_name @ ''` '' @ em_dash @ '' closure runs post-fork before exec; '' @
                ''ONLY async-signal-safe operations are allowed; '' @
                ''heap allocation, Rust I/O, and any locked resource will deadlock; '' @
                ''use CommandExt builder methods (uid, gid, etc.) instead where possible''))"

abbreviation PreExec :: checker where
  "PreExec \<equiv> call_checker pre_exec_at"

subsection \<open>\<^verbatim>\<open>from_bytes_unchecked.rs\<close>\<close>

definition from_bytes_unchecked_at :: "call_site \<Rightarrow> finding list" where
  "from_bytes_unchecked_at c =
     (let path = site_path c in
      if \<not> ends_with path ''::from_bytes_unchecked'' \<and>
           \<not> ends_with path ''::from_slice_unchecked'' \<and>
           \<not> ends_with path ''::from_slice_unchecked_mut'' \<and>
           \<not> ends_with path ''::from_raw_parts_unchecked'' \<and>
           \<not> ends_with path ''::from_raw_parts_unchecked_mut'' then []
      else warning ''from_bytes_unchecked'' c
       (''`'' @ path @ ''` '' @ em_dash @ '' bytes must be properly aligned for the target type, '' @
        ''fully initialized, and contain a valid bit pattern; misaligned or '' @
        ''invalid bytes are immediate UB; use the checked variant (returns '' @
        ''Result/Option) for untrusted data''))"

abbreviation FromBytesUnchecked :: checker where
  "FromBytesUnchecked \<equiv> call_checker from_bytes_unchecked_at"

subsection \<open>\<^verbatim>\<open>unreachable_unchecked.rs\<close>\<close>

definition unreachable_unchecked_at :: "call_site \<Rightarrow> finding list" where
  "unreachable_unchecked_at c =
     (let path = site_path c in
      if \<not> ends_with path ''hint::unreachable_unchecked'' then []
      else error_finding ''unreachable_unchecked'' c
       (''`hint::unreachable_unchecked` '' @ em_dash @ '' if this path is ever reached at '' @
        ''runtime, behaviour is undefined (no panic; LLVM may miscompile); '' @
        ''use `unreachable!()` unless the invariant is rigorously proven''))"

abbreviation UnreachableUnchecked :: checker where
  "UnreachableUnchecked \<equiv> call_checker unreachable_unchecked_at"

subsection \<open>\<^verbatim>\<open>atomic_ptr_arith.rs\<close>\<close>

definition atomic_ptr_arith_at :: "call_site \<Rightarrow> finding list" where
  "atomic_ptr_arith_at c =
     (let path = site_path c in
      let found =
             (if ends_with path ''fetch_ptr_add'' \<and> contains path ''Atomic''
              then Some (''AtomicPtr::fetch_ptr_add'',
                         ''atomically adds val*size_of::<T>() to the pointer; the result must remain '' @
                         ''within the same allocation (or one byte past its end) '' @ em_dash @ '' dereferencing an '' @
                         ''out-of-bounds result is UB; unit is T elements, not bytes'')
              else if ends_with path ''fetch_ptr_sub'' \<and> contains path ''Atomic''
              then Some (''AtomicPtr::fetch_ptr_sub'',
                         ''atomically subtracts val*size_of::<T>() from the pointer; result must not '' @
                         ''go before the start of the allocation '' @ em_dash @ '' dereferencing such a result is UB; '' @
                         ''unit is T elements, not bytes'')
              else None)
      in case found of
           None \<Rightarrow> []
         | Some (fn_name, note) \<Rightarrow>
             info ''atomic_ptr_arith'' c (named_note fn_name note))"

abbreviation AtomicPtrArith :: checker where
  "AtomicPtrArith \<equiv> call_checker atomic_ptr_arith_at"

subsection \<open>\<^verbatim>\<open>osstr_encoded_bytes.rs\<close>\<close>

definition osstr_encoded_bytes_at :: "call_site \<Rightarrow> finding list" where
  "osstr_encoded_bytes_at c =
     (let path = site_path c in
      if \<not> ends_with path ''::from_encoded_bytes_unchecked'' then []
      else let fn_name =
             (if contains path ''OsString''
              then (''OsString::from_encoded_bytes_unchecked'')
              else (''OsStr::from_encoded_bytes_unchecked''))
      in warning ''osstr_encoded_bytes'' c
          (''`'' @ fn_name @ ''` '' @ em_dash @ '' bytes must satisfy the platform encoding contract '' @
           ''(arbitrary bytes on Unix; WTF-8 on Windows); violating this on '' @
           ''Windows causes UB in any operation that assumes valid WTF-8; '' @
           ''prefer building via OsStr::new or OsString::from''))"

abbreviation OsStrEncodedBytes :: checker where
  "OsStrEncodedBytes \<equiv> call_checker osstr_encoded_bytes_at"

subsection \<open>\<^verbatim>\<open>mutex_assume_poisoned.rs\<close>\<close>

definition mutex_assume_poisoned_at :: "call_site \<Rightarrow> finding list" where
  "mutex_assume_poisoned_at c =
     (let path = site_path c in
      if \<not> ends_with path ''::clear_poison'' then []
      else let found =
             (if contains path ''RwLock''
              then Some (''RwLock'')
              else if contains path ''Mutex''
              then Some (''Mutex'')
              else None)
      in case found of
           None \<Rightarrow> []
         | Some container \<Rightarrow>
             info ''mutex_clear_poison'' c
               (''`'' @ container @ ''::clear_poison` '' @ em_dash @ '' clears the poison flag; subsequent lock() '' @
                ''callers will receive Ok(...) with no indication that the protected data '' @
                ''may be in an inconsistent state; verify or repair the data before clearing; '' @
                ''prefer `PoisonError::into_inner()` to access and inspect the data first''))"

abbreviation MutexAssumeUnpoisoned :: checker where
  "MutexAssumeUnpoisoned \<equiv> call_checker mutex_assume_poisoned_at"

subsection \<open>\<^verbatim>\<open>borrowed_cursor_advance.rs\<close>\<close>

definition borrowed_cursor_advance_at :: "call_site \<Rightarrow> finding list" where
  "borrowed_cursor_advance_at c =
     (let path = site_path c in
      if \<not> contains path ''BorrowedCursor'' then []
      else let found =
             (if ends_with path ''::advance''
              then Some (''`BorrowedCursor::advance(n)` '' @ em_dash @ '' the first `n` bytes of the cursor's '' @
                         ''unfilled region must be fully initialized before this call; advancing '' @
                         ''without writing exposes uninitialized bytes to the caller; '' @
                         ''`n` must also be <= self.capacity()'')
              else if ends_with path ''::set_init''
              then Some (''`BorrowedCursor::set_init()` '' @ em_dash @ '' marks the entire unfilled region as '' @
                         ''initialized; every byte must have been written before calling; '' @
                         ''if any byte is still uninitialized, readers of the buffer observe '' @
                         ''uninitialized memory (UB)'')
              else None)
      in case found of
           None \<Rightarrow> []
         | Some msg \<Rightarrow>
             warning ''borrowed_cursor_advance'' c msg)"

abbreviation BorrowedCursorAdvance :: checker where
  "BorrowedCursorAdvance \<equiv> call_checker borrowed_cursor_advance_at"

subsection \<open>\<^verbatim>\<open>arch_intrinsic.rs\<close>\<close>

definition arch_intrinsic_arch :: "string \<Rightarrow> string" where
  "arch_intrinsic_arch path =
     (if contains path ''x86_64'' \<or> contains path ''x86''
      then (''x86/x86_64'')
      else if contains path ''aarch64''
      then (''AArch64'')
      else if contains path ''arm''
      then (''ARM'')
      else if contains path ''wasm''
      then (''Wasm'')
      else if contains path ''riscv''
      then (''RISC-V'')
      else if contains path ''powerpc''
      then (''PowerPC'')
      else if contains path ''loongarch''
      then (''LoongArch'')
      else (''MIPS''))"

definition arch_intrinsic_at :: "call_site \<Rightarrow> finding list" where
  "arch_intrinsic_at c =
     (let path = site_path c in
      if \<not> contains path ''arch::x86'' \<and> \<not> contains path ''arch::aarch64'' \<and>
           \<not> contains path ''arch::arm'' \<and> \<not> contains path ''arch::wasm'' \<and>
           \<not> contains path ''arch::riscv'' \<and> \<not> contains path ''arch::mips'' \<and>
           \<not> contains path ''arch::powerpc'' \<and> \<not> contains path ''arch::loongarch'' then []
      else let fn_name = last_segment path
      in let arch = arch_intrinsic_arch path
         in warning ''arch_intrinsic'' c
             (''`'' @ fn_name @ ''` ('' @ arch @ '' intrinsic) '' @ em_dash @ '' requires the correct CPU feature to be '' @
              ''active (missing feature '' @ right_arrow @ '' SIGILL); pointer-based intrinsics require '' @
              ''correct alignment and valid memory; use `is_x86_feature_detected!()` '' @
              ''or `#[target_feature(enable)]` to guard''))"

abbreviation ArchIntrinsic :: checker where
  "ArchIntrinsic \<equiv> call_checker arch_intrinsic_at"

end
