(* ===== verification/Checkers_Crate_Audit.thy ===== *)
theory Checkers_Crate_Audit
  imports Call_Checkers
begin

text \<open>
  The checkers that report every call of a listed function of a third-party crate: what is
  reported depends on the path of the callee alone.
\<close>

subsection \<open>\<^verbatim>\<open>hashbrown_map_unchecked.rs\<close>\<close>

definition hashbrown_map_unchecked_at :: "call_site \<Rightarrow> finding list" where
  "hashbrown_map_unchecked_at c =
     (let path = site_path c in
      let found =
             (if ends_with path ''::insert_unique_unchecked'' \<and> contains path ''HashSet''
              then Some (''HashSet::insert_unique_unchecked'',
                         ''inserts without checking for duplicate values '' @ em_dash @ '' if the value is already '' @
                         ''present, the set contains two identical entries, violating uniqueness '' @
                         ''invariants; use insert() instead'')
              else if ends_with path ''::insert_unique_unchecked'' \<and> contains path ''HashMap''
              then Some (''HashMap::insert_unique_unchecked'',
                         ''inserts without checking for duplicate keys '' @ em_dash @ '' if the key already exists, '' @
                         ''two entries with the same key are created, causing future lookups to return '' @
                         ''either one (logical UB); use insert() or entry() instead'')
              else if ends_with path ''::insert_unique_unchecked''
              then Some (''insert_unique_unchecked'',
                         ''inserts without checking for duplicate keys or values '' @ em_dash @ '' if the entry already '' @
                         ''exists, two identical entries are created, violating the collection's '' @
                         ''uniqueness invariant; use the checked insert instead'')
              else if ends_with path ''::replace_key_unchecked''
              then Some (''OccupiedEntry::replace_key_unchecked'',
                         ''replaces the key without verifying that the new key hashes to the same '' @
                         ''bucket; if the new key's hash differs, the entry is now under the wrong '' @
                         ''bucket '' @ em_dash @ '' future lookups for the new key will not find it, and the old key '' @
                         ''is gone too (invisible ghost entry; invariant violation); only safe if '' @
                         ''old and new keys compare equal under the map's hasher'')
              else None)
      in case found of
           None \<Rightarrow> []
         | Some (fn_name, note) \<Rightarrow>
             warning ''hashbrown_map_unchecked'' c (named_note fn_name note))"

abbreviation HashbrownMapUnchecked :: checker where
  "HashbrownMapUnchecked \<equiv> call_checker hashbrown_map_unchecked_at"

subsection \<open>\<^verbatim>\<open>nalgebra_unchecked.rs\<close>\<close>

definition nalgebra_unchecked_at :: "call_site \<Rightarrow> finding list" where
  "nalgebra_unchecked_at c =
     (let path = site_path c in
      let found =
             (if ends_with path ''::matrix_mut_unchecked''
              then Some (''Rotation::matrix_mut_unchecked'',
                         ''direct mutable access bypasses the rotation invariant (orthogonal matrix, '' @
                         ''det = +1); modifying the matrix can silently corrupt all subsequent '' @
                         ''rotation operations (inverse, composition, point transformation)'')
              else if ends_with path ''::inverse_unchecked'' \<and> contains path ''Scale''
              then Some (''Scale::inverse_unchecked'',
                         ''all scale factors must be non-zero; a zero component produces '' @
                         ''`1/0 = infinity` for float types or a panic for integer-backed types; '' @
                         ''validate all components before calling'')
              else if ends_with path ''::from_slice_with_strides_unchecked''
              then Some (''MatrixView::from_slice_with_strides_unchecked'',
                         ''slice bounds and stride arithmetic are not checked; if any element '' @
                         ''address (start + row*rstride + col*cstride) falls outside the slice, '' @
                         ''the read is an out-of-bounds access (UB)'')
              else None)
      in case found of
           None \<Rightarrow> []
         | Some (fn_name, note) \<Rightarrow>
             warning ''nalgebra_unchecked'' c (named_note fn_name note))"

abbreviation NalgebraUnchecked :: checker where
  "NalgebraUnchecked \<equiv> call_checker nalgebra_unchecked_at"

subsection \<open>\<^verbatim>\<open>zerocopy_unchecked.rs\<close>\<close>

definition zerocopy_unchecked_at :: "call_site \<Rightarrow> finding list" where
  "zerocopy_unchecked_at c =
     (let path = site_path c in
      let found =
             (if ends_with path ''::deref_mut_unchecked''
              then Some (''Unalign::deref_mut_unchecked'',
                         ''creates &mut T without checking alignment; if the address is not aligned '' @
                         ''to align_of::<T>(), the reference is an unaligned mutable reference '' @ em_dash @ '' '' @
                         ''immediate UB on architectures that require aligned loads/stores; '' @
                         ''use Unalign::get_mut() '' @ right_arrow @ '' Option<&mut T> for a safe checked version'')
              else None)
      in case found of
           None \<Rightarrow> []
         | Some (fn_name, note) \<Rightarrow>
             warning ''zerocopy_unchecked'' c (named_note fn_name note))"

abbreviation ZerocopyUnchecked :: checker where
  "ZerocopyUnchecked \<equiv> call_checker zerocopy_unchecked_at"

subsection \<open>\<^verbatim>\<open>http_unchecked.rs\<close>\<close>

definition http_unchecked_at :: "call_site \<Rightarrow> finding list" where
  "http_unchecked_at c =
     (let path = site_path c in
      if \<not> ends_with path ''::from_maybe_shared_unchecked'' then []
      else warning ''http_unchecked'' c
       (''`HeaderValue::from_maybe_shared_unchecked` '' @ em_dash @ '' skips byte validation; '' @
        ''bytes outside visible ASCII or containing '' @ [CHR 0x5C] @ ''r'' @ [CHR 0x5C] @ ''n enable HTTP header '' @
        ''injection (CRLF injection / response splitting); in release builds the '' @
        ''debug-mode panic is silently absent; use from_bytes() or from_str() instead''))"

abbreviation HttpUnchecked :: checker where
  "HttpUnchecked \<equiv> call_checker http_unchecked_at"

subsection \<open>\<^verbatim>\<open>parking_lot_core_park.rs\<close>\<close>

definition parking_lot_core_park_at :: "call_site \<Rightarrow> finding list" where
  "parking_lot_core_park_at c =
     (let path = site_path c in
      if \<not> contains path ''parking_lot_core'' \<or> \<not> ends_with path ''::park'' then []
      else warning ''parking_lot_core_park'' c
       (''`parking_lot_core::park` '' @ em_dash @ '' all three closures (validate, '' @
        ''before_sleep, timed_out) must not panic, must not call any '' @
        ''parking_lot function, and validate/timed_out must not allocate '' @
        ''(they run with the internal queue lock held); violating these '' @
        ''constraints corrupts the parker state (deadlock or memory corruption)''))"

abbreviation ParkingLotCorePark :: checker where
  "ParkingLotCorePark \<equiv> call_checker parking_lot_core_park_at"

subsection \<open>\<^verbatim>\<open>time_tz_unchecked.rs\<close>\<close>

definition time_tz_unchecked_at :: "call_site \<Rightarrow> finding list" where
  "time_tz_unchecked_at c =
     (let path = site_path c in
      if \<not> ends_with path ''::refresh_tz_unchecked'' then []
      else warning ''time_tz_unchecked'' c
       (''`time::util::refresh_tz_unchecked` '' @ em_dash @ '' re-reads the system timezone '' @
        ''without platform soundness checks or thread synchronization; concurrent '' @
        ''local-time reads from other threads are a data race (UB); '' @
        ''use refresh_tz() '' @ right_arrow @ '' Option<()> which checks platform safety first''))"

abbreviation TimeTzUnchecked :: checker where
  "TimeTzUnchecked \<equiv> call_checker time_tz_unchecked_at"

subsection \<open>\<^verbatim>\<open>typed_arena_unchecked.rs\<close>\<close>

definition typed_arena_unchecked_at :: "call_site \<Rightarrow> finding list" where
  "typed_arena_unchecked_at c =
     (let path = site_path c in
      if \<not> contains path ''typed_arena'' \<or> \<not> ends_with path ''::alloc_uninitialized'' then []
      else warning ''typed_arena_unchecked'' c
       (''`Arena::alloc_uninitialized` '' @ em_dash @ '' allocates n elements of MaybeUninit<T>; '' @
        ''every element must be fully initialized before any read; reading from '' @
        ''uninitialized elements is UB; use alloc_extend(iter) or alloc(value) '' @
        ''for the safe alternatives''))"

abbreviation TypedArenaUnchecked :: checker where
  "TypedArenaUnchecked \<equiv> call_checker typed_arena_unchecked_at"

subsection \<open>\<^verbatim>\<open>yoke_replace_cart.rs\<close>\<close>

definition yoke_replace_cart_at :: "call_site \<Rightarrow> finding list" where
  "yoke_replace_cart_at c =
     (let path = site_path c in
      if \<not> ends_with path ''::replace_cart'' then []
      else warning ''yoke_replace_cart'' c
       (''`Yoke::replace_cart` '' @ em_dash @ '' the closure must transfer ownership of all '' @
        ''data the yokeable references into the new cart before the old cart is '' @
        ''dropped; any dangling interior reference after cart replacement is '' @
        ''use-after-free (immediate UB)''))"

abbreviation YokeReplaceCart :: checker where
  "YokeReplaceCart \<equiv> call_checker yoke_replace_cart_at"

subsection \<open>\<^verbatim>\<open>nix_mman.rs\<close>\<close>

definition nix_mman_at :: "call_site \<Rightarrow> finding list" where
  "nix_mman_at c =
     (let path = site_path c in
      if \<not> contains path ''nix'' \<or> \<not> contains path ''mman'' then []
      else let found =
             (if ends_with path ''::mmap''
              then Some (''nix::sys::mman::mmap'',
                         ''returned pointer must not alias any Rust reference; for file-backed '' @
                         ''mappings, fd must remain valid and compatible with prot for the '' @
                         ''mapping's lifetime; call munmap before the backing resource is freed'')
              else if ends_with path ''::mprotect''
              then Some (''nix::sys::mman::mprotect'',
                         ''addr must be page-aligned and within a live mapping; stripping '' @
                         ''PROT_READ/PROT_WRITE while a live Rust reference covers the range '' @
                         ''is immediate UB (dangling reference on next access)'')
              else if ends_with path ''::munmap''
              then Some (''nix::sys::mman::munmap'',
                         ''all references and pointers into the unmapped range become dangling '' @
                         ''after this call; any subsequent access is use-after-free; ensure no '' @
                         ''live Rust borrows cover the range at the time of unmap'')
              else if ends_with path ''::mlock''
              then Some (''nix::sys::mman::mlock'',
                         ''addr and len must correspond to a valid live mapping; '' @
                         ''locking pages outside an active mapping is UB'')
              else if ends_with path ''::munlock''
              then Some (''nix::sys::mman::munlock'',
                         ''addr and len must correspond to a previously locked live mapping; '' @
                         ''unlocking pages that were not locked or are already freed is UB'')
              else if ends_with path ''::madvise''
              then Some (''nix::sys::mman::madvise'',
                         ''addr must be within a valid mapping; MADV_DONTNEED on a range '' @
                         ''covered by live Rust references effectively frees the pages '' @ em_dash @ '' '' @
                         ''subsequent accesses are reads from zero-filled or recycled pages'')
              else None)
      in case found of
           None \<Rightarrow> []
         | Some (fn_name, note) \<Rightarrow>
             warning ''nix_mman'' c (named_note fn_name note))"

abbreviation NixMman :: checker where
  "NixMman \<equiv> call_checker nix_mman_at"

subsection \<open>\<^verbatim>\<open>psm_unsafe.rs\<close>\<close>

definition psm_unsafe_at :: "call_site \<Rightarrow> finding list" where
  "psm_unsafe_at c =
     (let path = site_path c in
      if \<not> starts_with path ''psm::'' then []
      else let found =
             (if path = ''psm::on_stack''
              then Some (''psm::on_stack'',
                         ''executes `callback` on a caller-provided stack region; `base` must point '' @
                         ''to a valid, exclusively-owned, properly-aligned buffer of at least `size` '' @
                         ''bytes; undersized or misaligned stacks silently corrupt adjacent memory; '' @
                         ''stack overflow within the callback is undetectable and causes UB'')
              else if path = ''psm::replace_stack''
              then Some (''psm::replace_stack'',
                         ''switches to the provided stack and never returns '' @ em_dash @ '' all RAII destructors '' @
                         ''on the original stack are skipped (leaking owned resources); `callback` '' @
                         ''must not return (doing so is UB); `base` must point to a valid, '' @
                         ''exclusively-owned, aligned buffer of at least `size` bytes'')
              else None)
      in case found of
           None \<Rightarrow> []
         | Some (fn_name, note) \<Rightarrow>
             warning ''psm_unsafe'' c (named_note fn_name note))"

abbreviation PsmUnsafe :: checker where
  "PsmUnsafe \<equiv> call_checker psm_unsafe_at"

subsection \<open>\<^verbatim>\<open>rustix_unsafe.rs\<close>\<close>

definition rustix_unsafe_at :: "call_site \<Rightarrow> finding list" where
  "rustix_unsafe_at c =
     (let path = site_path c in
      if \<not> starts_with path ''rustix::'' then []
      else let found =
             (if ends_with path ''::exit_thread'' \<and> contains path ''runtime''
              then Some (''rustix::runtime::exit_thread'',
                         ''terminates the current thread via raw syscall '' @ em_dash @ '' all Rust destructors, '' @
                         ''Drop implementations, and RAII guards are bypassed; mutexes held at '' @
                         ''exit remain locked, causing deadlock for any other thread that tries '' @
                         ''to acquire them; heap allocations and file handles leak'')
              else if ends_with path ''::kernel_fork'' \<and> contains path ''runtime''
              then Some (''rustix::runtime::kernel_fork'',
                         ''raw fork without libc: in a multi-threaded parent only the calling thread '' @
                         ''survives in the child; other threads' mutexes are left locked '' @ em_dash @ '' any '' @
                         ''subsequent malloc, I/O, or locking in the child may deadlock or corrupt state; '' @
                         ''always exec immediately after fork in the child path'')
              else if (ends_with path ''::execve'' \<or> ends_with path ''::execveat'') \<and>
                      contains path ''runtime''
              then Some (''rustix::runtime::execve'',
                         ''replaces the current process image without running any Rust destructors or '' @
                         ''RAII cleanup; argv and envp must be valid null-terminated arrays of valid C '' @
                         ''strings valid at the time of the call; the process state is fully replaced'')
              else if ends_with path ''::kernel_brk'' \<and> contains path ''runtime''
              then Some (''rustix::runtime::kernel_brk'',
                         ''moves the data-segment break via brk(2); moving it below existing malloc '' @
                         ''allocations causes the heap allocator to access unmapped memory '' @
                         ''(heap corruption, immediate UB); only safe when no dynamic allocations exist'')
              else if (ends_with path ''::set_thread_area'' \<or> ends_with path ''::arm_set_tls'' \<or>
                      ends_with path ''::set_fs'') \<and> contains path ''runtime''
              then Some (''rustix::runtime::set_tls'',
                         ''overwrites the TLS base register/segment for the current thread; if the new '' @
                         ''base is incorrect, every thread-local variable access (including the Rust '' @
                         ''stdlib's own TLS) is immediately invalid (wrong addresses, UB); use only '' @
                         ''when implementing a custom TLS scheme'')
              else if ends_with path ''::tkill'' \<and> contains path ''runtime''
              then Some (''rustix::runtime::tkill'',
                         ''sends a signal to a thread by TID; if the TID is stale (thread exited and '' @
                         ''TID was reused by a new thread), the signal is delivered to the wrong '' @
                         ''thread '' @ em_dash @ '' unexpected signal delivery is UB if the handler is not async-signal-safe'')
              else if ends_with path ''::kernel_sigaction'' \<and> contains path ''runtime''
              then Some (''rustix::runtime::kernel_sigaction'',
                         ''installs a signal handler via raw sigaction(2) without libc wrapping; '' @
                         ''the handler must only call async-signal-safe functions; calling malloc, '' @
                         ''locking a mutex, or using stdio inside the handler is UB; the previous '' @
                         ''action stored in `old_action` may itself be unsafe to call'')
              else if ends_with path ''rustix::io::close'' \<or> path = ''rustix::io::close''
              then Some (''rustix::io::close'',
                         ''closes a raw file descriptor without ownership checks; if this fd is still '' @
                         ''owned by an OwnedFd, File, TcpStream, or any other Rust I/O type, the '' @
                         ''object will later close an already-closed or reused fd (double-close / '' @
                         ''wrong-fd close, UB); use OwnedFd's drop to manage fd lifetime safely'')
              else if (ends_with path ''::take_stdin'' \<or> ends_with path ''::take_stdout'' \<or>
                      ends_with path ''::take_stderr'') \<and> contains path ''stdio''
              then Some (''rustix::stdio::take_stdio'',
                         ''transfers ownership of a standard I/O file descriptor; subsequent calls '' @
                         ''to print!, eprintln!, or any Rust code that reads stdin now operate on a '' @
                         ''potentially-closed or reused fd; the caller must not allow the returned '' @
                         ''OwnedFd to drop unless all other users of that stdio stream have finished'')
              else if ends_with path ''::vmsplice'' \<and> contains path ''pipe''
              then Some (''rustix::pipe::vmsplice'',
                         ''the kernel reads from the described user-space memory pages at an '' @
                         ''unspecified future time after vmsplice returns; if the memory is freed, '' @
                         ''reallocated, or mutated before the kernel finishes reading, the pipe '' @
                         ''contains stale or garbage data (information leak, potential UB)'')
              else if (ends_with path ''::mmap'' \<or> ends_with path ''::mmap_anonymous'') \<and>
                      contains path ''mm''
              then Some (''rustix::mm::mmap'',
                         ''the returned region must not alias any existing Rust reference; for '' @
                         ''file-backed mappings, the fd must remain valid and must be opened with '' @
                         ''permissions consistent with prot; the mapping must be explicitly '' @
                         ''munmap'd before the backing resource is freed'')
              else if ends_with path ''::munmap'' \<and> contains path ''mm''
              then Some (''rustix::mm::munmap'',
                         ''all pointers and references into the unmapped region become dangling '' @
                         ''after this call '' @ em_dash @ '' any subsequent access is use-after-free (UB); '' @
                         ''ensure no live Rust borrows cover the region at the time of unmap'')
              else if (ends_with path ''::mremap'' \<or> ends_with path ''::mremap_fixed'') \<and>
                      contains path ''mm''
              then Some (''rustix::mm::mremap'',
                         ''extends, shrinks, or moves a mapping; all existing pointers to the old '' @
                         ''range become dangling if the mapping was moved; mremap_fixed may silently '' @
                         ''unmap any mapping already at the target address'')
              else if ends_with path ''::madvise'' \<and> contains path ''mm''
              then Some (''rustix::mm::madvise'',
                         ''MADV_DONTNEED / MADV_FREE can reclaim or zero pages that are still pointed '' @
                         ''to by live Rust references '' @ em_dash @ '' subsequent reads through those references '' @
                         ''return zeros or stale data instead of the written values (UB); '' @
                         ''addr must be within a valid mapping'')
              else if ends_with path ''::msync'' \<and> contains path ''mm''
              then Some (''rustix::mm::msync'',
                         ''addr and len must refer to an active memory-mapped region; msync on '' @
                         ''unmapped or freed memory is UB (SIGSEGV or silent data corruption)'')
              else None)
      in case found of
           None \<Rightarrow> []
         | Some (fn_name, note) \<Rightarrow>
             warning ''rustix_unsafe'' c (named_note fn_name note))"

abbreviation RustixUnsafe :: checker where
  "RustixUnsafe \<equiv> call_checker rustix_unsafe_at"

subsection \<open>\<^verbatim>\<open>signal_hook_unsafe.rs\<close>\<close>

definition signal_hook_unsafe_at :: "call_site \<Rightarrow> finding list" where
  "signal_hook_unsafe_at c =
     (let path = site_path c in
      if \<not> starts_with path ''signal_hook_registry::'' then []
      else let found =
             (if path = ''signal_hook_registry::register''
              then Some (''signal_hook_registry::register'',
                         ''handler executes asynchronously inside any thread at any point; '' @
                         ''must only perform async-signal-safe operations: no heap allocation, '' @
                         ''no Rust I/O, no mutex locking, no panicking; use atomics or a '' @
                         ''self-pipe pattern to communicate with non-handler code'')
              else if path = ''signal_hook_registry::register_sigaction''
              then Some (''signal_hook_registry::register_sigaction'',
                         ''same async-signal-safety constraints as `register`; the `&siginfo_t` '' @
                         ''passed to the handler must not be stored or used after the handler returns'')
              else if path = ''signal_hook_registry::register_unchecked'' \<or>
                      path = ''signal_hook_registry::register_signal_unchecked''
              then Some (''signal_hook_registry::register_unchecked'',
                         ''same async-signal-safety constraints as `register`, plus: does not '' @
                         ''validate the signal number '' @ em_dash @ '' SIGKILL/SIGSTOP cannot be caught; '' @
                         ''SIGBUS/SIGSEGV/SIGFPE require SA_SIGINFO and special handler structure'')
              else None)
      in case found of
           None \<Rightarrow> []
         | Some (fn_name, note) \<Rightarrow>
             warning ''signal_hook_unsafe'' c (named_note fn_name note))"

abbreviation SignalHookUnsafe :: checker where
  "SignalHookUnsafe \<equiv> call_checker signal_hook_unsafe_at"

subsection \<open>\<^verbatim>\<open>socket2_unsafe.rs\<close>\<close>

definition socket2_unsafe_at :: "call_site \<Rightarrow> finding list" where
  "socket2_unsafe_at c =
     (let path = site_path c in
      if \<not> starts_with path ''socket2::'' then []
      else let found =
             (if path = ''socket2::SockAddr::try_init''
              then Some (''SockAddr::try_init'',
                         ''init closure must fully set ss_family, the appropriate address fields, '' @
                         ''and *len to the exact family struct size; partial initialization or wrong '' @
                         ''length causes connect/bind to misread address data or read beyond the buffer'')
              else if path = ''socket2::SockAddr::set_length''
              then Some (''SockAddr::set_length'',
                         ''overwrites the stored address length without validating it matches the '' @
                         ''family struct size in the buffer; too large reads past initialized data; '' @
                         ''too small truncates fields (e.g. IPv6 scope_id)'')
              else None)
      in case found of
           None \<Rightarrow> []
         | Some (fn_name, note) \<Rightarrow>
             warning ''socket2_unsafe'' c (named_note fn_name note))"

abbreviation Socket2Unsafe :: checker where
  "Socket2Unsafe \<equiv> call_checker socket2_unsafe_at"

subsection \<open>\<^verbatim>\<open>bitvec_unchecked.rs\<close>\<close>

definition bitvec_unchecked_at :: "call_site \<Rightarrow> finding list" where
  "bitvec_unchecked_at c =
     (let path = site_path c in
      if ends_with path ''::copy_within_unchecked''
      then warning ''bitvec_unchecked'' c
            (''`copy_within_unchecked` '' @ em_dash @ '' copies bits (or elements) within the '' @
             ''slice without verifying that src and dest ranges are in-bounds; '' @
             ''out-of-bounds access is UB; use copy_within() for the checked variant'')
      else if ends_with path ''::set_aliased_unchecked''
      then warning ''bitvec_unchecked'' c
            (''`set_aliased_unchecked` '' @ em_dash @ '' writes to a shared location without '' @
             ''atomic operations; concurrent access from multiple threads is a '' @
             ''data race (UB); ensure exclusive access or use atomic storage types'')
      else if \<not> contains path ''bitvec'' then []
      else let found =
             (if ends_with path ''::set_unchecked'' \<and> contains path ''BitSlice''
              then Some (''BitSlice::set_unchecked'',
                         ''sets a bit without checking that index < self.len(); out-of-bounds access '' @
                         ''writes into adjacent storage words (UB); use index-checked bit assignment instead'')
              else if ends_with path ''::replace_unchecked'' \<and> contains path ''BitSlice''
              then Some (''BitSlice::replace_unchecked'',
                         ''replaces a bit without checking that index < self.len(); out-of-bounds access '' @
                         ''is immediate UB; use the checked replace() method instead'')
              else None)
      in case found of
           None \<Rightarrow> []
         | Some (fn_name, note) \<Rightarrow>
             warning ''bitvec_unchecked'' c (named_note fn_name note))"

abbreviation BitvecUnchecked :: checker where
  "BitvecUnchecked \<equiv> call_checker bitvec_unchecked_at"

subsection \<open>\<^verbatim>\<open>memmap_unsafe.rs\<close>\<close>

definition memmap_unsafe_at :: "call_site \<Rightarrow> finding list" where
  "memmap_unsafe_at c =
     (let path = site_path c in
      if ends_with path ''::unchecked_advise_range''
      then warning ''memmap_unsafe'' c
            (''`unchecked_advise_range` '' @ em_dash @ '' offset + len must not exceed the map '' @
             ''length (UB otherwise); unchecked madvise flags like MADV_FREE can '' @
             ''silently zero pages on subsequent read'')
      else if ends_with path ''::unchecked_advise''
      then warning ''memmap_unsafe'' c
            (''`unchecked_advise` '' @ em_dash @ '' allows madvise flags rejected by the safe '' @
             ''variant (e.g., MADV_FREE); MADV_FREE silently discards dirty pages '' @
             em_dash @ '' subsequent reads may return zeros even for previously-written data'')
      else if \<not> contains path ''memmap2'' \<and> \<not> contains path ''Mmap'' then []
      else let found =
             (if ends_with path ''::remap'' \<and> (contains path ''Mmap'' \<or>
                      contains path ''memmap2'')
              then Some (''Mmap::remap'',
                         ''new length must not exceed the backing file's size '' @ em_dash @ '' mapping past EOF '' @
                         ''triggers SIGBUS (UB) on access; Linux-only mremap call'')
              else if ends_with path ''::map_copy_read_only'' \<and> (contains path ''Mmap'' \<or>
                      contains path ''MmapOptions'' \<or> contains path ''memmap2'')
              then Some (''MmapOptions::map_copy_read_only'',
                         ''copy-on-write read-only map '' @ em_dash @ '' if the file is modified before a CoW fault, '' @
                         ''mapped bytes may change; the file must not be concurrently truncated'')
              else if ends_with path ''::map_copy'' \<and> (contains path ''Mmap'' \<or>
                      contains path ''MmapOptions'' \<or> contains path ''memmap2'')
              then Some (''MmapOptions::map_copy'',
                         ''copy-on-write writable map '' @ em_dash @ '' file must not be concurrently modified or '' @
                         ''truncated for the lifetime of the mapping'')
              else if ends_with path ''::map_exec'' \<and> (contains path ''Mmap'' \<or>
                      contains path ''MmapOptions'' \<or> contains path ''memmap2'')
              then Some (''MmapOptions::map_exec'',
                         ''executable map '' @ em_dash @ '' if the file is writable by an untrusted principal, an '' @
                         ''attacker can inject arbitrary code; file must not be modified or truncated '' @
                         ''while the map is live'')
              else if ends_with path ''::map_mut'' \<and> (contains path ''Mmap'' \<or>
                      contains path ''MmapMut'' \<or> contains path ''memmap2'')
              then Some (''MmapMut::map_mut'',
                         ''writable file-backed map '' @ em_dash @ '' another process or thread writing to the same '' @
                         ''file concurrently creates a data race (Rust assumes &mut [u8] is exclusively '' @
                         ''owned); file must not be truncated while the map is open'')
              else if (ends_with path ''Mmap::map'' \<or> ends_with path ''::map'') \<and>
                      (contains path ''Mmap'' \<or> contains path ''MmapOptions'' \<or>
                      contains path ''memmap2'') \<and> \<not> ends_with path ''::map_mut'' \<and>
                      \<not> ends_with path ''::map_exec'' \<and> \<not> ends_with path ''::map_copy''
              then Some (''Mmap::map'',
                         ''file-backed read-only map '' @ em_dash @ '' another process modifying the underlying file '' @
                         ''silently changes the bytes seen through the &[u8] slice, violating Rust's '' @
                         ''immutability guarantee; file must not be truncated while the map is open'')
              else None)
      in case found of
           None \<Rightarrow> []
         | Some (fn_name, note) \<Rightarrow>
             warning ''memmap_unsafe'' c (named_note fn_name note))"

abbreviation MemmapUnsafe :: checker where
  "MemmapUnsafe \<equiv> call_checker memmap_unsafe_at"

subsection \<open>\<^verbatim>\<open>zerovec_unchecked.rs\<close>\<close>

definition zerovec_unchecked_at :: "call_site \<Rightarrow> finding list" where
  "zerovec_unchecked_at c =
     (let path = site_path c in
      if ends_with path ''::to_char_unchecked''
      then warning ''zerovec_unchecked'' c
             (''`PotentialCodePoint::to_char_unchecked` -- the raw u32 value must '' @
              ''be a valid Unicode scalar (U+0000-U+10FFFF, excluding surrogates '' @
              ''U+D800-U+DFFF); an invalid value produces an invalid char, which '' @
              ''is immediate UB in Rust; use to_char() -> Option<char>'')
      else [])"

abbreviation ZerovecUnchecked :: checker where
  "ZerovecUnchecked \<equiv> call_checker zerovec_unchecked_at"

subsection \<open>\<^verbatim>\<open>nix_fork.rs\<close>\<close>

definition nix_fork_at :: "call_site \<Rightarrow> finding list" where
  "nix_fork_at c =
     (let path = site_path c in
      let found =
             (if ends_with path ''::from_sigset_t_unchecked''
              then Some (''from_sigset_t_unchecked'',
                         ''constructs a SigSet from a raw libc::sigset_t without validation; an '' @
                         ''uninitialized or corrupted sigset causes subsequent signal mask operations '' @
                         ''(sigprocmask, pthread_sigmask) to manipulate wrong or undefined signal masks'')
              else if \<not> contains path ''nix''
              then None
              else if ends_with path ''unistd::fork''
              then Some (''nix::unistd::fork'',
                         ''child process may only call async-signal-safe functions before exec(); '' @
                         ''forking a multi-threaded process without immediate exec is almost always UB '' @
                         ''(inherited mutexes may be locked by dead threads); use std::process::Command '' @
                         ''or the fork-exec idiom with careful child-side code review'')
              else if ends_with path ''signal::signal'' \<and> contains path ''sys''
              then Some (''nix::sys::signal::signal'',
                         ''signal handler runs asynchronously in an interrupted context; only '' @
                         ''async-signal-safe operations are legal inside the handler '' @ em_dash @ '' calling malloc, '' @
                         ''locking a mutex, or using stdio is UB; prefer signal_hook crate for safe '' @
                         ''signal handling via pipe or atomic writes'')
              else if ends_with path ''signal::sigaction'' \<and> contains path ''sys''
              then Some (''nix::sys::signal::sigaction'',
                         ''installs a signal handler via sigaction(2); handler must be async-signal-safe; '' @
                         ''calling async-signal-unsafe functions inside the handler is UB; also unsafe '' @
                         ''because the previous SigAction returned may be invalid if not originally set '' @
                         ''by sigaction'')
              else None)
      in case found of
           None \<Rightarrow> []
         | Some (fn_name, note) \<Rightarrow>
             warning ''nix_fork'' c (named_note fn_name note))"

abbreviation NixFork :: checker where
  "NixFork \<equiv> call_checker nix_fork_at"

subsection \<open>\<^verbatim>\<open>log_racy.rs\<close>\<close>

definition log_racy_at :: "call_site \<Rightarrow> finding list" where
  "log_racy_at c =
     (let path = site_path c in
      let found =
             (if ends_with path ''::set_logger_racy''
              then Some (last_segment path,
                         ''installs a global logger without atomic CAS; concurrent calls with any '' @
                         ''other logger-installation function are immediate UB; use log::set_logger() '' @
                         ''which uses CAS and returns Err if already set'')
              else if ends_with path ''::set_max_level_racy''
              then Some (last_segment path,
                         ''on targets without atomic pointer support the underlying Cell is not '' @
                         ''thread-safe '' @ em_dash @ '' concurrent writes from multiple threads are a data race (UB); '' @
                         ''use log::set_max_level() which always uses atomic storage'')
              else None)
      in case found of
           None \<Rightarrow> []
         | Some (fn_name, note) \<Rightarrow>
             warning ''log_racy'' c (named_note fn_name note))"

abbreviation LogRacy :: checker where
  "LogRacy \<equiv> call_checker log_racy_at"

subsection \<open>\<^verbatim>\<open>rkyv_unchecked.rs\<close>\<close>

definition rkyv_unchecked_at :: "call_site \<Rightarrow> finding list" where
  "rkyv_unchecked_at c =
     (let path = site_path c in
      let found =
             (if ends_with path ''::access_unchecked_mut''
              then Some (last_segment path,
                         ''bytes must be properly aligned for the archived type and contain valid '' @
                         ''initialized data; no concurrent reference to the byte range may exist; '' @
                         ''validate with the checked variant (returns Result) before accessing '' @
                         ''untrusted archived data'')
              else if ends_with path ''::access_unchecked''
              then Some (last_segment path,
                         ''bytes must be properly aligned for the archived type and contain valid '' @
                         ''initialized data; misaligned or invalid bytes are immediate UB; validate '' @
                         ''with the checked variant (returns Result) before accessing untrusted data'')
              else if ends_with path ''::archived_root_mut'' \<and> contains path ''rkyv''
              then Some (''rkyv::archived_root_mut'',
                         ''bytes must be a valid archived T with proper alignment; '' @
                         ''mutating through an invalid archived reference is immediate UB'')
              else if ends_with path ''::archived_root'' \<and> contains path ''rkyv''
              then Some (''rkyv::archived_root'',
                         ''bytes must be a valid archived T starting at the position returned by '' @
                         ''`archived_root_offset`; improper alignment or an invalid bit pattern is UB'')
              else None)
      in case found of
           None \<Rightarrow> []
         | Some (fn_name, note) \<Rightarrow>
             warning ''rkyv_unchecked'' c (named_note fn_name note))"

abbreviation RkyvUnchecked :: checker where
  "RkyvUnchecked \<equiv> call_checker rkyv_unchecked_at"

end
