(* ===== verification/Checkers_Statements.thy ===== *)
theory Checkers_Statements
  imports Call_Checkers
begin

text \<open>
  The checkers that look at statements, places and types: transmutes, unions, writes through
  pointers cast from \<^verbatim>\<open>*const\<close>, dereferences of raw pointers, inline assembly, and
  the two call checkers that look at the generic arguments.
\<close>

section \<open>Walking statements\<close>

definition at_statements ::
  "(basic_block \<Rightarrow> nat \<times> statement \<Rightarrow> finding list) \<Rightarrow> body \<Rightarrow> finding list" where
  "at_statements f body =
     concat (map (\<lambda>(bb, block_data). concat (map (f bb) (enumerate 0 (statements block_data))))
       (enumerate 0 (basic_blocks body)))"

section \<open>Transmutes\<close>

subsection \<open>\<^verbatim>\<open>mem_transmute.rs\<close>\<close>

text \<open>The two casts of the standard library that are not reported.\<close>

fun is_std_transmute :: "tyctxt \<Rightarrow> ty \<Rightarrow> ty \<Rightarrow> bool" where
  "is_std_transmute tcx (TyAdt adt _) (TyRawPtr _ _) = (item_name tcx (adt_did adt) = ''NonNull'')"
| "is_std_transmute tcx (TyRawPtr pointee _) (TyUint _) = (pointee = TyTuple [])"
| "is_std_transmute tcx _ _ = False"

fun mem_transmute_stmt :: "tyctxt \<Rightarrow> body \<Rightarrow> nat \<times> statement \<Rightarrow> finding list" where
  "mem_transmute_stmt tcx body (_, Statement (Assign _ (Cast Transmute operand dst_ty)) sp) =
     (let src_ty = operand_ty tcx body operand in
      if from_expansion sp \<or> is_std_transmute tcx src_ty dst_ty then []
      else [finding_at Warning ''mem_transmute'' sp
             (''`mem::transmute` (`'' @ show_ty tcx src_ty @ ''` '' @ right_arrow @ '' `'' @ show_ty tcx dst_ty @ ''`) '' @ em_dash @ '' verify alignment of '' @
              ''both types, validity of all bit patterns in the target type, and '' @
              ''repr-stability if either type is repr(Rust)'')])"
| "mem_transmute_stmt tcx body _ = []"

abbreviation MemTransmute :: checker where
  "MemTransmute \<equiv> body_checker (\<lambda>tcx body flow. at_statements (\<lambda>_. mem_transmute_stmt tcx body) body)"

subsection \<open>\<^verbatim>\<open>transmute_lifetime.rs\<close>\<close>

definition transmute_lifetime_note :: "mutability \<Rightarrow> string \<Rightarrow> string" where
  "transmute_lifetime_note dst_mutbl dst_inner =
     (if dst_mutbl = Mut
      then ''creates an exclusive mutable reference from a raw pointer '' @ em_dash @ '' the pointer '' @
           ''must be non-null, aligned, point to a live, exclusively-owned allocation '' @
           ''valid for `'' @ dst_inner @ ''`, and NOT aliased by any other `&mut`/`*mut` for '' @
           ''the duration of the reference; use `NonNull::as_mut()` instead''
      else ''fabricates a shared reference from a raw pointer '' @ em_dash @ '' the pointer must be '' @
           ''non-null, aligned, and point to a live allocation valid for `'' @ dst_inner @ ''` '' @
           ''for the reference's entire use; this bypasses all borrow-checker lifetime '' @
           ''validation; use `unsafe { &*ptr }` or `NonNull::as_ref()` instead'')"

fun transmute_lifetime_stmt :: "tyctxt \<Rightarrow> body \<Rightarrow> nat \<times> statement \<Rightarrow> finding list" where
  "transmute_lifetime_stmt tcx body (_, Statement (Assign _ (Cast Transmute operand dst_ty)) sp) =
     (if from_expansion sp then []
      else case (operand_ty tcx body operand, dst_ty) of
             (TyRawPtr src_inner src_mutbl, TyRef dst_inner dst_mutbl) \<Rightarrow>
               let src_prefix = (if src_mutbl = Mut then ''*mut'' else ''*const'');
                   dst_prefix = (if dst_mutbl = Mut then ''&mut'' else ''&'');
                   src_inner = show_ty tcx src_inner;
                   dst_inner = show_ty tcx dst_inner;
                   note = transmute_lifetime_note dst_mutbl dst_inner
               in [finding_at Warning ''transmute_lifetime'' sp
                    (''`mem::transmute` raw-pointer-to-reference (`'' @ src_prefix @ '' '' @ src_inner @ ''` '' @ right_arrow @ '' '' @
                     ''`'' @ dst_prefix @ '' '' @ dst_inner @ ''`) '' @ em_dash @ '' '' @ note)]
           | _ \<Rightarrow> [])"
| "transmute_lifetime_stmt tcx body _ = []"

abbreviation TransmuteLifetime :: checker where
  "TransmuteLifetime \<equiv> body_checker (\<lambda>tcx body flow. at_statements (\<lambda>_. transmute_lifetime_stmt tcx body) body)"

subsection \<open>\<^verbatim>\<open>mem_transmute_copy.rs\<close>\<close>

definition mem_transmute_copy_note :: "string \<Rightarrow> (string \<times> string) option" where
  "mem_transmute_copy_note path =
     (if ends_with path ''mem::transmute_copy''
      then Some (''mem::transmute_copy'',
                 ''unlike transmute, the compiler does NOT check size equality; '' @
                 ''size_of::<U>() must not exceed size_of::<T>(); '' @
                 ''all copied bytes must be valid for U'')
      else if ends_with path ''transmute_prefix''
      then Some (''mem::transmute_prefix'',
                 ''compiler enforces size_of::<Dst>() <= size_of::<Src>(); '' @
                 ''all Dst-sized leading bytes of Src must be valid for Dst '' @
                 ''(nightly feature `transmute_prefix`)'')
      else if ends_with path ''transmute_neo''
      then Some (''mem::transmute_neo'',
                 ''compiler checks both size AND alignment (stricter than transmute); '' @
                 ''still unsafe '' @ em_dash @ '' all bit patterns of Src must be valid for Dst '' @
                 ''(nightly feature `transmute_neo`)'')
      else if ends_with path ''conjure_zst''
      then Some (''mem::conjure_zst'',
                 ''creates a T from thin air '' @ em_dash @ '' UB if T is not a zero-sized type '' @
                 ''(size_of::<T>() != 0); the compiler enforces this only in debug mode '' @
                 ''(nightly feature `mem_conjure_zst`)'')
      else None)"

fun transmute_copy_types :: "tyctxt \<Rightarrow> ty list \<Rightarrow> string" where
  "transmute_copy_types tcx [] = ''''"
| "transmute_copy_types tcx [src] = '' (`'' @ show_ty tcx src @ ''`)''"
| "transmute_copy_types tcx (src # dst # _) = '' (`'' @ show_ty tcx src @ ''` '' @ right_arrow @ '' `'' @ show_ty tcx dst @ ''`)''"

definition mem_transmute_copy_at :: "tyctxt \<Rightarrow> call_site \<Rightarrow> finding list" where
  "mem_transmute_copy_at tcx c =
     (case mem_transmute_copy_note (site_path c) of
        None \<Rightarrow> []
      | Some (fn_name, extra_note) \<Rightarrow>
          let type_info = transmute_copy_types tcx (generic_types tcx (site_generics c))
          in warning ''mem_transmute_copy'' c
               (''`'' @ fn_name @ ''`'' @ type_info @ '' '' @ em_dash @ '' '' @ extra_note))"

abbreviation MemTransmuteCopy :: checker where
  "MemTransmuteCopy \<equiv> body_checker (\<lambda>tcx body flow. concat (map (mem_transmute_copy_at tcx) (fn_calls tcx body flow)))"

subsection \<open>\<^verbatim>\<open>mem_zeroed_generic.rs\<close>\<close>

fun zeroed_reason :: "tyctxt \<Rightarrow> ty \<Rightarrow> string option" where
  "zeroed_reason tcx (TyParam p) =
     Some (''generic `'' @ show_ty tcx (TyParam p) @ ''` may have non-zero validity invariants (references, '' @
           ''NonNull, enum discriminants, fn pointers)'')"
| "zeroed_reason tcx (TyRef inner _) =
     Some (''`&'' @ show_ty tcx inner @ ''` '' @ em_dash @ '' null references are immediate UB; the optimizer assumes '' @
           ''Rust references are always non-null'')"
| "zeroed_reason tcx (TyFnPtr _ _) =
     Some (''function pointer '' @ em_dash @ '' null fn pointers are UB; the optimizer assumes '' @
           ''fn pointers are always non-null'')"
| "zeroed_reason tcx (TyAdt adt args) =
     (let adt_path = def_path_str tcx (adt_did adt); ty = show_ty tcx (TyAdt adt args)
      in if contains adt_path ''NonZero''
         then Some (''`'' @ ty @ ''` requires a non-zero value by construction; '' @
                    ''zeroing it corrupts niche-filling optimizations'')
         else if contains adt_path ''NonNull''
         then Some (''`'' @ ty @ ''` requires a non-null pointer by construction; '' @
                    ''zeroing it creates a null NonNull which corrupts '' @
                    ''`Option<NonNull<T>>` niche layout and is immediate UB'')
         else None)"
| "zeroed_reason tcx _ = None"

definition mem_zeroed_generic_at :: "tyctxt \<Rightarrow> call_site \<Rightarrow> finding list" where
  "mem_zeroed_generic_at tcx c =
     (if \<not> ends_with (site_path c) ''mem::zeroed'' then []
      else case generic_types tcx (site_generics c) of
             [] \<Rightarrow> []
           | ty # _ \<Rightarrow>
               (case zeroed_reason tcx ty of
                  None \<Rightarrow> []
                | Some reason \<Rightarrow>
                    warning ''mem_zeroed_generic'' c
                      (''`mem::zeroed::<'' @ show_ty tcx ty @ ''>()` '' @ em_dash @ '' '' @ reason @ ''; use `MaybeUninit` instead'')))"

abbreviation MemZeroedGeneric :: checker where
  "MemZeroedGeneric \<equiv> body_checker (\<lambda>tcx body flow. concat (map (mem_zeroed_generic_at tcx) (fn_calls tcx body flow)))"

section \<open>Unions and constant pointers\<close>

subsection \<open>\<^verbatim>\<open>union_field.rs\<close>\<close>

text \<open>The type of a place after the first \<open>i\<close> projections.\<close>

definition prefix_ty :: "tyctxt \<Rightarrow> body \<Rightarrow> place \<Rightarrow> nat \<Rightarrow> ty" where
  "prefix_ty tcx body p i =
     (if i = 0 then local_decls body (place_local p)
      else place_ty tcx body (Place (place_local p) (take i (projection p))))"

definition is_union_field_place :: "tyctxt \<Rightarrow> body \<Rightarrow> place \<Rightarrow> bool" where
  "is_union_field_place tcx body p =
     (case find_map (\<lambda>(i, elem).
              if field_of elem = None then None else union_of (prefix_ty tcx body p i)) (enumerate 0 (projection p)) of
        None \<Rightarrow> False
      | Some adt \<Rightarrow> crate_name tcx (krate (adt_did adt)) \<notin> {''core'', ''alloc'', ''std''})"

fun read_place :: "rvalue \<Rightarrow> place option" where
  "read_place (Use op) = operand_place op"
| "read_place (Ref _ p) = Some p"
| "read_place (RawPtr _ p) = Some p"
| "read_place _ = None"

definition union_read_finding ::
  "tyctxt \<Rightarrow> body \<Rightarrow> flow_results \<Rightarrow> basic_block \<Rightarrow> nat \<Rightarrow> span \<Rightarrow> place \<Rightarrow> finding list" where
  "union_read_finding tcx body flow bb i sp p =
     (let unknown = [finding_at Warning ''union_field'' sp
            (''union field read '' @ em_dash @ '' verify the stored bytes are valid for '' @
             ''the accessed field's type; reading a field whose invariants '' @
             ''are not satisfied is UB (invalid bool, dangling reference, '' @
             ''invalid enum discriminant, etc.)'')]
      in case (state_at_location flow tcx body bb i, direct_union_field_access p body tcx) of
           (Some state, Some (base, read_field)) \<Rightarrow>
             (case fmlookup (active_variant state) base of
                None \<Rightarrow> unknown
              | Some active_field \<Rightarrow>
                  if active_field = read_field then []
                  else let read_idx = show_nat (unat read_field); active_idx = show_nat (unat active_field)
                       in [finding_at Error ''union_wrong_field'' sp
                            (''union field read of field '' @ read_idx @ '' but field '' @ active_idx @ '' was '' @
                             ''last written '' @ em_dash @ '' the stored bytes are not valid for the type of '' @
                             ''field '' @ read_idx @ ''; this is immediate UB (type confusion)'')])
         | _ \<Rightarrow> unknown)"

fun union_field_stmt :: "tyctxt \<Rightarrow> body \<Rightarrow> flow_results \<Rightarrow> basic_block \<Rightarrow> nat \<times> statement \<Rightarrow> finding list" where
  "union_field_stmt tcx body flow bb (i, Statement (Assign lhs rhs) sp) =
     (if is_union_field_place tcx body lhs
      then [finding_at Warning ''union_field'' sp
             (''union field write '' @ em_dash @ '' the stored bytes may be reinterpreted '' @
              ''through a different field; ensure the written type's bit-pattern '' @
              ''is valid for all subsequent field reads'')]
      else []) @
     (case read_place rhs of
        None \<Rightarrow> []
      | Some p \<Rightarrow>
          if \<not> is_union_field_place tcx body p then []
          else union_read_finding tcx body flow bb i sp p)"
| "union_field_stmt tcx body flow bb _ = []"

abbreviation UnionField :: checker where
  "UnionField \<equiv> body_checker (\<lambda>tcx body flow. at_statements (union_field_stmt tcx body flow) body)"

subsection \<open>\<^verbatim>\<open>cast_away_const.rs\<close>\<close>

text \<open>The debug form of a local.\<close>

definition show_local :: "local \<Rightarrow> string" where
  "show_local l = ''_'' @ show_nat (unat l)"

fun cast_away_const_stmt ::
  "tyctxt \<Rightarrow> body \<Rightarrow> flow_results \<Rightarrow> basic_block \<Rightarrow> nat \<times> statement \<Rightarrow> finding list" where
  "cast_away_const_stmt tcx body flow bb (i, Statement (Assign dst _) sp) =
     (if projection dst \<noteq> [Deref] then []
      else case state_at_location flow tcx body bb i of
             None \<Rightarrow> []
           | Some state \<Rightarrow>
               if place_local dst |\<notin>| const_ptr_cast state then []
               else [finding_at Warning ''cast_away_const'' sp
                      (''`*'' @ show_local (place_local dst) @ '' = ...` writes through a `*mut T` obtained by casting a '' @
                       ''`*const T`; if the pointee is not inside an `UnsafeCell`, this is UB '' @
                       ''(aliased mutation without interior mutability). Common cause: '' @
                       ''`Arc::as_ptr() as *mut T` or `&T as *const T as *mut T`.'')])"
| "cast_away_const_stmt tcx body flow bb _ = []"

definition writes_through_first :: "string \<Rightarrow> bool" where
  "writes_through_first path \<longleftrightarrow>
     is_ptr_write_to_first_arg path \<or> ends_with path ''ptr::write'' \<or> ends_with path ''ptr::write_unaligned'' \<or>
     ends_with path ''ptr::write_bytes'' \<or> ends_with path ''ptr::copy_nonoverlapping'' \<or> ends_with path ''ptr::copy''"

definition cast_away_const_at :: "call_site \<Rightarrow> finding list" where
  "cast_away_const_at c =
     (if \<not> writes_through_first (site_path c) then []
      else case (arg_local (site_args c) 0, site_state c) of
             (Some ptr, Some state) \<Rightarrow>
               if ptr |\<notin>| const_ptr_cast state then []
               else warning ''cast_away_const'' c
                      (''`'' @ last_segment (site_path c) @ ''('' @ show_local ptr @ '', ...)` writes through a `*mut T` obtained by casting a '' @
                       ''`*const T`; if the pointee is not inside an `UnsafeCell`, this is UB '' @
                       ''(aliased mutation). Common cause: `Arc::as_ptr() as *mut T` or '' @
                       ''`&T as *const T as *mut T`.'')
           | _ \<Rightarrow> [])"

definition check_cast_away_const :: "tyctxt \<Rightarrow> body \<Rightarrow> flow_results \<Rightarrow> finding list" where
  "check_cast_away_const tcx body flow =
     concat (map (\<lambda>(bb, block_data).
       concat (map (cast_away_const_stmt tcx body flow bb) (enumerate 0 (statements block_data))) @
       (case site_of tcx body flow (bb, block_data) of None \<Rightarrow> [] | Some c \<Rightarrow> cast_away_const_at c))
       (enumerate 0 (basic_blocks body)))"

abbreviation CastAwayConst :: checker where
  "CastAwayConst \<equiv> body_checker check_cast_away_const"

section \<open>Dereferences\<close>

subsection \<open>\<^verbatim>\<open>raw_ptr_deref.rs\<close>\<close>

text \<open>
  The chain of inlined scopes around a scope. Its length is bounded by \<open>fuel\<close>; a chain that
  visits every scope once needs no more steps than there are scopes.
\<close>

fun is_inlined_within :: "nat \<Rightarrow> body \<Rightarrow> nat option \<Rightarrow> bool" where
  "is_inlined_within fuel body None = False"
| "is_inlined_within 0 body (Some s) = False"
| "is_inlined_within (Suc fuel) body (Some s) =
     (let scope = source_scopes body ! s
      in if inlined scope then True else is_inlined_within fuel body (inlined_parent_scope scope))"

definition is_inlined :: "body \<Rightarrow> nat \<Rightarrow> bool" where
  "is_inlined body s = is_inlined_within (length (source_scopes body)) body (Some s)"

text \<open>The rvalues of the locals that are assigned exactly once.\<close>

fun record_def :: "statement \<Rightarrow> (local, rvalue) fmap \<times> local fset \<Rightarrow> (local, rvalue) fmap \<times> local fset" where
  "record_def (Statement (Assign p rvalue) _) (defs, multiple) =
     (if projection p \<noteq> [] then (defs, multiple)
      else (fmupd (place_local p) rvalue defs,
            if fmlookup defs (place_local p) \<noteq> None then finsert (place_local p) multiple else multiple))"
| "record_def _ w = w"

definition single_defs :: "body \<Rightarrow> (local, rvalue) fmap" where
  "single_defs body =
     (case fold record_def (concat (map statements (basic_blocks body))) (fmempty, {||}) of
        (defs, multiple) \<Rightarrow> fmdrop_fset multiple defs)"

fun copied_place :: "rvalue \<Rightarrow> place option" where
  "copied_place (Use op) = operand_place op"
| "copied_place (Cast _ op _) = operand_place op"
| "copied_place _ = None"

fun box_within :: "nat \<Rightarrow> tyctxt \<Rightarrow> body \<Rightarrow> (local, rvalue) fmap \<Rightarrow> local \<Rightarrow> bool" where
  "box_within 0 tcx body defs l = False"
| "box_within (Suc n) tcx body defs l =
     (case Option.bind (fmlookup defs l) copied_place of
        None \<Rightarrow> False
      | Some src \<Rightarrow>
          if ty_is_box tcx (local_decls body (place_local src)) then True
          else box_within n tcx body defs (place_local src))"

definition derives_from_box :: "tyctxt \<Rightarrow> body \<Rightarrow> (local, rvalue) fmap \<Rightarrow> local \<Rightarrow> bool" where
  "derives_from_box tcx body defs l = box_within 8 tcx body defs l"

fun location_span :: "basic_block_data \<Rightarrow> nat \<Rightarrow> span" where
  "location_span (BasicBlockData stmts term) i =
     (if i < length stmts then stmt_span (stmts ! i) else span_of_block (BasicBlockData stmts term))"

definition deref_finding ::
  "tyctxt \<Rightarrow> body \<Rightarrow> flow_results \<Rightarrow> basic_block \<Rightarrow> nat \<Rightarrow> span \<Rightarrow> bool \<Rightarrow> place \<Rightarrow> finding list" where
  "deref_finding tcx body flow bb i sp mutating base =
     (let access = (if mutating then ''write'' else ''read'');
          rest = [finding_at Warning ''raw_ptr_deref'' sp
            (''raw pointer dereference ('' @ access @ '') '' @ em_dash @ '' the pointer must be non-null, '' @
             ''aligned, and point to a live allocation valid for the accessed type; '' @
             ''dereferencing an invalid raw pointer is undefined behavior'')]
      in if projection base \<noteq> [] then rest
         else case state_at_location flow tcx body bb i of
                None \<Rightarrow> rest
              | Some state \<Rightarrow>
                  (case freed_kind state (place_local base) of
                     Definite \<Rightarrow> [uaf_finding sp access False]
                   | Potential \<Rightarrow> [uaf_finding sp access True]
                   | NotFreed \<Rightarrow>
                       if ptr_is_raw_owned state (place_local base) then []
                       else if mutating \<and> fmlookup (mu_raw_ptr state) (place_local base) \<noteq> None then []
                       else rest))"

definition visit_place ::
  "tyctxt \<Rightarrow> body \<Rightarrow> flow_results \<Rightarrow> (local, rvalue) fmap \<Rightarrow> basic_block \<Rightarrow> place \<times> bool \<times> nat \<Rightarrow> finding list" where
  "visit_place tcx body flow defs bb = (\<lambda>(p, mutating, i).
     concat (map (\<lambda>(k, elem).
       let base = Place (place_local p) (take k (projection p));
           sp = location_span (basic_blocks body ! bb) i
       in if elem \<noteq> Deref then []
          else if \<not> is_raw_ptr_ty (prefix_ty tcx body p k) then []
          else if projection base = [] \<and> derives_from_box tcx body defs (place_local base) then []
          else if from_expansion sp then []
          else if is_inlined body (scope_at body bb i) then []
          else deref_finding tcx body flow bb i sp mutating base) (enumerate 0 (projection p))))"

definition check_raw_ptr_deref :: "tyctxt \<Rightarrow> body \<Rightarrow> flow_results \<Rightarrow> finding list" where
  "check_raw_ptr_deref tcx body flow =
     (let defs = single_defs body
      in concat (map (\<lambda>bb. concat (map (visit_place tcx body flow defs bb) (place_visits tcx body bb)))
           [0..<length (basic_blocks body)]))"

abbreviation RawPtrDeref :: checker where
  "RawPtrDeref \<equiv> body_checker check_raw_ptr_deref"

section \<open>Inline assembly\<close>

subsection \<open>\<^verbatim>\<open>inline_asm.rs\<close>\<close>

fun asm_input :: "inline_asm_operand \<Rightarrow> local option" where
  "asm_input (AsmIn value) = operand_local value"
| "asm_input (AsmInOut value) = operand_local value"
| "asm_input AsmOther = None"

fun inline_asm_block :: "tyctxt \<Rightarrow> body \<Rightarrow> flow_results \<Rightarrow> nat \<times> basic_block_data \<Rightarrow> finding list" where
  "inline_asm_block tcx body flow (bb, BasicBlockData _ (Some (Terminator (InlineAsm operands _ _) sp))) =
     (let ptrs = filter (\<lambda>l. is_raw_ptr_ty (local_decls body l)) (List.map_filter asm_input operands);
          uafs = (case state_before_terminator flow tcx body bb of
                    None \<Rightarrow> []
                  | Some state \<Rightarrow> uaf_findings sp state (map (\<lambda>l. (l, ''read'')) ptrs))
      in if uafs \<noteq> [] then uafs
         else [finding_at Warning ''inline_asm'' sp
                (''`asm!` '' @ em_dash @ '' verify all register constraints, clobbers, memory effects, '' @
                 ''and control-flow options; incorrect assembly silently corrupts '' @
                 ''registers, stack, or memory without any indication from Rust'')])"
| "inline_asm_block tcx body flow _ = []"

abbreviation InlineAsmChecker :: checker where
  "InlineAsmChecker \<equiv> body_checker (\<lambda>tcx body flow.
     concat (map (inline_asm_block tcx body flow) (enumerate 0 (basic_blocks body))))"

end
