(* ===== verification/Checkers_Items.thy ===== *)
theory Checkers_Items
  imports Call_Checkers
begin

text \<open>
  The checkers that look at the items of the crate once: implementations of unsafe traits,
  mutable statics and naked functions.
\<close>

section \<open>Unsafe implementations of traits\<close>

definition crate_checker :: "(tyctxt \<Rightarrow> finding list) \<Rightarrow> checker" where
  "crate_checker f = default_checker\<lparr>check_crate := f\<rparr>"

text \<open>The start of the loops over items: unsafe implementations of a resolved trait.\<close>

fun unsafe_impl_trait :: "hir_item \<Rightarrow> def_id option" where
  "unsafe_impl_trait (HirItem (ItemImpl impl) _) =
     (case of_trait impl of
        None \<Rightarrow> None
      | Some trait_impl \<Rightarrow> if impl_safety trait_impl \<noteq> Unsafe then None else trait_def_id trait_impl)"
| "unsafe_impl_trait _ = None"

definition unsafe_impl_findings ::
  "(string \<Rightarrow> hir_item \<Rightarrow> finding list) \<Rightarrow> tyctxt \<Rightarrow> finding list" where
  "unsafe_impl_findings f tcx =
     concat (map (\<lambda>item.
       case unsafe_impl_trait item of None \<Rightarrow> [] | Some trait_id \<Rightarrow> f (def_path_str tcx trait_id) item)
       (hir_free_items tcx))"

subsection \<open>\<^verbatim>\<open>clone_to_uninit_impl.rs\<close>\<close>

definition clone_to_uninit_impl_at :: "string \<Rightarrow> hir_item \<Rightarrow> finding list" where
  "clone_to_uninit_impl_at trait_path item =
     (if \<not> contains trait_path ''CloneToUninit'' then []
      else [finding_at Warning ''clone_to_uninit_impl'' (hir_span item)
             (''`unsafe impl CloneToUninit` '' @ em_dash @ '' `clone_to_uninit` must fully initialize '' @
              ''`dst` (aligned, correct size_of_val); partial initialization followed '' @
              ''by a panic path is UB; the caller will call `assume_init` on `dst`'')])"

abbreviation CloneToUninitImpl :: checker where
  "CloneToUninitImpl \<equiv> crate_checker (unsafe_impl_findings clone_to_uninit_impl_at)"

subsection \<open>\<^verbatim>\<open>global_alloc_impl.rs\<close>\<close>

definition global_alloc_impl_at :: "string \<Rightarrow> hir_item \<Rightarrow> finding list" where
  "global_alloc_impl_at trait_path item =
     (if \<not> contains trait_path ''GlobalAlloc'' then []
      else [finding_at Warning ''global_alloc_impl'' (hir_span item)
             (''`unsafe impl GlobalAlloc` '' @ em_dash @ '' verify: alloc returns null on failure '' @
              ''(never panics), returned pointer is correctly aligned, dealloc '' @
              ''receives the exact layout used for alloc, realloc invalidates old '' @
              ''pointer on both success and failure; incorrect impl corrupts all '' @
              ''heap allocations in the process'')])"

abbreviation GlobalAllocImpl :: checker where
  "GlobalAllocImpl \<equiv> crate_checker (unsafe_impl_findings global_alloc_impl_at)"

subsection \<open>\<^verbatim>\<open>trusted_len_impl.rs\<close>\<close>

definition trusted_len_impl_at :: "string \<Rightarrow> hir_item \<Rightarrow> finding list" where
  "trusted_len_impl_at trait_path item =
     (if \<not> contains trait_path ''TrustedLen'' then []
      else [finding_at Warning ''trusted_len_impl'' (hir_span item)
             (''`unsafe impl TrustedLen` '' @ em_dash @ '' `size_hint().1` must be `Some(n)` where '' @
              ''`n` equals the exact number of remaining items; an over-count allows '' @
              ''`Vec::extend` to write past the allocation (OOB write UB); '' @
              ''verify the count stays correct across all iterator states'')])"

abbreviation TrustedLenImpl :: checker where
  "TrustedLenImpl \<equiv> crate_checker (unsafe_impl_findings trusted_len_impl_at)"

subsection \<open>\<^verbatim>\<open>trusted_step_impl.rs\<close>\<close>

definition trusted_step_impl_at :: "string \<Rightarrow> hir_item \<Rightarrow> finding list" where
  "trusted_step_impl_at trait_path item =
     (if \<not> contains trait_path ''TrustedStep'' then []
      else [finding_at Warning ''trusted_step_impl'' (hir_span item)
             (''`unsafe impl TrustedStep` '' @ em_dash @ '' `steps_between(start, end)` must return '' @
              ''`Some(n)` with exactly the right count; an incorrect count enables '' @
              ''range-iterator indexing UB (out-of-bounds reads, skipped elements); '' @
              ''verify arithmetic wraps and boundary conditions are handled correctly'')])"

abbreviation TrustedStepImpl :: checker where
  "TrustedStepImpl \<equiv> crate_checker (unsafe_impl_findings trusted_step_impl_at)"

subsection \<open>\<^verbatim>\<open>allocator_impl.rs\<close>\<close>

definition allocator_impl_at :: "string \<Rightarrow> hir_item \<Rightarrow> finding list" where
  "allocator_impl_at trait_path item =
     (if \<not> ends_with trait_path ''alloc::Allocator'' then []
      else [finding_at Warning ''allocator_impl'' (hir_span item)
             (''`unsafe impl Allocator` '' @ em_dash @ '' `allocate` must return a valid, '' @
              ''aligned block; `deallocate` must only be called with pointers '' @
              ''from this allocator and a compatible layout; `grow`/`shrink` '' @
              ''invalidate the old pointer on success '' @ em_dash @ '' using it afterward is '' @
              ''use-after-free; mixing allocator instances causes silent heap '' @
              ''corruption'')])"

abbreviation AllocatorImpl :: checker where
  "AllocatorImpl \<equiv> crate_checker (unsafe_impl_findings allocator_impl_at)"

subsection \<open>\<^verbatim>\<open>bytemuck_unsafe_impl.rs\<close>\<close>

definition bytemuck_unsafe_impl_note :: "string \<Rightarrow> (string \<times> string) option" where
  "bytemuck_unsafe_impl_note trait_path =
     (if ends_with trait_path ''::Pod''
      then Some (''Pod'',
                 ''T must have no padding bytes and every possible bit sequence must be a '' @
                 ''valid T; pointer/reference fields and enums with limited discriminants '' @
                 ''cannot implement Pod; use bytemuck::derive(Pod) for struct verification'')
      else if ends_with trait_path ''::Zeroable''
      then Some (''Zeroable'',
                 ''the all-zeros bit pattern must be a valid T; references, NonNull, Box, '' @
                 ''and types with invalid-zero-value invariants (NonZero*) cannot be Zeroable; '' @
                 ''derive with #[derive(Zeroable)] to let bytemuck verify the layout'')
      else if ends_with trait_path ''::AnyBitPattern''
      then Some (''AnyBitPattern'',
                 ''every possible bit sequence must be a valid T; enums (limited discriminants), '' @
                 ''bool (only 0/1), char (not all u32 values are valid), and pointer types '' @
                 ''cannot implement AnyBitPattern without violating the invariant'')
      else if ends_with trait_path ''::NoUninit''
      then Some (''NoUninit'',
                 ''T must have no uninitialized or padding bytes; all byte positions must be '' @
                 ''initialized by every value of T; add #[repr(C)] or #[repr(packed)] and '' @
                 ''verify there are no padding fields between struct members'')
      else if ends_with trait_path ''::TransparentWrapper''
      then Some (''TransparentWrapper'',
                 ''T must be #[repr(transparent)] over Inner with identical memory layout; '' @
                 ''any layout difference allows bytemuck to produce references to invalid memory; '' @
                 ''wrap fields with #[repr(transparent)] and verify size_of::<T>() == size_of::<Inner>()'')
      else if ends_with trait_path ''::CheckedBitPattern''
      then Some (''CheckedBitPattern'',
                 ''is_valid_bit_pattern must return true exactly when the bit pattern is a valid T; '' @
                 ''a false positive allows bytemuck::checked::from_bytes to return an invalid T; '' @
                 ''test edge cases (discriminant boundaries for enums, null for pointers)'')
      else None)"

definition bytemuck_unsafe_impl_at :: "string \<Rightarrow> hir_item \<Rightarrow> finding list" where
  "bytemuck_unsafe_impl_at trait_path item =
     (case bytemuck_unsafe_impl_note trait_path of
        None \<Rightarrow> []
      | Some (trait_name, note) \<Rightarrow>
          [finding_at Warning ''bytemuck_unsafe_impl'' (hir_span item)
            (''`unsafe impl bytemuck::'' @ trait_name @ ''` '' @ em_dash @ '' '' @ note)])"

abbreviation BytemuckUnsafeImpl :: checker where
  "BytemuckUnsafeImpl \<equiv> crate_checker (unsafe_impl_findings bytemuck_unsafe_impl_at)"

section \<open>Send and Sync\<close>

subsection \<open>\<^verbatim>\<open>missing_send_sync_bounds.rs\<close>\<close>

definition send_sync_trait :: "string \<Rightarrow> string option" where
  "send_sync_trait trait_path =
     (if contains trait_path ''marker::Send'' then Some ''Send''
      else if contains trait_path ''marker::Sync'' then Some ''Sync''
      else None)"

fun type_params :: "generic_param list \<Rightarrow> string list" where
  "type_params [] = []"
| "type_params (TypeParam name # ps) = name # type_params ps"
| "type_params (OtherParam # ps) = type_params ps"

fun bound_is :: "tyctxt \<Rightarrow> bool \<Rightarrow> generic_bound \<Rightarrow> bool" where
  "bound_is tcx is_send (TraitBound (Some did)) =
     contains (def_path_str tcx did) (if is_send then ''marker::Send'' else ''marker::Sync'')"
| "bound_is tcx is_send _ = False"

fun bounded_param :: "tyctxt \<Rightarrow> bool \<Rightarrow> where_predicate \<Rightarrow> string option" where
  "bounded_param tcx is_send (BoundPredicate (ResolvedPath segments) bounds) =
     (if segments = [] then None
      else if list_ex (bound_is tcx is_send) bounds then Some (last segments)
      else None)"
| "bounded_param tcx is_send _ = None"

fun missing_bounds_of :: "tyctxt \<Rightarrow> string \<Rightarrow> hir_item \<Rightarrow> finding list" where
  "missing_bounds_of tcx trait_name (HirItem (ItemImpl impl) sp) =
     (let bounded = List.map_filter (bounded_param tcx (trait_name = ''Send'')) (impl_predicates impl);
          required_bound = trait_name
      in map (\<lambda>param. finding_at Warning ''missing_send_sync_bounds'' sp
                (''`unsafe impl '' @ trait_name @ ''` is missing `'' @ param @ '': '' @ required_bound @ ''` '' @ em_dash @ '' '' @
                 ''non-'' @ trait_name @ '' types can cross thread boundaries''))
           (filter (\<lambda>param. param \<notin> set bounded) (type_params (impl_params impl))))"
| "missing_bounds_of tcx trait_name _ = []"

definition missing_send_sync_bounds_at :: "tyctxt \<Rightarrow> string \<Rightarrow> hir_item \<Rightarrow> finding list" where
  "missing_send_sync_bounds_at tcx trait_path item =
     (case send_sync_trait trait_path of
        None \<Rightarrow> []
      | Some trait_name \<Rightarrow> missing_bounds_of tcx trait_name item)"

abbreviation MissingSendSyncBounds :: checker where
  "MissingSendSyncBounds \<equiv> crate_checker (\<lambda>tcx. unsafe_impl_findings (missing_send_sync_bounds_at tcx) tcx)"

section \<open>Statics and naked functions\<close>

subsection \<open>\<^verbatim>\<open>static_mut.rs\<close>\<close>

fun static_mut_item :: "hir_item \<Rightarrow> finding list" where
  "static_mut_item (HirItem (ItemStatic Mut name) sp) =
     [finding_at Warning ''static_mut'' sp
       (''`static mut '' @ name @ ''` '' @ em_dash @ '' unguarded mutable global; concurrent access '' @
        ''is a data race (UB); use AtomicT, OnceLock, or Mutex instead'')]"
| "static_mut_item _ = []"

abbreviation StaticMut :: checker where
  "StaticMut \<equiv> crate_checker (\<lambda>tcx. concat (map static_mut_item (hir_free_items tcx)))"

subsection \<open>\<^verbatim>\<open>naked_fn.rs\<close>\<close>

definition naked_fn_at :: "tyctxt \<Rightarrow> def_id \<Rightarrow> finding list" where
  "naked_fn_at tcx did =
     (if def_kind_of tcx did \<notin> {DkFn, DkAssocFn} then []
      else if \<not> is_naked tcx did then []
      else let fn_name = def_path_str tcx did;
               abi = (if fn_abi tcx did = ''Rust'' then ''Rust ABI''
                      else ''extern '' @ [CHR 0x22] @ fn_abi tcx did @ [CHR 0x22] @ '' ABI'')
           in [finding_at Warning ''naked_fn'' (def_span tcx did)
                (''`'' @ fn_name @ ''` is a naked function '' @ em_dash @ '' `naked_asm!` body must fully '' @
                 ''implement the declared ABI ('' @ abi @ ''): place return values in the '' @
                 ''correct registers, save/restore callee-saved registers, and '' @
                 ''maintain stack alignment; incorrect ABI implementation is UB at '' @
                 ''every call site'')])"

abbreviation NakedFn :: checker where
  "NakedFn \<equiv> crate_checker (\<lambda>tcx. concat (map (naked_fn_at tcx) (mir_keys tcx)))"

end
