(* ===== verification/Checker_List.thy ===== *)
theory Checker_List
  imports Driver Checkers_Pointers Checkers_Ownership Checkers_Backstop Checkers_Std_Audit
    Checkers_Crate_Audit Checkers_Statements Checkers_Items
begin

text \<open>
  The list of checkers in the order of \<^verbatim>\<open>CHECKERS\<close> in \<^verbatim>\<open>lib.rs\<close>, and
  the run of the analyzer with it.
\<close>

definition CHECKERS :: "checker list" where
  "CHECKERS =
     [ArcFromRaw, CloneToUninitImpl, GlobalAllocImpl, AssumeInit, AtomicFromPtr, BoxFromRaw,
      CharFromU32Unchecked, CStrFromPtr, HintAssertUnchecked, CStringAsPtr, LayoutUnchecked,
      ManuallyDropOps, MemForget, MemTransmute, MemTransmuteCopy, MemUninitialized, MemZeroedGeneric,
      MissingSendSyncBounds, NonNullDeref, OsStrEncodedBytes, NonNullNewUnchecked, NonZeroNewUnchecked,
      PinNewUnchecked, PtrArith, PtrAsRef, PtrCopy, PtrDropInPlace, PtrRead, PtrWrite, RawAllocator,
      RawPtrDeref, RawFd, SliceAlignTo, SliceFromRawParts, SliceGetUnchecked, StrFromUtf8Unchecked,
      StrMutation, ThreadSpawnUnchecked, UnionField, UncheckedIntArith, UnreachableUnchecked,
      UnwrapUnchecked, InlineAsmChecker, IntoRaw, PreExec, PtrProvenance, StaticMut, UnsafeCellGet,
      VecFromRawParts, VecSetLen, WakerFromRaw, CStrFromBytesUnchecked, CStringFromRaw, ForeignFn,
      StringFromRawParts, FloatToIntUnchecked, PtrFromRawParts, CloneToUninitCall, LayoutForValueRaw,
      TrustedLenImpl, TrustedStepImpl, AllocatorImpl, UnsafeFnCall, UnsafeFnPtr, SliceChunksUnchecked,
      SplitAtUnchecked, SliceDisjointUnchecked, SliceSwapUnchecked, DowncastUnchecked,
      BorrowedCursorAdvance, EnvSetVar, PtrSwap, MemSizeOfValRaw, AllocatorMethods, ArchIntrinsic,
      SimdUnchecked, RefCellUnsafe, AsciiUnchecked, UnsafePinned, TargetFeatureCall, PtrAsRefUnchecked,
      UnsafeCellAccess, BTreeCursorUnchecked, NakedFn, FromBytesUnchecked, ArcGetMutUnchecked,
      BinaryHeapUnsafe, ArcStrongCount, CStringFromVecUnchecked, FastFloatArith, CtlzNonzero,
      VaListNextArg, VolatileIntrinsics, StepUnchecked, AtomicPtrArith, LockApiUnsafe, MemmapUnsafe,
      MutexAssumeUnpoisoned, BytesBuf, CrossbeamEpoch, PushUnchecked, NdarrayUnchecked, HashbrownRaw,
      SmallVecUnchecked, RkyvUnchecked, ParkingLotCorePark, NixMman, HeaplessUnchecked, NixFork,
      TriompheUnchecked, NalgebraUnchecked, ZerocopyUnchecked, BitvecUnchecked, MatrixmultiplyUnchecked,
      HashbrownMapUnchecked, PsmUnsafe, ArrayvecUnchecked, SignalHookUnsafe, Socket2Unsafe,
      BytemuckUnsafeImpl, ZerovecUnchecked, LogRacy, YokeReplaceCart, HttpUnchecked, TimeTzUnchecked,
      RustixUnsafe, TypedArenaUnchecked, PrecondPropagation, CastAwayConst, TransmuteLifetime,
      AllocSizeOverflow, OwnershipProtocol, EpochGuard, LockState]"

definition run_all_checks :: "tyctxt \<Rightarrow> finding list option" where
  "run_all_checks tcx = run_checks CHECKERS tcx"

end
