(* ===== verification/Checker_Properties.thy ===== *)
theory Checker_Properties
  imports Checker_List Driver_Properties
begin

text \<open>
  What the run with all checkers promises of single calls: a pointer that was freed is
  reported when it is used, and no call of an unsafe function passes without a word unless
  the flow state has a reason.
\<close>

section \<open>From a checker to the report\<close>

lemma report_has_key:
  assumes "f \<in> set fs" and "rule_id f \<noteq> ''unsafe_fn_call''"
  shows "\<exists>g \<in> set (report fs). finding_key g = finding_key f"
proof -
  from assms have "finding_key f \<in> finding_key ` {f. f \<in> set fs \<and> \<not> backstop_covered fs f}"
    by (auto simp: backstop_covered_def)
  then show ?thesis unfolding report_keys [symmetric] by (metis image_iff)
qed

definition meets :: "span \<Rightarrow> span \<Rightarrow> bool" where
  "meets a b \<longleftrightarrow> span_lo a < span_hi b \<and> span_lo b < span_hi a"

lemma meets_key:
  assumes "finding_key f = finding_key g" and "meets (span_of f) sp"
  shows "meets (span_of g) sp"
  using assms by (simp add: meets_def finding_key_def)

lemma report_meets:
  assumes "f \<in> set fs" and "span_lo (span_of f) < span_hi (span_of f)"
  shows "\<exists>g \<in> set (report fs). meets (span_of g) (span_of f)"
proof (cases "backstop_covered fs f")
  case True
  then obtain g where "g \<in> set fs" "rule_id g \<noteq> ''unsafe_fn_call''" "meets (span_of g) (span_of f)"
    by (auto simp: backstop_covered_def meets_def)
  with report_has_key [of g fs] meets_key [of g] show ?thesis by metis
next
  case False
  with assms(1) have "finding_key f \<in> finding_key ` set (report fs)" unfolding report_keys by blast
  then obtain g where "g \<in> set (report fs)" "finding_key f = finding_key g" by blast
  with assms(2) show ?thesis by (auto simp: meets_def finding_key_def)
qed

lemma checker_pass_member:
  assumes "checker_pass checkers tcx S pm dids = Some fs" and "d \<in> set dids"
    and "compute_flow tcx (optimized_mir tcx d) S = Some flow" and "c \<in> set checkers"
  shows "set (check c tcx (optimized_mir tcx d) (flow\<lparr>precond_summaries := Some pm\<rparr>)) \<subseteq> set fs"
  using assms
proof (induction dids arbitrary: fs)
  case (Cons d' dids)
  from Cons.prems(1) obtain flow' rest where
    r: "compute_flow tcx (optimized_mir tcx d') S = Some flow'" "checker_pass checkers tcx S pm dids = Some rest"
    and fs: "fs = concat (map (\<lambda>c. check c tcx (optimized_mir tcx d') (flow'\<lparr>precond_summaries := Some pm\<rparr>)) checkers) @ rest"
    by (auto simp: Let_def split: option.splits)
  show ?case
  proof (cases "d = d'")
    case True
    with r(1) Cons.prems(3,4) show ?thesis by (auto simp: fs)
  next
    case False
    with Cons.IH [OF r(2)] Cons.prems show ?thesis by (auto simp: fs)
  qed
qed simp

lemma run_checks_member:
  assumes "run_checks checkers tcx = Some fs" and "d \<in> set (local_fns tcx)"
    and "compute_summaries tcx = Some S" and "compute_flow tcx (optimized_mir tcx d) S = Some flow"
    and "c \<in> set checkers"
  obtains raw pm where "fs = report raw"
    and "set (check c tcx (optimized_mir tcx d) (flow\<lparr>precond_summaries := Some pm\<rparr>)) \<subseteq> set raw"
proof -
  from assms(1,3) obtain pm bs where bs: "checker_pass checkers tcx S pm (local_fns tcx) = Some bs"
    and fs: "fs = report (concat (map (\<lambda>c. check_crate c tcx) checkers) @ bs)"
    by (auto simp: run_checks_def split: option.splits)
  from checker_pass_member [OF bs assms(2,4,5)] show thesis by (intro that [OF fs]) auto
qed

lemma site_of_precond [simp]:
  "site_of tcx body (flow\<lparr>precond_summaries := p\<rparr>) x = site_of tcx body flow x"
  by (induction tcx body flow x rule: site_of.induct) (simp_all add: state_before_terminator_def state_at_def split: option.split)

lemma fn_calls_precond [simp]: "fn_calls tcx body (flow\<lparr>precond_summaries := p\<rparr>) = fn_calls tcx body flow"
proof -
  have "site_of tcx body (flow\<lparr>precond_summaries := p\<rparr>) = site_of tcx body flow" by (rule ext) simp
  then show ?thesis by (simp add: fn_calls_def)
qed

text \<open>A call that a run looks at: one of a local function, with the final flow.\<close>

definition analyzed_call :: "tyctxt \<Rightarrow> body \<Rightarrow> call_site \<Rightarrow> bool" where
  "analyzed_call tcx body c \<longleftrightarrow>
     (\<exists>d S flow. d \<in> set (local_fns tcx) \<and> body = optimized_mir tcx d \<and> compute_summaries tcx = Some S \<and>
        compute_flow tcx body S = Some flow \<and> c \<in> set (fn_calls tcx body flow))"

lemma call_finding_in_raw:
  assumes "run_checks checkers tcx = Some fs" and "analyzed_call tcx body c"
    and "body_checker (\<lambda>tcx body flow. concat (map (f tcx body) (fn_calls tcx body flow))) \<in> set checkers"
    and "x \<in> set (f tcx body c)"
  obtains raw where "fs = report raw" and "x \<in> set raw"
proof -
  from assms(2) obtain d S flow where d: "d \<in> set (local_fns tcx)" "body = optimized_mir tcx d"
    "compute_summaries tcx = Some S" "compute_flow tcx (optimized_mir tcx d) S = Some flow"
    "c \<in> set (fn_calls tcx body flow)" by (auto simp: analyzed_call_def)
  from run_checks_member [OF assms(1) d(1,3,4) assms(3)] obtain raw pm where "fs = report raw"
    "set (concat (map (f tcx body) (fn_calls tcx body flow))) \<subseteq> set raw"
    by (auto simp: body_checker_def d(2))
  with that d(5) assms(4) show thesis by auto
qed

section \<open>No unsafe call passes without a word\<close>

lemma UnsafeFnCall_in_CHECKERS:
  "body_checker (\<lambda>tcx body flow. concat (map (unsafe_fn_call_at tcx body) (fn_calls tcx body flow))) \<in> set CHECKERS"
  by (simp add: CHECKERS_def)

lemma uaf_findings_span: "f \<in> set (uaf_findings sp s ptrs) \<Longrightarrow> span_of f = sp \<and> rule_id f = ''use_after_free''"
  by (auto simp: uaf_findings_def List.map_filter_def uaf_finding_def split: freed_kind_result.splits if_splits)

lemma unsafe_fn_call_speaks:
  assumes "fn_sig_safety tcx (site_fn c) (site_generics c) = Unsafe" and "\<not> from_expansion (site_span c)"
    and "\<And>s. site_state c = Some s \<Longrightarrow> \<not> unsafe_call_quiet c s"
  obtains f where "f \<in> set (unsafe_fn_call_at tcx body c)" and "span_of f = site_span c"
proof (cases "site_state c")
  case None
  with assms that show thesis by (auto simp: unsafe_fn_call_at_def info_def finding_at_def)
next
  case (Some s)
  let ?uafs = "uaf_findings (site_span c) s (reads_of (raw_ptr_args body (site_args c)))"
  show thesis
  proof (cases "?uafs = []")
    case True
    with Some assms that show thesis by (auto simp: unsafe_fn_call_at_def info_def finding_at_def)
  next
    case False
    then have "hd ?uafs \<in> set ?uafs" by simp
    with uaf_findings_span [OF this] False Some assms show thesis by (intro that [of "hd ?uafs"]) (simp_all add: unsafe_fn_call_at_def)
  qed
qed

text \<open>
  C7: no call of an unsafe function passes without a word. If a local function calls a
  function whose signature is unsafe, the call is not from a macro and its source range is
  not empty, then the report has a finding whose range meets the range of the call, unless
  the state in front of the call holds one of the facts that discharge the call.
\<close>

theorem no_silent_unsafe_call:
  assumes "run_all_checks tcx = Some fs" and "analyzed_call tcx body c"
    and "fn_sig_safety tcx (site_fn c) (site_generics c) = Unsafe" and "\<not> from_expansion (site_span c)"
    and "span_lo (site_span c) < span_hi (site_span c)"
    and "\<forall>s. site_state c = Some s \<longrightarrow> \<not> unsafe_call_quiet c s"
  shows "\<exists>f \<in> set fs. meets (span_of f) (site_span c)"
proof -
  from assms(6) have "\<And>s. site_state c = Some s \<Longrightarrow> \<not> unsafe_call_quiet c s" by blast
  from unsafe_fn_call_speaks [OF assms(3,4) this] obtain f where
    f: "f \<in> set (unsafe_fn_call_at tcx body c)" "span_of f = site_span c" by blast
  from call_finding_in_raw [OF _ assms(2) UnsafeFnCall_in_CHECKERS f(1)] assms(1) obtain raw where
    "fs = report raw" "f \<in> set raw" by (auto simp: run_all_checks_def)
  with report_meets [of f raw] assms(5) f(2) show ?thesis by simp
qed

section \<open>Uses of freed pointers\<close>

text \<open>The checkers of pointer operations with the pointer each looks at.\<close>

definition pointer_operations :: "((call_site \<Rightarrow> finding list) \<times> (call_site \<Rightarrow> local option)) list" where
  "pointer_operations =
     [(ptr_read_at, first_ptr), (ptr_write_at, first_ptr), (ptr_swap_at, first_ptr), (ptr_arith_at, first_ptr),
      (ptr_as_ref_at, first_ptr), (ptr_as_ref_unchecked_at, first_ptr), (ptr_drop_in_place_at, first_ptr),
      (ptr_from_raw_parts_at, first_ptr), (atomic_from_ptr_at, first_ptr), (waker_from_raw_at, first_ptr),
      (manually_drop_at, first_ptr), (slice_from_raw_parts_at, first_ptr), (arc_strong_count_at, first_ptr),
      (arc_get_mut_unchecked_at, first_ptr), (downcast_unchecked_at, first_ptr), (nonnull_new_unchecked_at, first_ptr),
      (nonnull_deref_at, base_ptr), (clone_to_uninit_call_at, second_ptr)]"

lemma pointer_operation_registered:
  assumes "(at, ptr) \<in> set pointer_operations"
  shows "body_checker (\<lambda>tcx body flow. concat (map at (fn_calls tcx body flow))) \<in> set CHECKERS"
  using assms by (auto simp: pointer_operations_def CHECKERS_def call_checker_def)

lemmas pointer_contracts =
  ptr_read.pointer_checker_axioms ptr_write.pointer_checker_axioms ptr_swap.pointer_checker_axioms
  ptr_arith.pointer_checker_axioms ptr_as_ref.pointer_checker_axioms ptr_as_ref_unchecked.pointer_checker_axioms
  ptr_drop_in_place.pointer_checker_axioms ptr_from_raw_parts.pointer_checker_axioms
  atomic_from_ptr.pointer_checker_axioms waker_from_raw.pointer_checker_axioms manually_drop.pointer_checker_axioms
  slice_from_raw_parts.pointer_checker_axioms arc_strong_count.pointer_checker_axioms
  arc_get_mut_unchecked.pointer_checker_axioms downcast_unchecked.pointer_checker_axioms
  nonnull_new_unchecked.pointer_checker_axioms nonnull_deref.pointer_checker_axioms
  clone_to_uninit_call.pointer_checker_axioms

lemma pointer_operation_contract:
  assumes "(at, ptr) \<in> set pointer_operations"
  shows "\<exists>quiet. pointer_checker at ptr quiet"
  using assms by (auto simp: pointer_operations_def simp del: One_nat_def intro: pointer_contracts)

lemma pointer_operation_reports:
  assumes "(at, ptr) \<in> set pointer_operations" and "at (without_flow c) \<noteq> []"
    and "site_state c = Some s" and "ptr c = Some l" and "freed_kind s l \<noteq> NotFreed"
  shows "\<exists>access. at c = [uaf_finding (site_span c) access (freed_kind s l = Potential)]"
proof -
  from pointer_operation_contract [OF assms(1)] obtain quiet where "pointer_checker at ptr quiet" by blast
  from pointer_checker.freed_reported [OF this assms(2-)] show ?thesis .
qed

lemma freed_use_reported:
  assumes "run_all_checks tcx = Some fs" and "analyzed_call tcx body c"
    and "(at, ptr) \<in> set pointer_operations" and "at (without_flow c) \<noteq> []"
    and "site_state c = Some s" and "ptr c = Some l" and "freed_kind s l \<noteq> NotFreed"
  shows "\<exists>f \<in> set fs. rule_id f = ''use_after_free'' \<and> span_lo (span_of f) = span_lo (site_span c) \<and>
    span_hi (span_of f) = span_hi (site_span c)"
proof -
  from pointer_operation_reports [OF assms(3-7)] obtain access where
    "at c = [uaf_finding (site_span c) access (freed_kind s l = Potential)]" by blast
  moreover define f where "f = uaf_finding (site_span c) access (freed_kind s l = Potential)"
  ultimately have f: "f \<in> set (at c)" by simp
  from call_finding_in_raw [OF _ assms(2) pointer_operation_registered [OF assms(3)], of fs f] assms(1) f
  obtain raw where raw: "fs = report raw" "f \<in> set raw" by (auto simp: run_all_checks_def)
  have "rule_id f = ''use_after_free''" "span_of f = site_span c" by (simp_all add: f_def uaf_finding_def)
  with report_has_key [OF raw(2)] show ?thesis by (auto simp: raw(1) finding_key_def)
qed

text \<open>
  C10: a use of a freed pointer reaches the report. If a local function uses a pointer in an
  operation one of the pointer checkers looks at, and the state in front of the call judges
  the pointer freed, then the report has a use after free at the range of the call.
\<close>

theorem use_after_free_in_report:
  assumes "run_all_checks tcx = Some fs" and "analyzed_call tcx body c"
    and "(at, ptr) \<in> set pointer_operations" and "at (without_flow c) \<noteq> []"
    and "site_state c = Some s" and "ptr c = Some l" and "freed_kind s l \<noteq> NotFreed"
  shows "\<exists>f \<in> set fs. rule_id f = ''use_after_free'' \<and> span_lo (span_of f) = span_lo (site_span c) \<and>
    span_hi (span_of f) = span_hi (site_span c)"
  using assms by (rule freed_use_reported)

section \<open>A crate that uses a freed pointer\<close>

text \<open>
  A pointer from \<^verbatim>\<open>Box::into_raw\<close> is given back, read, and then an unsafe function of
  the crate is called.
\<close>

definition use_path :: "def_id \<Rightarrow> string" where
  "use_path d =
     (if d = DefId 1 4 then ''core::ptr::read'' else if d = DefId 0 5 then ''main::danger'' else library_path d)"

definition use_body :: body where
  "use_body = sample_body 0 ptr_decls
     [call_block (DefId 1 1) [Constant OtherConst] 1 1,
      call_block (DefId 1 2) [Copy (Place 1 [])] 2 2,
      call_block (DefId 1 4) [Copy (Place 1 [])] 3 3,
      call_block (DefId 0 5) [] 4 4,
      block_of [] Return]"

definition use_tcx :: tyctxt where
  "use_tcx = (sample_tcx use_path (\<lambda>_. use_body) [DefId 0 0])\<lparr>fn_sig_safety := (\<lambda>d _. if d = DefId 0 5 then Unsafe else Safe)\<rparr>"

lemma use_tcx_returns: obtains fs where "run_all_checks use_tcx = Some fs"
proof (rule run_checks_returns [where checkers = CHECKERS and tcx = use_tcx])
  show "\<forall>d \<in> set (fns_to_summarize use_tcx). wf_body (optimized_mir use_tcx d)" by code_simp
qed (simp add: run_all_checks_def that)

lemma use_tcx_analyzed:
  assumes "case compute_summaries use_tcx of None \<Rightarrow> False | Some S \<Rightarrow>
    (case compute_flow use_tcx use_body S of None \<Rightarrow> False | Some flow \<Rightarrow> list_ex P (fn_calls use_tcx use_body flow))"
  obtains c where "analyzed_call use_tcx use_body c" and "P c"
proof -
  have "DefId 0 0 \<in> set (local_fns use_tcx)" by code_simp
  moreover have "optimized_mir use_tcx (DefId 0 0) = use_body" by (simp add: use_tcx_def sample_tcx_def)
  ultimately show thesis
    using assms that by (fastforce simp: analyzed_call_def list_ex_iff split: option.splits)
qed

lemma use_tcx_read:
  obtains c s where "analyzed_call use_tcx use_body c" and "ptr_read_at (without_flow c) \<noteq> []"
    and "site_state c = Some s" and "first_ptr c = Some 1" and "freed_kind s 1 = Definite" and "site_span c = Span 3 4 0"
proof (rule use_tcx_analyzed)
  show "case compute_summaries use_tcx of None \<Rightarrow> False | Some S \<Rightarrow>
    (case compute_flow use_tcx use_body S of None \<Rightarrow> False | Some flow \<Rightarrow>
       list_ex (\<lambda>c. ptr_read_at (without_flow c) \<noteq> [] \<and> map_option (\<lambda>s. freed_kind s 1) (site_state c) = Some Definite \<and>
         first_ptr c = Some 1 \<and> site_span c = Span 3 4 0) (fn_calls use_tcx use_body flow))" by code_simp
qed (use that in auto)

lemma use_tcx_danger:
  obtains c where "analyzed_call use_tcx use_body c" and "fn_sig_safety use_tcx (site_fn c) (site_generics c) = Unsafe"
    and "\<forall>s. site_state c = Some s \<longrightarrow> \<not> unsafe_call_quiet c s" and "site_span c = Span 4 5 0"
proof (rule use_tcx_analyzed)
  show "case compute_summaries use_tcx of None \<Rightarrow> False | Some S \<Rightarrow>
    (case compute_flow use_tcx use_body S of None \<Rightarrow> False | Some flow \<Rightarrow>
       list_ex (\<lambda>c. fn_sig_safety use_tcx (site_fn c) (site_generics c) = Unsafe \<and>
         map_option (unsafe_call_quiet c) (site_state c) = Some False \<and> site_span c = Span 4 5 0)
         (fn_calls use_tcx use_body flow))" by code_simp
qed (use that in auto)

theorem no_silent_unsafe_call_witness:
  "\<exists>fs f. run_all_checks use_tcx = Some fs \<and> f \<in> set fs \<and> meets (span_of f) (Span 4 5 0)"
proof -
  obtain fs where fs: "run_all_checks use_tcx = Some fs" by (rule use_tcx_returns)
  obtain c where c: "analyzed_call use_tcx use_body c" "fn_sig_safety use_tcx (site_fn c) (site_generics c) = Unsafe"
    "\<forall>s. site_state c = Some s \<longrightarrow> \<not> unsafe_call_quiet c s" "site_span c = Span 4 5 0" by (rule use_tcx_danger)
  have "\<not> from_expansion (site_span c)" "span_lo (site_span c) < span_hi (site_span c)"
    by (simp_all add: c(4) from_expansion_def)
  from no_silent_unsafe_call [OF fs c(1,2) this c(3)] fs show ?thesis by (auto simp: c(4))
qed

theorem use_after_free_in_report_witness:
  "\<exists>fs f. run_all_checks use_tcx = Some fs \<and> f \<in> set fs \<and> rule_id f = ''use_after_free'' \<and>
     span_lo (span_of f) = 3 \<and> span_hi (span_of f) = 4"
proof -
  obtain fs where fs: "run_all_checks use_tcx = Some fs" by (rule use_tcx_returns)
  obtain c s where c: "analyzed_call use_tcx use_body c" "ptr_read_at (without_flow c) \<noteq> []" "site_state c = Some s"
    "first_ptr c = Some 1" "freed_kind s 1 = Definite" "site_span c = Span 3 4 0" by (rule use_tcx_read)
  have "(ptr_read_at, first_ptr) \<in> set pointer_operations" by (simp add: pointer_operations_def)
  from use_after_free_in_report [OF fs c(1) this c(2,3,4)] c(5) fs show ?thesis by (auto simp: c(6))
qed

end
