(* ===== verification/Range_Soundness.thy ===== *)
theory Range_Soundness
  imports Dataflow_Properties
begin

text \<open>
  The value facts of the state against the values of the program. A store gives every local
  of an unsigned integer, bool or char type its value. \<open>gamma\<close> says which stores a state
  describes: bounds, nonzero facts, the comparisons recorded for bool locals, and equal or
  unequal pairs. The refinement of a switch edge keeps the stores that take
  the edge; the case in which it does not is stated as well. Assignments are in
  \<open>Range_Transfer\<close>, terminators in \<open>Range_Calls\<close>.
\<close>

section \<open>Stores a state describes\<close>

type_synonym store = "local \<Rightarrow> nat"

text \<open>
  A comparison that is on record for a bool local is right as long as neither the local nor a
  subject of the comparison has been assigned since. \<open>tests\<close> gives the bool locals whose
  comparisons are up to date, with the locals that may be their subjects; the other
  comparisons of the state promise nothing.
\<close>

type_synonym tests = "local \<Rightarrow> local set option"

definition test_ok :: "tests \<Rightarrow> local \<Rightarrow> local set \<Rightarrow> bool \<Rightarrow> bool" where
  "test_ok M c L P \<longleftrightarrow> (\<forall>A. M c = Some A \<longrightarrow> L \<subseteq> A \<and> P)"

definition gamma_on :: "tests \<Rightarrow> store \<Rightarrow> block_state \<Rightarrow> bool" where
  "gamma_on M \<sigma> s \<longleftrightarrow>
     fmpred (\<lambda>l u. \<sigma> l \<le> unat u) (const_upper s) \<and>
     fmpred (\<lambda>l u. unat u \<le> \<sigma> l) (const_lower s) \<and>
     fBall (nonzero s) (\<lambda>l. \<sigma> l \<noteq> 0) \<and>
     fmpred (\<lambda>c (l, k). test_ok M c {l} (\<sigma> c \<noteq> 0 \<longleftrightarrow> \<sigma> l < unat k)) (const_lt s) \<and>
     fmpred (\<lambda>c (l, k). test_ok M c {l} (\<sigma> c \<noteq> 0 \<longleftrightarrow> \<sigma> l \<le> unat k)) (const_le s) \<and>
     fmpred (\<lambda>c (l, k). test_ok M c {l} (\<sigma> c \<noteq> 0 \<longleftrightarrow> unat k < \<sigma> l)) (const_gt s) \<and>
     fmpred (\<lambda>c (l, k). test_ok M c {l} (\<sigma> c \<noteq> 0 \<longleftrightarrow> unat k \<le> \<sigma> l)) (const_ge s) \<and>
     fmpred (\<lambda>c l. test_ok M c {l} (\<sigma> c \<noteq> 0 \<longrightarrow> \<sigma> l \<noteq> 0)) (nonzero_if_true s) \<and>
     fmpred (\<lambda>c l. test_ok M c {l} (\<sigma> c = 0 \<longrightarrow> \<sigma> l \<noteq> 0)) (nonzero_if_false s) \<and>
     fmpred (\<lambda>c (a, b). test_ok M c {a, b} (\<sigma> c \<noteq> 0 \<longleftrightarrow> \<sigma> a = \<sigma> b)) (eq_pair_if_true s) \<and>
     fmpred (\<lambda>c (a, b). test_ok M c {a, b} (\<sigma> c \<noteq> 0 \<longleftrightarrow> \<sigma> a \<noteq> \<sigma> b)) (ne_pair_if_true s) \<and>
     fBall (keys_are_ne s) (\<lambda>(a, b). \<sigma> a \<noteq> \<sigma> b) \<and>
     fBall (eq_locals s) (\<lambda>(a, b). \<sigma> a = \<sigma> b)"

text \<open>With every comparison on record up to date, and with none.\<close>

abbreviation gamma :: "store \<Rightarrow> block_state \<Rightarrow> bool" where
  "gamma \<equiv> gamma_on (\<lambda>_. Some UNIV)"

abbreviation gamma_values :: "store \<Rightarrow> block_state \<Rightarrow> bool" where
  "gamma_values \<equiv> gamma_on (\<lambda>_. None)"

lemma test_ok_simps [simp]: "test_ok (\<lambda>_. Some UNIV) c L P = P" "test_ok (\<lambda>_. None) c L P"
  by (simp_all add: test_ok_def)

lemma test_okD: "test_ok M c L P \<Longrightarrow> M c \<noteq> None \<Longrightarrow> P"
  by (auto simp: test_ok_def)

lemma gammaD:
  assumes "gamma_on M \<sigma> s"
  shows "fmlookup (const_upper s) l = Some u \<Longrightarrow> \<sigma> l \<le> unat u"
    and "fmlookup (const_lower s) l = Some u \<Longrightarrow> unat u \<le> \<sigma> l"
    and "l |\<in>| nonzero s \<Longrightarrow> \<sigma> l \<noteq> 0"
    and "fmlookup (const_lt s) c = Some (l, k) \<Longrightarrow> M c \<noteq> None \<Longrightarrow> \<sigma> c \<noteq> 0 \<longleftrightarrow> \<sigma> l < unat k"
    and "fmlookup (const_le s) c = Some (l, k) \<Longrightarrow> M c \<noteq> None \<Longrightarrow> \<sigma> c \<noteq> 0 \<longleftrightarrow> \<sigma> l \<le> unat k"
    and "fmlookup (const_gt s) c = Some (l, k) \<Longrightarrow> M c \<noteq> None \<Longrightarrow> \<sigma> c \<noteq> 0 \<longleftrightarrow> unat k < \<sigma> l"
    and "fmlookup (const_ge s) c = Some (l, k) \<Longrightarrow> M c \<noteq> None \<Longrightarrow> \<sigma> c \<noteq> 0 \<longleftrightarrow> unat k \<le> \<sigma> l"
    and "fmlookup (nonzero_if_true s) c = Some l \<Longrightarrow> M c \<noteq> None \<Longrightarrow> \<sigma> c \<noteq> 0 \<Longrightarrow> \<sigma> l \<noteq> 0"
    and "fmlookup (nonzero_if_false s) c = Some l \<Longrightarrow> M c \<noteq> None \<Longrightarrow> \<sigma> c = 0 \<Longrightarrow> \<sigma> l \<noteq> 0"
    and "fmlookup (eq_pair_if_true s) c = Some (a, b) \<Longrightarrow> M c \<noteq> None \<Longrightarrow> \<sigma> c \<noteq> 0 \<longleftrightarrow> \<sigma> a = \<sigma> b"
    and "fmlookup (ne_pair_if_true s) c = Some (a, b) \<Longrightarrow> M c \<noteq> None \<Longrightarrow> \<sigma> c \<noteq> 0 \<longleftrightarrow> \<sigma> a \<noteq> \<sigma> b"
proof -
  note g = assms [unfolded gamma_on_def]
  show "fmlookup (const_upper s) l = Some u \<Longrightarrow> \<sigma> l \<le> unat u" using fmpredD [OF conjunct1 [OF g]] .
  note g = conjunct2 [OF g]
  show "fmlookup (const_lower s) l = Some u \<Longrightarrow> unat u \<le> \<sigma> l" using fmpredD [OF conjunct1 [OF g]] .
  note g = conjunct2 [OF g]
  show "l |\<in>| nonzero s \<Longrightarrow> \<sigma> l \<noteq> 0" using fbspec [OF conjunct1 [OF g]] .
  note g = conjunct2 [OF g]
  show "fmlookup (const_lt s) c = Some (l, k) \<Longrightarrow> M c \<noteq> None \<Longrightarrow> \<sigma> c \<noteq> 0 \<longleftrightarrow> \<sigma> l < unat k"
    using fmpredD [OF conjunct1 [OF g]] by (fastforce dest: test_okD)
  note g = conjunct2 [OF g]
  show "fmlookup (const_le s) c = Some (l, k) \<Longrightarrow> M c \<noteq> None \<Longrightarrow> \<sigma> c \<noteq> 0 \<longleftrightarrow> \<sigma> l \<le> unat k"
    using fmpredD [OF conjunct1 [OF g]] by (fastforce dest: test_okD)
  note g = conjunct2 [OF g]
  show "fmlookup (const_gt s) c = Some (l, k) \<Longrightarrow> M c \<noteq> None \<Longrightarrow> \<sigma> c \<noteq> 0 \<longleftrightarrow> unat k < \<sigma> l"
    using fmpredD [OF conjunct1 [OF g]] by (fastforce dest: test_okD)
  note g = conjunct2 [OF g]
  show "fmlookup (const_ge s) c = Some (l, k) \<Longrightarrow> M c \<noteq> None \<Longrightarrow> \<sigma> c \<noteq> 0 \<longleftrightarrow> unat k \<le> \<sigma> l"
    using fmpredD [OF conjunct1 [OF g]] by (fastforce dest: test_okD)
  note g = conjunct2 [OF g]
  show "fmlookup (nonzero_if_true s) c = Some l \<Longrightarrow> M c \<noteq> None \<Longrightarrow> \<sigma> c \<noteq> 0 \<Longrightarrow> \<sigma> l \<noteq> 0"
    using fmpredD [OF conjunct1 [OF g]] by (blast dest: test_okD)
  note g = conjunct2 [OF g]
  show "fmlookup (nonzero_if_false s) c = Some l \<Longrightarrow> M c \<noteq> None \<Longrightarrow> \<sigma> c = 0 \<Longrightarrow> \<sigma> l \<noteq> 0"
    using fmpredD [OF conjunct1 [OF g]] by (blast dest: test_okD)
  note g = conjunct2 [OF g]
  show "fmlookup (eq_pair_if_true s) c = Some (a, b) \<Longrightarrow> M c \<noteq> None \<Longrightarrow> \<sigma> c \<noteq> 0 \<longleftrightarrow> \<sigma> a = \<sigma> b"
    using fmpredD [OF conjunct1 [OF g]] by (fastforce dest: test_okD)
  note g = conjunct2 [OF g]
  show "fmlookup (ne_pair_if_true s) c = Some (a, b) \<Longrightarrow> M c \<noteq> None \<Longrightarrow> \<sigma> c \<noteq> 0 \<longleftrightarrow> \<sigma> a \<noteq> \<sigma> b"
    using fmpredD [OF conjunct1 [OF g]] by (fastforce dest: test_okD)
qed

lemma gamma_default: "gamma_on M \<sigma> block_state_default"
  by (simp add: gamma_on_def block_state_default_def)

text \<open>The fields \<open>gamma\<close> reads; a step that leaves them alone keeps the stores.\<close>

definition range_view where
  "range_view s =
     (const_upper s, const_lower s, nonzero s, const_lt s, const_le s, const_gt s, const_ge s,
      nonzero_if_true s, nonzero_if_false s, eq_pair_if_true s, ne_pair_if_true s, keys_are_ne s, eq_locals s)"

lemma gamma_view: "range_view t = range_view s \<Longrightarrow> gamma_on M \<sigma> t = gamma_on M \<sigma> s"
  by (simp add: range_view_def gamma_on_def)

section \<open>Adding a fact\<close>

named_theorems gamma_intros \<open>steps that keep a store\<close>

lemma min_bound: "x \<le> unat a \<Longrightarrow> x \<le> unat b \<Longrightarrow> x \<le> unat (min a b)"
  by (simp add: min_def)

lemma max_bound: "unat a \<le> x \<Longrightarrow> unat b \<le> x \<Longrightarrow> unat (max a b) \<le> x"
  by (simp add: max_def)

lemma gamma_upper:
  assumes "gamma_on M \<sigma> s" and "\<sigma> l \<le> unat u"
  shows "gamma_on M \<sigma> (lower_upper_bound l u s)"
proof (cases "fmlookup (const_upper s) l")
  case None
  with assms show ?thesis by (simp add: gamma_on_def lower_upper_bound_def Let_def fmpred_upd)
next
  case (Some e)
  with assms have "\<sigma> l \<le> unat (min e u)" using gammaD(1) min_bound by blast
  with assms Some show ?thesis by (simp add: gamma_on_def lower_upper_bound_def Let_def fmpred_upd)
qed

lemma gamma_lower:
  assumes "gamma_on M \<sigma> s" and "unat u \<le> \<sigma> l"
  shows "gamma_on M \<sigma> (raise_lower_bound l u s)"
proof (cases "fmlookup (const_lower s) l")
  case None
  with assms show ?thesis by (simp add: gamma_on_def raise_lower_bound_def Let_def fmpred_upd)
next
  case (Some e)
  with assms have "unat (max e u) \<le> \<sigma> l" using gammaD(2) max_bound by blast
  with assms Some show ?thesis by (simp add: gamma_on_def raise_lower_bound_def Let_def fmpred_upd)
qed

lemma gamma_nonzero: "gamma_on M \<sigma> s \<Longrightarrow> \<sigma> l \<noteq> 0 \<Longrightarrow> gamma_on M \<sigma> (s\<lparr>nonzero := finsert l (nonzero s)\<rparr>)"
  by (simp add: gamma_on_def)

lemma gamma_facts:
  "gamma_on M \<sigma> s \<Longrightarrow> test_ok M c {l} (\<sigma> c \<noteq> 0 \<longleftrightarrow> \<sigma> l < unat k) \<Longrightarrow> gamma_on M \<sigma> (s\<lparr>const_lt := fmupd c (l, k) (const_lt s)\<rparr>)"
  "gamma_on M \<sigma> s \<Longrightarrow> test_ok M c {l} (\<sigma> c \<noteq> 0 \<longleftrightarrow> \<sigma> l \<le> unat k) \<Longrightarrow> gamma_on M \<sigma> (s\<lparr>const_le := fmupd c (l, k) (const_le s)\<rparr>)"
  "gamma_on M \<sigma> s \<Longrightarrow> test_ok M c {l} (\<sigma> c \<noteq> 0 \<longleftrightarrow> unat k < \<sigma> l) \<Longrightarrow> gamma_on M \<sigma> (s\<lparr>const_gt := fmupd c (l, k) (const_gt s)\<rparr>)"
  "gamma_on M \<sigma> s \<Longrightarrow> test_ok M c {l} (\<sigma> c \<noteq> 0 \<longleftrightarrow> unat k \<le> \<sigma> l) \<Longrightarrow> gamma_on M \<sigma> (s\<lparr>const_ge := fmupd c (l, k) (const_ge s)\<rparr>)"
  "gamma_on M \<sigma> s \<Longrightarrow> test_ok M c {l} (\<sigma> c \<noteq> 0 \<longrightarrow> \<sigma> l \<noteq> 0) \<Longrightarrow> gamma_on M \<sigma> (s\<lparr>nonzero_if_true := fmupd c l (nonzero_if_true s)\<rparr>)"
  "gamma_on M \<sigma> s \<Longrightarrow> test_ok M c {l} (\<sigma> c = 0 \<longrightarrow> \<sigma> l \<noteq> 0) \<Longrightarrow> gamma_on M \<sigma> (s\<lparr>nonzero_if_false := fmupd c l (nonzero_if_false s)\<rparr>)"
  "gamma_on M \<sigma> s \<Longrightarrow> test_ok M c {a, b} (\<sigma> c \<noteq> 0 \<longleftrightarrow> \<sigma> a = \<sigma> b) \<Longrightarrow> gamma_on M \<sigma> (s\<lparr>eq_pair_if_true := fmupd c (a, b) (eq_pair_if_true s)\<rparr>)"
  "gamma_on M \<sigma> s \<Longrightarrow> test_ok M c {a, b} (\<sigma> c \<noteq> 0 \<longleftrightarrow> \<sigma> a \<noteq> \<sigma> b) \<Longrightarrow> gamma_on M \<sigma> (s\<lparr>ne_pair_if_true := fmupd c (a, b) (ne_pair_if_true s)\<rparr>)"
  "gamma_on M \<sigma> s \<Longrightarrow> \<sigma> a \<noteq> \<sigma> b \<Longrightarrow> gamma_on M \<sigma> (s\<lparr>keys_are_ne := finsert (canon a b) (keys_are_ne s)\<rparr>)"
  "gamma_on M \<sigma> s \<Longrightarrow> \<sigma> a = \<sigma> b \<Longrightarrow> gamma_on M \<sigma> (s\<lparr>eq_locals := finsert (canon a b) (eq_locals s)\<rparr>)"
  by (simp_all add: gamma_on_def canon_def fmpred_upd)

section \<open>Refinement of a switch edge\<close>

lemma gamma_other_fields [simp]:
  "gamma_on M \<sigma> (s\<lparr>bounded := x1\<rparr>) = gamma_on M \<sigma> s" "gamma_on M \<sigma> (s\<lparr>bounded_or_eq := x1\<rparr>) = gamma_on M \<sigma> s"
  "gamma_on M \<sigma> (s\<lparr>index_bounded_for := x2\<rparr>) = gamma_on M \<sigma> s" "gamma_on M \<sigma> (s\<lparr>index_bounded_or_eq_for := x2\<rparr>) = gamma_on M \<sigma> s"
  "gamma_on M \<sigma> (s\<lparr>has_spare := x1\<rparr>) = gamma_on M \<sigma> s" "gamma_on M \<sigma> (s\<lparr>is_full := x1\<rparr>) = gamma_on M \<sigma> s"
  "gamma_on M \<sigma> (s\<lparr>finite_locals := x1\<rparr>) = gamma_on M \<sigma> s" "gamma_on M \<sigma> (s\<lparr>mul_overflow := x1\<rparr>) = gamma_on M \<sigma> s"
  "gamma_on M \<sigma> (s\<lparr>cast_origin := x3\<rparr>) = gamma_on M \<sigma> s"
  by (rule gamma_view; simp add: range_view_def)+

lemma gamma_on_fact:
  assumes "gamma_on M \<sigma> s" and "\<And>v. fmlookup (field s) d = Some v \<Longrightarrow> gamma_on M \<sigma> (f v s)"
  shows "gamma_on M \<sigma> (on_fact field d f s)"
  using assms by (simp add: on_fact_def split: option.split)

lemma refine_true_edge_sound:
  assumes "gamma_on M \<sigma> s" and "\<sigma> d \<noteq> 0" and "M d \<noteq> None"
  shows "gamma_on M \<sigma> (refine_true_edge d s)"
proof -
  have "gamma_on M \<sigma> (on_fact const_lt d (\<lambda>(l, k). lower_upper_bound l (saturating_sub1 k)) s)" if "gamma_on M \<sigma> s" for s
    by (rule gamma_on_fact [OF that]) (use assms(2,3) gammaD(4) [OF that] in
        \<open>fastforce intro!: gamma_upper that simp: unat_saturating_sub1\<close>)
  moreover have "gamma_on M \<sigma> (on_fact const_le d (\<lambda>(l, k). lower_upper_bound l k) s)" if "gamma_on M \<sigma> s" for s
    by (rule gamma_on_fact [OF that]) (use assms(2,3) gammaD(5) [OF that] in \<open>fastforce intro!: gamma_upper that\<close>)
  moreover have "gamma_on M \<sigma> (on_fact const_gt d (\<lambda>(l, k). raise_lower_bound l (saturating_add1 k)) s)" if "gamma_on M \<sigma> s" for s
    by (rule gamma_on_fact [OF that]) (use assms(2,3) gammaD(6) [OF that] in
        \<open>fastforce intro!: gamma_lower that simp: unat_saturating_add1\<close>)
  moreover have "gamma_on M \<sigma> (on_fact const_ge d (\<lambda>(l, k). raise_lower_bound l k) s)" if "gamma_on M \<sigma> s" for s
    by (rule gamma_on_fact [OF that]) (use assms(2,3) gammaD(7) [OF that] in \<open>fastforce intro!: gamma_lower that\<close>)
  moreover have "gamma_on M \<sigma> (on_fact nonzero_if_true d (\<lambda>l s. s\<lparr>nonzero := finsert l (nonzero s)\<rparr>) s)" if "gamma_on M \<sigma> s" for s
    by (rule gamma_on_fact [OF that]) (use assms(2,3) gammaD(8) [OF that] in \<open>fastforce intro!: gamma_nonzero that\<close>)
  moreover have "gamma_on M \<sigma> (on_fact ne_pair_if_true d (\<lambda>(a, b) s. s\<lparr>keys_are_ne := finsert (canon a b) (keys_are_ne s)\<rparr>) s)"
    if "gamma_on M \<sigma> s" for s
    by (rule gamma_on_fact [OF that]) (use assms(2,3) gammaD(11) [OF that] in \<open>fastforce intro!: gamma_facts that\<close>)
  moreover have "gamma_on M \<sigma> (on_fact eq_pair_if_true d (\<lambda>(a, b) s. s\<lparr>eq_locals := finsert (canon a b) (eq_locals s)\<rparr>) s)"
    if "gamma_on M \<sigma> s" for s
    by (rule gamma_on_fact [OF that]) (use assms(2,3) gammaD(10) [OF that] in \<open>fastforce intro!: gamma_facts that\<close>)
  ultimately show ?thesis
    using assms(1) by (simp add: refine_true_edge_def run_steps_def gamma_on_fact)
qed

lemma refine_false_edge_sound:
  assumes "gamma_on M \<sigma> s" and "\<sigma> d = 0" and "M d \<noteq> None"
  shows "gamma_on M \<sigma> (refine_false_edge d s)"
proof -
  have "gamma_on M \<sigma> (on_fact const_lt d (\<lambda>(l, k). raise_lower_bound l k) s)" if "gamma_on M \<sigma> s" for s
    by (rule gamma_on_fact [OF that]) (use assms(2,3) gammaD(4) [OF that] in \<open>fastforce intro!: gamma_lower that\<close>)
  moreover have "gamma_on M \<sigma> (on_fact const_le d (\<lambda>(l, k). raise_lower_bound l (saturating_add1 k)) s)" if "gamma_on M \<sigma> s" for s
    by (rule gamma_on_fact [OF that]) (use assms(2,3) gammaD(5) [OF that] in
        \<open>fastforce intro!: gamma_lower that simp: unat_saturating_add1\<close>)
  moreover have "gamma_on M \<sigma> (on_fact const_gt d (\<lambda>(l, k). lower_upper_bound l k) s)" if "gamma_on M \<sigma> s" for s
    by (rule gamma_on_fact [OF that]) (use assms(2,3) gammaD(6) [OF that] in \<open>fastforce intro!: gamma_upper that\<close>)
  moreover have "gamma_on M \<sigma> (on_fact const_ge d (\<lambda>(l, k). lower_upper_bound l (saturating_sub1 k)) s)" if "gamma_on M \<sigma> s" for s
    by (rule gamma_on_fact [OF that]) (use assms(2,3) gammaD(7) [OF that] in
        \<open>fastforce intro!: gamma_upper that simp: unat_saturating_sub1\<close>)
  moreover have "gamma_on M \<sigma> (on_fact nonzero_if_false d (\<lambda>l s. s\<lparr>nonzero := finsert l (nonzero s)\<rparr>) s)" if "gamma_on M \<sigma> s" for s
    by (rule gamma_on_fact [OF that]) (use assms(2,3) gammaD(9) [OF that] in \<open>fastforce intro!: gamma_nonzero that\<close>)
  moreover have "gamma_on M \<sigma> (on_fact eq_pair_if_true d (\<lambda>(a, b) s. s\<lparr>keys_are_ne := finsert (canon a b) (keys_are_ne s)\<rparr>) s)"
    if "gamma_on M \<sigma> s" for s
    by (rule gamma_on_fact [OF that]) (use assms(2,3) gammaD(10) [OF that] in \<open>fastforce intro!: gamma_facts that\<close>)
  moreover have "gamma_on M \<sigma> (on_fact ne_pair_if_true d (\<lambda>(a, b) s. s\<lparr>eq_locals := finsert (canon a b) (eq_locals s)\<rparr>) s)"
    if "gamma_on M \<sigma> s" for s
    by (rule gamma_on_fact [OF that]) (use assms(2,3) gammaD(11) [OF that] in \<open>fastforce intro!: gamma_facts that\<close>)
  ultimately show ?thesis
    using assms(1) by (simp add: refine_false_edge_def run_steps_def gamma_on_fact)
qed

text \<open>Where a switch on the value \<open>v\<close> goes.\<close>

definition switch_target :: "switch_targets \<Rightarrow> nat \<Rightarrow> basic_block" where
  "switch_target targets v =
     (case find (\<lambda>(k, _). unat k = v) (switch_iter targets) of
        Some (_, t) \<Rightarrow> t
      | None \<Rightarrow> switch_otherwise targets)"

lemma switch_target_zero:
  assumes "zero_target targets = Some z"
  shows "switch_target targets 0 = z"
proof -
  have "(\<lambda>(k, _). unat k = 0) = (\<lambda>(k :: u128, _ :: basic_block). k = 0)" by (auto simp: unat_eq_0)
  with assms show ?thesis by (auto simp: switch_target_def zero_target_def)
qed

lemma switch_target_nonzero:
  assumes "v \<noteq> 0" and "\<forall>k t. (k, t) \<in> set (switch_iter targets) \<and> t = z \<longrightarrow> k = 0"
  shows "switch_target targets v \<noteq> z \<or> switch_target targets v = switch_otherwise targets"
proof (cases "find (\<lambda>(k, _). unat k = v) (switch_iter targets)")
  case None
  then show ?thesis by (simp add: switch_target_def)
next
  case (Some kt)
  then obtain k t where kt: "kt = (k, t)" "(k, t) \<in> set (switch_iter targets)" "unat k = v"
    by (cases kt) (fastforce simp: find_Some_iff in_set_conv_nth)
  with assms have "t \<noteq> z" by auto
  with Some kt show ?thesis by (simp add: switch_target_def)
qed

text \<open>
  Refining the state along the edge a switch takes loses no execution. If a store is
  described by the state in front of the switch, it is described by the refined state of the
  edge that the value of the discriminant selects, provided value zero has a target of its
  own that no other value shares.
\<close>

lemma switch_edge_keeps:
  assumes "gamma_on M \<sigma> s" and "operand_local discr = Some d" and "M d \<noteq> None" and "zero_target targets = Some z"
    and "\<forall>k t. (k, t) \<in> set (switch_iter targets) \<and> t = z \<longrightarrow> k = 0"
  shows "gamma_on M \<sigma> (refine_switchint_edge (Terminator (SwitchInt discr targets) sp) (switch_target targets (\<sigma> d)) s)"
proof (cases "\<sigma> d = 0")
  case True
  then have "switch_target targets (\<sigma> d) = z" using switch_target_zero [OF assms(4)] by simp
  then show ?thesis
    using assms(1-4) refine_false_edge_sound [OF assms(1) True assms(3)] by (simp add: refine_switch_targets_def)
next
  case False
  with switch_target_nonzero [OF _ assms(5)]
  have "switch_target targets (\<sigma> d) \<noteq> z \<or> switch_target targets (\<sigma> d) = switch_otherwise targets" by blast
  then show ?thesis
    using assms(1-4) refine_true_edge_sound [OF assms(1) False assms(3)] by (auto simp: refine_switch_targets_def)
qed

text \<open>The state behind \<^verbatim>\<open>_2 = _1 < 10\<close>.\<close>

definition compared_state :: block_state where
  "compared_state = block_state_default\<lparr>const_lt := fmap_of_list [(2, (1, 10))]\<rparr>"

lemma compared_state_gamma: "\<sigma> 2 \<noteq> 0 \<longleftrightarrow> \<sigma> 1 < 10 \<Longrightarrow> gamma \<sigma> compared_state"
  by (simp add: gamma_on_def compared_state_def block_state_default_def fmpred_upd)

text \<open>
  C37: a switch that has no target for zero is refined as if its default edge were the true
  edge. The comment in the code says that shapes other than the two-way switch are left
  alone; here the default edge is taken with a false comparison, and the refined state
  excludes the values of that execution.
\<close>

theorem switch_without_zero_target_unsound:
  "\<exists>\<sigma> targets. gamma \<sigma> compared_state \<and> switch_target targets (\<sigma> 2) = switch_otherwise targets \<and>
     \<not> gamma \<sigma> (refine_switchint_edge (Terminator (SwitchInt (Move (Place 2 [])) targets) (Span 0 0 0))
       (switch_otherwise targets) compared_state)"
proof (intro exI conjI)
  let ?\<sigma> = "\<lambda>l :: local. if l = 1 then 50 else 0 :: nat"
  let ?targets = "SwitchTargets [(1, 1)] 2"
  let ?t = "refine_switchint_edge (Terminator (SwitchInt (Move (Place 2 [])) ?targets) (Span 0 0 0))
      (switch_otherwise ?targets) compared_state"
  show "gamma ?\<sigma> compared_state" by (rule compared_state_gamma) simp
  show "switch_target ?targets (?\<sigma> 2) = switch_otherwise ?targets" by (simp add: switch_target_def)
  have "fmlookup (const_upper ?t) 1 = Some 9" by code_simp
  then show "\<not> gamma ?\<sigma> ?t" using gammaD(1) [of "\<lambda>_. Some UNIV" ?\<sigma> ?t 1 9] by auto
qed

end
