(* ===== verification/Range_Transfer.thy ===== *)
theory Range_Transfer
  imports Range_Soundness
begin

text \<open>
  Soundness of the transfer of assignments for the value facts, and of the merge of two
  states. The value an assignment may store is given by \<open>result_of\<close>, from the operands as
  the compiler documents its operations on unsigned integers.
\<close>

section \<open>Overwriting a local\<close>

text \<open>
  Assigning a local outdates the comparisons that have it as a subject; the comparison the
  assignment itself records is about the locals it reads.
\<close>

definition overwrite :: "local \<Rightarrow> local set \<Rightarrow> tests \<Rightarrow> tests" where
  "overwrite d L M c =
     (if c = d then Some L
      else case M c of None \<Rightarrow> None | Some A \<Rightarrow> if d \<in> A then None else Some A)"

lemma test_ok_overwrite:
  assumes "test_ok M c L P" and "c \<noteq> d" and "d \<notin> L \<Longrightarrow> P \<Longrightarrow> Q"
  shows "test_ok (overwrite d A M) c L Q"
  using assms by (auto simp: test_ok_def overwrite_def split: option.splits if_splits)

lemma fmpred_havoc:
  assumes "fmpred P m" and "\<And>k x. k \<noteq> d \<Longrightarrow> P k x \<Longrightarrow> Q k x"
  shows "fmpred Q (fmdrop d m)"
  using assms(2) fmpredD [OF assms(1)] by (auto intro!: fmpredI split: if_splits)

lemma clear_dst_view:
  "range_view (clear_dst_facts d s) =
     (fmdrop d (const_upper s), fmdrop d (const_lower s), fs_remove d (nonzero s),
      fmdrop d (const_lt s), fmdrop d (const_le s), fmdrop d (const_gt s), fmdrop d (const_ge s),
      fmdrop d (nonzero_if_true s), fmdrop d (nonzero_if_false s),
      fmdrop d (eq_pair_if_true s), fmdrop d (ne_pair_if_true s),
      without d (keys_are_ne s), without d (eq_locals s))"
  by (simp add: range_view_def clear_dst_facts_def clear_field_owned_for_def)

lemma gamma_parts:
  assumes "gamma_on M \<sigma> s"
  shows "fmpred (\<lambda>l u. \<sigma> l \<le> unat u) (const_upper s)" "fmpred (\<lambda>l u. unat u \<le> \<sigma> l) (const_lower s)"
    "fBall (nonzero s) (\<lambda>l. \<sigma> l \<noteq> 0)"
    "fmpred (\<lambda>c (l, k). test_ok M c {l} (\<sigma> c \<noteq> 0 \<longleftrightarrow> \<sigma> l < unat k)) (const_lt s)"
    "fmpred (\<lambda>c (l, k). test_ok M c {l} (\<sigma> c \<noteq> 0 \<longleftrightarrow> \<sigma> l \<le> unat k)) (const_le s)"
    "fmpred (\<lambda>c (l, k). test_ok M c {l} (\<sigma> c \<noteq> 0 \<longleftrightarrow> unat k < \<sigma> l)) (const_gt s)"
    "fmpred (\<lambda>c (l, k). test_ok M c {l} (\<sigma> c \<noteq> 0 \<longleftrightarrow> unat k \<le> \<sigma> l)) (const_ge s)"
    "fmpred (\<lambda>c l. test_ok M c {l} (\<sigma> c \<noteq> 0 \<longrightarrow> \<sigma> l \<noteq> 0)) (nonzero_if_true s)"
    "fmpred (\<lambda>c l. test_ok M c {l} (\<sigma> c = 0 \<longrightarrow> \<sigma> l \<noteq> 0)) (nonzero_if_false s)"
    "fmpred (\<lambda>c (a, b). test_ok M c {a, b} (\<sigma> c \<noteq> 0 \<longleftrightarrow> \<sigma> a = \<sigma> b)) (eq_pair_if_true s)"
    "fmpred (\<lambda>c (a, b). test_ok M c {a, b} (\<sigma> c \<noteq> 0 \<longleftrightarrow> \<sigma> a \<noteq> \<sigma> b)) (ne_pair_if_true s)"
    "fBall (keys_are_ne s) (\<lambda>(a, b). \<sigma> a \<noteq> \<sigma> b)" "fBall (eq_locals s) (\<lambda>(a, b). \<sigma> a = \<sigma> b)"
  using assms unfolding gamma_on_def by - (elim conjE, assumption)+

lemma gamma_havoc:
  assumes "gamma_on M \<sigma> s"
  shows "gamma_on (overwrite d L M) (\<sigma>(d := v)) (clear_dst_facts d s)"
proof -
  note g = gamma_parts [OF assms]
  show ?thesis
    unfolding gamma_on_def
    using clear_dst_view [of d s, unfolded range_view_def prod.inject]
    apply (elim conjE)
    apply (simp only:)
    apply (intro conjI)
    apply (rule fmpred_havoc [OF g(1)], simp)
    apply (rule fmpred_havoc [OF g(2)], simp)
    subgoal using g(3) by (auto simp: fs_remove_def)
    apply (rule fmpred_havoc [OF g(4)], clarify, erule (1) test_ok_overwrite, simp)
    apply (rule fmpred_havoc [OF g(5)], clarify, erule (1) test_ok_overwrite, simp)
    apply (rule fmpred_havoc [OF g(6)], clarify, erule (1) test_ok_overwrite, simp)
    apply (rule fmpred_havoc [OF g(7)], clarify, erule (1) test_ok_overwrite, simp)
    apply (rule fmpred_havoc [OF g(8)], erule (1) test_ok_overwrite, simp)
    apply (rule fmpred_havoc [OF g(9)], erule (1) test_ok_overwrite, simp)
    subgoal by (rule fmpred_havoc [OF g(10)], clarify, erule (1) test_ok_overwrite) auto
    subgoal by (rule fmpred_havoc [OF g(11)], clarify, erule (1) test_ok_overwrite) auto
    subgoal using g(12) by (auto simp: without_def)
    subgoal using g(13) by (auto simp: without_def)
    done
qed

section \<open>Steps that do not touch the value facts\<close>

named_theorems view_simps \<open>steps that leave the fields of \<open>range_view\<close> alone\<close>

lemma view_of_owner_steps [view_simps]:
  "range_view (invalidate_owner l s) = range_view s"
  "range_view (update_owner_alias body d rv s) = range_view s"
  "range_view (update_fn_ptr_target d rv s) = range_view s"
  by (simp_all add: range_view_def invalidate_owner_def update_owner_alias_def update_fn_ptr_target_def
      Let_def split: rvalue.split option.split cast_kind.split pointer_coercion.split)

lemma view_of_records [view_simps]:
  "range_view (record_ref_base d rv s) = range_view s" "range_view (record_slice_len d rv s) = range_view s"
  "range_view (record_spare d op1 op2 t c s) = range_view s" "range_view (record_full d op1 op2 t s) = range_view s"
proof -
  show "range_view (record_ref_base d rv s) = range_view s"
    by (cases "(d, rv, s)" rule: record_ref_base.cases) (simp_all add: range_view_def)
  show "range_view (record_slice_len d rv s) = range_view s"
    by (cases "(d, rv, s)" rule: record_slice_len.cases) (simp_all add: range_view_def split: option.split)
  show "range_view (record_spare d op1 op2 t c s) = range_view s"
    by (simp add: range_view_def record_spare_def Let_def split: option.split prod.split)
  show "range_view (record_full d op1 op2 t s) = range_view s"
    by (simp add: range_view_def record_full_def split: option.split)
qed

lemma view_of_clears [view_simps]:
  "range_view (set_points_to d x s) = range_view s" "range_view (clear_local_facts d s) = range_view s"
  "range_view (clear_cmp_facts d s) = range_view s" "range_view (clear_binop_dst d s) = range_view s"
  by (simp_all add: range_view_def set_points_to_def clear_local_facts_def clear_cmp_facts_def clear_binop_dst_def)

lemma view_of_arms [view_simps]:
  "projection dst = [] \<Longrightarrow> range_view (assign_move dst src s) = range_view s"
  "projection dst = [] \<Longrightarrow> range_view (assign_copy dst src s) = range_view s"
  "range_view (assign_field_read d p s) = range_view s" "range_view (assign_address_of d p s) = range_view s"
  "range_view (assign_aggregate tcx d kind ops s) = range_view s"
  "range_view (assign_ptr_cast body d src ty s) = range_view s"
  "range_view (clear_moved_field p s) = range_view s"
  by (simp_all add: range_view_def assign_move_def assign_copy_def assign_field_read_def assign_address_of_def
      assign_aggregate_def assign_ptr_cast_def clear_moved_field_def set_points_to_def clear_local_facts_def Let_def
      split: aggregate_kind.split option.split)

lemma view_of_unknown [view_simps]: "range_view (assign_unknown d rv s) = range_view s"
  by (cases "(d, rv, s)" rule: assign_unknown.cases) (simp_all add: view_simps)

section \<open>Values an assignment may store\<close>

fun operand_value :: "store \<Rightarrow> operand \<Rightarrow> nat \<Rightarrow> bool" where
  "operand_value \<sigma> (Copy p) a \<longleftrightarrow> (projection p = [] \<longrightarrow> a = \<sigma> (place_local p))"
| "operand_value \<sigma> (Move p) a \<longleftrightarrow> (projection p = [] \<longrightarrow> a = \<sigma> (place_local p))"
| "operand_value \<sigma> (Constant (ScalarInt bits)) a \<longleftrightarrow> a = unat bits"
| "operand_value \<sigma> (Constant _) a \<longleftrightarrow> True"

text \<open>
  The operations on unsigned integers of \<open>w\<close> bits; a shift uses the amount modulo the
  width, and a remainder by zero does not complete. What is not listed may give anything.
\<close>

fun binop_result :: "nat \<Rightarrow> bin_op \<Rightarrow> nat \<Rightarrow> nat \<Rightarrow> nat \<Rightarrow> bool" where
  "binop_result w Lt a b v \<longleftrightarrow> v = of_bool (a < b)"
| "binop_result w Le a b v \<longleftrightarrow> v = of_bool (a \<le> b)"
| "binop_result w Gt a b v \<longleftrightarrow> v = of_bool (b < a)"
| "binop_result w Ge a b v \<longleftrightarrow> v = of_bool (b \<le> a)"
| "binop_result w Eq a b v \<longleftrightarrow> v = of_bool (a = b)"
| "binop_result w Ne a b v \<longleftrightarrow> v = of_bool (a \<noteq> b)"
| "binop_result w BitAnd a b v \<longleftrightarrow> v = and a b"
| "binop_result w BitOr a b v \<longleftrightarrow> v = or a b"
| "binop_result w Rem a b v \<longleftrightarrow> b \<noteq> 0 \<and> v = a mod b"
| "binop_result w Shr a b v \<longleftrightarrow> a < 2 ^ w \<and> v = drop_bit (b mod w) a"
| "binop_result w Mul a b v \<longleftrightarrow> v = a * b mod 2 ^ w"
| "binop_result w MulWithOverflow a b v \<longleftrightarrow> v = a * b mod 2 ^ w"
| "binop_result w Add a b v \<longleftrightarrow> v = (a + b) mod 2 ^ w"
| "binop_result w AddWithOverflow a b v \<longleftrightarrow> v = (a + b) mod 2 ^ w"
| "binop_result w _ a b v \<longleftrightarrow> True"

definition value_fits :: "tyctxt \<Rightarrow> ty \<Rightarrow> nat \<Rightarrow> bool" where
  "value_fits tcx ty v \<longleftrightarrow>
     (case uint_type_max ty of None \<Rightarrow> True | Some m \<Rightarrow> v \<le> unat m) \<and> (ty_is_nonzero tcx ty \<longrightarrow> v \<noteq> 0)"

fun result_of :: "nat \<Rightarrow> store \<Rightarrow> rvalue \<Rightarrow> nat \<Rightarrow> bool" where
  "result_of w \<sigma> (Use op) v \<longleftrightarrow> operand_value \<sigma> op v"
| "result_of w \<sigma> (BinaryOp op x y) v \<longleftrightarrow>
     (\<exists>a b. operand_value \<sigma> x a \<and> operand_value \<sigma> y b \<and> binop_result w op a b v)"
| "result_of w \<sigma> (Cast IntToInt op ty) v \<longleftrightarrow>
     (\<exists>a. operand_value \<sigma> op a \<and> v = a mod 2 ^ w) \<and>
     (case uint_type_max ty of None \<Rightarrow> True | Some m \<Rightarrow> v \<le> unat m)"
| "result_of w \<sigma> _ v \<longleftrightarrow> True"

text \<open>
  Where the code is exact enough: a cast does not turn a nonzero value into zero, sums,
  products and shifts are of at most 64 bits, and a shift amount is below the width.
\<close>

fun exact_case :: "nat \<Rightarrow> store \<Rightarrow> rvalue \<Rightarrow> nat \<Rightarrow> bool" where
  "exact_case w \<sigma> (Cast IntToInt op ty) v \<longleftrightarrow>
     (case operand_local op of None \<Rightarrow> True | Some l \<Rightarrow> \<sigma> l \<noteq> 0 \<longrightarrow> v \<noteq> 0)"
| "exact_case w \<sigma> (BinaryOp op x y) v \<longleftrightarrow>
     w \<le> 64 \<and> (op = Shr \<longrightarrow> (case const_u64 y of None \<Rightarrow> True | Some k \<Rightarrow> unat k < w))"
| "exact_case w \<sigma> _ v \<longleftrightarrow> True"

fun rvalue_locals :: "rvalue \<Rightarrow> local set" where
  "rvalue_locals (Use op) = set_option (operand_local op)"
| "rvalue_locals (BinaryOp _ x y) = set_option (operand_local x) \<union> set_option (operand_local y)"
| "rvalue_locals (Cast _ op _) = set_option (operand_local op)"
| "rvalue_locals _ = {}"

text \<open>The locals that a comparison recorded for the destination may be about.\<close>

fun compared_locals :: "rvalue \<Rightarrow> local set" where
  "compared_locals (BinaryOp _ x y) = set_option (operand_local x) \<union> set_option (operand_local y)"
| "compared_locals _ = {}"

lemma operand_value_local: "operand_local op = Some l \<Longrightarrow> operand_value \<sigma> op a \<longleftrightarrow> a = \<sigma> l"
  by (cases op) (auto split: if_splits)

lemma const_u64_value:
  assumes "const_u64 op = Some k" and "operand_value \<sigma> op a"
  shows "a = unat k"
proof -
  from assms(1) obtain bits where op: "op = Constant (ScalarInt bits)"
    and bits: "bits \<le> 0xFFFFFFFFFFFFFFFF" "k = ucast bits"
    by (cases op rule: const_u64.cases) (auto split: if_splits)
  from bits(1) have "unat bits \<le> unat (0xFFFFFFFFFFFFFFFF :: u128)" by (simp add: word_le_nat_alt)
  then have "unat bits < 2 ^ 64" by simp
  then have "unat k = unat bits" by (simp add: bits(2) unsigned_ucast_eq take_bit_nat_eq_self)
  with assms(2) op show ?thesis by simp
qed

lemma both_eq_Some: "both x y = Some (a, b) \<longleftrightarrow> x = Some a \<and> y = Some b"
  by (auto simp: both_def split: option.splits)

section \<open>The arms that record value facts\<close>

lemma gamma_if_some:
  assumes "gamma_on M \<sigma> s" and "\<And>v. x = Some v \<Longrightarrow> gamma_on M \<sigma> (f v s)"
  shows "gamma_on M \<sigma> (if_some x f s)"
  using assms by (simp add: if_some_def split: option.split)

lemma gamma_view_step: "gamma_on M \<sigma> s \<Longrightarrow> range_view t = range_view s \<Longrightarrow> gamma_on M \<sigma> t"
  using gamma_view by blast

text \<open>The operands of a binary operation have values of which the destination has the result.\<close>

definition computed :: "tests \<Rightarrow> store \<Rightarrow> nat \<Rightarrow> local \<Rightarrow> bin_op \<Rightarrow> operand \<Rightarrow> operand \<Rightarrow> bool" where
  "computed M \<sigma> w d op x y \<longleftrightarrow>
     (\<forall>A. M d = Some A \<longrightarrow> set_option (operand_local x) \<union> set_option (operand_local y) \<subseteq> A) \<and>
     (\<exists>a b. operand_value \<sigma> x a \<and> operand_value \<sigma> y b \<and> binop_result w op a b (\<sigma> d))"

lemma computed_local_const:
  assumes "computed M \<sigma> w d op x y"
  shows "both (operand_local x) (const_u64 y) = Some (l, k) \<Longrightarrow> binop_result w op (\<sigma> l) (unat k) (\<sigma> d)"
    and "both (const_u64 x) (operand_local y) = Some (k, l) \<Longrightarrow> binop_result w op (unat k) (\<sigma> l) (\<sigma> d)"
    and "both (operand_local x) (operand_local y) = Some (l, l') \<Longrightarrow> binop_result w op (\<sigma> l) (\<sigma> l') (\<sigma> d)"
proof -
  from assms obtain a b where v: "operand_value \<sigma> x a" "operand_value \<sigma> y b" "binop_result w op a b (\<sigma> d)"
    unfolding computed_def by blast
  have loc: "operand_local x = Some l \<Longrightarrow> a = \<sigma> l" "operand_local y = Some l \<Longrightarrow> b = \<sigma> l" for l
    using v(1,2) by (simp_all add: operand_value_local)
  have const: "const_u64 x = Some k \<Longrightarrow> a = unat k" "const_u64 y = Some k \<Longrightarrow> b = unat k" for k
    using const_u64_value [OF _ v(1)] const_u64_value [OF _ v(2)] by blast+
  show "both (operand_local x) (const_u64 y) = Some (l, k) \<Longrightarrow> binop_result w op (\<sigma> l) (unat k) (\<sigma> d)"
    using v(3) loc(1) const(2) unfolding both_eq_Some by blast
  show "both (const_u64 x) (operand_local y) = Some (k, l) \<Longrightarrow> binop_result w op (unat k) (\<sigma> l) (\<sigma> d)"
    using v(3) loc(2) const(1) unfolding both_eq_Some by blast
  show "both (operand_local x) (operand_local y) = Some (l, l') \<Longrightarrow> binop_result w op (\<sigma> l) (\<sigma> l') (\<sigma> d)"
    using v(3) loc unfolding both_eq_Some by blast
qed

lemma computed_test:
  assumes "computed M \<sigma> w d op x y" and "L \<subseteq> set_option (operand_local x) \<union> set_option (operand_local y)" and "P"
  shows "test_ok M d L P"
  using assms by (auto simp: computed_def test_ok_def)

lemma view_of_cmp_updates [view_simps]:
  "range_view (s\<lparr>lt_for := a, lt_facts := b, ge_facts := c, le_facts := e, gt_facts := f\<rparr>) = range_view s"
  "range_view (s\<lparr>ge_facts := c, lt_facts := b, le_facts := e, gt_facts := f\<rparr>) = range_view s"
  "range_view (s\<lparr>le_for := a, le_facts := e, lt_facts := b, ge_facts := c, gt_facts := f\<rparr>) = range_view s"
  "range_view (s\<lparr>gt_facts := f, lt_facts := b, ge_facts := c, le_facts := e\<rparr>) = range_view s"
  by (simp_all add: range_view_def)

text \<open>Recording a lower bound also records a nonzero fact when the bound is positive.\<close>

lemma gamma_record_gt:
  assumes "gamma_on M \<sigma> s" and "test_ok M d {l} (\<sigma> d \<noteq> 0 \<longleftrightarrow> unat k < \<sigma> l)"
  shows "gamma_on M \<sigma> (let s = s\<lparr>const_gt := fmupd d (l, k) (const_gt s)\<rparr>
    in if k = 0 then s\<lparr>nonzero_if_true := fmupd d l (nonzero_if_true s)\<rparr> else s)"
proof (cases "k = 0")
  case True
  have "gamma_on M \<sigma> (s\<lparr>const_gt := fmupd d (l, k) (const_gt s)\<rparr>)" using assms by (rule gamma_facts(3))
  from gamma_facts(5) [OF this, of d l] True assms(2) show ?thesis by (simp add: test_ok_def)
next
  case False
  then show ?thesis using gamma_facts(3) [OF assms] by simp
qed

lemma gamma_record_ge:
  assumes "gamma_on M \<sigma> s" and "test_ok M d {l} (\<sigma> d \<noteq> 0 \<longleftrightarrow> unat k \<le> \<sigma> l)"
  shows "gamma_on M \<sigma> (let s = s\<lparr>const_ge := fmupd d (l, k) (const_ge s)\<rparr>
    in if 1 \<le> k then s\<lparr>nonzero_if_true := fmupd d l (nonzero_if_true s)\<rparr> else s)"
proof (cases "1 \<le> k")
  case True
  then have "0 < unat k" by (simp add: word_le_nat_alt)
  moreover have "gamma_on M \<sigma> (s\<lparr>const_ge := fmupd d (l, k) (const_ge s)\<rparr>)" using assms by (rule gamma_facts(4))
  from gamma_facts(5) [OF this, of d l] True assms(2) calculation show ?thesis by (simp add: test_ok_def)
next
  case False
  then show ?thesis using gamma_facts(4) [OF assms] by simp
qed

definition keeps :: "tests \<Rightarrow> store \<Rightarrow> (block_state \<Rightarrow> block_state) \<Rightarrow> bool" where
  "keeps M \<sigma> f \<longleftrightarrow> (\<forall>s. gamma_on M \<sigma> s \<longrightarrow> gamma_on M \<sigma> (f s))"

lemma keeps_run_steps: "list_all (keeps M \<sigma>) fs \<Longrightarrow> keeps M \<sigma> (run_steps fs)"
  unfolding run_steps_def keeps_def by (induction fs) auto

lemma keeps_view: "(\<And>s. range_view (f s) = range_view s) \<Longrightarrow> keeps M \<sigma> f"
  using gamma_view unfolding keeps_def by blast

lemma keeps_if_some: "(\<And>v. x = Some v \<Longrightarrow> keeps M \<sigma> (f v)) \<Longrightarrow> keeps M \<sigma> (if_some x f)"
  by (simp add: keeps_def if_some_def split: option.split)

lemma keeps_both:
  assumes "\<And>a b. x = Some a \<Longrightarrow> y = Some b \<Longrightarrow> keeps M \<sigma> (f a b)"
  shows "keeps M \<sigma> (if_some (both x y) (\<lambda>(a, b). f a b))"
proof (rule keeps_if_some)
  fix v assume "both x y = Some v"
  then show "keeps M \<sigma> (case v of (a, b) \<Rightarrow> f a b)" using assms by (cases v) (simp add: both_eq_Some)
qed

lemma keeps_facts:
  "test_ok M d {l} (\<sigma> d \<noteq> 0 \<longleftrightarrow> \<sigma> l < unat k) \<Longrightarrow> keeps M \<sigma> (\<lambda>s. s\<lparr>const_lt := fmupd d (l, k) (const_lt s)\<rparr>)"
  "test_ok M d {l} (\<sigma> d \<noteq> 0 \<longleftrightarrow> \<sigma> l \<le> unat k) \<Longrightarrow> keeps M \<sigma> (\<lambda>s. s\<lparr>const_le := fmupd d (l, k) (const_le s)\<rparr>)"
  "test_ok M d {l} (\<sigma> d \<noteq> 0 \<longleftrightarrow> unat k < \<sigma> l) \<Longrightarrow> keeps M \<sigma> (\<lambda>s. let s = s\<lparr>const_gt := fmupd d (l, k) (const_gt s)\<rparr>
     in if k = 0 then s\<lparr>nonzero_if_true := fmupd d l (nonzero_if_true s)\<rparr> else s)"
  "test_ok M d {l} (\<sigma> d \<noteq> 0 \<longleftrightarrow> unat k \<le> \<sigma> l) \<Longrightarrow> keeps M \<sigma> (\<lambda>s. let s = s\<lparr>const_ge := fmupd d (l, k) (const_ge s)\<rparr>
     in if 1 \<le> k then s\<lparr>nonzero_if_true := fmupd d l (nonzero_if_true s)\<rparr> else s)"
  "test_ok M d {l} (\<sigma> d \<noteq> 0 \<longrightarrow> \<sigma> l \<noteq> 0) \<Longrightarrow> keeps M \<sigma> (\<lambda>s. s\<lparr>nonzero_if_true := fmupd d l (nonzero_if_true s)\<rparr>)"
  "test_ok M d {l} (\<sigma> d = 0 \<longrightarrow> \<sigma> l \<noteq> 0) \<Longrightarrow> keeps M \<sigma> (\<lambda>s. s\<lparr>nonzero_if_false := fmupd d l (nonzero_if_false s)\<rparr>)"
  "test_ok M d {a, b} (\<sigma> d \<noteq> 0 \<longleftrightarrow> \<sigma> a = \<sigma> b) \<Longrightarrow> keeps M \<sigma> (\<lambda>s. s\<lparr>eq_pair_if_true := fmupd d (a, b) (eq_pair_if_true s)\<rparr>)"
  "test_ok M d {a, b} (\<sigma> d \<noteq> 0 \<longleftrightarrow> \<sigma> a \<noteq> \<sigma> b) \<Longrightarrow> keeps M \<sigma> (\<lambda>s. s\<lparr>ne_pair_if_true := fmupd d (a, b) (ne_pair_if_true s)\<rparr>)"
  unfolding keeps_def
  by (intro allI impI, erule (1) gamma_facts gamma_record_gt gamma_record_ge)+

text \<open>The last step of the comparisons, for the constant on either side.\<close>

lemma keeps_record:
  assumes "computed M \<sigma> w d op x y"
  shows "op = Lt \<Longrightarrow> keeps M \<sigma> (if_some (both (operand_local x) (const_u64 y)) (\<lambda>(l, k) s. s\<lparr>const_lt := fmupd d (l, k) (const_lt s)\<rparr>))"
    "op = Gt \<Longrightarrow> keeps M \<sigma> (if_some (both (const_u64 x) (operand_local y)) (\<lambda>(k, l) s. s\<lparr>const_lt := fmupd d (l, k) (const_lt s)\<rparr>))"
    "op = Le \<Longrightarrow> keeps M \<sigma> (if_some (both (operand_local x) (const_u64 y)) (\<lambda>(l, k) s. s\<lparr>const_le := fmupd d (l, k) (const_le s)\<rparr>))"
    "op = Ge \<Longrightarrow> keeps M \<sigma> (if_some (both (const_u64 x) (operand_local y)) (\<lambda>(k, l) s. s\<lparr>const_le := fmupd d (l, k) (const_le s)\<rparr>))"
    "op = Gt \<Longrightarrow> keeps M \<sigma> (if_some (both (operand_local x) (const_u64 y)) (\<lambda>(l, k) s.
       let s = s\<lparr>const_gt := fmupd d (l, k) (const_gt s)\<rparr>
       in if k = 0 then s\<lparr>nonzero_if_true := fmupd d l (nonzero_if_true s)\<rparr> else s))"
    "op = Lt \<Longrightarrow> keeps M \<sigma> (if_some (both (const_u64 x) (operand_local y)) (\<lambda>(k, l) s.
       let s = s\<lparr>const_gt := fmupd d (l, k) (const_gt s)\<rparr>
       in if k = 0 then s\<lparr>nonzero_if_true := fmupd d l (nonzero_if_true s)\<rparr> else s))"
    "op = Ge \<Longrightarrow> keeps M \<sigma> (if_some (both (operand_local x) (const_u64 y)) (\<lambda>(l, k) s.
       let s = s\<lparr>const_ge := fmupd d (l, k) (const_ge s)\<rparr>
       in if 1 \<le> k then s\<lparr>nonzero_if_true := fmupd d l (nonzero_if_true s)\<rparr> else s))"
    "op = Le \<Longrightarrow> keeps M \<sigma> (if_some (both (const_u64 x) (operand_local y)) (\<lambda>(k, l) s.
       let s = s\<lparr>const_ge := fmupd d (l, k) (const_ge s)\<rparr>
       in if 1 \<le> k then s\<lparr>nonzero_if_true := fmupd d l (nonzero_if_true s)\<rparr> else s))"
  using computed_local_const [OF assms, unfolded both_eq_Some]
  by (auto intro!: keeps_both keeps_facts computed_test [OF assms])

lemma keeps_spare: "keeps M \<sigma> (record_spare d x y t c)" "keeps M \<sigma> (record_full d x y t)" "keeps M \<sigma> (clear_cmp_facts d)"
  by (rule keeps_view, simp add: view_simps)+

lemma keeps_comparisons:
  "computed M \<sigma> w d Lt x y \<Longrightarrow> keeps M \<sigma> (binop_lt d x y)"
  "computed M \<sigma> w d Le x y \<Longrightarrow> keeps M \<sigma> (binop_le d x y)"
  "computed M \<sigma> w d Gt x y \<Longrightarrow> keeps M \<sigma> (binop_gt d x y)"
  "computed M \<sigma> w d Ge x y \<Longrightarrow> keeps M \<sigma> (binop_ge d x y)"
  unfolding binop_lt_def binop_le_def binop_gt_def binop_ge_def
  by (rule keeps_run_steps, simp add: keeps_spare keeps_record keeps_view view_simps)+

lemma keeps_pairs:
  assumes "computed M \<sigma> w d op x y"
  shows "op = Eq \<Longrightarrow> keeps M \<sigma> (if_some (both (operand_local x) (operand_local y))
      (\<lambda>p s. s\<lparr>eq_pair_if_true := fmupd d p (eq_pair_if_true s)\<rparr>))"
    "op = Ne \<Longrightarrow> keeps M \<sigma> (if_some (both (operand_local x) (operand_local y))
      (\<lambda>p s. s\<lparr>ne_pair_if_true := fmupd d p (ne_pair_if_true s)\<rparr>))"
  using computed_local_const(3) [OF assms]
  by (auto intro!: keeps_if_some keeps_facts computed_test [OF assms] simp: both_eq_Some)

lemma compared_with_zero_value:
  assumes "computed M \<sigma> w d op x y" and "compared_with_zero x y = Some l" and "op = Eq \<or> op = Ne"
  shows "\<sigma> d \<noteq> 0 \<longleftrightarrow> (\<sigma> l = 0 \<longleftrightarrow> op = Eq)"
proof -
  from assms(2) have "both (operand_local x) (const_u64 y) = Some (l, 0) \<or> both (const_u64 x) (operand_local y) = Some (0, l)"
    by (auto simp: compared_with_zero_def both_eq_Some or_else_eq_Some filter_opt_eq_Some bind_eq_Some_conv)
  then have "binop_result w op (\<sigma> l) 0 (\<sigma> d) \<or> binop_result w op 0 (\<sigma> l) (\<sigma> d)"
    using computed_local_const(1) [OF assms(1), of l 0] computed_local_const(2) [OF assms(1), of 0 l] by auto
  with assms(3) show ?thesis by auto
qed

lemma compared_with_zero_local:
  "compared_with_zero x y = Some l \<Longrightarrow> l \<in> set_option (operand_local x) \<union> set_option (operand_local y)"
  by (auto simp: compared_with_zero_def both_eq_Some or_else_eq_Some filter_opt_eq_Some bind_eq_Some_conv)

lemma keeps_equalities:
  "computed M \<sigma> w d Eq x y \<Longrightarrow> keeps M \<sigma> (binop_eq d x y)"
  "computed M \<sigma> w d Ne x y \<Longrightarrow> keeps M \<sigma> (binop_ne d x y)"
proof -
  show "keeps M \<sigma> (binop_eq d x y)" if c: "computed M \<sigma> w d Eq x y"
  proof -
    have "keeps M \<sigma> (if_some (compared_with_zero x y) (\<lambda>l s. s\<lparr>nonzero_if_false := fmupd d l (nonzero_if_false s)\<rparr>))"
      using compared_with_zero_value [OF c] compared_with_zero_local
      by (auto intro!: keeps_if_some keeps_facts computed_test [OF c])
    then show ?thesis
      unfolding binop_eq_def by (intro keeps_run_steps) (simp add: keeps_spare keeps_pairs [OF c])
  qed
  show "keeps M \<sigma> (binop_ne d x y)" if c: "computed M \<sigma> w d Ne x y"
  proof -
    have "keeps M \<sigma> (if_some (compared_with_zero x y) (\<lambda>l s. s\<lparr>nonzero_if_true := fmupd d l (nonzero_if_true s)\<rparr>))"
      using compared_with_zero_value [OF c] compared_with_zero_local
      by (auto intro!: keeps_if_some keeps_facts computed_test [OF c])
    then show ?thesis
      unfolding binop_ne_def by (intro keeps_run_steps) (simp add: keeps_spare keeps_pairs [OF c])
  qed
qed

section \<open>Bounds of computed values\<close>

lemma and_bound: "and a b \<le> (a :: nat)" "and a b \<le> (b :: nat)"
  by (metis AND_upper1 of_nat_and_eq of_nat_le_iff of_nat_0_le_iff,
      metis AND_upper2 of_nat_and_eq of_nat_le_iff of_nat_0_le_iff)

lemma min_of_bound:
  assumes "\<And>u. Some u \<in> set os \<Longrightarrow> v \<le> unat u" and "min_of os = Some u"
  shows "v \<le> unat u"
  using assms
proof (induction os arbitrary: u rule: min_of.induct)
  case (3 x xs)
  then show ?case by (auto simp: min_bound split: option.splits)
qed auto

lemma local_upper_value:
  assumes "gamma_on M \<sigma> s" and "operand_value \<sigma> x a" and "local_upper x s = Some u"
  shows "a \<le> unat u"
  using assms gammaD(1) [OF assms(1)] by (auto simp: local_upper_def bind_eq_Some_conv operand_value_local)

lemma operand_upper_value:
  assumes "gamma_on M \<sigma> s" and "operand_value \<sigma> x a" and "operand_upper x s = Some u"
  shows "a \<le> unat u"
  using assms local_upper_value const_u64_value [OF _ assms(2)]
  by (auto simp: operand_upper_def or_else_eq_Some)

lemma keeps_lower_upper:
  assumes "\<And>s u. gamma_on M \<sigma> s \<Longrightarrow> g s = Some u \<Longrightarrow> \<sigma> d \<le> unat u"
  shows "keeps M \<sigma> (\<lambda>s. clear_cmp_facts d (if_some (g s) (lower_upper_bound d) s))"
  unfolding keeps_def
proof (intro allI impI)
  fix s assume "gamma_on M \<sigma> s"
  then have "gamma_on M \<sigma> (if_some (g s) (lower_upper_bound d) s)"
    by (rule gamma_if_some) (use assms \<open>gamma_on M \<sigma> s\<close> in \<open>blast intro: gamma_upper\<close>)
  then show "gamma_on M \<sigma> (clear_cmp_facts d (if_some (g s) (lower_upper_bound d) s))"
    using keeps_spare(3) unfolding keeps_def by blast
qed

lemma keeps_bitand:
  assumes "computed M \<sigma> w d BitAnd x y"
  shows "keeps M \<sigma> (binop_bitand d x y)"
proof -
  from assms obtain a b where v: "operand_value \<sigma> x a" "operand_value \<sigma> y b" "\<sigma> d = and a b"
    by (auto simp: computed_def)
  have le: "\<sigma> d \<le> a" "\<sigma> d \<le> b" by (simp_all add: v and_bound)
  have "\<sigma> d \<le> unat u"
    if "gamma_on M \<sigma> s" "min_of [or_else (const_u64 y) (const_u64 x), local_upper x s, local_upper y s] = Some u" for s u
  proof (rule min_of_bound [OF _ that(2)])
    fix u assume "Some u \<in> set [or_else (const_u64 y) (const_u64 x), local_upper x s, local_upper y s]"
    then consider "const_u64 y = Some u" | "const_u64 x = Some u" | "local_upper x s = Some u" | "local_upper y s = Some u"
      by (cases "const_u64 y") auto
    then show "\<sigma> d \<le> unat u"
      using le const_u64_value v(1,2) local_upper_value [OF that(1)] by cases (metis order_trans)+
  qed
  then have "keeps M \<sigma> (\<lambda>s. clear_cmp_facts d (if_some
      (min_of [or_else (const_u64 y) (const_u64 x), local_upper x s, local_upper y s]) (lower_upper_bound d) s))"
    by (rule keeps_lower_upper)
  then show ?thesis by (simp add: binop_bitand_def [abs_def] Let_def)
qed

lemma keeps_rem:
  assumes "computed M \<sigma> w d Rem x y"
  shows "keeps M \<sigma> (binop_rem d x y)"
proof -
  from assms obtain a b where v: "operand_value \<sigma> y b" "b \<noteq> 0" "\<sigma> d = a mod b" by (auto simp: computed_def)
  have "\<sigma> d \<le> unat (saturating_sub1 k)" if "const_u64 y = Some k" for k
  proof -
    have "a mod b < b" using v(2) by simp
    then show ?thesis using const_u64_value [OF that v(1)] v(3) by (simp add: unat_saturating_sub1)
  qed
  then have "keeps M \<sigma> (\<lambda>s. clear_cmp_facts d (if_some
      (map_option saturating_sub1 (filter_opt (\<lambda>k. 0 < k) (const_u64 y))) (lower_upper_bound d) s))"
    by (intro keeps_lower_upper) (auto simp: filter_opt_eq_Some)
  moreover have "if_some (map_option saturating_sub1 z) (lower_upper_bound d) s =
      if_some z (\<lambda>divisor. lower_upper_bound d (saturating_sub1 divisor)) s" for z s
    by (cases z) (simp_all add: if_some_def)
  ultimately show ?thesis by (simp add: binop_rem_def [abs_def])
qed

lemma keeps_bitor:
  assumes "computed M \<sigma> w d BitOr x y"
  shows "keeps M \<sigma> (binop_bitor d x y)"
proof -
  from assms obtain a b where v: "operand_value \<sigma> x a" "operand_value \<sigma> y b" "\<sigma> d = or a b"
    by (auto simp: computed_def)
  have nz: "c \<noteq> 0" if z: "gamma_on M \<sigma> s" "operand_value \<sigma> z c" "operand_nonzero z s" for s z c
  proof -
    consider l where "operand_local z = Some l" "l |\<in>| nonzero s" | k where "const_u64 z = Some k" "k \<noteq> 0"
      using z(3) by (auto simp: operand_nonzero_def split: option.splits)
    then show ?thesis
      using z(2) gammaD(3) [OF z(1)] const_u64_value [OF _ z(2)]
      by cases (auto simp: operand_value_local unat_eq_0)
  qed
  show ?thesis
    unfolding keeps_def
  proof (intro allI impI)
    fix s assume s: "gamma_on M \<sigma> s"
    have "\<sigma> d \<noteq> 0" if "operand_nonzero x s \<or> operand_nonzero y s"
      using nz [OF s v(1)] nz [OF s v(2)] that or_eq_0_iff [of a b] v(3) by auto
    then have "gamma_on M \<sigma> (if operand_nonzero x s \<or> operand_nonzero y s then s\<lparr>nonzero := finsert d (nonzero s)\<rparr> else s)"
      using gamma_nonzero [OF s] s by simp
    then show "gamma_on M \<sigma> (binop_bitor d x y s)"
      using keeps_spare(3) unfolding keeps_def binop_bitor_def by blast
  qed
qed

lemma keeps_shr:
  assumes "computed M \<sigma> w d Shr x y" and "w \<le> 64" and "\<And>k. const_u64 y = Some k \<Longrightarrow> unat k < w"
  shows "keeps M \<sigma> (binop_shr d x y)"
proof -
  from assms(1) obtain a b where v: "operand_value \<sigma> x a" "operand_value \<sigma> y b" "a < 2 ^ w" "\<sigma> d = drop_bit (b mod w) a"
    by (auto simp: computed_def)
  have a: "a \<le> unat u64_max" using less_le_trans [OF v(3) power_increasing [OF assms(2), of 2]] by simp
  define ub where "ub s = (case local_upper x s of None \<Rightarrow> u64_max | Some u \<Rightarrow> u)" for s
  define shifted where "shifted s k = (case checked_shr (ub s) (ucast k) of None \<Rightarrow> 0 | Some u \<Rightarrow> u)" for s and k :: u64
  have "\<sigma> d \<le> unat (shifted s k)" if "gamma_on M \<sigma> s" "const_u64 y = Some k" for s k
  proof -
    have k: "unat k < w" "b = unat k" using assms(3) that(2) const_u64_value [OF that(2) v(2)] by auto
    then have "unat (ucast k :: u32) = unat k"
      using assms(2) by (simp add: unsigned_ucast_eq take_bit_nat_eq_self)
    then have "unat (shifted s k) = drop_bit (unat k) (unat (ub s))"
      using k assms(2) by (simp add: shifted_def checked_shr_def unat_drop_bit_eq)
    moreover have "a \<le> unat (ub s)"
      using a local_upper_value [OF that(1) v(1)] by (simp add: ub_def split: option.split)
    ultimately show ?thesis using v(4) k by (simp add: drop_bit_eq_div div_le_mono)
  qed
  then have "keeps M \<sigma> (\<lambda>s. clear_cmp_facts d (if_some (map_option (shifted s) (const_u64 y)) (lower_upper_bound d) s))"
    by (intro keeps_lower_upper) auto
  moreover have "if_some (map_option (shifted s) z) (lower_upper_bound d) s =
      if_some z (\<lambda>k s. lower_upper_bound d (shifted s k) s) s" for z s
    by (cases z) (simp_all add: if_some_def)
  ultimately show ?thesis by (simp add: binop_shr_def [abs_def] shifted_def ub_def Let_def)
qed

lemma keeps_arith:
  assumes "computed M \<sigma> w d op x y" and "w \<le> 64"
    and "\<And>a b. binop_result w op a b (\<sigma> d) \<Longrightarrow> \<sigma> d = g a b mod 2 ^ w"
    and "\<And>a b. f (int a) (int b) = int (g a b)" and "\<And>a b c e. a \<le> c \<Longrightarrow> b \<le> e \<Longrightarrow> g a b \<le> g c e"
  shows "keeps M \<sigma> (arith_facts f d x y)"
  unfolding keeps_def
proof (intro allI impI)
  fix s assume s: "gamma_on M \<sigma> s"
  from assms(1) obtain a b where v: "operand_value \<sigma> x a" "operand_value \<sigma> y b" "\<sigma> d = g a b mod 2 ^ w"
    using assms(3) by (auto simp: computed_def)
  show "gamma_on M \<sigma> (arith_facts f d x y s)"
  proof (cases "operand_upper x s \<noteq> None \<and> operand_upper y s \<noteq> None")
    case True
    then obtain ux uy where u: "operand_upper x s = Some ux" "operand_upper y s = Some uy" by auto
    have "g a b \<le> g (unat ux) (unat uy)"
      using operand_upper_value [OF s v(1) u(1)] operand_upper_value [OF s v(2) u(2)] by (rule assms(5))
    then have "\<sigma> d \<le> g (unat ux) (unat uy)" using v(3) mod_less_eq_dividend order_trans by metis
    moreover have "\<sigma> d < 2 ^ 64"
      using v(3) power_increasing [OF assms(2), of "2 :: nat"] by (simp add: less_le_trans [OF mod_less_divisor])
    moreover have "f (uint ux) (uint uy) = int (g (unat ux) (unat uy))" using assms(4) by (metis uint_nat)
    ultimately have "int (\<sigma> d) \<le> uint (clamp_u64 (f (uint ux) (uint uy)))" by (simp add: uint_clamp_u64)
    then have "\<sigma> d \<le> unat (clamp_u64 (f (uint ux) (uint uy)))" unfolding uint_nat of_nat_le_iff .
    from gamma_upper [OF s this] u show ?thesis by (simp add: arith_facts_def Let_def)
  next
    case False
    with s show ?thesis by (auto simp: arith_facts_def split: option.splits)
  qed
qed

section \<open>Assignments\<close>

lemma keeps_comp: "keeps M \<sigma> f \<Longrightarrow> keeps M \<sigma> g \<Longrightarrow> keeps M \<sigma> (\<lambda>s. f (g s))"
  by (simp add: keeps_def)

lemma keeps_binop_facts:
  assumes "computed M \<sigma> w d op x y" and "w \<le> 64" and "\<And>k. op = Shr \<Longrightarrow> const_u64 y = Some k \<Longrightarrow> unat k < w"
  shows "keeps M \<sigma> (binop_facts body d op x y)"
proof -
  have add: "keeps M \<sigma> (arith_facts (+) d x y)" if "op = Add \<or> op = AddWithOverflow"
    by (rule keeps_arith [OF assms(1,2), where g = "(+)"]) (use that in \<open>auto simp: add_mono\<close>)
  have mul: "keeps M \<sigma> (arith_facts (*) d x y)" if "op = Mul \<or> op = MulWithOverflow"
    by (rule keeps_arith [OF assms(1,2), where g = "(*)"]) (use that in \<open>auto simp: mult_le_mono\<close>)
  have same: "keeps M \<sigma> (\<lambda>s. s)" by (simp add: keeps_def)
  have sum: "keeps M \<sigma> (binop_add body d x y)" if "op = Add"
    using keeps_comp [OF keeps_spare(3) add] keeps_spare(3) that
    by (cases "is_int_ty (local_decls body d)") (simp_all add: binop_add_def [abs_def])
  have sum_with: "keeps M \<sigma> (binop_add_with_overflow body d x y)" if "op = AddWithOverflow"
    using add same that
    by (cases "is_int_ty (overflow_elem_ty (local_decls body d))") (simp_all add: binop_add_with_overflow_def [abs_def])
  have prod: "keeps M \<sigma> (\<lambda>s. clear_cmp_facts d (arith_facts (*) d x y s))" if "op = Mul"
    using keeps_comp [OF keeps_spare(3) mul] that by simp
  note kept = keeps_comparisons keeps_equalities keeps_bitor keeps_bitand keeps_rem keeps_shr [OF _ assms(2)]
    sum sum_with prod mul keeps_spare(3)
  show ?thesis unfolding keeps_def
  proof (intro allI impI)
    fix s assume "gamma_on M \<sigma> s"
    with assms(1,3) show "gamma_on M \<sigma> (binop_facts body d op x y s)"
      by (cases op) (simp_all add: kept [unfolded keeps_def, rule_format])
  qed
qed

lemma fmpred_propagate:
  assumes "fmpred P m" and "\<And>v. P src v \<Longrightarrow> P d v"
  shows "fmpred P (propagate_map mv src d m)"
  using assms fmpredD [OF assms(1)] unfolding propagate_map_def Let_def
  by (cases "fmlookup m src") (auto intro!: fmpred_upd fmpred_drop)

lemma fBall_propagate:
  assumes "fBall A P" and "P src \<Longrightarrow> P d"
  shows "fBall (propagate_set mv src d A) P"
  using assms unfolding propagate_set_def fs_remove_def Let_def by auto

lemma keeps_use:
  assumes "\<sigma> d = \<sigma> src"
  shows "keeps M \<sigma> (propagate_use mv src d)"
  unfolding keeps_def
proof (intro allI impI)
  fix s assume "gamma_on M \<sigma> s"
  note g = gamma_parts [OF this]
  have "fmpred (\<lambda>l u. \<sigma> l \<le> unat u) (propagate_map mv src d (const_upper s))"
    "fmpred (\<lambda>l u. unat u \<le> \<sigma> l) (propagate_map mv src d (const_lower s))"
    using assms by (auto intro!: fmpred_propagate g)
  moreover have "fBall (propagate_set mv src d (nonzero s)) (\<lambda>l. \<sigma> l \<noteq> 0)"
    by (rule fBall_propagate [OF g(3)]) (simp add: assms)
  ultimately show "gamma_on M \<sigma> (propagate_use mv src d s)" using g(4-) by (simp add: gamma_on_def propagate_use_def)
qed

lemma keeps_record_use:
  assumes "operand_value \<sigma> op (\<sigma> d)"
  shows "keeps M \<sigma> (record_use d (Use op))"
proof (cases op)
  case (Constant c)
  then show ?thesis by (simp add: keeps_def)
next
  case (Copy p)
  then show ?thesis using keeps_use [of \<sigma> d "place_local p" M False] assms by (simp add: keeps_def)
next
  case (Move p)
  then show ?thesis using keeps_use [of \<sigma> d "place_local p" M True] assms by (simp add: keeps_def)
qed

lemma keeps_constant:
  assumes "operand_value \<sigma> (Constant c) (\<sigma> d)"
  shows "keeps M \<sigma> (assign_constant d c)"
  unfolding keeps_def
proof (intro allI impI)
  fix s assume s: "gamma_on M \<sigma> s"
  show "gamma_on M \<sigma> (assign_constant d c s)"
  proof (cases "const_u64 (Constant c)")
    case None
    then show ?thesis using gamma_view_step [OF s] by (simp add: assign_constant_def view_simps)
  next
    case (Some k)
    then have k: "\<sigma> d = unat k" using const_u64_value assms by blast
    let ?t = "s\<lparr>nonzero := fs_set (k \<noteq> 0) d (nonzero s), const_upper := fmupd d k (const_upper s),
      const_lower := fmupd d k (const_lower s)\<rparr>"
    note g = gamma_parts [OF s]
    have "fBall (fs_set (k \<noteq> 0) d (nonzero s)) (\<lambda>l. \<sigma> l \<noteq> 0)"
      using g(3) k by (auto simp: fs_set_def fs_remove_def unat_gt_0)
    moreover have "fmpred (\<lambda>l u. \<sigma> l \<le> unat u) (fmupd d k (const_upper s))"
      "fmpred (\<lambda>l u. unat u \<le> \<sigma> l) (fmupd d k (const_lower s))" using g(1,2) k by (auto intro: fmpred_upd)
    ultimately have "gamma_on M \<sigma> ?t" using g(4-) by (simp add: gamma_on_def)
    from gamma_view_step [OF this] Some show ?thesis by (simp add: assign_constant_def view_simps)
  qed
qed

lemma keeps_cast:
  assumes "\<And>m. uint_type_max ty = Some m \<Longrightarrow> \<sigma> d \<le> unat m" and "\<sigma> d \<le> \<sigma> src"
    and "\<sigma> src \<noteq> 0 \<Longrightarrow> \<sigma> d \<noteq> 0"
  shows "keeps M \<sigma> (assign_numeric_cast IntToInt d src ty)"
  unfolding keeps_def
proof (intro allI impI)
  fix s assume "gamma_on M \<sigma> s"
  define t1 where "t1 = s\<lparr>cast_origin := fmupd d src (cast_origin s)\<rparr>"
  define t2 where "t2 = (case uint_type_max ty of None \<Rightarrow> t1 | Some m \<Rightarrow> lower_upper_bound d m t1)"
  define t3 where "t3 = (if src |\<in>| nonzero t2 then t2\<lparr>nonzero := finsert d (nonzero t2)\<rparr> else t2)"
  have "gamma_on M \<sigma> t1" using \<open>gamma_on M \<sigma> s\<close> by (simp add: t1_def)
  then have "gamma_on M \<sigma> t2" using assms(1) by (auto simp: t2_def intro: gamma_upper split: option.split)
  then have t3: "gamma_on M \<sigma> t3" using gammaD(3) assms(3) gamma_nonzero unfolding t3_def by presburger
  have "gamma_on M \<sigma> (case fmlookup (const_upper t3) src of None \<Rightarrow> t3 | Some u \<Rightarrow> lower_upper_bound d u t3)"
    using t3 gammaD(1) [OF t3, of src] assms(2) by (auto intro!: gamma_upper split: option.split)
  then show "gamma_on M \<sigma> (assign_numeric_cast IntToInt d src ty s)"
    unfolding t3_def t2_def t1_def by (simp add: assign_numeric_cast_def Let_def)
qed

lemma keeps_other_cast: "kind \<noteq> IntToInt \<Longrightarrow> keeps M \<sigma> (assign_numeric_cast kind d src ty)"
  by (simp add: keeps_def assign_numeric_cast_def)

lemma keeps_enforce:
  assumes "value_fits tcx ty (\<sigma> d)"
  shows "keeps M \<sigma> (enforce_type_facts tcx d ty)"
  using assms
  by (auto simp: keeps_def enforce_type_facts_def value_fits_def Let_def intro!: gamma_upper gamma_nonzero
      split: option.split)

lemma operand_value_upd:
  "d \<notin> set_option (operand_local op) \<Longrightarrow> operand_value (\<sigma>(d := v)) op a \<longleftrightarrow> operand_value \<sigma> op a"
proof (cases op)
  case (Constant c)
  then show ?thesis by (cases c) auto
qed auto

lemma keeps_assign_use:
  assumes "operand_value \<sigma> op (\<sigma> d)"
  shows "keeps M \<sigma> (assign_rvalue tcx body (Place d []) (Use op))"
proof (cases op)
  case (Constant c)
  then show ?thesis using keeps_constant [of \<sigma> c d] assms by (simp add: keeps_def)
next
  case (Copy p)
  then show ?thesis by (intro keeps_view) (simp add: view_simps)
next
  case (Move p)
  then show ?thesis by (intro keeps_view) (simp add: view_simps)
qed

lemma keeps_assign_cast:
  assumes "\<And>src m. operand_local op = Some src \<Longrightarrow> kind = IntToInt \<Longrightarrow> uint_type_max ty = Some m \<Longrightarrow> \<sigma> d \<le> unat m"
    and "\<And>src. operand_local op = Some src \<Longrightarrow> kind = IntToInt \<Longrightarrow> \<sigma> d \<le> \<sigma> src \<and> (\<sigma> src \<noteq> 0 \<longrightarrow> \<sigma> d \<noteq> 0)"
  shows "keeps M \<sigma> (assign_rvalue tcx body (Place d []) (Cast kind op ty))"
proof (cases "operand_local op")
  case None
  then show ?thesis by (intro keeps_view) (simp add: view_simps)
next
  case (Some src)
  consider "kind = IntToInt" | "kind \<in> {IntToFloat, FloatToInt, FloatToFloat}"
    | "kind \<notin> {IntToInt, IntToFloat, FloatToInt, FloatToFloat}" by blast
  then show ?thesis
  proof cases
    case 1
    have "keeps M \<sigma> (assign_numeric_cast IntToInt d src ty)"
      by (rule keeps_cast) (use assms Some 1 in blast)+
    with Some 1 show ?thesis by (simp add: keeps_def)
  next
    case 2
    then have "kind \<noteq> IntToInt" "kind \<notin> {PtrToPtr, Transmute}" by auto
    from keeps_other_cast [OF this(1), of M \<sigma> d src ty] this(2) Some 2 show ?thesis by (auto simp: keeps_def)
  next
    case 3
    with Some show ?thesis by (intro keeps_view) (simp add: view_simps)
  qed
qed

lemma keeps_assign_binary:
  assumes "computed M \<sigma> w d op x y" and "w \<le> 64" and "\<And>k. op = Shr \<Longrightarrow> const_u64 y = Some k \<Longrightarrow> unat k < w"
  shows "keeps M \<sigma> (assign_rvalue tcx body (Place d []) (BinaryOp op x y))"
  unfolding keeps_def
proof (intro allI impI)
  fix s assume "gamma_on M \<sigma> s"
  then have "gamma_on M \<sigma> (clear_binop_dst d (set_points_to d (binop_points_to op x y s) s))"
    by (rule gamma_view_step) (simp add: view_simps)
  with keeps_binop_facts [OF assms, of body] show "gamma_on M \<sigma> (assign_rvalue tcx body (Place d []) (BinaryOp op x y) s)"
    by (simp add: keeps_def assign_binary_op_def)
qed

lemma keeps_assign_rvalue:
  assumes "d \<notin> rvalue_locals rv" and "result_of w \<sigma> rv v" and "exact_case w \<sigma> rv v"
    and "\<And>A. M d = Some A \<Longrightarrow> compared_locals rv \<subseteq> A"
  shows "keeps M (\<sigma>(d := v)) (assign_rvalue tcx body (Place d []) rv)"
proof (cases rv)
  case (Use op)
  with assms show ?thesis by (intro keeps_assign_use [of "\<sigma>(d := v)" op d M tcx body, folded Use]) (simp add: operand_value_upd)
next
  case (BinaryOp op x y)
  with assms have "computed M (\<sigma>(d := v)) w d op x y" "w \<le> 64" "\<And>k. op = Shr \<Longrightarrow> const_u64 y = Some k \<Longrightarrow> unat k < w"
    by (auto simp: computed_def operand_value_upd)
  from keeps_assign_binary [OF this] BinaryOp show ?thesis by simp
next
  case (Cast kind op ty)
  have "keeps M (\<sigma>(d := v)) (assign_rvalue tcx body (Place d []) (Cast kind op ty))"
    by (rule keeps_assign_cast) (use assms Cast in \<open>auto simp: operand_value_local split: option.splits\<close>)
  with Cast show ?thesis by simp
qed (intro keeps_view; simp add: view_simps)+

lemma keeps_assign_record_use:
  assumes "d \<notin> rvalue_locals rv" and "result_of w \<sigma> rv v"
  shows "keeps M (\<sigma>(d := v)) (record_use d rv)"
proof (cases rv)
  case (Use op)
  with assms show ?thesis
    by (intro keeps_record_use [of "\<sigma>(d := v)" op d M, folded Use]) (simp add: operand_value_upd)
qed (simp_all add: keeps_def)

text \<open>
  The transfer of an assignment loses no execution. If a store is described by the state
  in front of the assignment, then the store after it, with any value the operation may give
  the destination, is described by the state behind it, for every rvalue: the comparisons
  whose subject is overwritten are outdated, and the one the assignment makes is up to date.
  The destination is not an operand, the value is one of its type, and the case is one the
  code treats exactly.
\<close>

lemma assignment_keeps:
  assumes "gamma_on M \<sigma> s" and "d \<notin> rvalue_locals rv"
    and "result_of w \<sigma> rv v" and "exact_case w \<sigma> rv v" and "value_fits tcx (local_decls body d) v"
  shows "gamma_on (overwrite d (compared_locals rv) M) (\<sigma>(d := v))
    (apply_statement tcx body (Statement (Assign (Place d []) rv) sp) s)"
proof -
  let ?M = "overwrite d (compared_locals rv) M"
  define s1 where "s1 = update_fn_ptr_target d rv (update_owner_alias body d rv (invalidate_owner d s))"
  have "range_view s1 = range_view s" by (simp add: s1_def view_simps)
  then have "gamma_on M \<sigma> s1" using assms(1) gamma_view by blast
  then have "gamma_on ?M (\<sigma>(d := v)) (clear_dst_facts d s1)" by (rule gamma_havoc)
  then have "gamma_on ?M (\<sigma>(d := v)) (record_use d rv (record_ref_base d rv (clear_dst_facts d s1)))"
    using keeps_assign_record_use [OF assms(2,3)] gamma_view_step [OF _ view_of_records(1)] unfolding keeps_def by blast
  moreover have "\<And>A. ?M d = Some A \<Longrightarrow> compared_locals rv \<subseteq> A" by (simp add: overwrite_def)
  ultimately have "gamma_on ?M (\<sigma>(d := v)) (assign_rvalue tcx body (Place d []) rv
      (record_slice_len d rv (record_use d rv (record_ref_base d rv (clear_dst_facts d s1)))))"
    using keeps_assign_rvalue [OF assms(2-4)] gamma_view_step [OF _ view_of_records(2)] unfolding keeps_def by blast
  then show ?thesis
    using keeps_enforce [of tcx "local_decls body d" "\<sigma>(d := v)" d ?M] assms(5)
    by (simp add: keeps_def assign_local_def run_steps_def s1_def)
qed

definition small_tcx_body :: body where
  "small_tcx_body = sample_body 1 (\<lambda>l. if l = 1 then TyUint U32 else TyUint U8) [block_of [] Return]"

section \<open>What the queries say of the values\<close>

text \<open>
  A query by which a checker suppresses a report is right for every store the state
  describes: a nonzero local is not zero, an ASCII local is at most 127, and a valid scalar
  local is a Unicode scalar value, outside the surrogates.
\<close>

lemma queries_true:
  assumes "gamma_on M \<sigma> s"
  shows "(local_is_nonzero s l \<longrightarrow> \<sigma> l \<noteq> 0) \<and> (local_is_ascii s l \<longrightarrow> \<sigma> l \<le> 127) \<and>
    (local_is_valid_scalar s l \<longrightarrow> \<sigma> l \<le> 0x10FFFF \<and> (\<sigma> l < 0xD800 \<or> 0xDFFF < \<sigma> l))"
proof (intro conjI impI)
  note d = gammaD [OF assms]
  show "\<sigma> l \<noteq> 0" if "local_is_nonzero s l"
    using that d(2) [of l] d(3) [of l] by (fastforce simp: local_is_nonzero_def word_le_nat_alt split: option.splits)
  show "\<sigma> l \<le> 127" if "local_is_ascii s l"
    using that d(1) [of l] by (fastforce simp: local_is_ascii_def word_le_nat_alt split: option.splits)
  assume v: "local_is_valid_scalar s l"
  then obtain u where u: "fmlookup (const_upper s) l = Some u" "unat u \<le> 0x10FFFF"
    by (auto simp: local_is_valid_scalar_def Let_def word_le_nat_alt split: option.splits if_splits)
  then show "\<sigma> l \<le> 0x10FFFF" using d(1) by fastforce
  from v u(1) have "unat u < 0xD800 \<or> (\<exists>lb. fmlookup (const_lower s) l = Some lb \<and> 0xDFFF < unat lb)"
    by (auto simp: local_is_valid_scalar_def Let_def word_less_nat_alt split: option.splits if_splits)
  then show "\<sigma> l < 0xD800 \<or> 0xDFFF < \<sigma> l" using d(1) [OF u(1)] d(2) [of l] by fastforce
qed

section \<open>Merging two states\<close>

text \<open>Both states have the same comparisons on record.\<close>

definition same_conditions :: "block_state \<Rightarrow> block_state \<Rightarrow> bool" where
  "same_conditions a b \<longleftrightarrow>
     const_lt a = const_lt b \<and> const_le a = const_le b \<and> const_gt a = const_gt b \<and> const_ge a = const_ge b \<and>
     nonzero_if_true a = nonzero_if_true b \<and> nonzero_if_false a = nonzero_if_false b \<and>
     eq_pair_if_true a = eq_pair_if_true b \<and> ne_pair_if_true a = ne_pair_if_true b"

lemma or_insert_map_self [simp]: "fst (or_insert_map m m) = m"
  by (rule fmap_ext) (simp add: or_insert_body_simps split: option.split)

lemma join_view:
  assumes "same_conditions a b"
  shows "const_lt (fst (join_with a b)) = const_lt a" "const_le (fst (join_with a b)) = const_le a"
    "const_gt (fst (join_with a b)) = const_gt a" "const_ge (fst (join_with a b)) = const_ge a"
    "nonzero_if_true (fst (join_with a b)) = nonzero_if_true a"
    "nonzero_if_false (fst (join_with a b)) = nonzero_if_false a"
    "eq_pair_if_true (fst (join_with a b)) = eq_pair_if_true a"
    "ne_pair_if_true (fst (join_with a b)) = ne_pair_if_true a"
  using assms unfolding join_with_fields same_conditions_def by simp_all

lemma join_bounds:
  assumes "fmpred (\<lambda>l u. \<sigma> l \<le> unat u) (const_upper a) \<or> fmpred (\<lambda>l u. \<sigma> l \<le> unat u) (const_upper b)"
    and "fmpred (\<lambda>l u. unat u \<le> \<sigma> l) (const_lower a) \<or> fmpred (\<lambda>l u. unat u \<le> \<sigma> l) (const_lower b)"
  shows "fmpred (\<lambda>l u. \<sigma> l \<le> unat u) (const_upper (fst (join_with a b)))"
    and "fmpred (\<lambda>l u. unat u \<le> \<sigma> l) (const_lower (fst (join_with a b)))"
proof -
  have max: "unat x \<le> unat (max x y)" "unat y \<le> unat (max x y)" for x y :: u64
    by (simp_all add: word_le_nat_alt [symmetric])
  have min: "unat (min x y) \<le> unat x" "unat (min x y) \<le> unat y" for x y :: u64
    by (simp_all add: word_le_nat_alt [symmetric])
  show "fmpred (\<lambda>l u. \<sigma> l \<le> unat u) (const_upper (fst (join_with a b)))"
  proof (rule fmpredI)
    fix l u assume "fmlookup (const_upper (fst (join_with a b))) l = Some u"
    then obtain x y where xy: "fmlookup (const_upper a) l = Some x" "fmlookup (const_upper b) l = Some y" "u = max x y"
      by (auto simp: const_upper_join split: option.splits)
    with assms(1) have "\<sigma> l \<le> unat x \<or> \<sigma> l \<le> unat y" by (auto dest: fmpredD)
    then show "\<sigma> l \<le> unat u" unfolding xy(3) using max order_trans by blast
  qed
  show "fmpred (\<lambda>l u. unat u \<le> \<sigma> l) (const_lower (fst (join_with a b)))"
  proof (rule fmpredI)
    fix l u assume "fmlookup (const_lower (fst (join_with a b))) l = Some u"
    then obtain x y where xy: "fmlookup (const_lower a) l = Some x" "fmlookup (const_lower b) l = Some y" "u = min x y"
      by (auto simp: const_lower_join split: option.splits)
    with assms(2) have "unat x \<le> \<sigma> l \<or> unat y \<le> \<sigma> l" by (auto dest: fmpredD)
    then show "unat u \<le> \<sigma> l" unfolding xy(3) using min order_trans by blast
  qed
qed

text \<open>
  A merge loses no execution of either path, where both paths have the same comparisons
  on record: a store that one of the states describes is described by the merged state.
\<close>

lemma join_sound_on_same_conditions:
  assumes "gamma \<sigma> a \<or> gamma \<sigma> b" and "same_conditions a b"
  shows "gamma \<sigma> (fst (join_with a b))"
proof -
  have "fBall (nonzero (fst (join_with a b))) (\<lambda>l. \<sigma> l \<noteq> 0)"
    "fBall (keys_are_ne (fst (join_with a b))) (\<lambda>(x, y). \<sigma> x \<noteq> \<sigma> y)"
    "fBall (eq_locals (fst (join_with a b))) (\<lambda>(x, y). \<sigma> x = \<sigma> y)"
    using assms(1) by (auto simp: join_with_fields gamma_on_def)
  moreover have "fmpred (\<lambda>l u. \<sigma> l \<le> unat u) (const_upper (fst (join_with a b)))"
    "fmpred (\<lambda>l u. unat u \<le> \<sigma> l) (const_lower (fst (join_with a b)))"
    using assms(1) gamma_parts(1,2) by (blast intro: join_bounds)+
  moreover from assms have "gamma \<sigma> (a\<lparr>const_upper := fmempty, const_lower := fmempty, nonzero := {||},
      keys_are_ne := {||}, eq_locals := {||}\<rparr>)"
    by (auto simp: gamma_on_def same_conditions_def)
  ultimately show ?thesis by (simp add: gamma_on_def join_view [OF assms(2)])
qed

section \<open>Where the code is not exact\<close>

text \<open>
  C34: a comparison that is on record on one path only is kept by a merge. The execution that
  comes along the other path, where the local of the comparison has another meaning, is not
  described by the merged state.
\<close>

theorem join_keeps_one_sided_comparison:
  "\<exists>\<sigma>. gamma \<sigma> block_state_default \<and> \<not> gamma \<sigma> (fst (join_with compared_state block_state_default)) \<and>
     \<not> gamma \<sigma> (fst (join_with block_state_default compared_state))"
proof (intro exI conjI)
  let ?\<sigma> = "\<lambda>l :: local. if l = 1 then 50 else 1 :: nat"
  show "gamma ?\<sigma> block_state_default" by (rule gamma_default)
  have "fmlookup (const_lt (fst (join_with compared_state block_state_default))) 2 = Some (1, 10)"
    "fmlookup (const_lt (fst (join_with block_state_default compared_state))) 2 = Some (1, 10)" by code_simp+
  then show "\<not> gamma ?\<sigma> (fst (join_with compared_state block_state_default))"
    "\<not> gamma ?\<sigma> (fst (join_with block_state_default compared_state))"
    using gammaD(4) [of "\<lambda>_. Some UNIV" ?\<sigma> _ 2 1 10] by auto
qed



end
