(* ===== verification/Range_Calls.thy ===== *)
theory Range_Calls
  imports Range_Transfer
begin

text \<open>
  The value facts across terminators. A call changes them only for its destination, drops and
  assertions do not touch them, and which locals have a comparison on record follows from the
  assignments and calls of the body.
\<close>

section \<open>Steps that leave the value facts alone\<close>

lemma view_fold: "(\<And>x s. range_view (f x s) = range_view s) \<Longrightarrow> range_view (fold f xs s) = range_view s"
  by (induction xs arbitrary: s) simp_all

lemma view_if_some [view_simps]: "(\<And>v s. range_view (f v s) = range_view s) \<Longrightarrow> range_view (if_some x f s) = range_view s"
  by (simp add: if_some_def split: option.split)

lemma view_of_fields [view_simps]:
  "range_view (s\<lparr>init := a\<rparr>) = range_view s" "range_view (s\<lparr>mu_raw_ptr := b\<rparr>) = range_view s"
  "range_view (s\<lparr>buf_written := c\<rparr>) = range_view s" "range_view (s\<lparr>owner_alias := e\<rparr>) = range_view s"
  "range_view (s\<lparr>local_proto := g\<rparr>) = range_view s" "range_view (s\<lparr>typestate := h\<rparr>) = range_view s"
  "range_view (s\<lparr>points_to := f\<rparr>) = range_view s"
  by (simp_all add: range_view_def)

lemma view_of_heap_steps [view_simps]:
  "range_view (escape_local l s) = range_view s" "range_view (reconstitute_objects l s) = range_view s"
  "range_view (seed_raw_owned l bb s) = range_view s" "range_view (inherit_points_to l l' s) = range_view s"
  "range_view (inherit_owner_alias l l' s) = range_view s" "range_view (set_owner_alias l l' s) = range_view s"
  "range_view (mark_stale l s) = range_view s" "range_view (mark_owners_written l s) = range_view s"
  "range_view (clear_dest_tail l s) = range_view s" "range_view (drop_dest_proto l s) = range_view s"
  "range_view (forget_local tcx body l s) = range_view s" "range_view (points_to_first_arg args l s) = range_view s"
  by (simp_all add: range_view_def escape_local_def reconstitute_objects_def seed_raw_owned_def inherit_points_to_def
      inherit_owner_alias_def set_owner_alias_def mark_stale_def mark_owners_written_def clear_dest_tail_def
      drop_dest_proto_def forget_local_def points_to_first_arg_def set_points_to_def Let_def split: option.split)

lemma view_of_stores [view_simps]: "range_view (store_projection tcx body dst rv s) = range_view s"
proof -
  have "range_view (store_source dst rv s) = range_view s" for s
    using view_of_heap_steps(1)
    by (simp add: store_source_def Let_def split: option.split) (simp add: range_view_def store_field_def)
  moreover have "range_view (store_union_field tcx body dst s) = range_view s" for s
    by (simp add: range_view_def store_union_field_def split: option.split)
  moreover have "range_view (store_maybe_uninit_field body dst s) = range_view s" for s
    by (simp add: range_view_def store_maybe_uninit_field_def Let_def split: option.split)
  ultimately show ?thesis by (simp add: store_projection_def)
qed

lemma view_of_arg_steps [view_simps]:
  "range_view (escape_raw_ptr_args body args s) = range_view s"
  "range_view (invalidate_owner_args body args skip s) = range_view s"
  "range_view (drop_capacity_proofs body args s) = range_view s"
  "range_view (apply_realloc body recv s) = range_view s"
proof -
  show "range_view (escape_raw_ptr_args body args s) = range_view s" unfolding escape_raw_ptr_args_def
    by (rule view_fold) (simp add: view_simps split: option.split)
  show "range_view (invalidate_owner_args body args skip s) = range_view s" unfolding invalidate_owner_args_def
    by (rule view_fold) (simp add: view_simps)
  show "range_view (drop_capacity_proofs body args s) = range_view s" unfolding drop_capacity_proofs_def
    by (rule view_fold) (simp add: range_view_def Let_def split: option.split)
  have "range_view (fold (\<lambda>o' s. if is_param body o' then s\<lparr>realloced_params := finsert o' (realloced_params s)\<rparr> else s) xs s) =
      range_view s" for xs s
    by (rule view_fold) (simp add: range_view_def)
  then show "range_view (apply_realloc body recv s) = range_view s"
    by (simp add: apply_realloc_def Let_def view_fold view_simps)
qed

lemma view_of_before [view_simps]: "range_view (before_dispatch tcx body summaries callee args dest s) = range_view s"
  by (simp add: before_dispatch_def run_steps_def view_simps)

lemma view_of_records_at_call [view_simps]:
  "range_view (record_len_cap path args d s) = range_view s" "range_view (record_float_test path args d s) = range_view s"
  "range_view (record_deref path args d s) = range_view s" "range_view (record_fd path args d s) = range_view s"
  "range_view (record_spawn path s) = range_view s"
  by (simp_all add: range_view_def record_len_cap_def record_float_test_def record_deref_def record_fd_def
      record_spawn_def Let_def split: option.split)

lemma view_of_summary [view_simps]: "range_view (apply_fn_summary body args dest bb summary s) = range_view s"
proof -
  have effects: "range_view (fold (apply_param_effect args) es s) = range_view s" for es s
  proof (rule view_fold)
    show "range_view (apply_param_effect args x s) = range_view s" for x s
      using view_of_heap_steps(1,2)
      by (simp add: apply_param_effect_def Let_def split: prod.split option.split param_heap_effect.split)
        (simp add: range_view_def)
  qed
  have ret_alias: "range_view (apply_return_alias body args dest n s) = range_view s" for n s
    by (simp add: apply_return_alias_def Let_def view_fold view_simps split: option.split)
  show ?thesis
    by (simp add: apply_fn_summary_def apply_return_value_def Let_def effects ret_alias view_simps split: option.split)
qed

lemma view_of_dispatch [view_simps]: "range_view (dispatch_call tcx body summaries did args dest bb s) = range_view s"
proof -
  note branches = call_raw_realloc_def call_into_raw_def call_from_raw_def call_mem_forget_def call_acquire_guard_def
    call_assume_init_def call_maybe_uninit_init_def call_maybe_uninit_write_def call_maybe_uninit_as_mut_ptr_def
    call_buf_write_def call_ptr_read_def call_summarized_def call_unknown_def
  show ?thesis
    unfolding dispatch_call_def branches Let_def by (simp add: view_simps split: option.split)
qed

lemma view_of_assert_drop [view_simps]:
  "range_view (apply_assert cond expected s) = range_view s" "range_view (apply_drop place s) = range_view s"
  by (simp_all add: range_view_def apply_assert_def apply_drop_def run_steps_def on_fact_def Let_def split: option.split)

section \<open>The result of a call\<close>

lemma gamma_fewer_tests:
  assumes "gamma_on M \<sigma> s" and "\<And>c. M' c = None \<or> M' c = M c"
  shows "gamma_on M' \<sigma> s"
proof -
  have ok: "test_ok M c L P \<Longrightarrow> test_ok M' c L P" for c L P using assms(2) [of c] by (auto simp: test_ok_def)
  note g = gamma_parts [OF assms(1)]
  have single: "fmpred (\<lambda>c x. test_ok M c (L x) (P c x)) m \<Longrightarrow> fmpred (\<lambda>c x. test_ok M' c (L x) (P c x)) m"
    for L P and m :: "(local, local) fmap" by (rule fmpred_mono_strong) (rule ok)
  have pair: "fmpred (\<lambda>c (x, y). test_ok M c (L x y) (P c x y)) m \<Longrightarrow> fmpred (\<lambda>c (x, y). test_ok M' c (L x y) (P c x y)) m"
    for L P and m :: "(local, local \<times> local) fmap" by (erule fmpred_mono_strong [rotated]) (auto intro: ok)
  have pair': "fmpred (\<lambda>c (x, y). test_ok M c (L x y) (P c x y)) m \<Longrightarrow> fmpred (\<lambda>c (x, y). test_ok M' c (L x y) (P c x y)) m"
    for L P and m :: "(local, local \<times> u64) fmap" by (erule fmpred_mono_strong [rotated]) (auto intro: ok)
  show ?thesis
    unfolding gamma_on_def
    by (intro conjI g(1-3,12,13) pair' [OF g(4)] pair' [OF g(5)] pair' [OF g(6)] pair' [OF g(7)] single [OF g(8)]
        single [OF g(9)] pair [OF g(10)] pair [OF g(11)])
qed

text \<open>Library functions whose result is never null.\<close>

definition never_null :: "string \<Rightarrow> bool" where
  "never_null path \<longleftrightarrow>
     ends_with_any path [''::as_ptr'', ''::as_mut_ptr'', ''::as_non_null_ptr'', ''::as_non_null_slice'', ''::as_non_null''] \<or>
     ends_with path ''::dangling''"

text \<open>Calls that record a comparison of their arguments for the destination.\<close>

definition equality_call :: "string \<Rightarrow> bool" where
  "equality_call path \<longleftrightarrow> ends_with path ''::ne'' \<or> ends_with path ''::eq''"

lemma clear_call_view: "range_view (clear_call_dest d s) = range_view (clear_dst_facts d s)"
  by (simp add: clear_dst_view) (simp add: range_view_def clear_call_dest_def)

lemma gamma_pair_updates:
  "gamma_on M \<sigma> s \<Longrightarrow> M c = None \<Longrightarrow> gamma_on M \<sigma> (s\<lparr>eq_pair_if_true := fmupd c p (eq_pair_if_true s)\<rparr>)"
  "gamma_on M \<sigma> s \<Longrightarrow> M c = None \<Longrightarrow> gamma_on M \<sigma> (s\<lparr>ne_pair_if_true := fmupd c p (ne_pair_if_true s)\<rparr>)"
  using gamma_facts(7,8) [of M \<sigma> s c "fst p" "snd p"] by (simp_all add: test_ok_def)

lemma record_eq_keeps:
  assumes "M d = None \<or> \<not> equality_call path"
  shows "keeps M \<sigma> (record_eq_call path args d)"
  using assms gamma_pair_updates [of M \<sigma> _ d]
  by (auto simp: keeps_def record_eq_call_def equality_call_def Let_def split: option.split)

lemma gamma_nonzero_if:
  assumes "gamma_on M \<sigma> s" and "p \<Longrightarrow> \<sigma> d \<noteq> 0"
  shows "gamma_on M \<sigma> (if p then s\<lparr>nonzero := finsert d (nonzero s)\<rparr> else s)"
  using gamma_nonzero [OF assms(1)] assms by (cases p) simp_all

lemma gamma_layout_if: "gamma_on M \<sigma> s \<Longrightarrow> gamma_on M \<sigma> (if p then s\<lparr>layout_overflow := x\<rparr> else s)"
  using gamma_view [of "s\<lparr>layout_overflow := x\<rparr>" s M \<sigma>] by (cases p) (simp_all add: range_view_def)

lemma after_dispatch_keeps:
  assumes "value_fits tcx (local_decls body d) (\<sigma> d)" and "never_null path \<Longrightarrow> \<sigma> d \<noteq> 0"
  shows "keeps M \<sigma> (after_dispatch tcx body path args d)"
  unfolding keeps_def
proof (intro allI impI)
  fix s assume "gamma_on M \<sigma> s"
  with keeps_enforce [of tcx "local_decls body d" \<sigma> d M] assms(1)
  have "gamma_on M \<sigma> (enforce_type_facts tcx d (local_decls body d) s)" unfolding keeps_def by blast
  from this show "gamma_on M \<sigma> (after_dispatch tcx body path args d s)"
    unfolding after_dispatch_def Let_def
    by (intro gamma_layout_if gamma_nonzero_if) (use assms(2) in \<open>simp_all only: never_null_def simp_thms\<close>)
qed

definition call_tests :: "string \<Rightarrow> local \<Rightarrow> tests \<Rightarrow> tests" where
  "call_tests path d M = (if equality_call path then (overwrite d {} M)(d := None) else overwrite d {} M)"

lemma resolved_call_keeps:
  assumes "gamma_on M \<sigma> s" and "value_fits tcx (local_decls body d) v"
    and "never_null (def_path_str tcx did) \<Longrightarrow> v \<noteq> 0"
  shows "gamma_on (call_tests (def_path_str tcx did) d M) (\<sigma>(d := v)) (apply_resolved_call tcx body summaries did args d bb s)"
proof -
  let ?path = "def_path_str tcx did" let ?M = "call_tests ?path d M" let ?\<sigma> = "\<sigma>(d := v)"
  have "gamma_on (overwrite d {} M) ?\<sigma> (clear_call_dest d s)"
    using gamma_havoc [OF assms(1)] gamma_view [OF clear_call_view] by blast
  then have "gamma_on ?M ?\<sigma> (clear_call_dest d s)" by (rule gamma_fewer_tests) (simp add: call_tests_def)
  moreover have "keeps ?M ?\<sigma> (\<lambda>s. record_spawn ?path (record_fd ?path args d (record_deref ?path args d
      (record_float_test ?path args d (record_len_cap ?path args d s)))))"
    by (rule keeps_view) (simp add: view_simps)
  moreover have "keeps ?M ?\<sigma> (record_eq_call ?path args d)" by (rule record_eq_keeps) (simp add: call_tests_def)
  moreover have "keeps ?M ?\<sigma> (dispatch_call tcx body summaries did args d bb)" by (rule keeps_view) (simp add: view_simps)
  moreover have "keeps ?M ?\<sigma> (after_dispatch tcx body ?path args d)" by (rule after_dispatch_keeps) (use assms in auto)
  ultimately show ?thesis by (simp add: apply_resolved_call_def run_steps_def Let_def keeps_def)
qed

section \<open>Which locals have a comparison on record\<close>

definition tests_of :: "block_state \<Rightarrow> local fset" where
  "tests_of s =
     fmdom (const_lt s) |\<union>| fmdom (const_le s) |\<union>| fmdom (const_gt s) |\<union>| fmdom (const_ge s) |\<union>|
     fmdom (nonzero_if_true s) |\<union>| fmdom (nonzero_if_false s) |\<union>| fmdom (eq_pair_if_true s) |\<union>| fmdom (ne_pair_if_true s)"

lemma tests_view: "range_view t = range_view s \<Longrightarrow> tests_of t = tests_of s"
  by (simp add: range_view_def tests_of_def)

definition adds_tests :: "local fset \<Rightarrow> (block_state \<Rightarrow> block_state) \<Rightarrow> bool" where
  "adds_tests A f \<longleftrightarrow> (\<forall>s. tests_of (f s) |\<subseteq>| tests_of s |\<union>| A)"

lemma adds_testsI: "(\<And>s. tests_of (f s) |\<subseteq>| tests_of s |\<union>| A) \<Longrightarrow> adds_tests A f"
  by (simp add: adds_tests_def)

lemma adds_same: "(\<And>s. tests_of (f s) = tests_of s) \<Longrightarrow> adds_tests A f"
  by (auto simp: adds_tests_def)

lemma adds_view: "(\<And>s. range_view (f s) = range_view s) \<Longrightarrow> adds_tests A f"
  by (rule adds_same, rule tests_view)

lemma adds_comp: "adds_tests A f \<Longrightarrow> adds_tests A g \<Longrightarrow> adds_tests A (\<lambda>s. f (g s))"
  unfolding adds_tests_def by blast

lemma adds_mono: "adds_tests A f \<Longrightarrow> A |\<subseteq>| B \<Longrightarrow> adds_tests B f"
  unfolding adds_tests_def by blast

lemma adds_run_steps: "list_all (adds_tests A) fs \<Longrightarrow> adds_tests A (run_steps fs)"
proof (induction fs)
  case (Cons f fs)
  then have "adds_tests A (\<lambda>s. run_steps fs (f s))" by (auto intro: adds_comp)
  then show ?case by (simp add: run_steps_def)
qed (simp add: run_steps_def adds_same)

lemma adds_if_some: "(\<And>v. adds_tests A (f v)) \<Longrightarrow> adds_tests A (if_some x f)"
  by (auto simp: adds_tests_def if_some_def split: option.split)

lemma adds_on_fact: "(\<And>v. adds_tests A (f v)) \<Longrightarrow> adds_tests A (on_fact field d f)"
  by (auto simp: adds_tests_def on_fact_def split: option.split)

lemma tests_of_value_steps [simp]:
  "tests_of (lower_upper_bound l u s) = tests_of s" "tests_of (raise_lower_bound l u s) = tests_of s"
  "tests_of (s\<lparr>nonzero := x\<rparr>) = tests_of s" "tests_of (enforce_type_facts tcx l ty s) = tests_of s"
  "tests_of (propagate_use mv l l' s) = tests_of s" "tests_of (s\<lparr>mul_overflow := x\<rparr>) = tests_of s"
  "tests_of (s\<lparr>keys_are_ne := y\<rparr>) = tests_of s" "tests_of (s\<lparr>eq_locals := y\<rparr>) = tests_of s"
  by (simp_all add: tests_of_def lower_upper_bound_def raise_lower_bound_def enforce_type_facts_def propagate_use_def
      Let_def split: option.split)

lemma tests_of_cleared: "tests_of (clear_dst_facts d s) |\<subseteq>| tests_of s" "tests_of (clear_call_dest d s) |\<subseteq>| tests_of s"
proof -
  show dst: "tests_of (clear_dst_facts d s) |\<subseteq>| tests_of s"
    using clear_dst_view [of d s, unfolded range_view_def prod.inject] unfolding tests_of_def
    by (elim conjE) (simp only: fmdom_drop, blast)
  with tests_view [OF clear_call_view] show "tests_of (clear_call_dest d s) |\<subseteq>| tests_of s" by metis
qed

lemma adds_facts:
  "adds_tests {|d|} (\<lambda>s. s\<lparr>const_lt := fmupd d x (const_lt s)\<rparr>)" "adds_tests {|d|} (\<lambda>s. s\<lparr>const_le := fmupd d x (const_le s)\<rparr>)"
  "adds_tests {|d|} (\<lambda>s. s\<lparr>const_gt := fmupd d x (const_gt s)\<rparr>)" "adds_tests {|d|} (\<lambda>s. s\<lparr>const_ge := fmupd d x (const_ge s)\<rparr>)"
  "adds_tests {|d|} (\<lambda>s. s\<lparr>nonzero_if_true := fmupd d y (nonzero_if_true s)\<rparr>)"
  "adds_tests {|d|} (\<lambda>s. s\<lparr>nonzero_if_false := fmupd d y (nonzero_if_false s)\<rparr>)"
  "adds_tests {|d|} (\<lambda>s. s\<lparr>eq_pair_if_true := fmupd d z (eq_pair_if_true s)\<rparr>)"
  "adds_tests {|d|} (\<lambda>s. s\<lparr>ne_pair_if_true := fmupd d z (ne_pair_if_true s)\<rparr>)"
  unfolding adds_tests_def tests_of_def by (simp_all add: funion_assoc)

lemma adds_both_facts:
  "adds_tests {|d|} (\<lambda>s. let s = s\<lparr>const_gt := fmupd d x (const_gt s)\<rparr>
     in if b then s\<lparr>nonzero_if_true := fmupd d y (nonzero_if_true s)\<rparr> else s)"
  "adds_tests {|d|} (\<lambda>s. let s = s\<lparr>const_ge := fmupd d x (const_ge s)\<rparr>
     in if b then s\<lparr>nonzero_if_true := fmupd d y (nonzero_if_true s)\<rparr> else s)"
  using adds_comp [OF adds_facts(5) adds_facts(3)] adds_facts(3) adds_comp [OF adds_facts(5) adds_facts(4)] adds_facts(4)
  by (cases b; simp add: Let_def)+

fun is_comparison :: "bin_op \<Rightarrow> bool" where
  "is_comparison op \<longleftrightarrow> op \<in> {Lt, Le, Gt, Ge, Eq, Ne}"

lemma adds_arith: "adds_tests A (arith_facts f d x y)"
  by (rule adds_same) (simp add: arith_facts_def Let_def split: option.split)

lemma adds_clears: "adds_tests A (clear_cmp_facts d)" "adds_tests A (record_spare d x y p q)" "adds_tests A (record_full d x y p)"
  using adds_view [where f = "clear_cmp_facts d"] adds_view [where f = "record_spare d x y p q"]
    adds_view [where f = "record_full d x y p"] by (simp_all add: view_simps)

lemma adds_comparisons:
  "adds_tests {|d|} (binop_lt d x y)" "adds_tests {|d|} (binop_le d x y)" "adds_tests {|d|} (binop_gt d x y)"
  "adds_tests {|d|} (binop_ge d x y)" "adds_tests {|d|} (binop_eq d x y)" "adds_tests {|d|} (binop_ne d x y)"
  unfolding binop_lt_def binop_le_def binop_gt_def binop_ge_def binop_eq_def binop_ne_def
  by (rule adds_run_steps;
      simp add: adds_clears adds_view view_simps adds_if_some adds_facts adds_both_facts split_def)+

lemma adds_bounds:
  "adds_tests A (binop_bitor d x y)" "adds_tests A (binop_bitand d x y)" "adds_tests A (binop_rem d x y)"
  "adds_tests A (binop_shr d x y)" "adds_tests A (binop_add body d x y)" "adds_tests A (binop_add_with_overflow body d x y)"
proof -
  have clear: "tests_of (clear_cmp_facts d s) = tests_of s" for s by (rule tests_view) (simp add: view_simps)
  have some: "tests_of (if_some z f s) = tests_of s" if "\<And>v s. tests_of (f v s) = tests_of s" for z f s
    using that by (simp add: if_some_def split: option.split)
  have arith: "tests_of (arith_facts f d x y s) = tests_of s" for f s
    by (simp add: arith_facts_def Let_def split: option.split)
  note defs = binop_bitor_def binop_bitand_def binop_rem_def binop_shr_def binop_add_def binop_add_with_overflow_def
  show "adds_tests A (binop_bitor d x y)" "adds_tests A (binop_bitand d x y)" "adds_tests A (binop_rem d x y)"
    "adds_tests A (binop_shr d x y)" "adds_tests A (binop_add body d x y)" "adds_tests A (binop_add_with_overflow body d x y)"
    by (rule adds_same; simp add: defs clear some arith Let_def)+
qed

lemma adds_binop:
  assumes "is_comparison op \<Longrightarrow> d |\<in>| A"
  shows "adds_tests A (assign_binary_op body d op x y)"
proof -
  have "adds_tests A (binop_facts body d op x y)"
  proof (cases "is_comparison op")
    case True
    with assms have "{|d|} |\<subseteq>| A" by simp
    note adds_comparisons [of d x y, THEN adds_mono, OF this]
    with True show ?thesis unfolding adds_tests_def by (cases op) simp_all
  next
    case False
    note kept = adds_bounds [where A = A and d = d and x = x and y = y] adds_clears(1) [of A d] adds_arith [of A _ d x y]
      adds_comp [OF adds_clears(1) adds_arith, of A d _ d x y]
    show ?thesis unfolding adds_tests_def
      using kept [unfolded adds_tests_def, rule_format] False by (cases op) simp_all
  qed
  moreover have "adds_tests A (\<lambda>s. clear_binop_dst d (set_points_to d (binop_points_to op x y s) s))"
    by (rule adds_view) (simp add: view_simps)
  ultimately show ?thesis unfolding assign_binary_op_def by (rule adds_comp)
qed

text \<open>The locals for which a statement or a terminator may record a comparison.\<close>

fun stmt_tests :: "statement \<Rightarrow> local fset" where
  "stmt_tests (Statement (Assign dst (BinaryOp op _ _)) _) = (if is_comparison op then {|place_local dst|} else {||})"
| "stmt_tests _ = {||}"

lemma adds_rvalue:
  assumes "\<And>op x y. rv = BinaryOp op x y \<Longrightarrow> is_comparison op \<Longrightarrow> d |\<in>| A"
  shows "adds_tests A (assign_rvalue tcx body (Place d []) rv)"
proof (cases rv)
  case (Use op)
  have "tests_of (assign_constant d c s) = tests_of s" for c s
  proof -
    have "tests_of (clear_local_facts d (set_points_to d None t)) = tests_of t" for t
      by (rule tests_view) (simp add: view_simps)
    then show ?thesis by (simp add: assign_constant_def Let_def tests_of_def split: option.split)
  qed
  then show ?thesis
  proof (cases op)
    case (Constant c)
    with \<open>\<And>c s. tests_of (assign_constant d c s) = tests_of s\<close> Use show ?thesis by (simp add: adds_same)
  qed (rule adds_view, simp add: Use view_simps)+
next
  case (BinaryOp op x y)
  with adds_binop [of op d A body x y] assms show ?thesis by (simp add: adds_tests_def)
next
  case (Cast kind op ty)
  have "tests_of (s\<lparr>cast_origin := x\<rparr>) = tests_of s" for s :: block_state and x by (simp add: tests_of_def)
  then have "tests_of (assign_numeric_cast k d src ty s) = tests_of s" for k src s
    by (simp add: assign_numeric_cast_def Let_def split: option.split)
  moreover have "tests_of (assign_ptr_cast body d src ty s) = tests_of s" "tests_of (assign_unknown d rv s) = tests_of s" for src s
    by (rule tests_view, simp add: view_simps)+
  ultimately show ?thesis using Cast by (intro adds_same) (simp split: option.split)
qed (rule adds_view, simp add: view_simps)+

lemma adds_statement: "adds_tests (stmt_tests st) (apply_statement tcx body st)"
proof (cases st)
  case (Statement kind sp)
  show ?thesis
  proof (cases kind)
    case (Assign dst rv)
    show ?thesis
    proof (cases "projection dst = []")
      case False
      then show ?thesis by (intro adds_view) (simp add: Statement Assign view_simps)
    next
      case True
      then obtain d where dst: "dst = Place d []" by (cases dst) simp
      have "adds_tests (stmt_tests st) (assign_local tcx body dst rv)"
        unfolding assign_local_def
      proof (rule adds_run_steps, simp, intro conjI)
        show "adds_tests (stmt_tests st) (clear_dst_facts (place_local dst))"
          using tests_of_cleared(1) by (auto simp: adds_tests_def)
        show "adds_tests (stmt_tests st) (record_use (place_local dst) rv)"
        proof (rule adds_same)
          show "tests_of (record_use (place_local dst) rv s) = tests_of s" for s
            by (cases "(place_local dst, rv, s)" rule: record_use.cases) simp_all
        qed
        show "adds_tests (stmt_tests st) (assign_rvalue tcx body dst rv)"
          unfolding dst by (rule adds_rvalue) (simp add: Statement Assign dst)
      qed (rule adds_view adds_same, simp add: view_simps)+
      then have "adds_tests (stmt_tests st) (\<lambda>s. assign_local tcx body dst rv (invalidate_owner (place_local dst) s))"
        by (rule adds_comp) (rule adds_view, simp add: view_simps)
      with True show ?thesis by (simp add: Statement Assign adds_tests_def)
    qed
  qed (simp_all add: Statement adds_same)
qed

fun term_tests :: "tyctxt \<Rightarrow> body \<Rightarrow> terminator \<Rightarrow> local fset" where
  "term_tests tcx body (Terminator (Call func _ dest _ _) _) =
     (case const_fn_def func of
        Some (did, substs) \<Rightarrow>
          if equality_call (def_path_str tcx (resolve_trait_method tcx body did substs)) then {|place_local dest|} else {||}
      | None \<Rightarrow> {|place_local dest|})"
| "term_tests tcx body _ = {||}"

lemma adds_resolved_call:
  assumes "equality_call (def_path_str tcx did) \<Longrightarrow> d |\<in>| A"
  shows "adds_tests A (apply_resolved_call tcx body summaries did args d bb)"
proof -
  have "adds_tests A (clear_call_dest d)" using tests_of_cleared(2) by (auto simp: adds_tests_def)
  moreover have "adds_tests A (record_eq_call path args d)" if "equality_call path \<Longrightarrow> d |\<in>| A" for path
  proof (cases "equality_call path")
    case True
    then have "{|d|} |\<subseteq>| A" using that by simp
    note kept = adds_facts(7,8) [of d, THEN adds_mono, OF this]
    then show ?thesis unfolding adds_tests_def record_eq_call_def Let_def by (simp split: option.split)
  next
    case False
    then show ?thesis by (intro adds_same) (simp add: record_eq_call_def equality_call_def)
  qed
  moreover have "adds_tests A (after_dispatch tcx body path args d)" for path
  proof (rule adds_same)
    have if_same: "tests_of (if p then t else u) = tests_of u" if "tests_of t = tests_of u" for p t u using that by simp
    have "tests_of (s\<lparr>layout_overflow := x\<rparr>) = tests_of s" for s :: block_state and x by (simp add: tests_of_def)
    then show "tests_of (after_dispatch tcx body path args d s) = tests_of s" for s
      unfolding after_dispatch_def Let_def by (simp only: if_same tests_of_value_steps)
  qed
  moreover have "adds_tests A (record_len_cap path args d)" "adds_tests A (record_float_test path args d)"
    "adds_tests A (record_deref path args d)" "adds_tests A (record_fd path args d)" "adds_tests A (record_spawn path)"
    "adds_tests A (dispatch_call tcx body summaries did args d bb)" for path
    by (rule adds_view, simp add: view_simps)+
  ultimately show ?thesis unfolding apply_resolved_call_def Let_def by (intro adds_run_steps) (simp add: assms)
qed

lemma adds_terminator: "adds_tests (term_tests tcx body t) (apply_terminator tcx body bb t summaries)"
proof (cases "(tcx, body, bb, t, summaries, undefined :: block_state)" rule: apply_terminator.cases)
  case (1 tcx' body' bb' func args dest target unwind sp)
  have "tests_of (apply_call tcx body summaries func args dest bb s) |\<subseteq>| tests_of s |\<union>| term_tests tcx body t" for s
  proof -
    let ?callee = "resolve_callee tcx body func s"
    let ?s = "before_dispatch tcx body summaries ?callee args (place_local dest) s"
    have before: "tests_of ?s = tests_of s" by (rule tests_view) (simp add: view_simps)
    show ?thesis
    proof (cases "?callee = None \<or> projection dest \<noteq> []")
      case True
      have "tests_of (escape_raw_ptr_args body args ?s) = tests_of ?s" by (rule tests_view) (simp add: view_simps)
      with True before show ?thesis by (auto simp: apply_call_def apply_callee_def Let_def)
    next
      case False
      then obtain did where did: "?callee = Some did" by auto
      have "adds_tests (term_tests tcx body t) (apply_resolved_call tcx body summaries did args (place_local dest) bb)"
        by (rule adds_resolved_call) (use 1 did in \<open>auto simp: resolve_callee_def or_else_eq_Some split: option.splits prod.splits\<close>)
      with False did before show ?thesis by (simp add: apply_call_def apply_callee_def Let_def adds_tests_def) metis
    qed
  qed
  with 1 show ?thesis by (simp add: adds_tests_def)
qed (simp_all add: adds_same adds_view view_simps)

section \<open>Edges and merges\<close>

lemma adds_refine: "adds_tests A (refine_switchint_edge t q)"
proof -
  have "adds_tests A (refine_true_edge d)" "adds_tests A (refine_false_edge d)" for d
    unfolding refine_true_edge_def refine_false_edge_def
    by (rule adds_run_steps; simp; intro conjI adds_on_fact; rule adds_same; simp add: tests_of_def lower_upper_bound_def raise_lower_bound_def Let_def split: prod.split)+
  then show ?thesis unfolding adds_tests_def
    by (cases "(t, q, undefined :: block_state)" rule: refine_switchint_edge.cases)
      (simp_all add: refine_switch_targets_def split: option.split)
qed

text \<open>Without a comparison on record for the discriminant a switch teaches nothing about values.\<close>

definition skips :: "local \<Rightarrow> (block_state \<Rightarrow> block_state) \<Rightarrow> bool" where
  "skips d f \<longleftrightarrow> (\<forall>s. d |\<notin>| tests_of s \<longrightarrow> range_view (f s) = range_view s)"

lemma skips_run_steps: "list_all (skips d) fs \<Longrightarrow> skips d (run_steps fs)"
proof (induction fs)
  case (Cons f fs)
  then have "skips d f" "skips d (run_steps fs)" by simp_all
  then have "skips d (\<lambda>s. run_steps fs (f s))" unfolding skips_def using tests_view by metis
  then show ?case by (simp add: run_steps_def)
qed (simp add: run_steps_def skips_def)

lemma skips_view: "(\<And>v s. range_view (f v s) = range_view s) \<Longrightarrow> skips d (on_fact field d f)"
  by (simp add: skips_def on_fact_def split: option.split)

lemma skips_tests:
  "skips d (on_fact const_lt d f1)" "skips d (on_fact const_le d f2)" "skips d (on_fact const_gt d f3)"
  "skips d (on_fact const_ge d f4)" "skips d (on_fact nonzero_if_true d f5)" "skips d (on_fact nonzero_if_false d f6)"
  "skips d (on_fact eq_pair_if_true d f7)" "skips d (on_fact ne_pair_if_true d f8)"
  by (simp_all add: skips_def on_fact_def tests_of_def fmdom_notD)

lemma skips_refine:
  assumes "operand_local discr = Some d" and "d |\<notin>| tests_of s"
  shows "range_view (refine_switchint_edge (Terminator (SwitchInt discr targets) sp) q s) = range_view s"
proof -
  have "skips d (refine_true_edge d)" "skips d (refine_false_edge d)"
    unfolding refine_true_edge_def refine_false_edge_def
    by (rule skips_run_steps; simp add: skips_tests; intro conjI skips_view; simp add: range_view_def)+
  with assms show ?thesis by (simp add: refine_switch_targets_def skips_def)
qed

lemma tests_of_join: "tests_of (fst (join_with a b)) |\<subseteq>| tests_of a |\<union>| tests_of b"
proof -
  have dom: "fmdom (fst (or_insert_map m n)) |\<subseteq>| fmdom m |\<union>| fmdom n" for m n :: "('k :: linorder, 'v) fmap"
    by (auto simp: fmlookup_dom_iff or_insert_body_simps split: option.splits)
  show ?thesis unfolding tests_of_def join_with_fields
    by (intro funion_least) (rule order_trans [OF dom], blast)+
qed

text \<open>A state that absorbs an edge describes every store of the edge, apart from comparisons.\<close>

lemma absorbed_values:
  assumes "\<not> snd (join_with t e)" and "gamma_on M \<sigma> e"
  shows "gamma_values \<sigma> t"
proof -
  have "keys_are_ne t |\<subseteq>| keys_are_ne e" "eq_locals t |\<subseteq>| eq_locals e"
    using assms(1) unfolding join_with_changed by simp_all
  then have "fBall (keys_are_ne t) (\<lambda>(a, b). \<sigma> a \<noteq> \<sigma> b)" "fBall (eq_locals t) (\<lambda>(a, b). \<sigma> a = \<sigma> b)"
    "fBall (nonzero t) (\<lambda>l. \<sigma> l \<noteq> 0)"
    using gamma_parts(3,12,13) [OF assms(2)] absorbed_sets(3) [OF assms(1)] by blast+
  moreover have "\<sigma> l \<le> unat u" if "fmlookup (const_upper t) l = Some u" for l u
    using absorbed_const_upper [OF assms(1) that] gammaD(1) [OF assms(2)]
    by (metis order_trans word_le_nat_alt)
  moreover have "unat u \<le> \<sigma> l" if "fmlookup (const_lower t) l = Some u" for l u
    using absorbed_const_lower [OF assms(1) that] gammaD(2) [OF assms(2)]
    by (metis order_trans word_le_nat_alt)
  ultimately show ?thesis by (simp add: gamma_on_def fmpred_iff split_def)
qed

end
