(* ===== verification/Execution.thy ===== *)
theory Execution
  imports Range_Calls
begin

text \<open>
  Executions of a body on the values of its locals, and the theorem that the flow analysis
  describes them: whatever values the locals have when an execution arrives at a block, the
  entry state of the block allows them.
\<close>

section \<open>Executions\<close>

text \<open>
  An assignment to a local stores a value its operation may give. A store through a
  projection writes a part of an aggregate or memory, not an integer local; \<open>tame_stmt\<close>
  below sees to it that no integer local is borrowed mutably.
\<close>

fun stmt_step :: "tyctxt \<Rightarrow> body \<Rightarrow> statement \<Rightarrow> store \<Rightarrow> store \<Rightarrow> bool" where
  "stmt_step tcx body (Statement (Assign dst rv) _) \<sigma> \<sigma>' \<longleftrightarrow>
     (if projection dst = []
      then \<exists>w v. result_of w \<sigma> rv v \<and> exact_case w \<sigma> rv v \<and> value_fits tcx (local_decls body (place_local dst)) v \<and>
             \<sigma>' = \<sigma>(place_local dst := v)
      else \<sigma>' = \<sigma>)"
| "stmt_step tcx body _ \<sigma> \<sigma>' \<longleftrightarrow> \<sigma>' = \<sigma>"

inductive stmts_run :: "tyctxt \<Rightarrow> body \<Rightarrow> statement list \<Rightarrow> store \<Rightarrow> store \<Rightarrow> bool" for tcx body where
  no_stmts: "stmts_run tcx body [] \<sigma> \<sigma>"
| more_stmts: "stmt_step tcx body st \<sigma> \<sigma>1 \<Longrightarrow> stmts_run tcx body sts \<sigma>1 \<sigma>2 \<Longrightarrow> stmts_run tcx body (st # sts) \<sigma> \<sigma>2"

inductive_cases stmts_run_NilE: "stmts_run tcx body [] \<sigma> \<sigma>'"
inductive_cases stmts_run_ConsE: "stmts_run tcx body (st # sts) \<sigma> \<sigma>'"

text \<open>
  A switch goes where the value of its discriminant says. A call gives its destination some
  value of its type, not null where the library promises so, and may return or unwind. Every
  other terminator leaves the values alone and may take any of its edges.
\<close>

definition callee_never_null :: "tyctxt \<Rightarrow> body \<Rightarrow> operand \<Rightarrow> bool" where
  "callee_never_null tcx body func =
     (case const_fn_def func of
        None \<Rightarrow> False
      | Some (did, substs) \<Rightarrow> never_null (def_path_str tcx (resolve_trait_method tcx body did substs)))"

fun term_step :: "tyctxt \<Rightarrow> body \<Rightarrow> terminator \<Rightarrow> store \<Rightarrow> basic_block \<Rightarrow> store \<Rightarrow> bool" where
  "term_step tcx body (Terminator (SwitchInt discr targets) sp) \<sigma> q \<sigma>' \<longleftrightarrow>
     \<sigma>' = \<sigma> \<and> (case operand_local discr of
                None \<Rightarrow> q \<in> set (all_targets targets)
              | Some d \<Rightarrow> q = switch_target targets (\<sigma> d))"
| "term_step tcx body (Terminator (Call func args dest target unwind) sp) \<sigma> q \<sigma>' \<longleftrightarrow>
     q \<in> set (block_successors (BasicBlockData [] (Some (Terminator (Call func args dest target unwind) sp)))) \<and>
     (if projection dest = []
      then \<exists>v. value_fits tcx (local_decls body (place_local dest)) v \<and> (callee_never_null tcx body func \<longrightarrow> v \<noteq> 0) \<and>
             \<sigma>' = \<sigma>(place_local dest := v)
      else \<sigma>' = \<sigma>)"
| "term_step tcx body t \<sigma> q \<sigma>' \<longleftrightarrow> \<sigma>' = \<sigma> \<and> q \<in> set (block_successors (BasicBlockData [] (Some t)))"

text \<open>The blocks an execution arrives at, with the values it arrives with.\<close>

inductive reaches :: "tyctxt \<Rightarrow> body \<Rightarrow> store \<Rightarrow> basic_block \<Rightarrow> store \<Rightarrow> bool" for tcx body \<sigma>0 where
  start: "reaches tcx body \<sigma>0 0 \<sigma>0"
| step: "reaches tcx body \<sigma>0 b \<sigma> \<Longrightarrow> b < length (basic_blocks body) \<Longrightarrow>
    stmts_run tcx body (statements (basic_blocks body ! b)) \<sigma> \<sigma>1 \<Longrightarrow>
    terminator (basic_blocks body ! b) = Some t \<Longrightarrow> term_step tcx body t \<sigma>1 q \<sigma>2 \<Longrightarrow> reaches tcx body \<sigma>0 q \<sigma>2"

lemma term_step_succ:
  assumes "terminator (basic_blocks body ! b) = Some t" and "term_step tcx body t \<sigma> q \<sigma>'"
  shows "q \<in> set (body_succs body b)"
proof -
  have "switch_target targets v \<in> set (all_targets targets)" for targets v
    by (auto simp: switch_target_def all_targets_def find_Some_iff split: option.split)
      (metis nth_mem snd_conv imageI)
  then show ?thesis using assms
    by (cases "(tcx, body, t, \<sigma>, q, \<sigma>')" rule: term_step.cases)
      (auto simp: body_succs_def block_successors_def split: option.splits)
qed

section \<open>Bodies the theorem is about\<close>

text \<open>
  No assignment reads its own destination, and no local is borrowed mutably, so that only
  assignments and calls change it.
\<close>

fun borrows_mutably :: "rvalue \<Rightarrow> bool" where
  "borrows_mutably (Ref m p) \<longleftrightarrow> m = Mut \<and> \<not> list_ex (\<lambda>e. e = Deref) (projection p)"
| "borrows_mutably (RawPtr m p) \<longleftrightarrow> m = Mut \<and> \<not> list_ex (\<lambda>e. e = Deref) (projection p)"
| "borrows_mutably _ \<longleftrightarrow> False"

fun tame_stmt :: "statement \<Rightarrow> bool" where
  "tame_stmt (Statement (Assign dst rv) _) \<longleftrightarrow>
     (projection dst = [] \<longrightarrow> place_local dst \<notin> rvalue_locals rv) \<and> \<not> borrows_mutably rv"
| "tame_stmt _ \<longleftrightarrow> True"

text \<open>The comparisons that are up to date after some statements of a block.\<close>

fun stmt_update :: "statement \<Rightarrow> tests \<Rightarrow> tests" where
  "stmt_update (Statement (Assign dst rv) _) M =
     (if projection dst = [] then overwrite (place_local dst) (compared_locals rv) M else M)"
| "stmt_update _ M = M"

definition tests_after :: "statement list \<Rightarrow> tests" where
  "tests_after sts = fold stmt_update sts (\<lambda>_. None)"

text \<open>The locals for which the body may ever record a comparison.\<close>

definition may_test :: "tyctxt \<Rightarrow> body \<Rightarrow> local \<Rightarrow> bool" where
  "may_test tcx body c =
     list_ex (\<lambda>blk. list_ex (\<lambda>st. c |\<in>| stmt_tests st) (statements blk) \<or>
       (case terminator blk of None \<Rightarrow> False | Some t \<Rightarrow> c |\<in>| term_tests tcx body t)) (basic_blocks body)"

text \<open>
  A switch is on a local that never has a comparison, or on one whose comparison was made in
  the same block, with a target for zero that no other value shares. A call that assigns a
  local names its callee. There is no inline assembly and no coroutine.
\<close>

definition isolated_zero :: "switch_targets \<Rightarrow> bool" where
  "isolated_zero targets =
     (case zero_target targets of
        None \<Rightarrow> False
      | Some z \<Rightarrow> list_all (\<lambda>(k, t). t = z \<longrightarrow> k = 0) (switch_iter targets))"

fun tame_term :: "tyctxt \<Rightarrow> body \<Rightarrow> statement list \<Rightarrow> terminator_kind \<Rightarrow> bool" where
  "tame_term tcx body sts (SwitchInt discr targets) \<longleftrightarrow>
     (case operand_local discr of
        None \<Rightarrow> True
      | Some d \<Rightarrow> \<not> may_test tcx body d \<or> \<not> Option.is_none (tests_after sts d) \<and> isolated_zero targets)"
| "tame_term tcx body sts (Call func _ dest _ _) \<longleftrightarrow> projection dest \<noteq> [] \<or> const_fn_def func \<noteq> None"
| "tame_term tcx body sts (InlineAsm _ _ _) \<longleftrightarrow> False"
| "tame_term tcx body sts (Yield _ _) \<longleftrightarrow> False"
| "tame_term tcx body sts _ \<longleftrightarrow> True"

definition tame_body :: "tyctxt \<Rightarrow> body \<Rightarrow> bool" where
  "tame_body tcx body =
     list_all (\<lambda>blk. list_all tame_stmt (statements blk) \<and>
       (case terminator blk of None \<Rightarrow> True | Some t \<Rightarrow> tame_term tcx body (statements blk) (term_kind t)))
       (basic_blocks body)"

lemma may_testI:
  assumes "blk \<in> set (basic_blocks body)"
  shows "st \<in> set (statements blk) \<Longrightarrow> c |\<in>| stmt_tests st \<Longrightarrow> may_test tcx body c"
    and "terminator blk = Some t \<Longrightarrow> c |\<in>| term_tests tcx body t \<Longrightarrow> may_test tcx body c"
  using assms unfolding may_test_def list_ex_iff by (force intro: bexI [of _ blk])+

section \<open>One block\<close>

lemma stmt_step_described:
  assumes "gamma_on M \<sigma> s" and "tame_stmt st" and "stmt_step tcx body st \<sigma> \<sigma>'"
  shows "gamma_on (stmt_update st M) \<sigma>' (apply_statement tcx body st s)"
proof (cases "(tcx, body, st, \<sigma>, \<sigma>')" rule: stmt_step.cases)
  case (1 tcx' body' dst rv sp)
  show ?thesis
  proof (cases "projection dst = []")
    case True
    then obtain d where "dst = Place d []" by (cases dst) simp
    with 1 assms obtain w v where "result_of w \<sigma> rv v" "exact_case w \<sigma> rv v"
      "value_fits tcx (local_decls body d) v" "\<sigma>' = \<sigma>(d := v)" "d \<notin> rvalue_locals rv" by auto
    with assignment_keeps [OF assms(1), of d rv w v tcx body sp] 1 \<open>dst = Place d []\<close> show ?thesis by simp
  next
    case False
    with 1 assms show ?thesis using gamma_view_step [OF assms(1)] by (simp add: view_simps)
  qed
qed (use assms in auto)

lemma stmts_run_described:
  assumes "stmts_run tcx body sts \<sigma> \<sigma>'" and "gamma_on M \<sigma> s" and "list_all tame_stmt sts"
  shows "gamma_on (fold stmt_update sts M) \<sigma>' (run_statements tcx body sts s)"
  using assms
proof (induction arbitrary: M s)
  case (more_stmts st \<sigma> \<sigma>1 sts \<sigma>2)
  from more_stmts.prems more_stmts.hyps(1) have "gamma_on (stmt_update st M) \<sigma>1 (apply_statement tcx body st s)"
    by (intro stmt_step_described) simp_all
  from more_stmts.IH [OF this] more_stmts.prems(2) show ?case by (simp add: run_statements_def)
qed (simp add: run_statements_def)

lemma statements_tests:
  "c |\<in>| tests_of (run_statements tcx body sts s) \<Longrightarrow> c |\<in>| tests_of s \<or> (\<exists>st \<in> set sts. c |\<in>| stmt_tests st)"
proof (induction sts arbitrary: s)
  case (Cons st sts)
  have "tests_of (apply_statement tcx body st s) |\<subseteq>| tests_of s |\<union>| stmt_tests st"
    using adds_statement [of st tcx body] by (simp add: adds_tests_def)
  moreover from Cons.prems have "c |\<in>| tests_of (run_statements tcx body sts (apply_statement tcx body st s))"
    by (simp add: run_statements_def)
  ultimately show ?case using Cons.IH [of "apply_statement tcx body st s"] by auto
qed (simp add: run_statements_def)

lemma call_described:
  assumes "gamma_on M \<sigma> s" and "tame_term tcx body sts (Call func args dest target unwind)"
    and "term_step tcx body (Terminator (Call func args dest target unwind) sp) \<sigma> q \<sigma>'"
  shows "gamma_values \<sigma>' (apply_call tcx body summaries func args dest bb s)"
proof -
  let ?callee = "resolve_callee tcx body func s"
  let ?s = "before_dispatch tcx body summaries ?callee args (place_local dest) s"
  have s: "gamma_on M \<sigma> ?s" by (rule gamma_view_step [OF assms(1)]) (simp add: view_simps)
  show ?thesis
  proof (cases "projection dest = []")
    case True
    with assms(2) obtain did substs where "const_fn_def func = Some (did, substs)" by auto
    moreover define r where "r = resolve_trait_method tcx body did substs"
    ultimately have r: "?callee = Some r" and nn: "callee_never_null tcx body func \<longleftrightarrow> never_null (def_path_str tcx r)"
      by (simp_all add: resolve_callee_def callee_never_null_def or_else_def)
    from assms(3) True obtain v where v: "value_fits tcx (local_decls body (place_local dest)) v"
      "never_null (def_path_str tcx r) \<Longrightarrow> v \<noteq> 0" "\<sigma>' = \<sigma>(place_local dest := v)" by (auto simp: nn)
    have "gamma_values \<sigma>' (apply_resolved_call tcx body summaries r args (place_local dest) bb ?s)"
      unfolding v(3) by (rule gamma_fewer_tests [OF resolved_call_keeps [OF s v(1)]]) (use v(2) in auto)
    with True r show ?thesis by (simp add: apply_call_def apply_callee_def Let_def)
  next
    case False
    have "gamma_on M \<sigma> (escape_raw_ptr_args body args ?s)" by (rule gamma_view_step [OF s]) (simp add: view_simps)
    with False assms(3) show ?thesis by (auto simp: apply_call_def apply_callee_def Let_def intro: gamma_fewer_tests)
  qed
qed

lemma terminator_described:
  assumes "gamma_on (tests_after sts) \<sigma> s" and "\<And>c. c |\<in>| tests_of s \<Longrightarrow> may_test tcx body c"
    and "tame_term tcx body sts (term_kind t)" and "term_step tcx body t \<sigma> q \<sigma>'"
  shows "gamma_values \<sigma>' (refine_switchint_edge t q (apply_terminator tcx body bb t summaries s))"
proof (cases "(tcx, body, t, \<sigma>, q, \<sigma>')" rule: term_step.cases)
  case (1 tcx' body' discr targets sp)
  show ?thesis
  proof (cases "operand_local discr")
    case None
    with 1 assms(1,4) show ?thesis by (auto intro: gamma_fewer_tests)
  next
    case (Some d)
    show ?thesis
    proof (cases "d |\<in>| tests_of s")
      case True
      with 1 Some assms(2,3) have M: "tests_after sts d \<noteq> None" and "isolated_zero targets" by (auto simp: Option.is_none_def)
      then obtain z where z: "zero_target targets = Some z" "\<forall>k t. (k, t) \<in> set (switch_iter targets) \<and> t = z \<longrightarrow> k = 0"
        by (auto simp: isolated_zero_def list_all_iff split: option.splits)
      from switch_edge_keeps [OF assms(1) Some M z] 1 Some assms(4) show ?thesis by (auto intro: gamma_fewer_tests)
    next
      case False
      from gamma_view_step [OF assms(1) skips_refine [OF Some False]] 1 assms(4) show ?thesis
        by (auto intro: gamma_fewer_tests)
    qed
  qed
next
  case (2 tcx' body' func args dest target unwind sp)
  then have t: "t = Terminator (Call func args dest target unwind) sp" by simp
  with call_described [OF assms(1) _ assms(4) [unfolded t]] assms(3) show ?thesis by simp
qed (use assms(1,4) in \<open>auto intro: gamma_fewer_tests gamma_view_step simp: view_simps\<close>)

lemma block_described:
  assumes "gamma_values \<sigma> s" and "\<And>c. c |\<in>| tests_of s \<Longrightarrow> may_test tcx body c" and "tame_body tcx body"
    and "b < length (basic_blocks body)" and "stmts_run tcx body (statements (basic_blocks body ! b)) \<sigma> \<sigma>1"
    and "terminator (basic_blocks body ! b) = Some t" and "term_step tcx body t \<sigma>1 q \<sigma>2"
  shows "gamma_values \<sigma>2 (edge_into tcx body summaries b s q)"
proof -
  obtain sts where blk: "basic_blocks body ! b = BasicBlockData sts (Some t)"
    using assms(6) by (cases "basic_blocks body ! b") simp
  then have mem: "BasicBlockData sts (Some t) \<in> set (basic_blocks body)" using assms(4) nth_mem by fastforce
  with assms(3) have tame: "list_all tame_stmt sts" "tame_term tcx body sts (term_kind t)"
    by (auto simp: tame_body_def list_all_iff)
  have "gamma_on (tests_after sts) \<sigma>1 (run_statements tcx body sts s)"
    using stmts_run_described [OF assms(5) assms(1)] tame(1) blk by (simp add: tests_after_def)
  moreover have "may_test tcx body c" if "c |\<in>| tests_of (run_statements tcx body sts s)" for c
  proof -
    from statements_tests [OF that] assms(2) may_testI(1) [OF mem] show ?thesis by auto
  qed
  ultimately show ?thesis
    using terminator_described [OF _ _ tame(2) assms(7), of "run_statements tcx body sts s" b summaries] blk
    by (simp add: edge_into_def)
qed

section \<open>All blocks\<close>

lemma entry_tests:
  assumes "wf_body body" and "run_fixpoint tcx body initial summaries = Some es" and "Some s \<in> set es"
    and "tests_of initial = {||}"
  shows "\<forall>c. c |\<in>| tests_of s \<longrightarrow> may_test tcx body c"
proof (rule fixpoint.run_worklist_all [where P = "\<lambda>s. \<forall>c. c |\<in>| tests_of s \<longrightarrow> may_test tcx body c"])
  show "fixpoint.closed_graph body" using assms(1) by (simp add: fixpoint_closed)
  show "run_worklist join_with (block_flow tcx body summaries) (length (basic_blocks body)) initial = Some es"
    using assms(2) by (simp add: run_fixpoint_def)
  show "\<forall>c. c |\<in>| tests_of initial \<longrightarrow> may_test tcx body c" using assms(4) by simp
  show "\<forall>c. c |\<in>| tests_of (fst (join_with s e)) \<longrightarrow> may_test tcx body c"
    if "\<forall>c. c |\<in>| tests_of s \<longrightarrow> may_test tcx body c" "\<forall>c. c |\<in>| tests_of e \<longrightarrow> may_test tcx body c" for s e
    using that tests_of_join [of s e] by blast
next
  fix b s q e
  assume b: "b < length (basic_blocks body)" and s: "\<forall>c. c |\<in>| tests_of s \<longrightarrow> may_test tcx body c"
    and "(q, e) \<in> set (block_flow tcx body summaries b s)"
  then have e: "e = edge_into tcx body summaries b s q" by (auto simp: block_flow_def edge_into_def Let_def)
  note blk = nth_mem [OF b]
  have stmts: "may_test tcx body c" if "c |\<in>| tests_of (run_statements tcx body (statements (basic_blocks body ! b)) s)" for c
    using statements_tests [OF that] s may_testI(1) [OF blk] by blast
  show "\<forall>c. c |\<in>| tests_of e \<longrightarrow> may_test tcx body c"
  proof (cases "basic_blocks body ! b")
    case (BasicBlockData sts t_opt)
    show ?thesis
    proof (cases t_opt)
      case None
      with BasicBlockData stmts show ?thesis by (simp add: e edge_into_def)
    next
      case (Some t)
      then have "tests_of e |\<subseteq>| tests_of (run_statements tcx body sts s) |\<union>| term_tests tcx body t"
        using adds_refine [of "{||}" t q] adds_terminator [of tcx body t b summaries] BasicBlockData
        by (simp add: e edge_into_def adds_tests_def) (meson order_trans)
      with BasicBlockData Some stmts may_testI(2) [OF blk] show ?thesis by auto
    qed
  qed
qed (use assms(3) in simp)

text \<open>The values the parameters have when the body is entered are values of their types.\<close>

definition params_fit :: "tyctxt \<Rightarrow> body \<Rightarrow> store \<Rightarrow> bool" where
  "params_fit tcx body \<sigma> = list_all (\<lambda>l. value_fits tcx (local_decls body l) (\<sigma> l)) (args_iter body)"

lemma seed_described:
  assumes "list_all (\<lambda>l. value_fits tcx (local_decls body l) (\<sigma> l)) ls" and "gamma_on M \<sigma> s"
  shows "gamma_on M \<sigma> (fold (\<lambda>l. enforce_type_facts tcx l (local_decls body l)) ls s)"
  using assms
proof (induction ls arbitrary: s)
  case (Cons l ls)
  with keeps_enforce [of tcx "local_decls body l" \<sigma> l M] show ?case by (simp add: keeps_def)
qed simp

lemma seed_tests: "tests_of (fold (\<lambda>l. enforce_type_facts tcx l (local_decls body l)) ls s) = tests_of s"
  by (induction ls arbitrary: s) simp_all

lemma executions_described_at_entry:
  assumes "wf_body body" and "tame_body tcx body" and "compute_flow tcx body summaries = Some flow"
    and "params_fit tcx body \<sigma>0" and "reaches tcx body \<sigma>0 b \<sigma>"
  shows "\<exists>s. state_at flow b = Some s \<and> gamma_values \<sigma> s \<and> (\<forall>c. c |\<in>| tests_of s \<longrightarrow> may_test tcx body c)"
proof -
  let ?init = "seed_param_type_facts tcx body block_state_default"
  from assms(3) obtain es where es: "run_fixpoint tcx body ?init summaries = Some es" "flow_entry_states flow = es"
    by (auto simp: compute_flow_def)
  have len: "length es = length (basic_blocks body)" using run_fixpoint_Some [OF assms(1)] es(1) by (metis option.inject)
  have init: "gamma_values \<sigma>0 ?init" unfolding seed_param_type_facts_def
    by (rule seed_described) (use assms(4) gamma_default in \<open>simp_all add: params_fit_def\<close>)
  have "tests_of ?init = {||}" unfolding seed_param_type_facts_def seed_tests by (simp add: tests_of_def block_state_default_def)
  note within = entry_tests [OF assms(1) es(1) _ this]
  have at: "\<exists>s. state_at flow q = Some s \<and> gamma_values \<sigma> s \<and> (\<forall>c. c |\<in>| tests_of s \<longrightarrow> may_test tcx body c)"
    if "covers join_with es q e" "gamma_values \<sigma> e" "q < length es" for q e \<sigma>
  proof -
    from that(1) obtain s where s: "es ! q = Some s" "\<not> snd (join_with s e)" by (auto simp: covers_def)
    moreover from s(1) that(3) have "Some s \<in> set es" by (metis nth_mem)
    ultimately show ?thesis using absorbed_values [OF s(2) that(2)] within that(3) by (simp add: state_at_def es(2))
  qed
  have len0: "0 < length es" using assms(1) len by (simp add: wf_body_def)
  from assms(5) show ?thesis
  proof induction
    case start
    from at [OF run_fixpoint_entry [OF assms(1) es(1)] init len0] show ?case .
  next
    case (step b \<sigma> \<sigma>1 t q \<sigma>2)
    then obtain s where s: "es ! b = Some s" "gamma_values \<sigma> s" "\<And>c. c |\<in>| tests_of s \<Longrightarrow> may_test tcx body c"
      by (auto simp: state_at_def es(2) split: if_splits)
    from block_described [OF s(2,3) assms(2) step.hyps(2-5)] have e: "gamma_values \<sigma>2 (edge_into tcx body summaries b s q)" .
    have q: "q \<in> set (body_succs body b)" using step.hyps(4,5) by (rule term_step_succ)
    then have "q < length es" using assms(1) step.hyps(2) len by (auto simp: wf_body_def body_succs_def list_all_iff)
    with at [OF run_fixpoint_edge [OF assms(1) es(1) _ s(1) q] e] step.hyps(2) len show ?case by simp
  qed
qed

text \<open>An execution is about to execute the terminator of a block.\<close>

definition arrives :: "tyctxt \<Rightarrow> body \<Rightarrow> store \<Rightarrow> basic_block \<Rightarrow> store \<Rightarrow> bool" where
  "arrives tcx body \<sigma>0 b \<sigma>1 \<longleftrightarrow>
     b < length (basic_blocks body) \<and>
     (\<exists>\<sigma>. reaches tcx body \<sigma>0 b \<sigma> \<and> stmts_run tcx body (statements (basic_blocks body ! b)) \<sigma> \<sigma>1)"

lemma arrives_described:
  assumes "wf_body body" and "tame_body tcx body" and "compute_flow tcx body summaries = Some flow"
    and "params_fit tcx body \<sigma>0" and "arrives tcx body \<sigma>0 b \<sigma>"
  shows "\<exists>s. state_before_terminator flow tcx body b = Some s \<and> gamma_on (tests_after (statements (basic_blocks body ! b))) \<sigma> s"
proof -
  from assms(5) obtain \<sigma>' where b: "b < length (basic_blocks body)" and "reaches tcx body \<sigma>0 b \<sigma>'"
    and run: "stmts_run tcx body (statements (basic_blocks body ! b)) \<sigma>' \<sigma>" by (auto simp: arrives_def)
  then obtain s where s: "state_at flow b = Some s" "gamma_values \<sigma>' s"
    using executions_described_at_entry [OF assms(1-4)] by blast
  have "list_all tame_stmt (statements (basic_blocks body ! b))" using assms(2) b by (auto simp: tame_body_def list_all_length)
  from stmts_run_described [OF run s(2) this] s(1) show ?thesis by (simp add: state_before_terminator_def tests_after_def)
qed


text \<open>
  \<^verbatim>\<open>fn f(_1: u32) { if _1 < 90 { char::from_u32_unchecked(_1) } }\<close>
\<close>

definition ascii_path :: "def_id \<Rightarrow> string" where
  "ascii_path d = (if d = DefId 1 1 then ''core::char::from_u32_unchecked'' else ''main::f'')"

definition ascii_body :: body where
  "ascii_body = sample_body 1 (\<lambda>l. if l = 1 then TyUint U32 else if l = 2 then TyBool else TyChar)
     [block_of [assign_stmt 2 (BinaryOp Lt (Copy (Place 1 [])) (Constant (ScalarInt 90)))]
        (SwitchInt (Move (Place 2 [])) (SwitchTargets [(0, 2)] 1)),
      block_of [] (Call (Constant (FnItem (DefId 1 1) 0)) [Copy (Place 1 [])] (Place 3 []) (Some 2) UnwindContinue),
      block_of [] Return]"

definition ascii_tcx :: tyctxt where
  "ascii_tcx = sample_tcx ascii_path (\<lambda>_. ascii_body) [DefId 0 0]"

lemma ascii_blocks:
  "basic_blocks ascii_body ! 0 = block_of [assign_stmt 2 (BinaryOp Lt (Copy (Place 1 [])) (Constant (ScalarInt 90)))]
     (SwitchInt (Move (Place 2 [])) (SwitchTargets [(0, 2)] 1))"
  "basic_blocks ascii_body ! 1 =
     block_of [] (Call (Constant (FnItem (DefId 1 1) 0)) [Copy (Place 1 [])] (Place 3 []) (Some 2) UnwindContinue)"
  "length (basic_blocks ascii_body) = 3"
  by (simp_all add: ascii_body_def sample_body_def)

lemma ascii_reaches: "reaches ascii_tcx ascii_body (\<lambda>_. 65) 1 ((\<lambda>_. 65)(2 := 1))"
proof (rule reaches.step)
  show "reaches ascii_tcx ascii_body (\<lambda>_. 65) 0 (\<lambda>_. 65)" by (rule reaches.start)
  have "value_fits ascii_tcx TyBool 1" by (simp add: value_fits_def ty_is_nonzero_def)
  then have "stmt_step ascii_tcx ascii_body (assign_stmt 2 (BinaryOp Lt (Copy (Place 1 [])) (Constant (ScalarInt 90)))) (\<lambda>_. 65) ((\<lambda>_. 65)(2 := 1))"
    by (auto simp: assign_stmt_def ascii_body_def sample_body_def intro!: exI [of _ 1] exI [of _ 32])
  then show "stmts_run ascii_tcx ascii_body (statements (basic_blocks ascii_body ! 0)) (\<lambda>_. 65) ((\<lambda>_. 65)(2 := 1))"
    by (auto simp: ascii_blocks block_of_def intro: stmts_run.intros)
  show "terminator (basic_blocks ascii_body ! 0) =
      Some (Terminator (SwitchInt (Move (Place 2 [])) (SwitchTargets [(0, 2)] 1)) (Span 0 0 0))"
    by (simp add: ascii_blocks block_of_def)
qed (simp_all add: ascii_blocks switch_target_def)

lemma ascii_arrives: "arrives ascii_tcx ascii_body (\<lambda>_. 65) 1 ((\<lambda>_. 65)(2 := 1))"
  using ascii_reaches by (auto simp: arrives_def ascii_blocks block_of_def simp del: One_nat_def intro: stmts_run.intros)

lemma ascii_assumptions: "wf_body ascii_body" "tame_body ascii_tcx ascii_body" "params_fit ascii_tcx ascii_body (\<lambda>_. 65)"
proof -
  show "wf_body ascii_body" by code_simp
  show "tame_body ascii_tcx ascii_body"
    by (simp add: tame_body_def ascii_body_def sample_body_def block_of_def assign_stmt_def tests_after_def overwrite_def
        isolated_zero_def zero_target_def)
  show "params_fit ascii_tcx ascii_body (\<lambda>_. 65)"
    by (simp add: params_fit_def args_iter_def value_fits_def ty_is_nonzero_def ascii_body_def sample_body_def)
qed

lemma ascii_flow: obtains flow where "compute_flow ascii_tcx ascii_body fmempty = Some flow"
  using run_fixpoint_Some [OF ascii_assumptions(1)] by (metis compute_flow_def option.simps(9))


end
