(* ===== verification/Value_Properties.thy ===== *)
theory Value_Properties
  imports Checker_Properties Execution
begin

text \<open>
  What the silence of a value checker means for the values of an execution, and the two
  places where the silence is not earned.
\<close>

section \<open>The state at a call\<close>

lemma fn_calls_state:
  assumes "c \<in> set (fn_calls tcx body flow)"
  shows "site_state c = state_before_terminator flow tcx body (site_block c)"
proof -
  from assms obtain x where "site_of tcx body flow x = Some c" by (auto simp: fn_calls_def List.map_filter_def)
  then show ?thesis by (induction tcx body flow x rule: site_of.induct) (auto split: option.splits)
qed

lemma call_described_at:
  assumes "wf_body body" and "tame_body tcx body" and "compute_flow tcx body summaries = Some flow"
    and "params_fit tcx body \<sigma>0" and "c \<in> set (fn_calls tcx body flow)" and "arrives tcx body \<sigma>0 (site_block c) \<sigma>"
  shows "\<exists>M s. site_state c = Some s \<and> gamma_on M \<sigma> s"
  using arrives_described [OF assms(1-4,6)] fn_calls_state [OF assms(5)] by metis

section \<open>Silence on the strength of one argument\<close>

text \<open>
  The checkers that the flow state silences by a query about the value of one argument, the
  argument, and what the contract of the operation demands of it. The first checker is also
  silenced by a float that is known to be finite.
\<close>

type_synonym value_demand = "(call_site \<Rightarrow> finding list) \<times> (call_site \<Rightarrow> local option) \<times> (call_site \<Rightarrow> local \<Rightarrow> bool)"

definition value_demands :: "store \<Rightarrow> value_demand list" where
  "value_demands \<sigma> =
     [(nonzero_new_unchecked_at, first_ptr, \<lambda>c l. \<sigma> l \<noteq> 0 \<or> arg_proves local_is_finite (Some l) c),
      (ctlz_nonzero_at, first_ptr, \<lambda>_ l. \<sigma> l \<noteq> 0),
      (hint_assert_unchecked_at, first_ptr, \<lambda>_ l. \<sigma> l \<noteq> 0),
      (ascii_unchecked_at, first_ptr, \<lambda>_ l. \<sigma> l \<le> 127),
      (char_from_u32_unchecked_at, first_ptr, \<lambda>_ l. \<sigma> l \<le> 0x10FFFF \<and> (\<sigma> l < 0xD800 \<or> 0xDFFF < \<sigma> l)),
      (step_unchecked_at, second_ptr, \<lambda>_ l. \<sigma> l = 0)]"

lemma step_count_zero:
  assumes "gamma_on M \<sigma> s" and "step_count_is_zero s l"
  shows "\<sigma> l = 0"
  using gammaD(1) [OF assms(1), of l 0] assms(2) by (simp add: step_count_is_zero_def)

lemma silence_justified:
  assumes "gamma_on M \<sigma> s" and "site_state c = Some s" and "(at, arg, demand) \<in> set (value_demands \<sigma>)"
    and "at (without_flow c) \<noteq> []" and "at c = []"
  shows "\<exists>l. arg c = Some l \<and> demand c l"
proof -
  note q = queries_true [OF assms(1)] step_count_zero [OF assms(1)]
  from assms(3) consider
      "at = nonzero_new_unchecked_at" "arg = first_ptr" "demand = (\<lambda>c l. \<sigma> l \<noteq> 0 \<or> arg_proves local_is_finite (Some l) c)"
    | "at = ctlz_nonzero_at" "arg = first_ptr" "demand = (\<lambda>_ l. \<sigma> l \<noteq> 0)"
    | "at = hint_assert_unchecked_at" "arg = first_ptr" "demand = (\<lambda>_ l. \<sigma> l \<noteq> 0)"
    | "at = ascii_unchecked_at" "arg = first_ptr" "demand = (\<lambda>_ l. \<sigma> l \<le> 127)"
    | "at = char_from_u32_unchecked_at" "arg = first_ptr"
      "demand = (\<lambda>_ l. \<sigma> l \<le> 0x10FFFF \<and> (\<sigma> l < 0xD800 \<or> 0xDFFF < \<sigma> l))"
    | "at = step_unchecked_at" "arg = second_ptr" "demand = (\<lambda>_ l. \<sigma> l = 0)"
    unfolding value_demands_def by (auto simp del: One_nat_def)
  then show ?thesis
  proof cases
    case 1
    with nonzero_new_unchecked.silence_proves [OF _ _ assms(2)] assms(4,5) q(1) show ?thesis
      by (auto simp: arg_proves_def assms(2))
  next
    case 2
    with ctlz_nonzero.silence_proves [OF _ _ assms(2)] assms(4,5) q(1) show ?thesis by blast
  next
    case 3
    with hint_assert_unchecked.silence_proves [OF _ _ assms(2)] assms(4,5) q(1) show ?thesis by blast
  next
    case 4
    with ascii_unchecked.silence_proves [OF _ _ assms(2)] assms(4,5) q(1) show ?thesis by blast
  next
    case 5
    with char_from_u32_unchecked.silence_proves [OF _ _ assms(2)] assms(4,5) q(1) show ?thesis by blast
  next
    case 6
    with step_unchecked.silence_proves [OF _ _ assms(2)] assms(4,5) q(2) show ?thesis by blast
  qed
qed


lemma ascii_call:
  assumes "compute_flow ascii_tcx ascii_body fmempty = Some flow"
  obtains c where "c \<in> set (fn_calls ascii_tcx ascii_body flow)" and "site_block c = 1" and "first_ptr c = Some 1"
    and "char_from_u32_unchecked_at (without_flow c) \<noteq> []" and "char_from_u32_unchecked_at c = []"
proof -
  have "case compute_flow ascii_tcx ascii_body fmempty of None \<Rightarrow> False | Some flow \<Rightarrow>
    list_ex (\<lambda>c. site_block c = 1 \<and> first_ptr c = Some 1 \<and> char_from_u32_unchecked_at (without_flow c) \<noteq> [] \<and>
      char_from_u32_unchecked_at c = []) (fn_calls ascii_tcx ascii_body flow)" by code_simp
  with assms that show thesis by (auto simp: list_ex_iff)
qed


section \<open>Unchecked arithmetic\<close>

lemma sum_fits_unat:
  assumes "sum_fits a b m"
  shows "unat a + unat b \<le> unat m"
proof -
  from assms have no_wrap: "\<not> a + b < a" and le: "a + b \<le> m"
    by (auto simp: sum_fits_def checked_add_def split: option.splits if_splits)
  from no_wrap have "unat (a + b) = unat a + unat b"
    using unat_plus_simple [of a b] by (simp add: not_less)
  with le show ?thesis by (simp add: word_le_nat_alt)
qed

lemma unat_widened: "unat (ucast (w :: u64) :: u128) = unat w"
  using unsigned_less [of w, where ?'a = nat] by (simp add: unsigned_ucast_eq take_bit_nat_eq_self)

lemma product_fits_unat:
  assumes "product_fits a b m"
  shows "unat a * unat b \<le> unat m"
proof -
  have "unat a < 2 ^ 64" "unat b < 2 ^ 64" using unsigned_less [of a] unsigned_less [of b] by simp_all
  then have "unat a * unat b < 2 ^ 64 * 2 ^ 64" by (intro mult_strict_mono) simp_all
  then have "unat (ucast a * ucast b :: u128) = unat a * unat b"
    by (simp add: unat_word_ariths unat_widened)
  with assms show ?thesis by (simp add: product_fits_def word_le_nat_alt unat_widened)
qed

lemma add_mul_suppressed_fits:
  assumes "gamma_on M \<sigma> s" and "add_mul_suppressed path body dest s a b"
  obtains m where "uint_type_max (local_decls body (place_local dest)) = Some m"
    and "(if ends_with path ''::unchecked_add'' then \<sigma> a + \<sigma> b else \<sigma> a * \<sigma> b) \<le> unat m"
proof -
  from assms(2) obtain au bu m where u: "fmlookup (const_upper s) a = Some au" "fmlookup (const_upper s) b = Some bu"
    and m: "uint_type_max (local_decls body (place_local dest)) = Some m"
    and fits: "if ends_with path ''::unchecked_add'' then sum_fits au bu m else product_fits au bu m"
    by (auto simp: add_mul_suppressed_def split: option.splits)
  have "\<sigma> a \<le> unat au" "\<sigma> b \<le> unat bu" using gammaD(1) [OF assms(1)] u by blast+
  then have "\<sigma> a + \<sigma> b \<le> unat au + unat bu" "\<sigma> a * \<sigma> b \<le> unat au * unat bu" by (simp_all add: add_mono mult_le_mono)
  with fits sum_fits_unat product_fits_unat show thesis by (intro that [OF m]) (auto split: if_splits intro: order_trans)
qed

lemma sub_suppressed_fits:
  assumes "gamma_on M \<sigma> s" and "sub_suppressed s a b" and "\<sigma> b < 2 ^ 64"
  shows "\<sigma> b \<le> \<sigma> a"
proof -
  let ?lo = "case fmlookup (const_lower s) a of None \<Rightarrow> 0 | Some lo \<Rightarrow> lo"
  let ?up = "case fmlookup (const_upper s) b of None \<Rightarrow> u64_max | Some up \<Rightarrow> up"
  have "unat ?lo \<le> \<sigma> a" using gammaD(2) [OF assms(1)] by (auto split: option.split)
  moreover have "\<sigma> b \<le> unat ?up" using gammaD(1) [OF assms(1)] assms(3) by (auto split: option.split)
  moreover from assms(2) have "unat ?up \<le> unat ?lo" by (simp add: sub_suppressed_def word_le_nat_alt)
  ultimately show ?thesis by linarith
qed

text \<open>The number of bits of an integer type with a size that does not depend on the target.\<close>

fun bit_width :: "ty \<Rightarrow> nat option" where
  "bit_width (TyUint U8) = Some 8"
| "bit_width (TyInt I8) = Some 8"
| "bit_width (TyUint U16) = Some 16"
| "bit_width (TyInt I16) = Some 16"
| "bit_width (TyUint U32) = Some 32"
| "bit_width (TyInt I32) = Some 32"
| "bit_width (TyUint U64) = Some 64"
| "bit_width (TyInt I64) = Some 64"
| "bit_width (TyUint U128) = Some 128"
| "bit_width (TyInt I128) = Some 128"
| "bit_width _ = None"

lemma shift_width_bits: "bit_width ty = Some w \<Longrightarrow> w \<noteq> 128 \<Longrightarrow> unat (shift_width ty) = w"
  by (cases ty rule: bit_width.cases) auto

lemma shift_suppressed_fits:
  assumes "gamma_on M \<sigma> s" and "shift_suppressed body s a b"
  shows "\<sigma> b < unat (shift_width (local_decls body a))"
proof -
  from assms(2) obtain u where "fmlookup (const_upper s) b = Some u" "unat u < unat (shift_width (local_decls body a))"
    using unsigned_less [of "shift_width (local_decls body a)", where ?'a = nat]
    by (auto simp: shift_suppressed_def word_less_nat_alt split: option.splits)
  with gammaD(1) [OF assms(1)] show ?thesis by (meson le_less_trans)
qed

lemma ends_with_differ:
  assumes "ends_with p s" and "drop (length s - length t) s \<noteq> t" and "length t \<le> length s"
  shows "\<not> ends_with p t"
proof
  assume "ends_with p t"
  with assms(1) obtain u v where "u @ s = v @ t" by (metis ends_withE)
  then have "drop (length s - length t) s = t" using assms(3) by (auto simp: append_eq_append_conv2)
  with assms(2) show False ..
qed

lemma int_arith_suppressedE:
  assumes "int_arith_suppressed body c" and "site_state c = Some s"
  obtains a b where "arg_local (site_args c) 0 = Some a" and "arg_local (site_args c) 1 = Some b"
    and "ends_with (site_path c) ''::unchecked_add'' \<or> ends_with (site_path c) ''::unchecked_mul'' \<longrightarrow>
      add_mul_suppressed (site_path c) body (site_dest c) s a b"
    and "ends_with (site_path c) ''::unchecked_sub'' \<longrightarrow> sub_suppressed s a b"
    and "ends_with (site_path c) ''::unchecked_shl'' \<or> ends_with (site_path c) ''::unchecked_shr'' \<or>
      ends_with (site_path c) ''::unchecked_shl_exact'' \<or> ends_with (site_path c) ''::unchecked_shr_exact'' \<longrightarrow>
      shift_suppressed body s a b"
proof -
  from assms obtain a b where ab: "arg_local (site_args c) 0 = Some a" "arg_local (site_args c) 1 = Some b"
    by (auto simp: int_arith_suppressed_def Let_def simp del: One_nat_def split: option.splits)
  define add mul sub where "add = ends_with (site_path c) ''::unchecked_add''"
    and "mul = ends_with (site_path c) ''::unchecked_mul''" and "sub = ends_with (site_path c) ''::unchecked_sub''"
  define shift where "shift \<longleftrightarrow> ends_with (site_path c) ''::unchecked_shl'' \<or> ends_with (site_path c) ''::unchecked_shr'' \<or>
    ends_with (site_path c) ''::unchecked_shl_exact'' \<or> ends_with (site_path c) ''::unchecked_shr_exact''"
  note defs = add_def mul_def sub_def shift_def
  have "sub \<Longrightarrow> \<not> add" "sub \<Longrightarrow> \<not> mul" unfolding defs by (erule ends_with_differ; simp)+
  moreover have "shift \<Longrightarrow> \<not> add" "shift \<Longrightarrow> \<not> mul" "shift \<Longrightarrow> \<not> sub"
    unfolding defs by (elim disjE; erule ends_with_differ; simp)+
  moreover have "if add \<or> mul then add_mul_suppressed (site_path c) body (site_dest c) s a b
    else if sub then sub_suppressed s a b else if shift then shift_suppressed body s a b else False"
    using assms(1) unfolding int_arith_suppressed_def assms(2) ab Let_def defs prod.case option.case .
  ultimately show thesis
    by (intro that [OF ab, folded defs]) (auto split: if_splits)
qed

lemma silent_arith:
  assumes "gamma_on M \<sigma> s" and "site_state c = Some s"
    and "unchecked_int_arith_at body (without_flow c) \<noteq> []" and "unchecked_int_arith_at body c = []"
  shows "\<exists>a b. arg_local (site_args c) 0 = Some a \<and> arg_local (site_args c) 1 = Some b \<and>
    (ends_with (site_path c) ''::unchecked_add'' \<longrightarrow>
       (\<exists>m. uint_type_max (local_decls body (place_local (site_dest c))) = Some m \<and> \<sigma> a + \<sigma> b \<le> unat m)) \<and>
    (ends_with (site_path c) ''::unchecked_mul'' \<longrightarrow>
       (\<exists>m. uint_type_max (local_decls body (place_local (site_dest c))) = Some m \<and> \<sigma> a * \<sigma> b \<le> unat m)) \<and>
    (ends_with (site_path c) ''::unchecked_sub'' \<and> \<sigma> b < 2 ^ 64 \<longrightarrow> \<sigma> b \<le> \<sigma> a) \<and>
    (ends_with (site_path c) ''::unchecked_shl'' \<or> ends_with (site_path c) ''::unchecked_shr'' \<or>
     ends_with (site_path c) ''::unchecked_shl_exact'' \<or> ends_with (site_path c) ''::unchecked_shr_exact'' \<longrightarrow>
       (\<forall>w. bit_width (local_decls body a) = Some w \<and> w \<noteq> 128 \<longrightarrow> \<sigma> b < w))"
proof -
  from assms(3,4) have "int_arith_suppressed body c"
    by (auto simp: unchecked_int_arith_at_def warning_def split: if_splits option.splits)
  then obtain a b where ab: "arg_local (site_args c) 0 = Some a" "arg_local (site_args c) 1 = Some b"
    and am: "ends_with (site_path c) ''::unchecked_add'' \<or> ends_with (site_path c) ''::unchecked_mul'' \<longrightarrow>
      add_mul_suppressed (site_path c) body (site_dest c) s a b"
    and sub: "ends_with (site_path c) ''::unchecked_sub'' \<longrightarrow> sub_suppressed s a b"
    and shift: "ends_with (site_path c) ''::unchecked_shl'' \<or> ends_with (site_path c) ''::unchecked_shr'' \<or>
      ends_with (site_path c) ''::unchecked_shl_exact'' \<or> ends_with (site_path c) ''::unchecked_shr_exact'' \<longrightarrow>
      shift_suppressed body s a b" by (rule int_arith_suppressedE [OF _ assms(2)])
  have not_both: "\<not> ends_with (site_path c) ''::unchecked_add''" if "ends_with (site_path c) ''::unchecked_mul''"
    by (rule ends_with_differ [OF that]) simp_all
  show ?thesis
  proof (rule exI [of _ a], rule exI [of _ b], intro conjI impI ab allI)
    assume e: "ends_with (site_path c) ''::unchecked_add''"
    from am e have "add_mul_suppressed (site_path c) body (site_dest c) s a b" by blast
    from add_mul_suppressed_fits [OF assms(1) this] e
    show "\<exists>m. uint_type_max (local_decls body (place_local (site_dest c))) = Some m \<and> \<sigma> a + \<sigma> b \<le> unat m" by auto
  next
    assume e: "ends_with (site_path c) ''::unchecked_mul''"
    from am e have "add_mul_suppressed (site_path c) body (site_dest c) s a b" by blast
    from add_mul_suppressed_fits [OF assms(1) this] not_both [OF e]
    show "\<exists>m. uint_type_max (local_decls body (place_local (site_dest c))) = Some m \<and> \<sigma> a * \<sigma> b \<le> unat m" by auto
  next
    assume "ends_with (site_path c) ''::unchecked_sub'' \<and> \<sigma> b < 2 ^ 64"
    with sub sub_suppressed_fits [OF assms(1)] show "\<sigma> b \<le> \<sigma> a" by blast
  next
    fix w
    assume e: "ends_with (site_path c) ''::unchecked_shl'' \<or> ends_with (site_path c) ''::unchecked_shr'' \<or>
      ends_with (site_path c) ''::unchecked_shl_exact'' \<or> ends_with (site_path c) ''::unchecked_shr_exact''"
      and w: "bit_width (local_decls body a) = Some w \<and> w \<noteq> 128"
    from shift_suppressed_fits [OF assms(1) shift [rule_format, OF e]] shift_width_bits [of _ w] w show "\<sigma> b < w" by simp
  qed
qed


text \<open>\<^verbatim>\<open>fn f(_1: u8) { (_1 & 100).unchecked_add(_1 & 50) }\<close>\<close>

definition sum_path :: "def_id \<Rightarrow> string" where
  "sum_path d = (if d = DefId 1 1 then ''core::num::<impl u8>::unchecked_add'' else ''main::f'')"

abbreviation masked :: "local \<Rightarrow> u128 \<Rightarrow> statement" where
  "masked l m \<equiv> assign_stmt l (BinaryOp BitAnd (Copy (Place 1 [])) (Constant (ScalarInt m)))"

definition sum_body :: body where
  "sum_body = sample_body 1 (\<lambda>_. TyUint U8)
     [block_of [masked 2 100, masked 3 50]
        (Call (Constant (FnItem (DefId 1 1) 0)) [Copy (Place 2 []), Copy (Place 3 [])] (Place 4 []) (Some 1) UnwindContinue),
      block_of [] Return]"

definition sum_tcx :: tyctxt where
  "sum_tcx = sample_tcx sum_path (\<lambda>_. sum_body) [DefId 0 0]"

lemma sum_assumptions: "wf_body sum_body" "tame_body sum_tcx sum_body" "params_fit sum_tcx sum_body (\<lambda>_. 96)"
proof -
  show "wf_body sum_body" by code_simp
  show "tame_body sum_tcx sum_body"
    by (simp add: tame_body_def sum_body_def sample_body_def block_of_def assign_stmt_def)
  show "params_fit sum_tcx sum_body (\<lambda>_. 96)"
    by (simp add: params_fit_def args_iter_def value_fits_def ty_is_nonzero_def sum_body_def sample_body_def)
qed

lemma sum_arrives: "arrives sum_tcx sum_body (\<lambda>_. 96) 0 ((\<lambda>_. 96)(2 := 96, 3 := 32))"
proof -
  have mask: "stmt_step sum_tcx sum_body (masked l m) \<sigma> (\<sigma>(l := v))"
    if "\<sigma> 1 = 96" "v = and 96 (unat m)" "v \<le> 255" for l m \<sigma> v
    using that by (auto simp: assign_stmt_def sum_body_def sample_body_def value_fits_def ty_is_nonzero_def intro!: exI [of _ 8])
  have "stmts_run sum_tcx sum_body [masked 2 100, masked 3 50] (\<lambda>_. 96) ((\<lambda>_. 96)(2 := 96, 3 := 32))"
    by (rule more_stmts [OF mask more_stmts [OF mask no_stmts]]) simp_all
  moreover have "statements (basic_blocks sum_body ! 0) = [masked 2 100, masked 3 50]" "0 < length (basic_blocks sum_body)"
    by (simp_all add: sum_body_def sample_body_def block_of_def)
  ultimately show ?thesis unfolding arrives_def using reaches.start by metis
qed


section \<open>Silence that is not earned\<close>

definition site_with :: "string \<Rightarrow> block_state \<Rightarrow> call_site" where
  "site_with path s =
     \<lparr>site_block = 0, site_fn = DefId 1 0, site_generics = 0, site_path = path,
      site_args = [Copy (Place 1 []), Copy (Place 2 [])], site_dest = Place 3 [], site_span = Span 1 2 0,
      site_state = Some s\<rparr>"

text \<open>Locals of one type, and a call on two of them whose values are bounded.\<close>

abbreviation body_of :: "ty \<Rightarrow> body" where
  "body_of ty \<equiv> sample_body 2 (\<lambda>_. ty) []"

abbreviation bounds_state :: "u64 \<Rightarrow> u64 \<Rightarrow> block_state" where
  "bounds_state x y \<equiv> block_state_default\<lparr>const_upper := fmap_of_list [(1, x), (2, y)]\<rparr>"

lemma gamma_bounds_state: "v \<le> unat x \<Longrightarrow> v \<le> unat y \<Longrightarrow> gamma (\<lambda>_. v) (bounds_state x y)"
  by (simp add: gamma_on_def block_state_default_def fmpred_upd)


text \<open>A descriptor from \<^verbatim>\<open>into_raw_fd\<close> that is handed to two owners.\<close>

definition fd_path :: "def_id \<Rightarrow> string" where
  "fd_path d =
     (if d = DefId 1 1 then ''std::os::fd::IntoRawFd::into_raw_fd''
      else if d = DefId 1 2 then ''std::os::fd::FromRawFd::from_raw_fd'' else ''main::f'')"

definition fd_body :: body where
  "fd_body = sample_body 0 (\<lambda>l. if l = 1 then TyInt I32 else TyOther 0)
     [call_block (DefId 1 1) [Constant OtherConst] 1 1,
      call_block (DefId 1 2) [Copy (Place 1 [])] 2 2,
      call_block (DefId 1 2) [Copy (Place 1 [])] 3 3,
      block_of [] Return]"

definition fd_tcx :: tyctxt where
  "fd_tcx = sample_tcx fd_path (\<lambda>_. fd_body) [DefId 0 0]"


end
