(* ===== verification/Pointer_Paths.thy ===== *)
theory Pointer_Paths
  imports Ownership_Properties
begin

text \<open>
  Pointers to heap allocations along the paths of a body, and the theorem that the flow
  analysis keeps up with them: a pointer that is handed from local to local still refers to
  its allocation in the state, and an allocation that was given back is not taken for live.
\<close>

section \<open>Following a pointer\<close>

text \<open>
  An allocation is named by the block of the call that made it; only the latest allocation
  of a block is followed. \<open>followed\<close> gives the locals that hold such a pointer because it was
  moved, copied, cast or offset into them, \<open>given_back\<close> the allocations that were freed through
  a followed pointer.
\<close>

record tracked =
  followed :: "local \<Rightarrow> object_id option"
  given_back :: "object_id set"

definition nothing_tracked :: tracked where
  "nothing_tracked = \<lparr>followed = (\<lambda>_. None), given_back = {}\<rparr>"

fun pointer_source :: "rvalue \<Rightarrow> local option" where
  "pointer_source (Use op) = operand_local op"
| "pointer_source (Cast kind op _) = (if kind \<in> {PtrToPtr, Transmute} then operand_local op else None)"
| "pointer_source (RawPtr _ p) = (if projection p = [Deref] then Some (place_local p) else None)"
| "pointer_source (BinaryOp op x _) = (if op = Offset then operand_local x else None)"
| "pointer_source _ = None"

fun moved_from :: "rvalue \<Rightarrow> local option" where
  "moved_from (Use (Move p)) = Some (place_local p)"
| "moved_from _ = None"

definition unfollow :: "local option \<Rightarrow> (local \<Rightarrow> object_id option) \<Rightarrow> local \<Rightarrow> object_id option" where
  "unfollow x \<pi> = (case x of None \<Rightarrow> \<pi> | Some l \<Rightarrow> \<pi>(l := None))"

text \<open>A pointer that is stored through a projection is in memory and not followed any more.\<close>

fun follow_stmt :: "statement \<Rightarrow> tracked \<Rightarrow> tracked" where
  "follow_stmt (Statement (Assign dst rv) _) v =
     (if projection dst = []
      then v\<lparr>followed := (unfollow (moved_from rv) (followed v))
               (place_local dst := Option.bind (pointer_source rv) (followed v))\<rparr>
      else v\<lparr>followed := unfollow (rvalue_local rv) (followed v)\<rparr>)"
| "follow_stmt _ v = v"

section \<open>The state keeps up\<close>

definition given_up :: "heap_state option \<Rightarrow> bool" where
  "given_up x \<longleftrightarrow> x \<in> {Some Reconstituted, Some MaybeFreed, Some Escaped}"

definition keeps_up :: "tracked \<Rightarrow> block_state \<Rightarrow> bool" where
  "keeps_up v s \<longleftrightarrow>
     (\<forall>l obj. followed v l = Some obj \<longrightarrow>
        obj |\<in>| entry_or_default (points_to s) l \<and> fmlookup (heap s) obj \<noteq> None) \<and>
     (\<forall>obj \<in> given_back v. given_up (fmlookup (heap s) obj))"

lemma keeps_upD:
  assumes "keeps_up v s"
  shows "followed v l = Some obj \<Longrightarrow> obj |\<in>| entry_or_default (points_to s) l"
    and "followed v l = Some obj \<Longrightarrow> fmlookup (heap s) obj \<noteq> None"
    and "obj \<in> given_back v \<Longrightarrow> given_up (fmlookup (heap s) obj)"
  using assms by (auto simp: keeps_up_def)

text \<open>The verdict on an object only gets worse.\<close>

definition heap_grows :: "(object_id, heap_state) fmap \<Rightarrow> (object_id, heap_state) fmap \<Rightarrow> bool" where
  "heap_grows h h' \<longleftrightarrow>
     (\<forall>obj. (fmlookup h obj \<noteq> None \<longrightarrow> fmlookup h' obj \<noteq> None) \<and>
            (given_up (fmlookup h obj) \<longrightarrow> given_up (fmlookup h' obj)))"

lemma heap_grows_refl [simp]: "heap_grows h h"
  by (simp add: heap_grows_def)

lemma heap_grows_trans: "heap_grows h h' \<Longrightarrow> heap_grows h' h'' \<Longrightarrow> heap_grows h h''"
  by (simp add: heap_grows_def)

lemma keeps_up_step:
  assumes "keeps_up v s" and "heap_grows (heap s) (heap t)"
    and "\<And>l obj. followed w l = Some obj \<Longrightarrow> obj |\<in>| entry_or_default (points_to t) l \<and> fmlookup (heap t) obj \<noteq> None"
    and "\<And>obj. obj \<in> given_back w \<Longrightarrow> obj \<in> given_back v \<or> given_up (fmlookup (heap t) obj)"
  shows "keeps_up w t"
  using assms by (fastforce simp: keeps_up_def heap_grows_def)

lemma keeps_up_same: "keeps_up v s \<Longrightarrow> heap t = heap s \<Longrightarrow> points_to t = points_to s \<Longrightarrow> keeps_up v t"
  by (simp add: keeps_up_def)

named_theorems object_steps \<open>steps that leave the heap and the points-to map alone\<close>

lemma update_alias_objects [object_steps]:
  "heap (update_owner_alias body d rv s) = heap s" "points_to (update_owner_alias body d rv s) = points_to s"
  "heap (update_fn_ptr_target d rv s) = heap s" "points_to (update_fn_ptr_target d rv s) = points_to s"
  by (simp_all add: update_owner_alias_def update_fn_ptr_target_def Let_def
      split: rvalue.split option.split cast_kind.split pointer_coercion.split)

lemma clear_dst_objects [object_steps]:
  "heap (clear_dst_facts d s) = heap s" "points_to (clear_dst_facts d s) = points_to s"
  "heap (clear_local_facts d s) = heap s" "points_to (clear_local_facts d s) = points_to s"
  by (simp_all add: clear_dst_facts_def clear_local_facts_def clear_field_owned_for_def)

lemma record_assign_objects [object_steps]:
  "heap (record_ref_base d rv s) = heap s" "points_to (record_ref_base d rv s) = points_to s"
  "heap (record_use d rv s) = heap s" "points_to (record_use d rv s) = points_to s"
  "heap (record_slice_len d rv s) = heap s" "points_to (record_slice_len d rv s) = points_to s"
proof -
  show "heap (record_ref_base d rv s) = heap s" "points_to (record_ref_base d rv s) = points_to s"
    by (cases "(d, rv, s)" rule: record_ref_base.cases; simp)+
  show "heap (record_use d rv s) = heap s" "points_to (record_use d rv s) = points_to s"
    by (cases "(d, rv, s)" rule: record_use.cases; simp add: propagate_use_def)+
  show "heap (record_slice_len d rv s) = heap s" "points_to (record_slice_len d rv s) = points_to s"
    by (cases "(d, rv, s)" rule: record_slice_len.cases; simp split: option.split)+
qed

lemma if_some_objects:
  assumes "\<And>x s. heap (f x s) = heap s \<and> points_to (f x s) = points_to s"
  shows "heap (if_some x f s) = heap s" and "points_to (if_some x f s) = points_to s"
  using assms by (simp_all add: if_some_def split: option.split)

lemma bound_objects [object_steps]:
  "heap (lower_upper_bound d u s) = heap s" "points_to (lower_upper_bound d u s) = points_to s"
  "heap (clear_cmp_facts d s) = heap s" "points_to (clear_cmp_facts d s) = points_to s"
  "heap (record_spare d x y on_true cap_first s) = heap s" "points_to (record_spare d x y on_true cap_first s) = points_to s"
  "heap (record_full d x y on_true s) = heap s" "points_to (record_full d x y on_true s) = points_to s"
  "heap (arith_facts f d x y s) = heap s" "points_to (arith_facts f d x y s) = points_to s"
  "heap (clear_binop_dst d s) = heap s" "points_to (clear_binop_dst d s) = points_to s"
  by (simp_all add: lower_upper_bound_def clear_cmp_facts_def record_spare_def record_full_def arith_facts_def
      clear_binop_dst_def Let_def split: option.split prod.split)

lemma binop_objects [object_steps]:
  "heap (binop_facts body d op x y s) = heap s \<and> points_to (binop_facts body d op x y s) = points_to s"
  by (cases op)
    (simp_all add: binop_lt_def binop_ge_def binop_le_def binop_gt_def binop_eq_def binop_ne_def binop_bitor_def
      binop_bitand_def binop_rem_def binop_shr_def binop_add_def binop_add_with_overflow_def run_steps_def
      if_some_objects object_steps Let_def split: prod.split)

text \<open>An assignment to a local changes the objects of that local and of the one moved from.\<close>

lemma entry_fm_put: "entry_or_default (fm_put d x m) l = (if l = d then (case x of None \<Rightarrow> {||} | Some a \<Rightarrow> a) else entry_or_default m l)"
  by (simp add: fm_put_def entry_or_default_def split: option.split)

lemma entry_fmdrop: "entry_or_default (fmdrop d m) l = (if l = d then {||} else entry_or_default m l)"
  by (simp add: entry_or_default_def)

lemma entry_some_objs: "(case some_objs (fmlookup m l) of None \<Rightarrow> {||} | Some a \<Rightarrow> a) = entry_or_default m l"
  by (auto simp: some_objs_def filter_opt_def entry_or_default_def split: option.split)

lemma entry_some_objs_Some: "(case some_objs (Some a) of None \<Rightarrow> {||} | Some b \<Rightarrow> b) = a"
  by (simp add: some_objs_def)

lemma entry_lookup: "(case fmlookup m l of None \<Rightarrow> {||} | Some a \<Rightarrow> a) = entry_or_default m l"
  by (simp add: entry_or_default_def)

lemma entry_fmupd: "entry_or_default (fmupd d a m) l = (if l = d then a else entry_or_default m l)"
  by (simp add: entry_or_default_def)

lemmas entry_simps = entry_fm_put entry_fmdrop entry_fmupd entry_some_objs entry_some_objs_Some entry_lookup

lemma clear_moved_objects:
  "heap (clear_moved_field src s) = heap s"
  "l \<noteq> place_local src \<Longrightarrow> entry_or_default (points_to (clear_moved_field src s)) l = entry_or_default (points_to s) l"
  by (simp_all add: clear_moved_field_def set_points_to_def object_steps entry_simps split: option.split)

lemma assign_unknown_objects:
  "heap (assign_unknown d rv s) = heap s"
  "l \<noteq> d \<Longrightarrow> moved_from rv \<noteq> Some l \<Longrightarrow>
     entry_or_default (points_to (assign_unknown d rv s)) l = entry_or_default (points_to s) l"
  by (cases "(d, rv, s)" rule: assign_unknown.cases;
      simp add: clear_moved_objects set_points_to_def object_steps entry_simps)+

lemma assign_rvalue_heap:
  assumes "projection dst = []"
  shows "heap (assign_rvalue tcx body dst rv s) = heap s"
  using assms
  by (cases "(tcx, body, dst, rv, s)" rule: assign_rvalue.cases)
    (simp_all add: assign_move_def assign_copy_def assign_field_read_def assign_constant_def assign_address_of_def
      assign_aggregate_def assign_ptr_cast_def assign_numeric_cast_def assign_binary_op_def set_points_to_def
      assign_unknown_objects clear_moved_objects object_steps Let_def split: option.split aggregate_kind.split)

lemma assign_rvalue_others:
  assumes "projection dst = []" and "l \<noteq> place_local dst" and "moved_from rv \<noteq> Some l"
  shows "entry_or_default (points_to (assign_rvalue tcx body dst rv s)) l = entry_or_default (points_to s) l"
  using assms
  by (cases "(tcx, body, dst, rv, s)" rule: assign_rvalue.cases)
    (simp_all add: assign_move_def assign_copy_def assign_field_read_def assign_constant_def assign_address_of_def
      assign_aggregate_def assign_ptr_cast_def assign_numeric_cast_def assign_binary_op_def set_points_to_def
      assign_unknown_objects clear_moved_objects object_steps entry_simps Let_def split: option.split aggregate_kind.split)

lemma binop_points_to_offset:
  assumes "obj |\<in>| entry_or_default (points_to s) src" and "operand_local x = Some src"
  shows "obj |\<in>| (case binop_points_to Offset x y s of None \<Rightarrow> {||} | Some a \<Rightarrow> a)"
  using assms by (auto simp: binop_points_to_def entry_or_default_def or_else_def split: option.splits)

lemma assign_rvalue_source:
  assumes "projection dst = []" and "pointer_source rv = Some src" and "obj |\<in>| entry_or_default (points_to s) src"
  shows "obj |\<in>| entry_or_default (points_to (assign_rvalue tcx body dst rv s)) (place_local dst)"
  using assms
  by (cases "(tcx, body, dst, rv, s)" rule: assign_rvalue.cases)
    (auto simp: assign_move_def assign_copy_def assign_address_of_def assign_ptr_cast_def assign_binary_op_def
      set_points_to_def binop_points_to_offset object_steps entry_simps Let_def split: if_splits)

text \<open>Escapes, and what is stored through a projection.\<close>

lemma escape_local_grows:
  "heap_grows (heap s) (heap (escape_local l s))"
  "l' \<noteq> l \<Longrightarrow> entry_or_default (points_to (escape_local l s)) l' = entry_or_default (points_to s) l'"
  "obj |\<in>| entry_or_default (points_to s) l \<Longrightarrow> given_up (fmlookup (heap (escape_local l s)) obj)"
  by (auto simp: escape_local_def heap_grows_def given_up_def escape_fold_lookup entry_or_default_def
      split: option.splits)

lemma store_tail_objects [object_steps]:
  "heap (store_maybe_uninit_field body dst s) = heap s" "points_to (store_maybe_uninit_field body dst s) = points_to s"
  "heap (store_union_field tcx body dst s) = heap s" "points_to (store_union_field tcx body dst s) = points_to s"
  by (simp_all add: store_maybe_uninit_field_def store_union_field_def Let_def split: option.split prod.split)

lemma store_source_grows:
  "heap_grows (heap s) (heap (store_source dst rv s))"
  "rvalue_local rv \<noteq> Some l \<Longrightarrow>
     entry_or_default (points_to s) l |\<subseteq>| entry_or_default (points_to (store_source dst rv s)) l"
  by (auto simp: store_source_def store_field_def escape_local_grows entry_simps Let_def split: option.splits)

lemma follow_stmt_keeps_up:
  assumes "keeps_up v s"
  shows "keeps_up (follow_stmt st v) (apply_statement tcx body st s)"
proof (cases "(tcx, body, st, s)" rule: apply_statement.cases)
  case (1 tcx' body' dst rv sp s')
  let ?t = "apply_statement tcx body st s" and ?w = "follow_stmt st v"
  from 1 have st: "st = Statement (Assign dst rv) sp" by simp
  note simps = st object_steps invalidate_owner_objects enforce_objects assign_local_def run_steps_def store_projection_def
  show ?thesis
  proof (cases "projection dst = []")
    case True
    define u where "u = record_slice_len (place_local dst) rv (record_use (place_local dst) rv
      (record_ref_base (place_local dst) rv (clear_dst_facts (place_local dst)
        (update_fn_ptr_target (place_local dst) rv (update_owner_alias body (place_local dst) rv
          (invalidate_owner (place_local dst) s))))))"
    have u: "heap u = heap s" "points_to u = points_to s" by (simp_all add: u_def object_steps)
    have t: "heap ?t = heap s" "points_to ?t = points_to (assign_rvalue tcx body dst rv u)"
      using True by (simp_all add: simps u_def [symmetric] assign_rvalue_heap u)
    show ?thesis
    proof (rule keeps_up_step [OF assms])
      fix l obj assume l: "followed ?w l = Some obj"
      show "obj |\<in>| entry_or_default (points_to ?t) l \<and> fmlookup (heap ?t) obj \<noteq> None"
      proof (cases "l = place_local dst")
        case True
        with l \<open>projection dst = []\<close> st obtain src where "pointer_source rv = Some src" "followed v src = Some obj"
          by (auto simp: bind_eq_Some_conv)
        with keeps_upD [OF assms] assign_rvalue_source [OF \<open>projection dst = []\<close>, of rv src obj u] True
        show ?thesis by (simp add: t u)
      next
        case False
        with l \<open>projection dst = []\<close> st have "followed v l = Some obj" "moved_from rv \<noteq> Some l"
          by (auto simp: unfollow_def split: option.splits if_splits)
        with keeps_upD [OF assms] assign_rvalue_others [OF \<open>projection dst = []\<close> False, of rv tcx body u]
        show ?thesis by (simp add: t u)
      qed
    qed (use True st t in auto)
  next
    case False
    let ?u = "invalidate_owner (place_local dst) s"
    have t: "heap ?t = heap (store_source dst rv ?u)" "points_to ?t = points_to (store_source dst rv ?u)"
      using False by (simp_all add: simps)
    show ?thesis
    proof (rule keeps_up_step [OF assms])
      show "heap_grows (heap s) (heap ?t)" using store_source_grows(1) [of ?u] by (simp add: t)
      fix l obj assume l: "followed ?w l = Some obj"
      with False st have fl: "followed v l = Some obj" and "rvalue_local rv \<noteq> Some l"
        by (auto simp: unfollow_def split: option.splits if_splits)
      with store_source_grows(2) [of rv l ?u dst] keeps_upD(1) [OF assms fl]
      have "obj |\<in>| entry_or_default (points_to ?t) l" by (auto simp: t)
      moreover have "fmlookup (heap ?t) obj \<noteq> None"
        using store_source_grows(1) [of ?u dst rv] keeps_upD(2) [OF assms fl] by (simp add: t heap_grows_def)
      ultimately show "obj |\<in>| entry_or_default (points_to ?t) l \<and> fmlookup (heap ?t) obj \<noteq> None" ..
    qed (use False st in auto)
  qed
qed (use assms in simp_all)

lemma follow_stmts_keeps_up:
  "keeps_up v s \<Longrightarrow> keeps_up (fold follow_stmt sts v) (run_statements tcx body sts s)"
proof (induction sts arbitrary: v s)
  case (Cons st sts)
  from Cons.IH [OF follow_stmt_keeps_up [OF Cons.prems]] show ?case by (simp add: run_statements_def)
qed (simp add: run_statements_def)

section \<open>Calls\<close>

text \<open>
  What a callee does with its arguments: which it frees, which it keeps (stores them, hands
  them on, or frees them later), which it returns, whether it returns a new allocation, and
  whether it may move a buffer that other pointers refer to.
\<close>

record contract =
  frees :: "nat \<Rightarrow> bool"
  keeps_arg :: "nat \<Rightarrow> bool"
  returns_arg :: "nat option"
  allocates :: bool
  moves_buffer :: bool

definition handed_over :: "contract \<Rightarrow> operand list \<Rightarrow> local \<Rightarrow> bool" where
  "handed_over c args l \<longleftrightarrow>
     (\<exists>i < length args. keeps_arg c i \<and> map_option place_local (operand_place (args ! i)) = Some l)"

definition arg_object :: "(local \<Rightarrow> object_id option) \<Rightarrow> operand list \<Rightarrow> nat \<Rightarrow> object_id option" where
  "arg_object \<pi> args i = Option.bind (nth_arg_local args i) \<pi>"

text \<open>
  A call in the block with object \<open>site\<close>. Arguments that were handed over are not followed any
  more, nor are pointers to an older allocation of the block.
\<close>

definition follow_call :: "contract \<Rightarrow> operand list \<Rightarrow> local \<Rightarrow> object_id \<Rightarrow> tracked \<Rightarrow> tracked" where
  "follow_call c args dest site v =
     (let \<pi> = (if moves_buffer c then (\<lambda>_. None) else followed v);
          gone = {obj. \<exists>i < length args. frees c i \<and> arg_object \<pi> args i = Some obj};
          rest = (\<lambda>l. if handed_over c args l \<or> \<pi> l = Some site then None else \<pi> l);
          result = (if allocates c then Some site else Option.bind (returns_arg c) (arg_object rest args))
      in \<lparr>followed = rest(dest := result), given_back = (given_back v \<union> gone) - {site}\<rparr>)"

text \<open>
  The contracts under which the analyzer treats a callee correctly: what its tables of library
  paths and the summaries say about the callee is true. A callee that is in no table and has
  no summary is expected to keep its arguments.
\<close>

definition trusted :: "tyctxt \<Rightarrow> summary_map \<Rightarrow> def_id \<Rightarrow> contract \<Rightarrow> bool" where
  "trusted tcx summaries did c \<longleftrightarrow>
     (let path = def_path_str tcx did;
          no_free = (\<forall>i. \<not> frees c i);
          returns_at_most = (\<lambda>i. \<not> allocates c \<and> (returns_arg c = None \<or> returns_arg c = Some i));
          returns_nothing = (\<not> allocates c \<and> returns_arg c = None)
      in (is_reallocating_method path \<or>
            Option.bind (fmlookup summaries did) reallocs_param \<noteq> None \<longrightarrow> moves_buffer c) \<and>
         (if is_raw_realloc path then (\<forall>i. frees c i \<longrightarrow> i = 0) \<and> returns_arg c = None
          else if is_into_raw path then no_free \<and> returns_arg c = None
          else if is_from_raw path then (\<forall>i. frees c i \<longrightarrow> i = 0) \<and> returns_nothing
          else if is_mem_forget path then no_free \<and> keeps_arg c 0 \<and> returns_nothing
          else if is_epoch_pin path \<or> is_lock_acquire path then no_free \<and> returns_nothing
          else if is_maybe_uninit_assume_init path \<or> is_maybe_uninit_init path then no_free \<and> returns_at_most 0
          else if is_maybe_uninit_write path \<or> is_maybe_uninit_as_mut_ptr path \<or> is_buf_write path
          then no_free \<and> returns_nothing
          else if is_ptr_read path then no_free \<and> returns_at_most 0
          else case fmlookup summaries did of
                 Some sm \<Rightarrow>
                   (\<forall>i. frees c i \<longrightarrow> (i, EffectReconstituted) \<in> set (param_effects sm) \<or>
                                     (i, EffectEscaped) \<in> set (param_effects sm)) \<and>
                   (\<forall>i. (i, EffectEscaped) \<in> set (param_effects sm) \<longrightarrow> keeps_arg c i) \<and>
                   (allocates c \<longrightarrow> returns_raw_owned sm \<and> returns_alias_of_param sm = None \<and>
                                     returns_ptr_of_param sm = None) \<and>
                   (\<not> allocates c \<longrightarrow> returns_arg c = None \<or> returns_arg c = returns_ptr_of_param sm)
               | None \<Rightarrow>
                   if is_owned_buffer_accessor path then no_free \<and> returns_at_most 0
                   else if is_ptr_write_to_first_arg path \<or> is_global_ptr_copy_to_second_arg path \<or> is_ptr_pure_read path
                   then no_free \<and> returns_nothing
                   else returns_nothing \<and> (\<forall>i. keeps_arg c i)))"

text \<open>What a transfer of the call has to do to keep up with it.\<close>

definition call_sound ::
  "contract \<Rightarrow> operand list \<Rightarrow> local \<Rightarrow> object_id \<Rightarrow> block_state \<Rightarrow> block_state \<Rightarrow> bool" where
  "call_sound c args dest site s t \<longleftrightarrow>
     (\<forall>obj. obj \<noteq> site \<longrightarrow>
        (fmlookup (heap s) obj \<noteq> None \<longrightarrow> fmlookup (heap t) obj \<noteq> None) \<and>
        (given_up (fmlookup (heap s) obj) \<longrightarrow> given_up (fmlookup (heap t) obj))) \<and>
     (\<forall>l. l \<noteq> dest \<and> \<not> handed_over c args l \<longrightarrow>
        entry_or_default (points_to s) l |\<subseteq>| entry_or_default (points_to t) l) \<and>
     (\<forall>i l obj. frees c i \<and> nth_arg_local args i = Some l \<and> obj |\<in>| entry_or_default (points_to s) l \<and>
        fmlookup (heap s) obj \<noteq> None \<and> obj \<noteq> site \<longrightarrow> given_up (fmlookup (heap t) obj)) \<and>
     (allocates c \<longrightarrow> site |\<in>| entry_or_default (points_to t) dest \<and> fmlookup (heap t) site \<noteq> None) \<and>
     (\<forall>i l. \<not> allocates c \<and> returns_arg c = Some i \<and> nth_arg_local args i = Some l \<and> \<not> handed_over c args l \<longrightarrow>
        entry_or_default (points_to s) l |\<subseteq>| entry_or_default (points_to t) dest)"

lemma call_soundD:
  assumes "call_sound c args dest site s t"
  shows "obj \<noteq> site \<Longrightarrow> fmlookup (heap s) obj \<noteq> None \<Longrightarrow> fmlookup (heap t) obj \<noteq> None"
    and "obj \<noteq> site \<Longrightarrow> given_up (fmlookup (heap s) obj) \<Longrightarrow> given_up (fmlookup (heap t) obj)"
    and "obj |\<in>| entry_or_default (points_to s) l \<Longrightarrow> l \<noteq> dest \<Longrightarrow> \<not> handed_over c args l \<Longrightarrow>
      obj |\<in>| entry_or_default (points_to t) l"
    and "frees c i \<Longrightarrow> nth_arg_local args i = Some l \<Longrightarrow> obj |\<in>| entry_or_default (points_to s) l \<Longrightarrow>
      fmlookup (heap s) obj \<noteq> None \<Longrightarrow> obj \<noteq> site \<Longrightarrow> given_up (fmlookup (heap t) obj)"
    and "allocates c \<Longrightarrow> site |\<in>| entry_or_default (points_to t) dest \<and> fmlookup (heap t) site \<noteq> None"
    and "\<not> allocates c \<Longrightarrow> returns_arg c = Some i \<Longrightarrow> nth_arg_local args i = Some l \<Longrightarrow> \<not> handed_over c args l \<Longrightarrow>
      obj |\<in>| entry_or_default (points_to s) l \<Longrightarrow> obj |\<in>| entry_or_default (points_to t) dest"
  using assms unfolding call_sound_def by (blast | (meson fsubsetD))+

lemma follow_call_keeps_up:
  assumes "keeps_up v s" and "call_sound c args dest site s t" and "moves_buffer c \<Longrightarrow> followed v = (\<lambda>_. None)"
  shows "keeps_up (follow_call c args dest site v) t"
proof -
  have \<pi>: "(if moves_buffer c then (\<lambda>_. None) else followed v) = followed v" using assms(3) by simp
  let ?w = "follow_call c args dest site v"
  note k = keeps_upD [OF assms(1)] and c = call_soundD [OF assms(2)]
  have "obj |\<in>| entry_or_default (points_to t) l \<and> fmlookup (heap t) obj \<noteq> None" if "followed ?w l = Some obj" for l obj
  proof (cases "l = dest")
    case False
    with that have "followed v l = Some obj" "\<not> handed_over c args l" "obj \<noteq> site"
      by (auto simp: follow_call_def \<pi> Let_def split: if_splits)
    with k(1,2) False c(1,3) show ?thesis by metis
  next
    case True
    show ?thesis
    proof (cases "allocates c")
      case True
      with that \<open>l = dest\<close> c(5) show ?thesis by (auto simp: follow_call_def Let_def)
    next
      case False
      with that True obtain i a where "returns_arg c = Some i" "nth_arg_local args i = Some a" "followed v a = Some obj"
        "\<not> handed_over c args a" "obj \<noteq> site"
        by (auto simp: follow_call_def \<pi> Let_def arg_object_def bind_eq_Some_conv split: if_splits)
      with k(1,2) False True c(1,6) show ?thesis by metis
    qed
  qed
  moreover have "given_up (fmlookup (heap t) obj)" if "obj \<in> given_back ?w" for obj
  proof -
    from that consider "obj \<in> given_back v" "obj \<noteq> site"
      | i a where "frees c i" "nth_arg_local args i = Some a" "followed v a = Some obj" "obj \<noteq> site"
      by (auto simp: follow_call_def \<pi> Let_def arg_object_def bind_eq_Some_conv)
    then show ?thesis using k c(2,4) by cases metis+
  qed
  ultimately show ?thesis by (simp add: keeps_up_def)
qed

lemma call_soundI:
  assumes "\<And>obj. obj \<noteq> site \<Longrightarrow> fmlookup (heap s) obj \<noteq> None \<Longrightarrow> fmlookup (heap t) obj \<noteq> None"
    and "\<And>obj. obj \<noteq> site \<Longrightarrow> given_up (fmlookup (heap s) obj) \<Longrightarrow> given_up (fmlookup (heap t) obj)"
    and "\<And>l obj. l \<noteq> dest \<Longrightarrow> \<not> handed_over c args l \<Longrightarrow> obj |\<in>| entry_or_default (points_to s) l \<Longrightarrow>
      obj |\<in>| entry_or_default (points_to t) l"
    and "\<And>i l obj. frees c i \<Longrightarrow> nth_arg_local args i = Some l \<Longrightarrow> obj |\<in>| entry_or_default (points_to s) l \<Longrightarrow>
      fmlookup (heap s) obj \<noteq> None \<Longrightarrow> obj \<noteq> site \<Longrightarrow> given_up (fmlookup (heap t) obj)"
    and "allocates c \<Longrightarrow> site |\<in>| entry_or_default (points_to t) dest \<and> fmlookup (heap t) site \<noteq> None"
    and "\<And>i l obj. \<not> allocates c \<Longrightarrow> returns_arg c = Some i \<Longrightarrow> nth_arg_local args i = Some l \<Longrightarrow>
      \<not> handed_over c args l \<Longrightarrow> obj |\<in>| entry_or_default (points_to s) l \<Longrightarrow> obj |\<in>| entry_or_default (points_to t) dest"
  shows "call_sound c args dest site s t"
  unfolding call_sound_def using assms by (intro conjI allI impI fsubsetI; blast)

text \<open>A callee that frees nothing and returns at most its first argument.\<close>

lemma call_sound_quiet:
  assumes "heap_grows (heap s) (heap t)" and "\<forall>i. \<not> frees c i" and "\<not> allocates c"
    and "\<And>l. l \<noteq> dest \<Longrightarrow> \<not> handed_over c args l \<Longrightarrow> entry_or_default (points_to s) l |\<subseteq>| entry_or_default (points_to t) l"
    and "\<And>i l. returns_arg c = Some i \<Longrightarrow> nth_arg_local args i = Some l \<Longrightarrow>
      entry_or_default (points_to s) l |\<subseteq>| entry_or_default (points_to t) dest"
  shows "call_sound c args dest site s t"
  using assms unfolding call_sound_def heap_grows_def by blast

lemma nth_arg_local_0 [simp]: "nth_arg_local args 0 = first_arg_local args"
  by (cases args) (simp_all add: nth_arg_local_def first_arg_local_def)

lemma nth_arg_local_base: "nth_arg_local args i = Some l \<Longrightarrow> i < length args \<and> map_option place_local (operand_place (args ! i)) = Some l"
  by (cases "args ! i") (auto simp: nth_arg_local_def first_arg_local_def operand_place.simps split: if_splits)

lemma nth_arg_handed: "nth_arg_local args i = Some l \<Longrightarrow> keeps_arg c i \<Longrightarrow> handed_over c args l"
  unfolding handed_over_def using nth_arg_local_base by blast

lemma reconstitute_grows:
  "heap_grows (heap s) (heap (reconstitute_objects l s))"
  "obj |\<in>| entry_or_default (points_to s) l \<Longrightarrow> fmlookup (heap s) obj \<noteq> None \<Longrightarrow>
     given_up (fmlookup (heap (reconstitute_objects l s)) obj)"
  by (auto simp: heap_grows_def given_up_def set_objects_for intro: heap_state.exhaust)

lemma seed_objects:
  "entry_or_default (points_to (seed_raw_owned dest bb s)) l =
     (if l = dest then {|word_of_nat bb|} else entry_or_default (points_to s) l)"
  "fmlookup (heap (seed_raw_owned dest bb s)) obj =
     (if obj = word_of_nat bb then Some RawOwned else fmlookup (heap s) obj)"
  by (simp_all add: seed_raw_owned_def entry_simps Let_def)

text \<open>A call that first frees and then sets its destination.\<close>

lemma call_sound_phases:
  assumes "heap_grows (heap s) (heap u)"
    and "\<And>l. \<not> handed_over c args l \<Longrightarrow> entry_or_default (points_to s) l |\<subseteq>| entry_or_default (points_to u) l"
    and "\<And>i l obj. frees c i \<Longrightarrow> nth_arg_local args i = Some l \<Longrightarrow> obj |\<in>| entry_or_default (points_to s) l \<Longrightarrow>
      fmlookup (heap s) obj \<noteq> None \<Longrightarrow> given_up (fmlookup (heap u) obj)"
    and "\<And>obj. obj \<noteq> site \<Longrightarrow> fmlookup (heap t) obj = fmlookup (heap u) obj"
    and "\<And>l. l \<noteq> dest \<Longrightarrow> entry_or_default (points_to t) l = entry_or_default (points_to u) l"
    and "allocates c \<Longrightarrow> site |\<in>| entry_or_default (points_to t) dest \<and> fmlookup (heap t) site \<noteq> None"
    and "\<And>i l. \<not> allocates c \<Longrightarrow> returns_arg c = Some i \<Longrightarrow> nth_arg_local args i = Some l \<Longrightarrow>
      entry_or_default (points_to u) l |\<subseteq>| entry_or_default (points_to t) dest"
  shows "call_sound c args dest site s t"
proof (rule call_soundI)
  fix l obj assume l: "l \<noteq> dest" "\<not> handed_over c args l" "obj |\<in>| entry_or_default (points_to s) l"
  with assms(2) [OF l(2)] show "obj |\<in>| entry_or_default (points_to t) l" by (auto simp: assms(5))
next
  fix i l obj
  assume l: "\<not> allocates c" "returns_arg c = Some i" "nth_arg_local args i = Some l" "\<not> handed_over c args l"
    "obj |\<in>| entry_or_default (points_to s) l"
  with assms(2) [OF l(4)] assms(7) [OF l(1-3)] show "obj |\<in>| entry_or_default (points_to t) dest" by blast
qed (use assms(1,3,4,6) in \<open>simp_all add: heap_grows_def\<close>)

definition free_first :: "operand list \<Rightarrow> block_state \<Rightarrow> block_state" where
  "free_first args s = if_some (first_arg_local args) reconstitute_objects s"

lemma free_first_phase:
  "heap_grows (heap s) (heap (free_first args s))" "points_to (free_first args s) = points_to s"
  "first_arg_local args = Some l \<Longrightarrow> obj |\<in>| entry_or_default (points_to s) l \<Longrightarrow> fmlookup (heap s) obj \<noteq> None \<Longrightarrow>
     given_up (fmlookup (heap (free_first args s)) obj)"
  using reconstitute_grows by (auto simp: free_first_def if_some_def simp del: reconstitute_objects_simps(2) split: option.split)

lemma raw_realloc_sound:
  assumes "\<forall>i. frees c i \<longrightarrow> i = 0" and "returns_arg c = None"
  shows "call_sound c args dest (word_of_nat bb) s (call_raw_realloc args dest bb s)"
  using assms free_first_phase
  by (intro call_sound_phases [where u = "free_first args s"])
    (auto simp: call_raw_realloc_def free_first_def [symmetric] seed_objects)

lemma into_raw_sound:
  assumes "\<forall>i. \<not> frees c i" and "returns_arg c = None"
  shows "call_sound c args dest (word_of_nat bb) s (call_into_raw dest bb s)"
  using assms by (intro call_sound_phases [where u = s]) (auto simp: call_into_raw_def seed_objects)

lemma from_raw_objects:
  "heap (call_from_raw args dest s) =
     heap (if_some (or_else (first_arg_local args) (first_arg_base_local args)) reconstitute_objects s)"
  "points_to (call_from_raw args dest s) = fmdrop dest (points_to s)"
  by (simp_all add: call_from_raw_def if_some_def Let_def split: option.split)

lemma from_raw_sound:
  assumes "\<forall>i. frees c i \<longrightarrow> i = 0" and "\<not> allocates c" and "returns_arg c = None"
  shows "call_sound c args dest site s (call_from_raw args dest s)"
proof -
  let ?src = "or_else (first_arg_local args) (first_arg_base_local args)"
  have "heap_grows (heap s) (heap (if_some ?src reconstitute_objects s))"
    using reconstitute_grows(1) by (simp add: if_some_def split: option.split)
  moreover have "given_up (fmlookup (heap (if_some ?src reconstitute_objects s)) obj)"
    if "frees c i" "nth_arg_local args i = Some l" "obj |\<in>| entry_or_default (points_to s) l" "fmlookup (heap s) obj \<noteq> None"
    for i l obj
  proof -
    from that(1,2) assms(1) have "?src = Some l" by (auto simp: or_else_def)
    with reconstitute_grows(2) [OF that(3,4)] show ?thesis by (simp add: if_some_def)
  qed
  ultimately show ?thesis using assms(2,3)
    by (intro call_soundI) (simp_all add: from_raw_objects entry_simps heap_grows_def)
qed

lemma forget_fold_lookup:
  "fmlookup (fold (\<lambda>oid. fmupd oid Escaped) objs h) obj = (if obj \<in> set objs then Some Escaped else fmlookup h obj)"
  by (induction objs arbitrary: h) auto

lemma forget_local_objects:
  "heap_grows (heap s) (heap (forget_local tcx body src s))"
  "points_to (forget_local tcx body src s) = fmdrop src (points_to s)"
  by (simp_all add: forget_local_def heap_grows_def given_up_def forget_fold_lookup Let_def)

lemma first_arg_base_handed:
  "first_arg_base_local args = Some l \<Longrightarrow> keeps_arg c 0 \<Longrightarrow> handed_over c args l"
  by (cases args) (auto simp: handed_over_def first_arg_base_local_def)

lemma mem_forget_sound:
  assumes "\<forall>i. \<not> frees c i" and "keeps_arg c 0" and "\<not> allocates c" and "returns_arg c = None"
  shows "call_sound c args dest site s (call_mem_forget tcx body args dest s)"
proof (rule call_sound_quiet)
  show "heap_grows (heap s) (heap (call_mem_forget tcx body args dest s))"
    using forget_local_objects(1)
    by (simp add: call_mem_forget_def drop_dest_proto_def set_points_to_def if_some_def split: option.split)
  fix l assume l: "l \<noteq> dest" "\<not> handed_over c args l"
  then have "first_arg_base_local args \<noteq> Some l" using first_arg_base_handed assms(2) by blast
  with l(1) show "entry_or_default (points_to s) l |\<subseteq>| entry_or_default (points_to (call_mem_forget tcx body args dest s)) l"
    by (auto simp: call_mem_forget_def drop_dest_proto_def set_points_to_def if_some_def forget_local_objects
        entry_simps split: option.split)
qed (use assms in auto)

text \<open>The branches that leave the heap alone and change the objects of the destination only.\<close>

lemma quiet_branches:
  "heap (call_acquire_guard dest bb s) = heap s" "points_to (call_acquire_guard dest bb s) = points_to s"
  "heap (call_maybe_uninit_write args dest s) = heap s" "points_to (call_maybe_uninit_write args dest s) = points_to s"
  "heap (call_maybe_uninit_as_mut_ptr args dest s) = heap s"
  "points_to (call_maybe_uninit_as_mut_ptr args dest s) = points_to s"
  "heap (call_buf_write args dest s) = heap s" "points_to (call_buf_write args dest s) = fmdrop dest (points_to s)"
  "heap (call_assume_init args dest s) = heap s"
  "points_to (call_assume_init args dest s) = points_to (points_to_first_arg args dest s)"
  "heap (call_maybe_uninit_init args dest s) = heap s"
  "points_to (call_maybe_uninit_init args dest s) = points_to (points_to_first_arg args dest s)"
  "heap (call_ptr_read args dest s) = heap s"
  "points_to (call_ptr_read args dest s) = points_to (points_to_first_arg args dest s)"
  by (simp_all add: call_acquire_guard_def call_maybe_uninit_write_def call_maybe_uninit_as_mut_ptr_def call_buf_write_def
      call_assume_init_def call_maybe_uninit_init_def call_ptr_read_def points_to_first_arg_def set_points_to_def
      drop_dest_proto_def if_some_def fm_put_def Let_def split: option.split)

lemma points_to_first_arg_entry:
  "l \<noteq> dest \<Longrightarrow> entry_or_default (points_to (points_to_first_arg args dest s)) l = entry_or_default (points_to s) l"
  "first_arg_local args = Some a \<Longrightarrow>
     entry_or_default (points_to (points_to_first_arg args dest s)) dest = entry_or_default (points_to s) a"
  by (simp_all add: points_to_first_arg_def set_points_to_def entry_simps)

lemma first_arg_branch_sound:
  assumes "heap t = heap s" and "points_to t = points_to (points_to_first_arg args dest s)" and "\<forall>i. \<not> frees c i"
    and "\<not> allocates c" and "returns_arg c = None \<or> returns_arg c = Some 0"
  shows "call_sound c args dest site s t"
proof (rule call_sound_quiet)
  fix i l assume "returns_arg c = Some i" "nth_arg_local args i = Some l"
  with assms(5) have "first_arg_local args = Some l" by auto
  then show "entry_or_default (points_to s) l |\<subseteq>| entry_or_default (points_to t) dest"
    by (simp add: assms(2) points_to_first_arg_entry)
qed (use assms in \<open>simp_all add: points_to_first_arg_entry\<close>)

lemma silent_branch_sound:
  assumes "heap t = heap s" and "\<And>l. l \<noteq> dest \<Longrightarrow> entry_or_default (points_to t) l = entry_or_default (points_to s) l"
    and "\<forall>i. \<not> frees c i" and "\<not> allocates c" and "returns_arg c = None"
  shows "call_sound c args dest site s t"
  using assms by (intro call_sound_quiet) simp_all

section \<open>Summaries and unknown callees\<close>

lemma param_effect_phase:
  fixes e :: "nat \<times> param_heap_effect"
  assumes "t = apply_param_effect args e s"
  shows "heap_grows (heap s) (heap t)"
    and "\<not> (\<exists>i. e = (i, EffectEscaped) \<and> nth_arg_local args i = Some l) \<Longrightarrow>
      entry_or_default (points_to t) l = entry_or_default (points_to s) l"
    and "e = (i, eff) \<Longrightarrow> eff \<noteq> EffectNone \<Longrightarrow> nth_arg_local args i = Some l \<Longrightarrow>
      obj |\<in>| entry_or_default (points_to s) l \<Longrightarrow> fmlookup (heap s) obj \<noteq> None \<Longrightarrow> given_up (fmlookup (heap t) obj)"
proof -
  obtain j f where e: "e = (j, f)" by (cases e)
  note simps = assms e apply_param_effect_def Let_def escape_local_grows reconstitute_grows
  show "heap_grows (heap s) (heap t)"
    by (simp add: simps del: reconstitute_objects_simps(2) split: option.split param_heap_effect.split)
  show "entry_or_default (points_to t) l = entry_or_default (points_to s) l"
    if "\<not> (\<exists>i. e = (i, EffectEscaped) \<and> nth_arg_local args i = Some l)"
    using that by (cases f) (auto simp: simps split: option.split)
  show "given_up (fmlookup (heap t) obj)"
    if "e = (i, eff)" "eff \<noteq> EffectNone" "nth_arg_local args i = Some l" "obj |\<in>| entry_or_default (points_to s) l"
      "fmlookup (heap s) obj \<noteq> None"
    using that by (cases eff) (simp_all add: assms apply_param_effect_def Let_def escape_local_grows reconstitute_grows
      del: reconstitute_objects_simps(2))
qed

lemma param_effects_phase:
  "heap_grows (heap s) (heap (fold (apply_param_effect args) es s))"
  "\<not> (\<exists>i. (i, EffectEscaped) \<in> set es \<and> nth_arg_local args i = Some l) \<Longrightarrow>
     entry_or_default (points_to (fold (apply_param_effect args) es s)) l = entry_or_default (points_to s) l"
  "(i, eff) \<in> set es \<Longrightarrow> eff \<noteq> EffectNone \<Longrightarrow> nth_arg_local args i = Some l \<Longrightarrow>
     obj |\<in>| entry_or_default (points_to s) l \<Longrightarrow> fmlookup (heap s) obj \<noteq> None \<Longrightarrow>
     given_up (fmlookup (heap (fold (apply_param_effect args) es s)) obj)"
proof (induction es arbitrary: s)
  case (Cons e es)
  note u = param_effect_phase [OF refl, where args = args and e = e]
  { case 1
    from heap_grows_trans [OF u(1) Cons.IH(1)] show ?case by simp
  next
    case (2 s)
    then have "entry_or_default (points_to (apply_param_effect args e s)) l = entry_or_default (points_to s) l"
      by (intro u(2)) auto
    moreover have "entry_or_default (points_to (fold (apply_param_effect args) es (apply_param_effect args e s))) l =
        entry_or_default (points_to (apply_param_effect args e s)) l" using 2 by (intro Cons.IH(2)) auto
    ultimately show ?case by simp
  next
    case (3 s)
    let ?u = "apply_param_effect args e s"
    have "given_up (fmlookup (heap (fold (apply_param_effect args) es ?u)) obj)"
    proof (cases "given_up (fmlookup (heap ?u) obj)")
      case True
      with Cons.IH(1) [of ?u] show ?thesis by (simp add: heap_grows_def)
    next
      case False
      from 3 u(3) False have "(i, eff) \<in> set es" by fastforce
      moreover have "entry_or_default (points_to ?u) l = entry_or_default (points_to s) l"
        using u(2) u(3) [OF _ _ _ "3"(4,5)] False by blast
      moreover have "fmlookup (heap ?u) obj \<noteq> None" using u(1) "3"(5) by (simp add: heap_grows_def)
      ultimately show ?thesis using Cons.IH(3) [OF _ "3"(2,3)] "3"(4) by simp
    qed
    then show ?case by simp
  }
qed simp_all

lemma inherit_entry:
  "entry_or_default (points_to (inherit_points_to dest arg s)) l =
     (if l = dest \<and> entry_or_default (points_to s) arg \<noteq> {||} then entry_or_default (points_to s) arg
      else entry_or_default (points_to s) l)"
  "heap (inherit_points_to dest arg s) = heap s"
  by (auto simp: inherit_points_to_def some_objs_def filter_opt_def entry_or_default_def split: option.split)

lemma return_alias_objects:
  "heap (apply_return_alias body args dest n s) = heap s"
  "l \<noteq> dest \<Longrightarrow> entry_or_default (points_to (apply_return_alias body args dest n s)) l = entry_or_default (points_to s) l"
proof -
  have *: "heap (fold (set_owner_alias dest) os s) = heap s \<and> points_to (fold (set_owner_alias dest) os s) = points_to s" for os s
    by (rule same_objects_fold) (simp add: set_owner_alias_def)
  show "heap (apply_return_alias body args dest n s) = heap s"
    "l \<noteq> dest \<Longrightarrow> entry_or_default (points_to (apply_return_alias body args dest n s)) l = entry_or_default (points_to s) l"
    by (simp_all add: apply_return_alias_def inherit_entry * Let_def split: option.split)
qed

lemma return_value_objects:
  assumes "t = apply_return_value body args dest bb sm s"
  shows "obj \<noteq> word_of_nat bb \<Longrightarrow> fmlookup (heap t) obj = fmlookup (heap s) obj"
    and "l \<noteq> dest \<Longrightarrow> entry_or_default (points_to t) l = entry_or_default (points_to s) l"
    and "returns_raw_owned sm \<Longrightarrow> returns_alias_of_param sm = None \<Longrightarrow> returns_ptr_of_param sm = None \<Longrightarrow>
      word_of_nat bb |\<in>| entry_or_default (points_to t) dest \<and> fmlookup (heap t) (word_of_nat bb) \<noteq> None"
    and "returns_ptr_of_param sm = Some n \<Longrightarrow> nth_arg_local args n = Some a \<Longrightarrow> a \<noteq> dest \<Longrightarrow>
      entry_or_default (points_to s) a |\<subseteq>| entry_or_default (points_to t) dest"
  by (auto simp: assms apply_return_value_def seed_objects return_alias_objects inherit_entry entry_simps Let_def
      split: option.split)

lemma summarized_sound:
  assumes "\<And>i. frees c i \<Longrightarrow> (i, EffectReconstituted) \<in> set (param_effects sm) \<or> (i, EffectEscaped) \<in> set (param_effects sm)"
    and "\<And>i. (i, EffectEscaped) \<in> set (param_effects sm) \<Longrightarrow> keeps_arg c i"
    and "allocates c \<Longrightarrow> returns_raw_owned sm \<and> returns_alias_of_param sm = None \<and> returns_ptr_of_param sm = None"
    and "\<not> allocates c \<Longrightarrow> returns_arg c = None \<or> returns_arg c = returns_ptr_of_param sm"
    and "\<And>i. nth_arg_local args i \<noteq> Some dest"
  shows "call_sound c args dest (word_of_nat bb) s (call_summarized body path args dest bb sm s)"
proof -
  define u where "u = fold (apply_param_effect args) (param_effects sm) s"
  define r where "r = apply_return_value body args dest bb sm u"
  define t where "t = call_summarized body path args dest bb sm s"
  note ph = param_effects_phase [where s = s and args = args and es = "param_effects sm", folded u_def] and rv = return_value_objects [OF r_def]
  let ?inherits = "is_owned_buffer_accessor path \<and> fmlookup (points_to r) dest = None"
  have t_def': "t = clear_dest_tail dest (if ?inherits then if_some (first_arg_local args) (inherit_points_to dest) r else r)"
    by (simp add: t_def call_summarized_def apply_fn_summary_def r_def u_def Let_def)
  have heap: "heap t = heap r" and others: "l \<noteq> dest \<Longrightarrow> entry_or_default (points_to t) l = entry_or_default (points_to r) l" for l
    by (simp_all add: t_def' if_some_def inherit_entry split: option.split)
  have dest: "entry_or_default (points_to r) dest |\<subseteq>| entry_or_default (points_to t) dest"
    by (auto simp: t_def' if_some_def inherit_entry entry_or_default_def [of "points_to r" dest] split: option.split)
  have "call_sound c args dest (word_of_nat bb) s t"
  proof (rule call_sound_phases [where u = u])
    fix l assume "\<not> handed_over c args l"
    with assms(2) nth_arg_handed ph(2) [of l] show "entry_or_default (points_to s) l |\<subseteq>| entry_or_default (points_to u) l" by fastforce
  next
    fix i l obj assume "frees c i" "nth_arg_local args i = Some l" "obj |\<in>| entry_or_default (points_to s) l"
      "fmlookup (heap s) obj \<noteq> None"
    with assms(1) ph(3) show "given_up (fmlookup (heap u) obj)" by blast
  next
    fix i l assume ret: "\<not> allocates c" "returns_arg c = Some i" "nth_arg_local args i = Some l"
    then have "returns_ptr_of_param sm = Some i" "l \<noteq> dest" using assms(4) assms(5) [of i] by auto
    from rv(4) [OF this(1) ret(3) this(2)]
    have "entry_or_default (points_to u) l |\<subseteq>| entry_or_default (points_to r) dest" .
    with dest show "entry_or_default (points_to u) l |\<subseteq>| entry_or_default (points_to t) dest" by blast
  next
    assume "allocates c"
    with assms(3) rv(3) dest
    show "word_of_nat bb |\<in>| entry_or_default (points_to t) dest \<and> fmlookup (heap t) (word_of_nat bb) \<noteq> None"
      by (auto simp: heap)
  qed (use ph(1) rv(1,2) in \<open>simp_all add: heap others\<close>)
  then show ?thesis by (simp add: t_def)
qed

lemma escape_args_phase:
  "heap_grows (heap s) (heap (escape_raw_ptr_args body args s))"
  "\<forall>a \<in> set args. operand_local a \<noteq> Some l \<Longrightarrow>
     entry_or_default (points_to (escape_raw_ptr_args body args s)) l = entry_or_default (points_to s) l"
  "a \<in> set args \<Longrightarrow> operand_local a = Some l \<Longrightarrow> obj |\<in>| entry_or_default (points_to s) l \<Longrightarrow>
     given_up (fmlookup (heap (escape_raw_ptr_args body args s)) obj)"
proof (induction args arbitrary: s)
  case (Cons b args)
  define step where "step = (\<lambda>s. escape_raw_ptr_args body [b] s)"
  have fold: "escape_raw_ptr_args body (b # args) s = escape_raw_ptr_args body args (step s)" for s
    by (simp add: step_def escape_raw_ptr_args_def)
  have grows: "heap_grows (heap s) (heap (step s))" for s
    by (simp add: step_def escape_raw_ptr_args_def escape_local_grows split: option.split)
  have others: "operand_local b \<noteq> Some l \<Longrightarrow> entry_or_default (points_to (step s)) l = entry_or_default (points_to s) l" for l s
    by (auto simp: step_def escape_raw_ptr_args_def escape_local_grows split: option.split)
  have own: "operand_local b = Some l \<Longrightarrow> obj |\<in>| entry_or_default (points_to s) l \<Longrightarrow> given_up (fmlookup (heap (step s)) obj)" for l s
    using escape_local_grows(3) [of obj s l]
    by (auto simp: step_def escape_raw_ptr_args_def entry_or_default_def split: option.split)
  { case 1
    show ?case unfolding fold by (rule heap_grows_trans [OF grows Cons.IH(1)])
  next
    case 2
    then show ?case unfolding fold by (simp add: Cons.IH(2) others)
  next
    case (3 s)
    show ?case
    proof (cases "operand_local b = Some l")
      case True
      with own [OF True "3"(3)] Cons.IH(1) [of "step s"] show ?thesis unfolding fold by (simp add: heap_grows_def)
    next
      case False
      with 3 Cons.IH(3) [of "step s"] others show ?thesis unfolding fold by auto
    qed
  }
qed (simp_all add: escape_raw_ptr_args_def)

lemma nth_arg_operand: "nth_arg_local args i = Some l \<Longrightarrow> \<exists>a \<in> set args. operand_local a = Some l"
  by (auto simp: nth_arg_local_def first_arg_local_def split: if_splits)

lemma operand_handed:
  assumes "\<forall>i. keeps_arg c i" and "a \<in> set args" and "operand_local a = Some l"
  shows "handed_over c args l"
proof -
  from assms(2) obtain i where "i < length args" "args ! i = a" by (auto simp: in_set_conv_nth)
  with assms(1,3) show ?thesis
    by (intro nth_arg_handed [of args i]) (simp_all add: nth_arg_local_def first_arg_local_def)
qed

lemma escaping_call_sound:
  assumes "\<forall>i. keeps_arg c i" and "\<not> allocates c" and "returns_arg c = None"
    and "heap t = heap (escape_raw_ptr_args body args s)"
    and "\<And>l. l \<noteq> dest \<Longrightarrow> entry_or_default (points_to t) l = entry_or_default (points_to (escape_raw_ptr_args body args s)) l"
  shows "call_sound c args dest site s t"
proof (rule call_soundI)
  fix l obj assume "l \<noteq> dest" "\<not> handed_over c args l" "obj |\<in>| entry_or_default (points_to s) l"
  with operand_handed [OF assms(1)] escape_args_phase(2) [of args l body s] assms(5)
  show "obj |\<in>| entry_or_default (points_to t) l" by auto
next
  fix i l obj assume "nth_arg_local args i = Some l" "obj |\<in>| entry_or_default (points_to s) l"
  with nth_arg_operand escape_args_phase(3) show "given_up (fmlookup (heap t) obj)" unfolding assms(4) by blast
qed (use assms escape_args_phase(1) [of s body args] in \<open>simp_all add: heap_grows_def\<close>)

lemma written_objects [object_steps]:
  "heap (mark_owners_written l s) = heap s" "points_to (mark_owners_written l s) = points_to s"
  "heap (inherit_owner_alias dest l s) = heap s" "points_to (inherit_owner_alias dest l s) = points_to s"
  "heap (drop_dest_proto dest s) = heap s" "points_to (drop_dest_proto dest s) = points_to s"
  by (simp_all add: mark_owners_written_def inherit_owner_alias_def drop_dest_proto_def split: option.split)

lemma accessor_sound:
  assumes "is_owned_buffer_accessor path" and "\<forall>i. \<not> frees c i" and "\<not> allocates c"
    and "returns_arg c = None \<or> returns_arg c = Some 0"
  shows "call_sound c args dest site s (call_unknown body path args dest s)"
proof (rule call_sound_quiet)
  fix i l assume "returns_arg c = Some i" "nth_arg_local args i = Some l"
  with assms(4) have "first_arg_local args = Some l" by auto
  with assms(1) show "entry_or_default (points_to s) l |\<subseteq>| entry_or_default (points_to (call_unknown body path args dest s)) dest"
    by (simp add: call_unknown_def if_some_def inherit_entry object_steps)
qed (use assms in \<open>simp_all add: call_unknown_def if_some_def inherit_entry object_steps split: option.split\<close>)

lemma unknown_sound:
  assumes "if is_owned_buffer_accessor path
      then (\<forall>i. \<not> frees c i) \<and> \<not> allocates c \<and> (returns_arg c = None \<or> returns_arg c = Some 0)
      else if is_ptr_write_to_first_arg path \<or> is_global_ptr_copy_to_second_arg path \<or> is_ptr_pure_read path
      then (\<forall>i. \<not> frees c i) \<and> \<not> allocates c \<and> returns_arg c = None
      else \<not> allocates c \<and> returns_arg c = None \<and> (\<forall>i. keeps_arg c i)"
  shows "call_sound c args dest site s (call_unknown body path args dest s)"
proof -
  consider "is_owned_buffer_accessor path"
    | "\<not> is_owned_buffer_accessor path" "is_ptr_write_to_first_arg path \<or> is_global_ptr_copy_to_second_arg path \<or> is_ptr_pure_read path"
    | "\<not> is_owned_buffer_accessor path" "\<not> is_ptr_write_to_first_arg path" "\<not> is_global_ptr_copy_to_second_arg path"
      "\<not> is_ptr_pure_read path" by blast
  then show ?thesis
  proof cases
    case 1
    with assms show ?thesis by (intro accessor_sound) auto
  next
    case 2
    with assms have "(\<forall>i. \<not> frees c i) \<and> \<not> allocates c \<and> returns_arg c = None" by auto
    with 2 show ?thesis
      by (intro silent_branch_sound) (auto simp: call_unknown_def if_some_def object_steps split: option.split)
  next
    case 3
    with assms show ?thesis by (intro escaping_call_sound [where body = body]) (auto simp: call_unknown_def object_steps)
  qed
qed

lemma call_sound_if:
  "(b \<Longrightarrow> call_sound c args dest site s x) \<Longrightarrow> (\<not> b \<Longrightarrow> call_sound c args dest site s y) \<Longrightarrow>
   call_sound c args dest site s (if b then x else y)"
  by simp

lemma dispatch_sound:
  assumes "trusted tcx summaries did c" and "\<And>i. nth_arg_local args i \<noteq> Some dest"
  shows "call_sound c args dest (word_of_nat bb) s (dispatch_call tcx body summaries did args dest bb s)"
proof -
  define path where "path = def_path_str tcx did"
  note tr = assms(1) [unfolded trusted_def Let_def, folded path_def, THEN conjunct2]
  note first = first_arg_branch_sound [OF quiet_branches(9,10)] first_arg_branch_sound [OF quiet_branches(11,12)]
    first_arg_branch_sound [OF quiet_branches(13,14)]
  show ?thesis
    unfolding dispatch_call_def Let_def path_def [symmetric]
  proof (intro call_sound_if)
    assume no: "\<not> is_raw_realloc path" "\<not> is_into_raw path" "\<not> is_from_raw path" "\<not> is_mem_forget path"
      "\<not> is_epoch_pin path" "\<not> is_lock_acquire path" "\<not> is_maybe_uninit_assume_init path" "\<not> is_maybe_uninit_init path"
      "\<not> is_maybe_uninit_write path" "\<not> is_maybe_uninit_as_mut_ptr path" "\<not> is_buf_write path" "\<not> is_ptr_read path"
    show "call_sound c args dest (word_of_nat bb) s
      (case fmlookup summaries did of
         None \<Rightarrow> call_unknown body path args dest s
       | Some sm \<Rightarrow> call_summarized body path args dest bb sm s)"
    proof (cases "fmlookup summaries did")
      case None
      with tr no have "if is_owned_buffer_accessor path
        then (\<forall>i. \<not> frees c i) \<and> \<not> allocates c \<and> (returns_arg c = None \<or> returns_arg c = Some 0)
        else if is_ptr_write_to_first_arg path \<or> is_global_ptr_copy_to_second_arg path \<or> is_ptr_pure_read path
        then (\<forall>i. \<not> frees c i) \<and> \<not> allocates c \<and> returns_arg c = None
        else \<not> allocates c \<and> returns_arg c = None \<and> (\<forall>i. keeps_arg c i)" by (auto split: if_splits)
      from unknown_sound [OF this] None show ?thesis by simp
    next
      case (Some sm)
      with tr no show ?thesis using summarized_sound [OF _ _ _ _ assms(2), of c sm bb s body path] by simp
    qed
  qed (use tr in \<open>simp_all add: raw_realloc_sound into_raw_sound from_raw_sound mem_forget_sound first
      silent_branch_sound quiet_branches entry_simps\<close>)
qed

section \<open>Terminators\<close>

text \<open>A body whose calls name their callee and do not assign one of their arguments.\<close>

fun plain_call :: "terminator_kind \<Rightarrow> bool" where
  "plain_call (Call func args dest _ _) \<longleftrightarrow>
     const_fn_def func \<noteq> None \<and> (projection dest = [] \<longrightarrow> list_all (\<lambda>a. operand_local a \<noteq> Some (place_local dest)) args)"
| "plain_call _ \<longleftrightarrow> True"

definition plain_calls :: "body \<Rightarrow> bool" where
  "plain_calls body =
     list_all (\<lambda>blk. case terminator blk of None \<Rightarrow> True | Some t \<Rightarrow> plain_call (term_kind t)) (basic_blocks body)"

text \<open>The function a call runs, by the name it has at the call.\<close>

definition callee_of :: "tyctxt \<Rightarrow> body \<Rightarrow> operand \<Rightarrow> def_id" where
  "callee_of tcx body func =
     (case const_fn_def func of
        None \<Rightarrow> DefId 0 0
      | Some (did, substs) \<Rightarrow> resolve_trait_method tcx body did substs)"

text \<open>The result of a call that is stored through a projection is not followed, nor are its arguments.\<close>

definition result_stored :: "contract \<Rightarrow> contract" where
  "result_stored c = c\<lparr>keeps_arg := (\<lambda>_. True), returns_arg := None, allocates := False\<rparr>"

fun follow_term :: "tyctxt \<Rightarrow> body \<Rightarrow> (def_id \<Rightarrow> contract) \<Rightarrow> basic_block \<Rightarrow> terminator_kind \<Rightarrow> tracked \<Rightarrow> tracked" where
  "follow_term tcx body contracts bb (Call func args dest _ _) v =
     (let c = contracts (callee_of tcx body func)
      in follow_call (if projection dest = [] then c else result_stored c) args (place_local dest) (word_of_nat bb) v)"
| "follow_term tcx body contracts bb (Drop place _ _) v =
     (if projection place = [] then v\<lparr>followed := (followed v)(place_local place := None)\<rparr> else v)"
| "follow_term tcx body contracts bb _ v = v"

lemma mark_stale_grows: "heap_grows (heap s) (heap (fold mark_stale ps s))"
proof (induction ps arbitrary: s)
  case (Cons p ps)
  have "heap_grows (heap s) (heap (mark_stale p s))" by (simp add: mark_stale_def heap_grows_def given_up_def Let_def)
  from heap_grows_trans [OF this Cons.IH] show ?case by simp
qed simp

lemma apply_realloc_grows: "heap_grows (heap s) (heap (apply_realloc body recv s))"
proof -
  define note_params where "note_params =
    (\<lambda>o' s. if is_param body o' then s\<lparr>realloced_params := finsert o' (realloced_params s)\<rparr> else (s :: block_state))"
  have "heap (fold note_params os s) = heap s" for os s
    by (induction os arbitrary: s) (simp_all add: note_params_def)
  moreover have "apply_realloc body recv s =
      fold mark_stale (stale_handles body (buffer_owners recv s) (fold note_params (buffer_owners recv s) s))
        (fold note_params (buffer_owners recv s) s)"
    by (simp only: apply_realloc_def Let_def note_params_def)
  moreover have "heap_grows (heap (fold note_params (buffer_owners recv s) s))
      (heap (fold mark_stale ps (fold note_params (buffer_owners recv s) s)))" for ps by (rule mark_stale_grows)
  ultimately show ?thesis by simp
qed

text \<open>What a call does before the dispatch; pointers are not followed past a callee that moves buffers.\<close>

definition without_moved :: "contract \<Rightarrow> tracked \<Rightarrow> tracked" where
  "without_moved c v = (if moves_buffer c then v\<lparr>followed := (\<lambda>_. None)\<rparr> else v)"

lemma follow_call_without_moved: "follow_call c args dest site (without_moved c v) = follow_call c args dest site v"
  by (simp add: follow_call_def without_moved_def Let_def)

lemma before_keeps_up:
  assumes "keeps_up v s" and "trusted tcx summaries did c"
  shows "keeps_up (without_moved c v) (before_dispatch tcx body summaries (Some did) args dest s)"
proof (cases "realloc_receiver tcx summaries (Some did) args")
  case None
  have "keeps_up (without_moved c v) s" using assms(1) by (simp add: keeps_up_def without_moved_def)
  then show ?thesis by (rule keeps_up_same) (simp_all add: before_dispatch_objects [OF None])
next
  case (Some recv)
  then have "is_reallocating_method (def_path_str tcx did) \<or> Option.bind (fmlookup summaries did) reallocs_param \<noteq> None"
    by (auto simp: realloc_receiver_def callee_summary_def split: if_splits option.splits)
  with assms(2) [unfolded trusted_def Let_def, THEN conjunct1] have "moves_buffer c" by blast
  moreover have "heap_grows (heap s) (heap (before_dispatch tcx body summaries (Some did) args dest s))"
    using apply_realloc_grows by (simp add: before_dispatch_def run_steps_def if_some_def Some)
  ultimately show ?thesis using assms(1) by (auto simp: keeps_up_def without_moved_def heap_grows_def)
qed

lemma follow_call_term_keeps_up:
  assumes "keeps_up v s" and "plain_call (Call func args dest target unwind)"
    and "trusted tcx summaries (callee_of tcx body func) (contracts (callee_of tcx body func))"
  shows "keeps_up (follow_term tcx body contracts bb (Call func args dest target unwind) v)
    (apply_call tcx body summaries func args dest bb s)"
proof -
  define did c d where "did = callee_of tcx body func" and "c = contracts did" and "d = place_local dest"
  from assms(2) have callee: "resolve_callee tcx body func s = Some did"
    by (auto simp: resolve_callee_def callee_of_def did_def or_else_def)
  define u where "u = before_dispatch tcx body summaries (Some did) args d s"
  from assms(1,3) have u: "keeps_up (without_moved c v) u" unfolding u_def c_def did_def by (rule before_keeps_up)
  have moved: "moves_buffer c \<Longrightarrow> followed (without_moved c v) = (\<lambda>_. None)" by (simp add: without_moved_def)
  show ?thesis
  proof (cases "projection dest = []")
    case True
    have dest: "nth_arg_local args i \<noteq> Some d" for i
      using assms(2) True nth_arg_operand [of args i d] by (auto simp: list_all_iff d_def)
    define x where "x = record_eq_call (def_path_str tcx did) args d (record_spawn (def_path_str tcx did)
      (record_fd (def_path_str tcx did) args d (record_deref (def_path_str tcx did) args d
        (record_float_test (def_path_str tcx did) args d (record_len_cap (def_path_str tcx did) args d
          (clear_call_dest d u))))))"
    have "keeps_up (without_moved c v) x" by (rule keeps_up_same [OF u]) (simp_all add: x_def)
    moreover have "call_sound c args d (word_of_nat bb) x (dispatch_call tcx body summaries did args d bb x)"
      using assms(3) dest unfolding c_def did_def by (rule dispatch_sound)
    ultimately have "keeps_up (follow_call c args d (word_of_nat bb) (without_moved c v))
        (dispatch_call tcx body summaries did args d bb x)" using moved by (rule follow_call_keeps_up)
    then have "keeps_up (follow_call c args d (word_of_nat bb) v)
        (after_dispatch tcx body (def_path_str tcx did) args d (dispatch_call tcx body summaries did args d bb x))"
      unfolding follow_call_without_moved by (rule keeps_up_same) simp_all
    with True callee show ?thesis
      by (simp add: apply_call_def apply_callee_def apply_resolved_call_def run_steps_def x_def u_def c_def d_def did_def [symmetric] Let_def)
  next
    case False
    let ?c = "result_stored c"
    have "call_sound ?c args d (word_of_nat bb) u (escape_raw_ptr_args body args u)"
      by (rule escaping_call_sound) (simp_all add: result_stored_def)
    with u have "keeps_up (follow_call ?c args d (word_of_nat bb) (without_moved c v)) (escape_raw_ptr_args body args u)"
      by (rule follow_call_keeps_up) (simp add: result_stored_def moved)
    moreover have "without_moved c v = without_moved ?c v" by (simp add: without_moved_def result_stored_def)
    ultimately show ?thesis using False callee
      by (simp add: follow_call_without_moved apply_call_def apply_callee_def u_def c_def d_def did_def [symmetric] Let_def)
  qed
qed

lemma on_fact_objects:
  assumes "\<And>x s. heap (f x s) = heap s \<and> points_to (f x s) = points_to s"
  shows "heap (on_fact field l f s) = heap s" and "points_to (on_fact field l f s) = points_to s"
  using assms by (simp_all add: on_fact_def split: option.split)

lemma refine_objects:
  "heap (refine_switchint_edge t q s) = heap s" "points_to (refine_switchint_edge t q s) = points_to s"
proof -
  have edges: "heap (refine_true_edge d s) = heap s \<and> points_to (refine_true_edge d s) = points_to s"
    "heap (refine_false_edge d s) = heap s \<and> points_to (refine_false_edge d s) = points_to s" for d
    unfolding refine_true_edge_def refine_false_edge_def run_steps_def
    by (simp_all add: on_fact_objects object_steps raise_lower_bound_def Let_def split: prod.split)
  then show "heap (refine_switchint_edge t q s) = heap s" "points_to (refine_switchint_edge t q s) = points_to s"
    by (cases "(t, q, s)" rule: refine_switchint_edge.cases; simp add: refine_switch_targets_def split: option.split)+
qed

lemma follow_term_keeps_up:
  assumes "keeps_up v s" and "plain_call (term_kind t)" and "\<And>did. trusted tcx summaries did (contracts did)"
  shows "keeps_up (follow_term tcx body contracts bb (term_kind t) v)
    (refine_switchint_edge t q (apply_terminator tcx body bb t summaries s))"
proof -
  have "keeps_up (follow_term tcx body contracts bb (term_kind t) v) (apply_terminator tcx body bb t summaries s)"
  proof (cases "(tcx, body, bb, t, summaries, s)" rule: apply_terminator.cases)
    case (1 tcx' body' bb' func args dest target unwind sp summaries' s')
    then have t: "t = Terminator (Call func args dest target unwind) sp" by simp
    with follow_call_term_keeps_up [where contracts = contracts, OF assms(1) _ assms(3)] assms(2) show ?thesis by simp
  next
    case (2 tcx' body' bb' cond expected target unwind sp summaries' s')
    then have "t = Terminator (Assert cond expected target unwind) sp" by simp
    moreover have "heap (apply_assert cond expected s) = heap s" "points_to (apply_assert cond expected s) = points_to s"
      by (simp_all add: apply_assert_def run_steps_def on_fact_objects split: option.split)
    ultimately show ?thesis using keeps_up_same [OF assms(1)] by simp
  next
    case (3 tcx' body' bb' place target unwind sp summaries' s')
    then have "t = Terminator (Drop place target unwind) sp" by simp
    with assms(1) show ?thesis by (auto simp: apply_drop_def keeps_up_def entry_simps Let_def split: if_splits)
  qed (use assms(1) in simp_all)
  then show ?thesis by (rule keeps_up_same) (simp_all add: refine_objects)
qed

section \<open>All paths\<close>

text \<open>The paths through the blocks of a body, with what is followed at the entry of a block.\<close>

inductive path_to :: "tyctxt \<Rightarrow> body \<Rightarrow> (def_id \<Rightarrow> contract) \<Rightarrow> basic_block \<Rightarrow> tracked \<Rightarrow> bool" for tcx body contracts where
  path_start: "path_to tcx body contracts 0 nothing_tracked"
| path_step: "path_to tcx body contracts b v \<Longrightarrow> b < length (basic_blocks body) \<Longrightarrow>
    terminator (basic_blocks body ! b) = Some t \<Longrightarrow> q \<in> set (body_succs body b) \<Longrightarrow>
    path_to tcx body contracts q
      (follow_term tcx body contracts b (term_kind t) (fold follow_stmt (statements (basic_blocks body ! b)) v))"

text \<open>A path up to the terminator of a block.\<close>

definition path_before :: "tyctxt \<Rightarrow> body \<Rightarrow> (def_id \<Rightarrow> contract) \<Rightarrow> basic_block \<Rightarrow> tracked \<Rightarrow> bool" where
  "path_before tcx body contracts b w \<longleftrightarrow>
     b < length (basic_blocks body) \<and>
     (\<exists>v. path_to tcx body contracts b v \<and> w = fold follow_stmt (statements (basic_blocks body ! b)) v)"

lemma given_up_join: "given_up (Some x) \<Longrightarrow> given_up (Some (heap_state_join y x))"
  by (cases x; cases y) (simp_all add: given_up_def heap_state_join_def)

lemma absorbed_keeps_up:
  assumes "\<not> snd (join_with t e)" and "keeps_up v e"
  shows "keeps_up v t"
proof (rule keeps_up_step [OF assms(2)])
  have "heap_grows (heap e) (heap (fst (join_with t e)))"
    by (auto simp: heap_grows_def heap_join_lookup given_up_join given_up_def [of None] split: option.split)
  then show grows: "heap_grows (heap e) (heap t)"
    using same_facts_heap [OF unchanged_same_facts [OF assms(1)]] by simp
  fix l obj assume "followed v l = Some obj"
  with keeps_upD(1,2) [OF assms(2)] grows absorbed_objects [OF assms(1), of l]
  show "obj |\<in>| entry_or_default (points_to t) l \<and> fmlookup (heap t) obj \<noteq> None"
    by (auto simp: set_objects_for heap_grows_def)
qed simp

lemma nothing_keeps_up: "keeps_up nothing_tracked s"
  by (simp add: keeps_up_def nothing_tracked_def)

lemma edge_keeps_up:
  assumes "keeps_up v s" and "plain_calls body" and "\<And>did. trusted tcx summaries did (contracts did)"
    and "b < length (basic_blocks body)" and "terminator (basic_blocks body ! b) = Some t"
  shows "keeps_up (follow_term tcx body contracts b (term_kind t) (fold follow_stmt (statements (basic_blocks body ! b)) v))
    (edge_into tcx body summaries b s q)"
proof -
  obtain sts where blk: "basic_blocks body ! b = BasicBlockData sts (Some t)"
    using assms(5) by (cases "basic_blocks body ! b") simp
  have "plain_call (term_kind t)" using assms(2,4,5) by (auto simp: plain_calls_def list_all_length)
  from follow_term_keeps_up [where contracts = contracts, OF follow_stmts_keeps_up [OF assms(1)] this assms(3)] blk
  show ?thesis by (simp add: edge_into_def)
qed

lemma path_keeps_up_at_entry:
  assumes "wf_body body" and "plain_calls body" and "\<And>did. trusted tcx summaries did (contracts did)"
    and "compute_flow tcx body summaries = Some flow" and "path_to tcx body contracts b v"
  shows "\<exists>s. state_at flow b = Some s \<and> keeps_up v s"
proof -
  from assms(4) obtain init es where es: "run_fixpoint tcx body init summaries = Some es" "flow_entry_states flow = es"
    by (auto simp: compute_flow_def)
  have len: "length es = length (basic_blocks body)" using run_fixpoint_Some [OF assms(1)] es(1) by (metis option.inject)
  have at: "\<exists>s. state_at flow q = Some s \<and> keeps_up w s" if "covers join_with es q e" "keeps_up w e" "q < length es" for q e w
    using that absorbed_keeps_up by (auto simp: covers_def state_at_def es(2))
  from assms(5) show ?thesis
  proof induction
    case path_start
    have "0 < length es" using assms(1) len by (simp add: wf_body_def)
    from at [OF run_fixpoint_entry [OF assms(1) es(1)] nothing_keeps_up this] show ?case .
  next
    case (path_step b v t q)
    then obtain s where s: "es ! b = Some s" "keeps_up v s" by (auto simp: state_at_def es(2) split: if_splits)
    have "q < length es" using assms(1) path_step.hyps(2,4) len by (auto simp: wf_body_def body_succs_def list_all_iff)
    with at [OF run_fixpoint_edge [OF assms(1) es(1) _ s(1) path_step.hyps(4)]
        edge_keeps_up [where contracts = contracts, OF s(2) assms(2,3) path_step.hyps(2,3)]] path_step.hyps(2) len
    show ?case by simp
  qed
qed

lemma path_keeps_up:
  assumes "wf_body body" and "plain_calls body" and "\<And>did. trusted tcx summaries did (contracts did)"
    and "compute_flow tcx body summaries = Some flow" and "path_before tcx body contracts b w"
  shows "\<exists>s. state_before_terminator flow tcx body b = Some s \<and> keeps_up w s"
proof -
  from assms(5) obtain v where v: "path_to tcx body contracts b v" "w = fold follow_stmt (statements (basic_blocks body ! b)) v"
    by (auto simp: path_before_def)
  from path_keeps_up_at_entry [OF assms(1-4) v(1)] obtain s where "state_at flow b = Some s" "keeps_up v s" by blast
  with follow_stmts_keeps_up v(2) show ?thesis by (auto simp: state_before_terminator_def)
qed

end
