(* ===== verification/Pointer_Properties.thy ===== *)
theory Pointer_Properties
  imports Value_Properties Pointer_Paths
begin

text \<open>
  What the report says about pointers that are used or freed after their allocation was given
  back, for every path through a body, and where the analysis loses such a pointer.
\<close>

section \<open>Uses and frees of dangling pointers\<close>

text \<open>A followed pointer to an allocation that was given back, as the state sees it.\<close>

lemma given_back_verdict:
  assumes "keeps_up w s" and "followed w l = Some obj" and "obj \<in> given_back w"
  shows "freed_kind s l \<noteq> NotFreed \<or> fmlookup (heap s) obj = Some Escaped"
  using keeps_upD(1,2) [OF assms(1,2)] keeps_upD(3) [OF assms(1,3)]
  by (auto simp: freed_kind_NotFreed set_objects_for given_up_def)

lemma given_back_at_call:
  assumes "wf_body body" and "plain_calls body" and "\<And>did. trusted tcx summaries did (contracts did)"
    and "compute_flow tcx body summaries = Some flow" and "c \<in> set (fn_calls tcx body flow)"
    and "path_before tcx body contracts (site_block c) w" and "followed w l = Some obj" and "obj \<in> given_back w"
  obtains s where "site_state c = Some s" and "freed_kind s l \<noteq> NotFreed \<or> fmlookup (heap s) obj = Some Escaped"
  using path_keeps_up [where contracts = contracts, OF assms(1-4,6)] fn_calls_state [OF assms(5)]
    given_back_verdict [OF _ assms(7,8)] that by metis


lemma fn_calls_block:
  assumes "c \<in> set (fn_calls tcx body flow)"
  obtains func where "site_block c < length (basic_blocks body)"
    and "call_of_block (basic_blocks body ! site_block c) = Some (func, site_args c)"
    and "const_fn_def func = Some (site_fn c, site_generics c)" and "site_path c = def_path_str tcx (site_fn c)"
    and "span_of_block (basic_blocks body ! site_block c) = site_span c"
proof -
  from assms obtain bb where bb: "bb < length (basic_blocks body)" "site_of tcx body flow (bb, basic_blocks body ! bb) = Some c"
    by (auto simp: fn_calls_def in_map_filter in_enumerate_0)
  obtain sts t where "basic_blocks body ! bb = BasicBlockData sts t" by (cases "basic_blocks body ! bb")
  with bb that show thesis
    by (cases "(tcx, body, flow, (bb, basic_blocks body ! bb))" rule: site_of.cases) (auto split: option.splits)
qed

lemma OwnershipProtocol_in_CHECKERS: "OwnershipProtocol \<in> set CHECKERS"
  by (simp add: CHECKERS_def)


text \<open>
  C4: a reported leak is no false alarm. There are as many leak findings in a body as there are
  objects that some return leaves raw-owned, reachable from a local, not returned, and given
  back on no path to that return.
\<close>

theorem leaks_given_back_on_no_path:
  assumes "wf_body body" and "plain_calls body" and "\<forall>did. trusted tcx S did (contracts did)"
    and "compute_flow tcx body S = Some flow"
  shows "length (filter is_leak (check_ownership tcx body flow)) =
    card {obj. \<not> is_closure_like tcx (source_def_id body) \<and>
      (\<exists>bb s l. bb < length (basic_blocks body) \<and> is_return_block (basic_blocks body ! bb) \<and>
         state_before_terminator flow tcx body bb = Some s \<and>
         obj \<in> set (objects_for s l) \<and> obj \<notin> set (objects_for s 0) \<and> fmlookup (heap s) obj = Some RawOwned \<and>
         (\<forall>w. path_before tcx body contracts bb w \<longrightarrow> obj \<notin> given_back w))}"
proof -
  have never: "obj \<notin> given_back w"
    if "state_before_terminator flow tcx body bb = Some s" "fmlookup (heap s) obj = Some RawOwned"
      "path_before tcx body contracts bb w" for bb s obj w
  proof
    assume "obj \<in> given_back w"
    moreover from path_keeps_up [where contracts = contracts, OF assms(1,2) spec [OF assms(3)] assms(4) that(3)] that(1)
    have "keeps_up w s" by auto
    ultimately have "given_up (fmlookup (heap s) obj)" by (rule keeps_upD(3) [rotated])
    with that(2) show False by (simp add: given_up_def)
  qed
  show ?thesis unfolding leak_count by (rule arg_cong [of _ _ card]) (use never in blast)
qed

section \<open>Crates with a dangling pointer\<close>

text \<open>The most careful contract is right for every callee; two of the sample crates' callees do more.\<close>

definition careful :: contract where
  "careful = \<lparr>frees = (\<lambda>_. False), keeps_arg = (\<lambda>_. True), returns_arg = None, allocates = False, moves_buffer = True\<rparr>"

lemma careful_trusted: "trusted tcx summaries did careful"
  by (simp add: trusted_def careful_def Let_def split: option.split)

lemma careful_allocates_trusted: "is_into_raw (def_path_str tcx did) \<Longrightarrow> trusted tcx summaries did (careful\<lparr>allocates := True\<rparr>)"
  by (simp add: trusted_def careful_def Let_def split: option.split)

definition sample_contracts :: "def_id \<Rightarrow> contract" where
  "sample_contracts d =
     (if d = DefId 1 1 then careful\<lparr>allocates := True\<rparr>
      else if d = DefId 1 2
      then \<lparr>frees = (\<lambda>i. i = 0), keeps_arg = (\<lambda>_. False), returns_arg = None, allocates = False, moves_buffer = False\<rparr>
      else careful)"

lemma sample_contracts_trusted:
  assumes "is_into_raw (def_path_str tcx (DefId 1 1))"
    and "is_from_raw (def_path_str tcx (DefId 1 2))" and "\<not> is_into_raw (def_path_str tcx (DefId 1 2))"
    and "\<not> is_reallocating_method (def_path_str tcx (DefId 1 2))"
    and "Option.bind (fmlookup summaries (DefId 1 2)) reallocs_param = None"
  shows "\<forall>did. trusted tcx summaries did (sample_contracts did)"
proof
  fix did
  consider "did = DefId 1 1" | "did = DefId 1 2" | "did \<noteq> DefId 1 1" "did \<noteq> DefId 1 2" by blast
  then show "trusted tcx summaries did (sample_contracts did)"
  proof cases
    case 1
    with careful_allocates_trusted assms(1) show ?thesis by (simp add: sample_contracts_def)
  next
    case 2
    with assms(2-5) show ?thesis by (simp add: sample_contracts_def trusted_def Let_def)
  next
    case 3
    with careful_trusted show ?thesis by (simp add: sample_contracts_def)
  qed
qed

lemma sample_path:
  assumes "basic_blocks body = call_block (DefId 1 1) [Constant OtherConst] 1 1 #
      call_block (DefId 1 2) [Copy (Place 1 [])] 2 2 # call_block d args dest n # rest"
    and "trait_of_assoc tcx = (\<lambda>_. None)"
  obtains w where "path_before tcx body sample_contracts 2 w" and "followed w 1 = Some 0" and "0 \<in> given_back w"
proof -
  define site0 where "site0 = follow_term tcx body sample_contracts 0
    (Call (Constant (FnItem (DefId 1 1) 0)) [Constant OtherConst] (Place 1 []) (Some 1) UnwindContinue) nothing_tracked"
  define site1 where "site1 = follow_term tcx body sample_contracts 1
    (Call (Constant (FnItem (DefId 1 2) 0)) [Copy (Place 1 [])] (Place 2 []) (Some 2) UnwindContinue) site0"
  have "path_to tcx body sample_contracts 1 site0"
    using path_step [OF path_start, of body _ 1 tcx sample_contracts] assms(1)
    by (simp add: site0_def call_block_def body_succs_def block_successors_def)
  then have "path_to tcx body sample_contracts 2 site1"
    using path_step [of tcx body sample_contracts 1 site0 _ 2] assms(1)
    by (simp add: site1_def call_block_def body_succs_def block_successors_def)
  then have "path_before tcx body sample_contracts 2 site1"
    using assms(1) by (auto simp: path_before_def call_block_def)
  moreover have "followed site0 1 = Some 0"
    by (simp add: site0_def follow_call_def sample_contracts_def callee_of_def resolve_trait_method_def assms(2) Let_def)
  then have "followed site1 1 = Some 0 \<and> 0 \<in> given_back site1"
    by (simp add: site1_def follow_call_def sample_contracts_def callee_of_def resolve_trait_method_def assms(2) Let_def
        handed_over_def arg_object_def first_arg_local_def)
  ultimately show thesis using that by blast
qed

lemma use_tcx_dangling:
  obtains S c where "compute_summaries use_tcx = Some S" and "analyzed_call use_tcx use_body c"
    and "ptr_read_at (without_flow c) \<noteq> []" and "first_ptr c = Some 1" and "site_block c = 2" and "site_span c = Span 3 4 0"
    and "map_option (\<lambda>s. fmlookup (heap s) 0) (site_state c) = Some (Some Reconstituted)"
    and "Option.bind (fmlookup S (DefId 1 2)) reallocs_param = None"
proof -
  have "case compute_summaries use_tcx of None \<Rightarrow> False | Some S \<Rightarrow>
      Option.is_none (Option.bind (fmlookup S (DefId 1 2)) reallocs_param)" by code_simp
  then obtain S where S: "compute_summaries use_tcx = Some S" "Option.bind (fmlookup S (DefId 1 2)) reallocs_param = None"
    by (auto simp: Option.is_none_def split: option.splits)
  have "case compute_summaries use_tcx of None \<Rightarrow> False | Some S \<Rightarrow>
    (case compute_flow use_tcx use_body S of None \<Rightarrow> False | Some flow \<Rightarrow>
       list_ex (\<lambda>c. ptr_read_at (without_flow c) \<noteq> [] \<and> first_ptr c = Some 1 \<and> site_block c = 2 \<and> site_span c = Span 3 4 0 \<and>
         map_option (\<lambda>s. fmlookup (heap s) 0) (site_state c) = Some (Some Reconstituted)) (fn_calls use_tcx use_body flow))"
    by code_simp
  from use_tcx_analyzed [OF this] that S show thesis by metis
qed


lemma double_free_tcx_second:
  obtains S flow c where "compute_summaries double_free_tcx = Some S" and "compute_flow double_free_tcx double_free_body S = Some flow"
    and "c \<in> set (fn_calls double_free_tcx double_free_body flow)" and "site_block c = 2" and "site_span c = Span 3 4 0"
    and "1 \<in> set (freed_args flow (site_fn c) (site_path c) (site_args c))"
    and "map_option (\<lambda>s. fmlookup (heap s) 0) (site_state c) = Some (Some Reconstituted)"
    and "Option.bind (fmlookup S (DefId 1 2)) reallocs_param = None"
proof -
  have "case compute_summaries double_free_tcx of None \<Rightarrow> False | Some S \<Rightarrow>
    (case compute_flow double_free_tcx double_free_body S of None \<Rightarrow> False | Some flow \<Rightarrow>
       Option.is_none (Option.bind (fmlookup S (DefId 1 2)) reallocs_param) \<and>
       list_ex (\<lambda>c. site_block c = 2 \<and> site_span c = Span 3 4 0 \<and>
         List.member (freed_args flow (site_fn c) (site_path c) (site_args c)) 1 \<and>
         map_option (\<lambda>s. fmlookup (heap s) 0) (site_state c) = Some (Some Reconstituted))
         (fn_calls double_free_tcx double_free_body flow))" by code_simp
  with that show thesis by (fastforce simp: list_ex_iff Option.is_none_def split: option.splits)
qed


text \<open>A pointer from \<^verbatim>\<open>Box::into_raw\<close> that is never given back.\<close>

definition leaking_body :: body where
  "leaking_body = sample_body 0 ptr_decls [call_block (DefId 1 1) [Constant OtherConst] 1 1, block_of [] Return]"

definition leaking_tcx :: tyctxt where
  "leaking_tcx = sample_tcx library_path (\<lambda>_. leaking_body) [DefId 0 0]"

theorem leaks_given_back_on_no_path_witness:
  "\<exists>flow. compute_flow leaking_tcx leaking_body fmempty = Some flow \<and>
     1 = card {obj. \<not> is_closure_like leaking_tcx (source_def_id leaking_body) \<and>
      (\<exists>bb s l. bb < length (basic_blocks leaking_body) \<and> is_return_block (basic_blocks leaking_body ! bb) \<and>
         state_before_terminator flow leaking_tcx leaking_body bb = Some s \<and>
         obj \<in> set (objects_for s l) \<and> obj \<notin> set (objects_for s 0) \<and> fmlookup (heap s) obj = Some RawOwned \<and>
         (\<forall>w. path_before leaking_tcx leaking_body sample_contracts bb w \<longrightarrow> obj \<notin> given_back w))}"
proof -
  have "case compute_flow leaking_tcx leaking_body fmempty of None \<Rightarrow> False | Some flow \<Rightarrow>
      length (filter is_leak (check_ownership leaking_tcx leaking_body flow)) = 1" by code_simp
  then obtain flow where flow: "compute_flow leaking_tcx leaking_body fmempty = Some flow"
    "length (filter is_leak (check_ownership leaking_tcx leaking_body flow)) = 1" by (auto split: option.splits)
  have "wf_body leaking_body" "plain_calls leaking_body" by code_simp+
  moreover have "is_into_raw (def_path_str leaking_tcx (DefId 1 1))" "is_from_raw (def_path_str leaking_tcx (DefId 1 2))"
    "\<not> is_into_raw (def_path_str leaking_tcx (DefId 1 2))" "\<not> is_reallocating_method (def_path_str leaking_tcx (DefId 1 2))"
    by code_simp+
  note trust = sample_contracts_trusted [OF this, of fmempty]
  ultimately show ?thesis
    using leaks_given_back_on_no_path [where contracts = sample_contracts, OF _ _ trust flow(1)] flow by auto
qed

section \<open>Where a dangling pointer is lost\<close>

text \<open>
  C33: objects are named after blocks, so a block that allocates twice revives the verdict on its
  first allocation. A pointer that the state judges freed, and that comes from the last time
  the block was executed, counts as an owned pointer after the block has allocated again.
\<close>

theorem second_allocation_revives_dangling_pointer:
  assumes "resolve_callee tcx body func s = Some did" and "projection destination = []"
    and "is_into_raw (def_path_str tcx did)" and "\<not> is_raw_realloc (def_path_str tcx did)"
    and "realloc_receiver tcx summaries (Some did) args = None" and "old \<noteq> place_local destination"
    and "objects_for s old = [word_of_nat bb]" and "freed_kind s old = Definite"
  shows "freed_kind (apply_call tcx body summaries func args destination bb s) old = NotFreed \<and>
    ptr_is_raw_owned (apply_call tcx body summaries func args destination bb s) old"
proof -
  from apply_call_resolved [OF assms(1,2)] obtain t where t:
    "apply_call tcx body summaries func args destination bb s =
       after_dispatch tcx body (def_path_str tcx did) args (place_local destination)
         (dispatch_call tcx body summaries did args (place_local destination) bb t)" "points_to t = points_to s"
    using before_dispatch_objects [OF assms(5)] by metis
  have "objects_for t old = [word_of_nat bb]" using assms(7) by (simp add: objects_for_def t(2))
  then have "objects_for (apply_call tcx body summaries func args destination bb s) old = [word_of_nat bb]"
    using assms(3,4,6) unfolding t(1)
    by (simp add: dispatch_call_def call_into_raw_def seed_raw_owned_def objects_for_def Let_def)
  moreover have "fmlookup (heap (apply_call tcx body summaries func args destination bb s)) (word_of_nat bb) = Some RawOwned"
    using assms(3,4) unfolding t(1) by (simp add: dispatch_call_def call_into_raw_def seed_raw_owned_def Let_def)
  ultimately show ?thesis by (simp add: freed_kind_NotFreed ptr_is_raw_owned_iff)
qed

definition revived_state :: block_state where
  "revived_state = block_state_default
     \<lparr>heap := fmap_of_list [(0, Reconstituted)], points_to := fmap_of_list [(3, {|0|})]\<rparr>"

theorem second_allocation_revives_dangling_pointer_witness:
  "freed_kind revived_state 3 = Definite \<and>
   ptr_is_raw_owned
     (apply_call double_free_tcx double_free_body fmempty (Constant (FnItem (DefId 1 1) 0)) [Constant OtherConst]
        (Place 1 []) 0 revived_state) 3"
proof -
  have "resolve_callee double_free_tcx double_free_body (Constant (FnItem (DefId 1 1) 0)) revived_state = Some (DefId 1 1)"
    "is_into_raw (def_path_str double_free_tcx (DefId 1 1))" "\<not> is_raw_realloc (def_path_str double_free_tcx (DefId 1 1))"
    "realloc_receiver double_free_tcx fmempty (Some (DefId 1 1)) [Constant OtherConst] = None"
    "3 \<noteq> place_local (Place 1 [])" "objects_for revived_state 3 = [word_of_nat 0]" "freed_kind revived_state 3 = Definite"
    by code_simp+
  from second_allocation_revives_dangling_pointer [OF this(1) _ this(2-7)] this(7) show ?thesis by simp
qed

end
