(* ===== verification/State_Types.thy ===== *)
theory State_Types
  imports Execution
begin

text \<open>
  The form the facts of a state have in every flow result: the pairs of equal and unequal
  locals are ordered, as the queries that look them up expect, and comparisons are on record
  only for locals that the body compares into.
\<close>

section \<open>Pairs of locals\<close>

definition pairs_of :: "block_state \<Rightarrow> (local \<times> local) fset" where
  "pairs_of s = keys_are_ne s |\<union>| eq_locals s"

definition ordered_pairs :: "block_state \<Rightarrow> bool" where
  "ordered_pairs s \<longleftrightarrow> fBall (pairs_of s) (\<lambda>(a, b). a \<le> b)"

definition keeps_order :: "(block_state \<Rightarrow> block_state) \<Rightarrow> bool" where
  "keeps_order f \<longleftrightarrow> (\<forall>s. ordered_pairs s \<longrightarrow> ordered_pairs (f s))"

lemma pairs_view: "range_view t = range_view s \<Longrightarrow> pairs_of t = pairs_of s"
  by (simp add: range_view_def pairs_of_def)

lemma order_same: "(\<And>s. pairs_of (f s) = pairs_of s) \<Longrightarrow> keeps_order f"
  by (simp add: keeps_order_def ordered_pairs_def)

lemma order_view: "(\<And>s. range_view (f s) = range_view s) \<Longrightarrow> keeps_order f"
  by (rule order_same, rule pairs_view)

lemma order_less: "(\<And>s. pairs_of (f s) |\<subseteq>| pairs_of s) \<Longrightarrow> keeps_order f"
  unfolding keeps_order_def ordered_pairs_def by blast

lemma order_comp: "keeps_order f \<Longrightarrow> keeps_order g \<Longrightarrow> keeps_order (\<lambda>s. f (g s))"
  by (simp add: keeps_order_def)

lemma order_run_steps: "list_all keeps_order fs \<Longrightarrow> keeps_order (run_steps fs)"
  by (induction fs) (simp_all add: keeps_order_def run_steps_def)

lemma order_on_fact: "(\<And>v. keeps_order (f v)) \<Longrightarrow> keeps_order (on_fact field d f)"
  by (simp add: keeps_order_def on_fact_def split: option.split)

lemma pairs_of_steps [simp]:
  "pairs_of (lower_upper_bound l u s) = pairs_of s" "pairs_of (raise_lower_bound l u s) = pairs_of s"
  "pairs_of (s\<lparr>nonzero := x\<rparr>) = pairs_of s" "pairs_of (enforce_type_facts tcx l ty s) = pairs_of s"
  "pairs_of (propagate_use mv l l' s) = pairs_of s" "pairs_of (s\<lparr>mul_overflow := x\<rparr>) = pairs_of s"
  "pairs_of (s\<lparr>layout_overflow := x\<rparr>) = pairs_of s" "pairs_of (s\<lparr>cast_origin := y\<rparr>) = pairs_of s"
  "pairs_of (s\<lparr>const_lt := f\<rparr>) = pairs_of s" "pairs_of (s\<lparr>const_le := f\<rparr>) = pairs_of s"
  "pairs_of (s\<lparr>const_gt := f\<rparr>) = pairs_of s" "pairs_of (s\<lparr>const_ge := f\<rparr>) = pairs_of s"
  "pairs_of (s\<lparr>nonzero_if_true := g\<rparr>) = pairs_of s" "pairs_of (s\<lparr>nonzero_if_false := g\<rparr>) = pairs_of s"
  "pairs_of (s\<lparr>eq_pair_if_true := h\<rparr>) = pairs_of s" "pairs_of (s\<lparr>ne_pair_if_true := h\<rparr>) = pairs_of s"
  by (simp_all add: pairs_of_def lower_upper_bound_def raise_lower_bound_def enforce_type_facts_def propagate_use_def
      Let_def split: option.split)

lemma pairs_if_some [simp]: "(\<And>v s. pairs_of (f v s) = pairs_of s) \<Longrightarrow> pairs_of (if_some x f s) = pairs_of s"
  by (simp add: if_some_def split: option.split)

lemma pairs_of_clears [simp]:
  "pairs_of (clear_cmp_facts d s) = pairs_of s" "pairs_of (record_spare d x y p q s) = pairs_of s"
  "pairs_of (record_full d x y p s) = pairs_of s" "pairs_of (arith_facts f d x y s) = pairs_of s"
proof -
  show "pairs_of (clear_cmp_facts d s) = pairs_of s" "pairs_of (record_spare d x y p q s) = pairs_of s"
    "pairs_of (record_full d x y p s) = pairs_of s" by (rule pairs_view, simp add: view_simps)+
  show "pairs_of (arith_facts f d x y s) = pairs_of s" by (simp add: arith_facts_def Let_def split: option.split)
qed

lemma pairs_of_cleared: "pairs_of (clear_dst_facts d s) |\<subseteq>| pairs_of s" "pairs_of (clear_call_dest d s) |\<subseteq>| pairs_of s"
proof -
  show dst: "pairs_of (clear_dst_facts d s) |\<subseteq>| pairs_of s"
    by (auto simp: pairs_of_def clear_dst_facts_def clear_field_owned_for_def without_def)
  with pairs_view [OF clear_call_view] show "pairs_of (clear_call_dest d s) |\<subseteq>| pairs_of s" by metis
qed

section \<open>Every operation keeps the pairs ordered\<close>

lemma order_binop: "keeps_order (assign_binary_op body d op x y)"
proof -
  have cmp: "pairs_of (s\<lparr>lt_for := a, lt_facts := b, ge_facts := c, le_facts := e, gt_facts := f\<rparr>) = pairs_of s"
    "pairs_of (s\<lparr>ge_facts := c, lt_facts := b, le_facts := e, gt_facts := f\<rparr>) = pairs_of s"
    "pairs_of (s\<lparr>le_for := a, le_facts := e, lt_facts := b, ge_facts := c, gt_facts := f\<rparr>) = pairs_of s"
    "pairs_of (s\<lparr>gt_facts := f, lt_facts := b, ge_facts := c, le_facts := e\<rparr>) = pairs_of s" for a b c e f and s :: block_state
    by (simp_all add: pairs_of_def)
  have "pairs_of (binop_facts body d op x y s) = pairs_of s" for s
    by (cases op) (simp_all add: run_steps_def cmp binop_lt_def binop_le_def binop_gt_def binop_ge_def binop_eq_def binop_ne_def
        binop_bitor_def binop_bitand_def binop_rem_def binop_shr_def binop_add_def binop_add_with_overflow_def
        Let_def split_def)
  moreover have "pairs_of (clear_binop_dst d (set_points_to d z s)) = pairs_of s" for z s
    by (rule pairs_view) (simp add: view_simps)
  ultimately show ?thesis by (intro order_same) (simp add: assign_binary_op_def)
qed

lemma order_rvalue: "keeps_order (assign_rvalue tcx body (Place d []) rv)"
proof (cases rv)
  case (Use op)
  have "pairs_of (clear_local_facts d (set_points_to d None t)) = pairs_of t" for t
    by (rule pairs_view) (simp add: view_simps)
  then have const: "pairs_of (assign_constant d c s) = pairs_of s" for c s
    by (simp add: assign_constant_def Let_def pairs_of_def split: option.split)
  show ?thesis
  proof (cases op)
    case (Constant c)
    with const Use show ?thesis by (simp add: order_same)
  qed (rule order_view, simp add: Use view_simps)+
next
  case (BinaryOp op x y)
  with order_binop [of body d op x y] show ?thesis by (simp add: keeps_order_def)
next
  case (Cast kind op ty)
  have "pairs_of (assign_numeric_cast k d src ty s) = pairs_of s" for k src s
    by (simp add: assign_numeric_cast_def Let_def split: option.split)
  moreover have "pairs_of (assign_ptr_cast body d src ty s) = pairs_of s" "pairs_of (assign_unknown d rv s) = pairs_of s" for src s
    by (rule pairs_view, simp add: view_simps)+
  ultimately show ?thesis using Cast by (intro order_same) (simp split: option.split)
qed (rule order_view, simp add: view_simps)+

lemma order_statement: "keeps_order (apply_statement tcx body st)"
proof (cases "(tcx, body, st, undefined :: block_state)" rule: apply_statement.cases)
  case (1 tcx' body' dst rv sp)
  show ?thesis
  proof (cases "projection dst = []")
    case False
    with 1 show ?thesis by (intro order_view) (simp add: view_simps)
  next
    case True
    then obtain d where dst: "dst = Place d []" by (cases dst) simp
    have use: "pairs_of (record_use d rv s) = pairs_of s" for s
      by (cases "(d, rv, s)" rule: record_use.cases) simp_all
    have "keeps_order (assign_local tcx body dst rv)" unfolding assign_local_def dst
      by (rule order_run_steps, simp, intro conjI)
        (rule order_view, simp add: view_simps, rule order_view, simp add: view_simps,
         rule order_less, rule pairs_of_cleared, rule order_view, simp add: view_simps,
         rule order_same, simp add: use, rule order_view, simp add: view_simps, rule order_rvalue, rule order_same, simp)
    then have "keeps_order (\<lambda>s. assign_local tcx body dst rv (invalidate_owner (place_local dst) s))"
      by (rule order_comp) (rule order_view, simp add: view_simps)
    with 1 True show ?thesis by (simp add: keeps_order_def)
  qed
qed (simp_all add: keeps_order_def)

lemma order_resolved_call: "keeps_order (apply_resolved_call tcx body summaries did args d bb)"
proof -
  have "keeps_order (clear_call_dest d)" by (rule order_less, rule pairs_of_cleared)
  moreover have "keeps_order (record_eq_call path args d)" for path
    by (rule order_same) (simp add: record_eq_call_def Let_def split: option.split)
  moreover have "keeps_order (after_dispatch tcx body path args d)" for path
  proof (rule order_same)
    have if_same: "pairs_of (if p then t else u) = pairs_of u" if "pairs_of t = pairs_of u" for p t u using that by simp
    show "pairs_of (after_dispatch tcx body path args d s) = pairs_of s" for s
      unfolding after_dispatch_def Let_def by (simp only: if_same pairs_of_steps)
  qed
  moreover have "keeps_order (record_len_cap path args d)" "keeps_order (record_float_test path args d)"
    "keeps_order (record_deref path args d)" "keeps_order (record_fd path args d)" "keeps_order (record_spawn path)"
    "keeps_order (dispatch_call tcx body summaries did args d bb)" for path
    by (rule order_view, simp add: view_simps)+
  ultimately show ?thesis unfolding apply_resolved_call_def Let_def by (intro order_run_steps) simp
qed

lemma order_callee: "keeps_order (apply_callee tcx body summaries callee args dest bb)"
proof -
  have before: "keeps_order (before_dispatch tcx body summaries callee args (place_local dest))"
    by (rule order_view) (simp add: view_simps)
  have "keeps_order (escape_raw_ptr_args body args)" by (rule order_view) (simp add: view_simps)
  from order_comp [OF this before] order_comp [OF order_resolved_call before] show ?thesis
    by (simp add: keeps_order_def apply_callee_def Let_def)
qed

lemma order_terminator: "keeps_order (apply_terminator tcx body bb t summaries)"
proof (cases "(tcx, body, bb, t, summaries, undefined :: block_state)" rule: apply_terminator.cases)
  case (1 tcx' body' bb' func args dest target unwind sp)
  with order_callee show ?thesis by (simp add: keeps_order_def apply_call_def)
qed (simp_all add: order_view view_simps)

lemma order_refine: "keeps_order (refine_switchint_edge t q)"
proof -
  have insert: "keeps_order (\<lambda>s. s\<lparr>keys_are_ne := finsert (canon a b) (keys_are_ne s)\<rparr>)"
    "keeps_order (\<lambda>s. s\<lparr>eq_locals := finsert (canon a b) (eq_locals s)\<rparr>)" for a b
    by (auto simp: keeps_order_def ordered_pairs_def pairs_of_def canon_def)
  have other: "keeps_order f" if "\<And>s. keys_are_ne (f s) = keys_are_ne s" "\<And>s. eq_locals (f s) = eq_locals s" for f
    using that by (intro order_same) (simp add: pairs_of_def)
  have "keeps_order (refine_true_edge d)" "keeps_order (refine_false_edge d)" for d
    unfolding refine_true_edge_def refine_false_edge_def
    by (rule order_run_steps; simp add: split_def; intro conjI order_on_fact insert;
        rule other; simp add: lower_upper_bound_def raise_lower_bound_def Let_def)+
  then show ?thesis unfolding keeps_order_def
    by (cases "(t, q, undefined :: block_state)" rule: refine_switchint_edge.cases)
      (simp_all add: refine_switch_targets_def split: option.split)
qed

lemma order_join: "ordered_pairs a \<Longrightarrow> ordered_pairs (fst (join_with a b))"
  by (auto simp: ordered_pairs_def pairs_of_def join_with_fields)

lemma order_statements: "keeps_order (run_statements tcx body sts)"
proof (induction sts)
  case (Cons st sts)
  from order_comp [OF this order_statement] show ?case by (simp add: run_statements_def keeps_order_def)
qed (simp add: keeps_order_def run_statements_def)

lemma order_seed: "ordered_pairs (seed_param_type_facts tcx body block_state_default)"
proof -
  have "pairs_of (fold (\<lambda>l. enforce_type_facts tcx l (local_decls body l)) ls s) = pairs_of s" for ls s
    by (induction ls arbitrary: s) simp_all
  then show ?thesis by (simp add: seed_param_type_facts_def ordered_pairs_def) (simp add: pairs_of_def block_state_default_def)
qed

section \<open>Every state of a flow result\<close>

lemma flow_states_ordered:
  assumes "wf_body body" and "run_fixpoint tcx body (seed_param_type_facts tcx body block_state_default) summaries = Some es"
    and "Some s \<in> set es"
  shows "ordered_pairs s"
proof (rule fixpoint.run_worklist_all [where P = ordered_pairs])
  show "fixpoint.closed_graph body" using assms(1) by (simp add: fixpoint_closed)
  show "run_worklist join_with (block_flow tcx body summaries) (length (basic_blocks body))
      (seed_param_type_facts tcx body block_state_default) = Some es" using assms(2) by (simp add: run_fixpoint_def)
  fix b s q e
  assume "ordered_pairs s" and "(q, e) \<in> set (block_flow tcx body summaries b s)"
  then have e: "e = edge_into tcx body summaries b s q" by (auto simp: block_flow_def edge_into_def Let_def)
  show "ordered_pairs e"
  proof (cases "basic_blocks body ! b")
    case (BasicBlockData sts t_opt)
    have "ordered_pairs (run_statements tcx body sts s)"
      using order_statements \<open>ordered_pairs s\<close> by (simp add: keeps_order_def)
    with BasicBlockData order_refine order_terminator show ?thesis
      by (cases t_opt) (simp_all add: e edge_into_def keeps_order_def)
  qed
qed (use assms(3) order_seed order_join in auto)

text \<open>
  C21: the states of a flow result are well formed. The pairs on record as equal or unequal are
  ordered by index, so the queries find them whichever way round they are asked, and a
  comparison is on record only for a local that some statement or call of the body compares
  into.
\<close>

theorem flow_states_well_formed:
  assumes "wf_body body" and "compute_flow tcx body summaries = Some flow" and "state_at flow bb = Some s"
  shows "(\<forall>a b. (a, b) |\<in>| eq_locals s \<longrightarrow> a \<le> b \<and> locals_are_eq s a b \<and> locals_are_eq s b a) \<and>
    (\<forall>a b. (a, b) |\<in>| keys_are_ne s \<longrightarrow> a \<le> b \<and> locals_are_ne s a b \<and> locals_are_ne s b a) \<and>
    (\<forall>c. c |\<in>| tests_of s \<longrightarrow> may_test tcx body c)"
proof -
  let ?init = "seed_param_type_facts tcx body block_state_default"
  from assms(2) obtain es where es: "run_fixpoint tcx body ?init summaries = Some es" "flow_entry_states flow = es"
    by (auto simp: compute_flow_def)
  with assms(3) have s: "Some s \<in> set es" by (metis nth_mem option.distinct(1) state_at_def)
  have "tests_of ?init = {||}" unfolding seed_param_type_facts_def seed_tests by (simp add: tests_of_def block_state_default_def)
  from entry_tests [OF assms(1) es(1) s this] have "\<forall>c. c |\<in>| tests_of s \<longrightarrow> may_test tcx body c" .
  moreover have order: "a \<le> b" if "(a, b) |\<in>| keys_are_ne s \<or> (a, b) |\<in>| eq_locals s" for a b
    using flow_states_ordered [OF assms(1) es(1) s] that by (auto simp: ordered_pairs_def pairs_of_def)
  moreover from order have "canon a b = (a, b) \<and> canon b a = (a, b)"
    if "(a, b) |\<in>| keys_are_ne s \<or> (a, b) |\<in>| eq_locals s" for a b
    using order [OF that] by (auto simp: canon_def)
  ultimately show ?thesis by (auto simp: locals_are_eq_def locals_are_ne_def)
qed

text \<open>\<^verbatim>\<open>if _1 == _2 { bb1 }\<close> records the pair on the edge to \<^verbatim>\<open>bb1\<close>.\<close>

definition pair_body :: body where
  "pair_body = sample_body 2 (\<lambda>l. if l = 3 then TyBool else TyUint U32)
     [block_of [assign_stmt 3 (BinaryOp Eq (Copy (Place 2 [])) (Copy (Place 1 [])))]
        (SwitchInt (Move (Place 3 [])) (SwitchTargets [(0, 2)] 1)),
      block_of [] Return, block_of [] Return]"

theorem flow_states_well_formed_witness:
  "\<exists>flow s. compute_flow empty_tcx pair_body fmempty = Some flow \<and> state_at flow 1 = Some s \<and>
     (1, 2) |\<in>| eq_locals s \<and> locals_are_eq s 2 1"
proof -
  have wf: "wf_body pair_body" by code_simp
  have "case compute_flow empty_tcx pair_body fmempty of None \<Rightarrow> False | Some flow \<Rightarrow>
    (case state_at flow 1 of None \<Rightarrow> False | Some s \<Rightarrow> (1, 2) |\<in>| eq_locals s)" by code_simp
  then obtain flow s where fs: "compute_flow empty_tcx pair_body fmempty = Some flow" "state_at flow 1 = Some s"
    "(1, 2) |\<in>| eq_locals s" by (auto split: option.splits)
  from flow_states_well_formed [OF wf fs(1,2)] fs show ?thesis by blast
qed

end
