(* ===== verification/Command_Line.thy ===== *)
theory Command_Line
  imports Checker_List
begin

text \<open>
  The two binaries: \<^verbatim>\<open>san-driver\<close>, which cargo runs in place of the compiler, and
  \<^verbatim>\<open>cargo-san\<close>, which starts cargo with it. What they ask of the operating system
  (environment, files, child processes) is the record \<open>host\<close>, a parameter; strings are
  their UTF-8 bytes. What they print is a list of \<open>emission\<close>s.
\<close>

section \<open>Strings and paths of the standard library\<close>

abbreviation continuation_byte :: "nat \<Rightarrow> bool" where
  "continuation_byte b \<equiv> 0x80 \<le> b \<and> b \<le> 0xBF"

fun utf8_bytes :: "nat list \<Rightarrow> bool" where
  "utf8_bytes [] = True"
| "utf8_bytes (b # bs) =
     (if b < 0x80 then utf8_bytes bs
      else if 0xC2 \<le> b \<and> b \<le> 0xDF then
        (case bs of c # cs \<Rightarrow> continuation_byte c \<and> utf8_bytes cs | _ \<Rightarrow> False)
      else if 0xE0 \<le> b \<and> b \<le> 0xEF then
        (case bs of
           c # d # cs \<Rightarrow>
             continuation_byte c \<and> continuation_byte d \<and> (b = 0xE0 \<longrightarrow> 0xA0 \<le> c) \<and>
             (b = 0xED \<longrightarrow> c \<le> 0x9F) \<and> utf8_bytes cs
         | _ \<Rightarrow> False)
      else if 0xF0 \<le> b \<and> b \<le> 0xF4 then
        (case bs of
           c # d # e # cs \<Rightarrow>
             continuation_byte c \<and> continuation_byte d \<and> continuation_byte e \<and>
             (b = 0xF0 \<longrightarrow> 0x90 \<le> c) \<and> (b = 0xF4 \<longrightarrow> c \<le> 0x8F) \<and> utf8_bytes cs
         | _ \<Rightarrow> False)
      else False)"

definition valid_utf8 :: "string \<Rightarrow> bool" where
  "valid_utf8 s = utf8_bytes (map of_char s)"

text \<open>The characters \<^verbatim>\<open>str::trim\<close> removes, encoded.\<close>

definition white_space :: "string list" where
  "white_space =
     map (\<lambda>b. [char_of b]) ([9, 10, 11, 12, 13, 32] :: nat list) @
     map (map char_of)
       ([[0xC2, 0x85], [0xC2, 0xA0], [0xE1, 0x9A, 0x80]] @ map (\<lambda>b. [0xE2, 0x80, b]) [0x80..<0x8B] @
        [[0xE2, 0x80, 0xA8], [0xE2, 0x80, 0xA9], [0xE2, 0x80, 0xAF], [0xE2, 0x81, 0x9F], [0xE3, 0x80, 0x80]]
        :: nat list list)"

text \<open>Strip any of the non-empty strings \<open>ws\<close> from the front, as long as one is there.\<close>

function strip_front :: "string list \<Rightarrow> string \<Rightarrow> string" where
  "strip_front ws s =
     (case find (\<lambda>w. w \<noteq> [] \<and> starts_with s w) ws of
        None \<Rightarrow> s
      | Some w \<Rightarrow> strip_front ws (drop (length w) s))"
  by pat_completeness auto

termination
  by (relation "measure (\<lambda>(ws, s). length s)")
    (auto simp: find_Some_iff starts_with_iff)

definition trim :: "string \<Rightarrow> string" where
  "trim s = rev (strip_front (map rev white_space) (rev (strip_front white_space s)))"

text \<open>
  A path read from the back: trailing separators and \<open>.\<close> components are dropped, a lone
  root is kept.
\<close>

abbreviation sep :: char where
  "sep \<equiv> CHR 0x2F"

abbreviation dot :: char where
  "dot \<equiv> CHR 0x2E"

fun trim_back :: "string \<Rightarrow> string" where
  "trim_back (c # d # r) =
     (if c = sep then trim_back (d # r)
      else if c = dot \<and> d = sep then trim_back (d # r)
      else c # d # r)"
| "trim_back r = r"

definition path_file_name :: "string \<Rightarrow> string option" where
  "path_file_name p =
     (let name = rev (takeWhile (\<lambda>c. c \<noteq> sep) (trim_back (rev p)))
      in if name \<in> {[], [dot], [dot, dot]} then None else Some name)"

text \<open>The name up to its last dot; a name whose only dot comes first has no extension.\<close>

definition path_file_stem :: "string \<Rightarrow> string option" where
  "path_file_stem p =
     map_option
       (\<lambda>name. let before = rev (drop 1 (dropWhile (\<lambda>c. c \<noteq> dot) (rev name)))
               in if before = [] then name else before)
       (path_file_name p)"

definition path_join :: "string \<Rightarrow> string \<Rightarrow> string" where
  "path_join p name = (if p = [] \<or> last p = sep then p @ name else p @ [sep] @ name)"

definition with_file_name :: "string \<Rightarrow> string \<Rightarrow> string" where
  "with_file_name p name =
     path_join
       (if path_file_name p = None then p
        else rev (trim_back (dropWhile (\<lambda>c. c \<noteq> sep) (trim_back (rev p)))))
       name"

text \<open>\<^verbatim>\<open>env::split_paths\<close>: the directories between colons, empty ones included.\<close>

fun split_paths :: "string \<Rightarrow> string \<Rightarrow> string list" where
  "split_paths acc [] = [rev acc]"
| "split_paths acc (c # cs) =
     (if c = CHR 0x3A then rev acc # split_paths [] cs else split_paths (c # acc) cs)"

section \<open>The host\<close>

record command =
  program :: string
  cmd_args :: "string list"
  cmd_env :: "(string \<times> string) list"

text \<open>A child exits with a code or is ended by a signal.\<close>

datatype exit_status = Exited int | Signaled

fun code_of :: "exit_status \<Rightarrow> int option" where
  "code_of (Exited c) = Some c"
| "code_of Signaled = None"

text \<open>
  \<open>run_status\<close> and \<open>run_output\<close> are \<^verbatim>\<open>Command::status\<close> and \<^verbatim>\<open>Command::output\<close>
  (its standard output): \<open>Inl\<close> is the error text of a child that could not be started.
\<close>

record host =
  var_os :: "string \<Rightarrow> string option"
  current_exe :: "string option"
  path_exists :: "string \<Rightarrow> bool"
  run_status :: "command \<Rightarrow> string + exit_status"
  run_output :: "command \<Rightarrow> string + string"
  span_to_diagnostic_string :: "span \<Rightarrow> string"

text \<open>\<^verbatim>\<open>env::var\<close> succeeds on variables that are set to valid UTF-8.\<close>

definition env_var :: "host \<Rightarrow> string \<Rightarrow> string option" where
  "env_var h v = filter_opt valid_utf8 (var_os h v)"

datatype emission = Stderr string | SpanWarn span string

section \<open>The compiler driver\<close>

definition debug_print_all_paths :: "tyctxt \<Rightarrow> emission list" where
  "debug_print_all_paths tcx =
     concat
       (map (\<lambda>def_id.
          if def_kind_of tcx def_id \<notin> {DkFn, DkAssocFn, DkClosure, DkSyntheticCoroutineBody} then []
          else
            List.map_filter
              (\<lambda>block_data.
                 case Option.bind (call_of_block block_data) (\<lambda>(func, _). const_fn_def func) of
                   None \<Rightarrow> None
                 | Some (callee_def_id, _) \<Rightarrow> Some (Stderr (''CALL: '' @ def_path_str tcx callee_def_id)))
              (basic_blocks (optimized_mir tcx def_id)))
        (mir_keys tcx))"

definition after_analysis :: "host \<Rightarrow> tyctxt \<Rightarrow> emission list option" where
  "after_analysis h tcx =
     map_option
       (\<lambda>findings.
          let cap_lints =
                Option.is_none (var_os h ''RUSTC_WORKSPACE_WRAPPER'') \<and>
                \<not> Option.is_none (var_os h ''RUSTC_WRAPPER'')
          in (if Option.is_none (env_var h ''SAN_DEBUG_PATHS'') then [] else debug_print_all_paths tcx) @
             concat
               (map (\<lambda>f.
                  if cap_lints then
                    [Stderr (''warning[san::'' @ rule_id f @ '']: '' @ message f),
                     Stderr (''  --> '' @ span_to_diagnostic_string h (span_of f))]
                  else [SpanWarn (span_of f) (''[san::'' @ rule_id f @ ''] '' @ message f)])
                findings))
       (run_all_checks tcx)"

definition detect_sysroot :: "host \<Rightarrow> string option" where
  "detect_sysroot h =
     (case env_var h ''SYSROOT'' of
        Some s \<Rightarrow> Some s
      | None \<Rightarrow>
          (case run_output h \<lparr>program = ''rustc'', cmd_args = [''--print=sysroot''], cmd_env = []\<rparr> of
             Inl _ \<Rightarrow> None
           | Inr out \<Rightarrow> if valid_utf8 out then Some (trim out) else None))"

text \<open>The driver panics, ends with success or failure, or runs the compiler on arguments.\<close>

datatype driver_end = DriverPanic string | DriverExit bool | RunCompiler "string list"

definition wrapper_mode :: "string list \<Rightarrow> bool" where
  "wrapper_mode orig_args \<longleftrightarrow>
     1 < length orig_args \<and> path_file_stem (orig_args ! 1) = Some ''rustc''"

definition is_probe :: "string \<Rightarrow> bool" where
  "is_probe a \<longleftrightarrow>
     a = ''-vV'' \<or> a = ''--version'' \<or> a = ''-V'' \<or> starts_with a ''--print='' \<or> a = ''--print''"

definition sets_sysroot :: "string \<Rightarrow> bool" where
  "sets_sysroot a \<longleftrightarrow> a = ''--sysroot'' \<or> starts_with a ''--sysroot=''"

definition san_driver_main :: "host \<Rightarrow> string list \<Rightarrow> driver_end" where
  "san_driver_main h orig_args =
     (if \<not> list_all valid_utf8 orig_args then DriverPanic ''argument is not valid unicode''
      else
        let args = if wrapper_mode orig_args then drop 1 orig_args else orig_args
        in if list_ex is_probe args then
             (case run_status h \<lparr>program = hd args, cmd_args = tl args, cmd_env = []\<rparr> of
                Inl e \<Rightarrow> DriverPanic (''failed to run rustc: '' @ e)
              | Inr status \<Rightarrow> DriverExit (code_of status = Some 0))
           else
             (case if list_ex sets_sysroot args then None else detect_sysroot h of
                None \<Rightarrow> RunCompiler args
              | Some sr \<Rightarrow> RunCompiler (args @ [''--sysroot='' @ sr])))"

section \<open>The cargo subcommand\<close>

definition find_san_driver :: "host \<Rightarrow> string option" where
  "find_san_driver h =
     (case filter_opt (path_exists h) (map_option (\<lambda>exe. with_file_name exe ''san-driver'') (current_exe h)) of
        Some sibling \<Rightarrow> Some sibling
      | None \<Rightarrow>
          Option.bind (var_os h ''PATH'')
            (\<lambda>paths. find_map (\<lambda>dir. filter_opt (path_exists h) (Some (path_join dir ''san-driver'')))
                      (split_paths [] paths)))"

text \<open>
  \<open>None\<close> is a panic: an argument that is not Unicode, or no arguments at all, which the
  slice \<^verbatim>\<open>args[1..]\<close> rejects. Otherwise the lines printed and the exit code.
\<close>

definition cargo_san_main :: "host \<Rightarrow> string list \<Rightarrow> (emission list \<times> int) option" where
  "cargo_san_main h argv =
     (if \<not> list_all valid_utf8 argv then None
      else
        let args = if 1 < length argv \<and> argv ! 1 = ''san'' then take 1 argv @ drop 2 argv else argv
        in if args = [] then None
           else
             (case find_san_driver h of
                None \<Rightarrow> Some ([Stderr ''error: san-driver not found next to cargo-san or on PATH''], 1)
              | Some driver \<Rightarrow>
                  (case run_status h
                          \<lparr>program = ''cargo'', cmd_args = ''check'' # drop 1 args,
                           cmd_env = [(''RUSTC_WORKSPACE_WRAPPER'', driver)]\<rparr> of
                     Inl e \<Rightarrow> Some ([Stderr (''error: failed to run cargo: '' @ e)], 1)
                   | Inr status \<Rightarrow>
                       Some ([], case code_of status of None \<Rightarrow> 1 | Some c \<Rightarrow> c))))"

section \<open>What the binaries do\<close>

text \<open>A driver that is found exists.\<close>

lemma find_san_driver_exists: "find_san_driver h = Some d \<Longrightarrow> path_exists h d"
  by (auto simp: find_san_driver_def filter_opt_eq_Some bind_eq_Some_conv
      split: option.splits if_splits dest!: find_map_SomeD)

text \<open>The compiler gets the wrapped command line, with at most a system root added.\<close>

lemma wrapper_runs_compiler:
  assumes "list_all valid_utf8 (d # rustc # cargs)" and "path_file_stem rustc = Some ''rustc''"
    and "\<not> list_ex is_probe (rustc # cargs)"
  obtains sr where "san_driver_main h (d # rustc # cargs) = RunCompiler (rustc # cargs @ sr)"
    and "sr = [] \<or> (\<not> list_ex sets_sysroot (rustc # cargs) \<and> (\<exists>s. detect_sysroot h = Some s \<and> sr = [''--sysroot='' @ s]))"
proof -
  have "wrapper_mode (d # rustc # cargs)" using assms(2) by (simp add: wrapper_mode_def)
  then have run: "san_driver_main h (d # rustc # cargs) =
      (case if list_ex sets_sysroot (rustc # cargs) then None else detect_sysroot h of
         None \<Rightarrow> RunCompiler (rustc # cargs)
       | Some sr \<Rightarrow> RunCompiler (rustc # cargs @ [''--sysroot='' @ sr]))"
    using assms(1,3) by (simp add: san_driver_main_def Let_def split: option.split)
  show ?thesis
  proof (cases "if list_ex sets_sysroot (rustc # cargs) then None else detect_sysroot h")
    case None
    then show ?thesis using run that [of "[]"] by simp
  next
    case (Some s)
    then show ?thesis using run that [of "[''--sysroot='' @ s]"] by (simp split: if_splits)
  qed
qed

text \<open>
  Without a wrapped compiler, a version query is handed to the program that received it, with
  the same arguments: the driver starts itself again.
\<close>

lemma probe_runs_driver_again:
  assumes "list_all valid_utf8 (exe # args)" and "\<not> wrapper_mode (exe # args)" and "list_ex is_probe args"
  shows "san_driver_main h (exe # args) =
    (case run_status h \<lparr>program = exe, cmd_args = args, cmd_env = []\<rparr> of
       Inl e \<Rightarrow> DriverPanic (''failed to run rustc: '' @ e)
     | Inr status \<Rightarrow> DriverExit (code_of status = Some 0))"
  using assms by (simp add: san_driver_main_def)

text \<open>Inside a workspace build every finding becomes one compiler warning, in order.\<close>

lemma workspace_findings_warn:
  assumes "var_os h ''RUSTC_WORKSPACE_WRAPPER'' \<noteq> None" and "env_var h ''SAN_DEBUG_PATHS'' = None"
    and "run_all_checks tcx = Some fs"
  shows "after_analysis h tcx = Some (map (\<lambda>f. SpanWarn (span_of f) (''[san::'' @ rule_id f @ ''] '' @ message f)) fs)"
  using assms by (auto simp: after_analysis_def Option.is_none_def intro: concat_map_singleton)

end
