(* ===== verification/Spec2Isabelle.thy ===== *)
theory Spec2Isabelle
  imports Summary_Properties Pointer_Properties State_Types Command_Line
begin

text \<open>
  San is a static analyzer for Rust. It runs inside the compiler, over the optimized MIR of a
  crate, and reports uses of unsafe code it cannot show to be sound. This development models
  the analyzer (\<^verbatim>\<open>src/crates/san\<close>) and its two binaries
  (\<^verbatim>\<open>src/crates/san-driver\<close>, \<^verbatim>\<open>src/crates/cargo-san\<close>).

  \<^bold>\<open>How the parts work together.\<close> \<^verbatim>\<open>cargo-san\<close> starts cargo with
  \<^verbatim>\<open>san-driver\<close> as compiler wrapper. The driver calls \<^verbatim>\<open>run_checks\<close>
  (\<^verbatim>\<open>lib.rs\<close>) on the type context of a crate. That function collects the functions to
  summarize, computes their summaries in rounds, collects implicit preconditions, runs the 134
  checkers on every local function with the results of a flow analysis, and filters the
  findings. The flow analysis (\<^verbatim>\<open>analysis/dataflow.rs\<close>) is a worklist over the blocks of
  a body: it applies the transfer functions (\<^verbatim>\<open>analysis/transfer.rs\<close>) to abstract states
  (\<^verbatim>\<open>analysis/state.rs\<close>), refines the state of a switch edge, and merges states with
  \<^verbatim>\<open>join_with\<close>.

  \<^bold>\<open>Definitions, by theory.\<close>
  \<^item> \<open>San_Prelude\<close>: machine integers, string tests, the loops over hash containers, and the
    interfaces \<open>join_domain\<close>, \<open>entry_domain\<close> and \<open>filter_domain\<close>.
  \<^item> \<open>Mir\<close>: the part of the compiler's data that the analyzer matches on. The type context is the
    record \<open>tyctxt\<close>, a parameter of everything: its fields are the queries the code makes.
  \<^item> \<open>Heap_Objects\<close>: \<^verbatim>\<open>analysis/object.rs\<close> and \<^verbatim>\<open>analysis/typestate.rs\<close>.
  \<^item> \<open>Block_State\<close>, \<open>State_Join\<close>: \<^verbatim>\<open>analysis/state.rs\<close>. \<^verbatim>\<open>BlockState\<close> is the record
    \<open>block_state\<close>, field by field; \<open>join_with\<close> returns the state and the flag \<^verbatim>\<open>changed\<close>.
  \<^item> \<open>Path_Predicates\<close>, \<open>Transfer_Helpers\<close>, \<open>Transfer_Statement\<close>, \<open>Transfer_Terminator\<close>:
    \<^verbatim>\<open>analysis/transfer.rs\<close>. A function on \<^verbatim>\<open>&mut BlockState\<close> returns the new state.
  \<^item> \<open>Worklist\<close>, \<open>Dataflow\<close>: \<^verbatim>\<open>analysis/dataflow.rs\<close>. An index out of range is a panic and
    gives \<open>None\<close>.
  \<^item> \<open>Summary\<close>, \<open>Summary_Extract\<close>: \<^verbatim>\<open>analysis/summary.rs\<close>; \<open>Precond\<close>:
    \<^verbatim>\<open>analysis/precond.rs\<close>.
  \<^item> \<open>Findings\<close>, \<open>Flow_Checkers\<close>: \<^verbatim>\<open>Finding\<close> and \<^verbatim>\<open>Checker\<close> of \<^verbatim>\<open>lib.rs\<close>,
    \<^verbatim>\<open>checkers/precond_propagation.rs\<close>, \<^verbatim>\<open>checkers/uaf.rs\<close>, \<^verbatim>\<open>checkers/flow/\<close>.
  \<^item> \<open>Call_Checkers\<close>: the loop the call checkers share, with the interfaces \<open>pointer_checker\<close> and
    \<open>suppressing_checker\<close>. \<open>Checkers_Pointers\<close>, \<open>Checkers_Ownership\<close>, \<open>Checkers_Values\<close>,
    \<open>Checkers_Std_Audit\<close>, \<open>Checkers_Crate_Audit\<close>, \<open>Checkers_Statements\<close>, \<open>Checkers_Items\<close>,
    \<open>Checkers_Backstop\<close>: the modules of \<^verbatim>\<open>checkers/\<close>, each under a heading with its file name.
    \<open>Checker_List\<close>: the list \<^verbatim>\<open>CHECKERS\<close>.
  \<^item> \<open>Driver\<close>: \<^verbatim>\<open>run_checks\<close> of \<^verbatim>\<open>lib.rs\<close>.
  \<^item> \<open>Command_Line\<close>: the two \<^verbatim>\<open>main.rs\<close> files. The operating system is the record \<open>host\<close>.

  \<^bold>\<open>What is shown.\<close>
  \<^item> \<open>Join_Properties\<close>: chains of changing merges are finite, must-facts of a
    merge hold on both paths and may-facts of either path survive.
  \<^item> \<open>Dataflow_Properties\<close>: on a well-formed body the fixpoint is reached without a panic, covers the
    reachable blocks, and absorbs every edge.
  \<^item> \<open>Range_Soundness\<close>, \<open>Range_Transfer\<close>, \<open>Range_Calls\<close>, \<open>Execution\<close>: a small-step semantics of
    bodies on the values of their unsigned locals, and that every execution is described by the flow
    analysis. \<open>Value_Properties\<close> concludes that a value checker which keeps silent is right about
    the execution. \<open>State_Types\<close>: the form of the facts in every state.
  \<^item> \<open>Pointer_Paths\<close>, \<open>Pointer_Properties\<close>: pointers to allocations, followed along every path of a body under
    contracts for the callees; a use or a second free of an allocation that was given back is reported unless
    the analysis has seen it escape, and no allocation that a path gives back is reported as a leak. \<open>trusted\<close>
    lists what the analyzer assumes of callees.
  \<^item> \<open>Ownership_Properties\<close>, \<open>Summary_Properties\<close>: the life of a raw-owned allocation through calls,
    escapes, reallocation and summaries, and exactly which double frees and leaks are reported.
  \<^item> \<open>Driver_Properties\<close>, \<open>Checker_Properties\<close>: a run returns, its report has the findings of every
    checker up to the two filters, a used freed pointer is reported, and no call of an unsafe function
    is passed over without a reason. The section below adds the binaries.
  \<^item> Theorems of kind \<^emph>\<open>error\<close> state on concrete inputs where the code departs from what its comments
    intend.

  \<^bold>\<open>Conditions.\<close> \<open>wf_body\<close> says that the targets of a body are blocks of it, as the compiler
  guarantees. \<open>tame_body\<close> restricts the theorems on executions to bodies in which a switch on a
  comparison stands in the block of the comparison and has a target of its own for zero, no assignment
  reads its destination, no local is borrowed mutably, calls that assign a local name their callee, and
  there is no inline assembly or coroutine. \<open>exact_case\<close> leaves out the operations for which the bounds of
  the code are not valid: casts that truncate to zero, arithmetic of more than 64 bits, shifts by the width
  or more. \<open>plain_calls\<close> asks for the theorems on pointers that calls name their callee and do not assign an
  argument of theirs. The \<^emph>\<open>error\<close> theorems show for the switch and the cast that the condition is needed.

  \<^bold>\<open>Bounds.\<close> The loop of the worklist has no fuel: it is \<open>while_option\<close>, and it is proved to end. The
  limits on summary rounds (8), on the depth (2) and number (600) of external functions and on the chain
  followed from a pointer to its box (8) are those of the source. The chain of inlined scopes has as fuel the
  number of scopes of the body, which a chain without a cycle cannot exceed.

  \<^bold>\<open>Not modelled.\<close> The compiler itself, its source map, and child processes are parameters. The progress
  output of \<^verbatim>\<open>lib.rs\<close> and the debug output under \<^verbatim>\<open>SAN_DBG2\<close> in
  \<^verbatim>\<open>analysis/transfer.rs\<close> are left out: they print and change no state.
  \<^verbatim>\<open>checkers/mod.rs\<close> and the other module files hold declarations only. The iteration order of hash
  containers is fixed to the order of keys; the places where a result could depend on it are the folds over
  sorted entries.
\<close>

section \<open>From the command line to the warnings\<close>

text \<open>
  C19: \<^verbatim>\<open>cargo san\<close> with a driver on the machine runs \<^verbatim>\<open>cargo check\<close> with exactly the
  user's arguments and names an existing driver as the workspace wrapper; its exit code is
  cargo's, or 1 when cargo was not started or was killed. The driver that cargo then starts
  around the compiler runs it on the wrapped command line, with a system root added only when
  none was given; and on a crate with well-formed bodies the analysis ends and every finding
  of the report is one compiler warning, in order.
\<close>

theorem cargo_san_warns_of_every_finding:
  assumes "list_all valid_utf8 (exe # args)" and "find_san_driver h = Some d"
    and "list_all valid_utf8 (d # rustc # cargs)" and "path_file_stem rustc = Some ''rustc''"
    and "\<not> list_ex is_probe (rustc # cargs)"
    and "var_os h' ''RUSTC_WORKSPACE_WRAPPER'' = Some d" and "env_var h' ''SAN_DEBUG_PATHS'' = None"
    and "\<forall>f \<in> set (fns_to_summarize tcx). wf_body (optimized_mir tcx f)"
  shows "path_exists h d \<and>
    cargo_san_main h (exe # ''san'' # args) =
      (case run_status h \<lparr>program = ''cargo'', cmd_args = ''check'' # args,
                          cmd_env = [(''RUSTC_WORKSPACE_WRAPPER'', d)]\<rparr> of
         Inl e \<Rightarrow> Some ([Stderr (''error: failed to run cargo: '' @ e)], 1)
       | Inr Signaled \<Rightarrow> Some ([], 1)
       | Inr (Exited c) \<Rightarrow> Some ([], c)) \<and>
    (\<exists>sr. san_driver_main h' (d # rustc # cargs) = RunCompiler (rustc # cargs @ sr) \<and>
       (sr = [] \<or> \<not> list_ex sets_sysroot (rustc # cargs) \<and>
          (\<exists>s. detect_sysroot h' = Some s \<and> sr = [''--sysroot='' @ s]))) \<and>
    (\<exists>fs. run_all_checks tcx = Some fs \<and>
       after_analysis h' tcx =
         Some (map (\<lambda>f. SpanWarn (span_of f) (''[san::'' @ rule_id f @ ''] '' @ message f)) fs))"
proof (intro conjI)
  show "path_exists h d" using assms(2) by (rule find_san_driver_exists)
  have "valid_utf8 ''san''" by code_simp
  then show "cargo_san_main h (exe # ''san'' # args) =
      (case run_status h \<lparr>program = ''cargo'', cmd_args = ''check'' # args,
                          cmd_env = [(''RUSTC_WORKSPACE_WRAPPER'', d)]\<rparr> of
         Inl e \<Rightarrow> Some ([Stderr (''error: failed to run cargo: '' @ e)], 1)
       | Inr Signaled \<Rightarrow> Some ([], 1)
       | Inr (Exited c) \<Rightarrow> Some ([], c))"
    using assms(1,2) by (simp add: cargo_san_main_def split: sum.split exit_status.split)
  show "\<exists>sr. san_driver_main h' (d # rustc # cargs) = RunCompiler (rustc # cargs @ sr) \<and>
       (sr = [] \<or> \<not> list_ex sets_sysroot (rustc # cargs) \<and>
          (\<exists>s. detect_sysroot h' = Some s \<and> sr = [''--sysroot='' @ s]))"
    by (rule wrapper_runs_compiler [OF assms(3-5), of h']) blast
  obtain fs where "run_all_checks tcx = Some fs"
    using run_checks_returns [OF assms(8), of CHECKERS] by (metis run_all_checks_def)
  then show "\<exists>fs. run_all_checks tcx = Some fs \<and>
       after_analysis h' tcx =
         Some (map (\<lambda>f. SpanWarn (span_of f) (''[san::'' @ rule_id f @ ''] '' @ message f)) fs)"
    using workspace_findings_warn [of h' tcx fs] assms(6,7) by simp
qed

text \<open>A machine with the driver beside \<^verbatim>\<open>cargo-san\<close>, on which cargo's check fails.\<close>

definition sample_host :: host where
  "sample_host =
     \<lparr>var_os = (\<lambda>v. if v = ''RUSTC_WORKSPACE_WRAPPER'' then Some ''/bin/san-driver'' else None),
      current_exe = Some ''/bin/cargo-san'', path_exists = (\<lambda>p. p = ''/bin/san-driver''),
      run_status = (\<lambda>_. Inr (Exited 101)), run_output = (\<lambda>_. Inr (''/lib '' @ [CHR 0x0A])),
      span_to_diagnostic_string = (\<lambda>_. [])\<rparr>"

theorem cargo_san_warns_of_every_finding_witness:
  "cargo_san_main sample_host [''cargo-san'', ''san'', ''--all''] = Some ([], 101) \<and>
   san_driver_main sample_host [''/bin/san-driver'', ''/usr/bin/rustc'', ''a.rs''] =
     RunCompiler [''/usr/bin/rustc'', ''a.rs'', ''--sysroot=/lib''] \<and>
   (\<exists>fs. run_all_checks use_tcx = Some fs \<and>
      after_analysis sample_host use_tcx =
        Some (map (\<lambda>f. SpanWarn (span_of f) (''[san::'' @ rule_id f @ ''] '' @ message f)) fs))"
proof -
  have "list_all valid_utf8 [''cargo-san'', ''--all'']"
    and "find_san_driver sample_host = Some ''/bin/san-driver''"
    and "list_all valid_utf8 [''/bin/san-driver'', ''/usr/bin/rustc'', ''a.rs'']"
    and "path_file_stem ''/usr/bin/rustc'' = Some ''rustc''"
    and "\<not> list_ex is_probe [''/usr/bin/rustc'', ''a.rs'']"
    and "var_os sample_host ''RUSTC_WORKSPACE_WRAPPER'' = Some ''/bin/san-driver''"
    and "env_var sample_host ''SAN_DEBUG_PATHS'' = None"
    and "\<forall>d \<in> set (fns_to_summarize use_tcx). wf_body (optimized_mir use_tcx d)"
    and "detect_sysroot sample_host = Some ''/lib''"
    and "\<not> list_ex sets_sysroot [''/usr/bin/rustc'', ''a.rs'']"
    by code_simp+
  note facts = this
  have "san_driver_main sample_host [''/bin/san-driver'', ''/usr/bin/rustc'', ''a.rs''] =
     RunCompiler [''/usr/bin/rustc'', ''a.rs'', ''--sysroot=/lib'']" by code_simp
  then show ?thesis
    using cargo_san_warns_of_every_finding [OF facts(1-8)] by (simp add: sample_host_def)
qed

end
